(* ===== verification/Prelude.thy ===== *)
theory Prelude
  imports Main "HOL-Library.AList" "HOL-Library.Word"
begin

text \<open>
  Shared vocabulary of the development: the result type of fallible code and its \<open>?\<close>
  operator, byte strings with the operations of the standard library's \<open>str\<close> that the
  server uses, decimal printing and parsing of \<open>i64\<close>, saturating arithmetic, and the
  keyed stores (hash maps of the process, tables of the database) with the interface their
  clients rely on.
\<close>

section \<open>Names of the model's types\<close>

text \<open>
  A \<open>String\<close> is its UTF-8 bytes, so \<open>length\<close> is the code's \<open>len()\<close>. A \<open>Uuid\<close> is its 128
  bits. Wall-clock instants (\<open>DateTime<Utc>\<close>) and their differences are integers in
  microseconds, the resolution at which PostgreSQL stores a \<open>timestamptz\<close>.
\<close>

type_synonym uuid = "128 word"
type_synonym timestamp = int

named_theorems bool_rules \<open>characterisations of the boolean checks by what they accept\<close>
named_theorems effect_simps \<open>what each operation leaves unchanged\<close>

definition seconds :: "int \<Rightarrow> int" where
  "seconds n = n * 1000000"

definition u32_max :: nat where "u32_max = 2 ^ 32 - 1"
definition u64_max :: nat where "u64_max = 2 ^ 64 - 1"
definition i64_max :: int where "i64_max = 2 ^ 63 - 1"
definition i64_min :: int where "i64_min = - (2 ^ 63)"
definition i32_max :: int where "i32_max = 2 ^ 31 - 1"

text \<open>The unsigned \<open>saturating_add\<close> at a width whose largest value is \<open>m\<close>.\<close>

definition sat_add :: "nat \<Rightarrow> nat \<Rightarrow> nat \<Rightarrow> nat" where
  "sat_add m a b = min m (a + b)"

lemma sat_add_le [simp]: "sat_add m a b \<le> m"
  by (simp add: sat_add_def)

lemma sat_add_mono: "a \<le> m \<Longrightarrow> a \<le> sat_add m a b"
  by (simp add: sat_add_def)

lemma sat_add_exact: "a + b \<le> m \<Longrightarrow> sat_add m a b = a + b"
  by (simp add: sat_add_def)

text \<open>
  \<open>i64\<close> addition of a release build: two's complement, wrapping at the width.
\<close>

definition i64_wrap :: "int \<Rightarrow> int" where
  "i64_wrap n = (n + 2 ^ 63) mod 2 ^ 64 - 2 ^ 63"

lemma i64_wrap_id: "i64_min \<le> n \<Longrightarrow> n \<le> i64_max \<Longrightarrow> i64_wrap n = n"
  by (simp add: i64_wrap_def i64_min_def i64_max_def)

section \<open>Results and early return\<close>

text \<open>
  \<open>Result<T, E>\<close> is \<open>'e + 'a\<close> with \<open>Inl\<close> for \<open>Err\<close>; \<open>r?\<close> followed by the rest of the
  function \<open>k\<close> is \<open>try_then r k\<close>. \<open>ok_or e\<close> and \<open>map_err f\<close> are the methods of the
  standard library.
\<close>

definition try_then :: "'e + 'a \<Rightarrow> ('a \<Rightarrow> 'e + 'b) \<Rightarrow> 'e + 'b" where
  "try_then r k = (case r of Inl e \<Rightarrow> Inl e | Inr a \<Rightarrow> k a)"

definition ok_or :: "'a option \<Rightarrow> 'e \<Rightarrow> 'e + 'a" where
  "ok_or x e = (case x of None \<Rightarrow> Inl e | Some a \<Rightarrow> Inr a)"

definition map_err :: "('e \<Rightarrow> 'f) \<Rightarrow> 'e + 'a \<Rightarrow> 'f + 'a" where
  "map_err f r = (case r of Inl e \<Rightarrow> Inl (f e) | Inr a \<Rightarrow> Inr a)"

definition ensure :: "bool \<Rightarrow> 'e \<Rightarrow> 'e + unit" where
  "ensure b e = (if b then Inr () else Inl e)"

lemma try_then_simps [simp]:
  "try_then (Inl e) k = Inl e"
  "try_then (Inr a) k = k a"
  by (simp_all add: try_then_def)

lemma ok_or_simps [simp]:
  "ok_or None e = Inl e"
  "ok_or (Some a) e = Inr a"
  by (simp_all add: ok_or_def)

lemma map_err_simps [simp]:
  "map_err f (Inl e) = Inl (f e)"
  "map_err f (Inr a) = Inr a"
  by (simp_all add: map_err_def)

lemma ensure_simps [simp]:
  "ensure True e = Inr ()"
  "ensure False e = Inl e"
  by (simp_all add: ensure_def)

lemma try_then_Inr [bool_rules]:
  "try_then r k = Inr b \<longleftrightarrow> (\<exists>a. r = Inr a \<and> k a = Inr b)"
  by (cases r) auto

lemma try_then_InrE:
  "try_then r k = Inr b \<Longrightarrow> (\<And>a. r = Inr a \<Longrightarrow> k a = Inr b \<Longrightarrow> P) \<Longrightarrow> P"
  by (auto simp: try_then_Inr)

lemma try_then_Inl:
  "try_then r k = Inl e \<longleftrightarrow> r = Inl e \<or> (\<exists>a. r = Inr a \<and> k a = Inl e)"
  by (cases r) auto

lemma ok_or_Inr [bool_rules]: "ok_or x e = Inr a \<longleftrightarrow> x = Some a"
  by (cases x) auto

lemma ok_or_Inl: "ok_or x e = Inl e' \<longleftrightarrow> x = None \<and> e' = e"
  by (cases x) auto

lemma map_err_Inr [bool_rules]: "map_err f r = Inr a \<longleftrightarrow> r = Inr a"
  by (cases r) auto

lemma ensure_Inr [bool_rules]: "ensure b e = Inr u \<longleftrightarrow> b"
  by (cases b) auto

lemma ensure_Inl: "ensure b e = Inl e' \<longleftrightarrow> \<not> b \<and> e' = e"
  by (cases b) auto

text \<open>\<open>collect::<Result<Vec<_>, _>>\<close>: the first error, or every value in order.\<close>

fun traverse :: "('a \<Rightarrow> 'e + 'b) \<Rightarrow> 'a list \<Rightarrow> 'e + 'b list" where
  "traverse f [] = Inr []"
| "traverse f (x # xs) = try_then (f x) (\<lambda>y. try_then (traverse f xs) (\<lambda>ys. Inr (y # ys)))"

lemma traverse_Inr: "traverse f xs = Inr ys \<longleftrightarrow> list_all2 (\<lambda>x y. f x = Inr y) xs ys"
proof (induction xs arbitrary: ys)
  case (Cons x xs)
  then show ?case by (cases ys) (auto simp: try_then_Inr)
qed auto

lemma traverse_result: "traverse f xs = Inr ys \<Longrightarrow> y \<in> set ys \<Longrightarrow> \<exists>x \<in> set xs. f x = Inr y"
  unfolding traverse_Inr by (induction rule: list_all2_induct) auto

section \<open>Byte strings\<close>

abbreviation byte :: "char \<Rightarrow> nat" where
  "byte c \<equiv> of_char c"

definition chr_in :: "nat \<Rightarrow> nat \<Rightarrow> char \<Rightarrow> bool" where
  "chr_in lo hi c \<longleftrightarrow> lo \<le> byte c \<and> byte c \<le> hi"

definition is_digit :: "char \<Rightarrow> bool" where
  "is_digit c \<longleftrightarrow> chr_in 48 57 c"

definition is_alphanumeric :: "char \<Rightarrow> bool" where
  "is_alphanumeric c \<longleftrightarrow> is_digit c \<or> chr_in 65 90 c \<or> chr_in 97 122 c"

text \<open>\<open>chars().count()\<close>: every byte but the continuation bytes starts a character.\<close>

definition chars_count :: "string \<Rightarrow> nat" where
  "chars_count s = length (filter (\<lambda>c. \<not> chr_in 128 191 c) s)"

text \<open>
  \<open>chars().any(char::is_control)\<close>: the control characters are U+0000 to U+001F, U+007F, and
  U+0080 to U+009F, which UTF-8 writes as the byte 194 and one byte from 128 to 159.
\<close>

fun has_control :: "string \<Rightarrow> bool" where
  "has_control [] = False"
| "has_control (c # s) =
     (chr_in 0 31 c \<or> byte c = 127
      \<or> (byte c = 194 \<and> (case s of [] \<Rightarrow> False | d # _ \<Rightarrow> chr_in 128 159 d))
      \<or> has_control s)"

text \<open>\<open>HeaderValue::to_str\<close> succeeds on visible ASCII, space and tab only.\<close>

definition to_str :: "string \<Rightarrow> string option" where
  "to_str v = (if list_all (\<lambda>c. chr_in 32 126 c \<or> byte c = 9) v then Some v else None)"

text \<open>\<open>String::from_utf8\<close>: no overlong form, no surrogate, nothing above U+10FFFF.\<close>

fun valid_utf8 :: "string \<Rightarrow> bool" where
  "valid_utf8 [] = True"
| "valid_utf8 (c # cs) =
     (let b = byte c
      in if b < 128 then valid_utf8 cs
         else if 194 \<le> b \<and> b \<le> 223 then
           (case cs of d # r \<Rightarrow> chr_in 128 191 d \<and> valid_utf8 r | _ \<Rightarrow> False)
         else if 224 \<le> b \<and> b \<le> 239 then
           (case cs of
              d # e # r \<Rightarrow> chr_in (if b = 224 then 160 else 128) (if b = 237 then 159 else 191) d
                \<and> chr_in 128 191 e \<and> valid_utf8 r
            | _ \<Rightarrow> False)
         else if 240 \<le> b \<and> b \<le> 244 then
           (case cs of
              d # e # f # r \<Rightarrow> chr_in (if b = 240 then 144 else 128) (if b = 244 then 143 else 191) d
                \<and> chr_in 128 191 e \<and> chr_in 128 191 f \<and> valid_utf8 r
            | _ \<Rightarrow> False)
         else False)"

definition from_utf8 :: "string \<Rightarrow> string option" where
  "from_utf8 s = (if valid_utf8 s then Some s else None)"

lemma valid_utf8_ascii: "list_all (\<lambda>c. byte c < 128) s \<Longrightarrow> valid_utf8 s"
  by (induction s) simp_all

definition ascii_lower :: "char \<Rightarrow> char" where
  "ascii_lower c = (if chr_in 65 90 c then char_of (byte c + 32) else c)"

definition to_ascii_lowercase :: "string \<Rightarrow> string" where
  "to_ascii_lowercase = map ascii_lower"

definition eq_ignore_ascii_case :: "string \<Rightarrow> string \<Rightarrow> bool" where
  "eq_ignore_ascii_case s t \<longleftrightarrow> to_ascii_lowercase s = to_ascii_lowercase t"

lemma byte_ascii_lower: "byte (ascii_lower c) = (if chr_in 65 90 c then byte c + 32 else byte c)"
  by (auto simp: ascii_lower_def chr_in_def)

lemma ascii_lower_idem [simp]: "ascii_lower (ascii_lower c) = ascii_lower c"
  by (auto simp: ascii_lower_def chr_in_def)

lemma to_ascii_lowercase_idem [simp]:
  "to_ascii_lowercase (to_ascii_lowercase s) = to_ascii_lowercase s"
  by (simp add: to_ascii_lowercase_def)

fun strip_prefix :: "string \<Rightarrow> string \<Rightarrow> string option" where
  "strip_prefix [] s = Some s"
| "strip_prefix (p # ps) [] = None"
| "strip_prefix (p # ps) (c # s) = (if p = c then strip_prefix ps s else None)"

lemma strip_prefix_Some: "strip_prefix p s = Some r \<longleftrightarrow> s = p @ r"
  by (induction p s rule: strip_prefix.induct) auto

definition starts_with :: "string \<Rightarrow> string \<Rightarrow> bool" where
  "starts_with s p \<longleftrightarrow> strip_prefix p s \<noteq> None"

definition ends_with :: "string \<Rightarrow> string \<Rightarrow> bool" where
  "ends_with s p \<longleftrightarrow> starts_with (rev s) (rev p)"

fun contains :: "string \<Rightarrow> string \<Rightarrow> bool" where
  "contains [] p = (p = [])"
| "contains (c # s) p = (starts_with (c # s) p \<or> contains s p)"

lemma starts_with_iff [bool_rules]: "starts_with s p \<longleftrightarrow> (\<exists>r. s = p @ r)"
  by (auto simp: starts_with_def strip_prefix_Some)

lemma starts_with_mono: "starts_with s p \<Longrightarrow> starts_with (s @ t) p"
  by (auto simp: starts_with_iff)

text \<open>\<open>split(c)\<close>: the pieces between the separators, one more piece than separators.\<close>

fun split_on :: "char \<Rightarrow> string \<Rightarrow> string list" where
  "split_on c [] = [[]]"
| "split_on c (x # s) =
     (if x = c then [] # split_on c s
      else (case split_on c s of [] \<Rightarrow> [[x]] | p # ps \<Rightarrow> (x # p) # ps))"

lemma split_on_not_Nil [simp]: "split_on c s \<noteq> []"
  by (induction s) (auto split: list.splits)

lemma split_on_none: "c \<notin> set s \<Longrightarrow> split_on c s = [s]"
  by (induction s) auto

lemma split_on_append: "c \<notin> set s \<Longrightarrow> split_on c (s @ c # t) = s # split_on c t"
  by (induction s) auto

subsection \<open>Trimming\<close>

text \<open>
  \<open>trim()\<close> removes Unicode white space at both ends: these are the UTF-8 encodings of the
  characters with the property White\_Space.
\<close>

definition white_space :: "string list" where
  "white_space = map (map char_of)
     ([[32], [9], [10], [11], [12], [13], [194, 133], [194, 160], [225, 154, 128],
       [226, 128, 128], [226, 128, 129], [226, 128, 130], [226, 128, 131], [226, 128, 132],
       [226, 128, 133], [226, 128, 134], [226, 128, 135], [226, 128, 136], [226, 128, 137],
       [226, 128, 138], [226, 128, 168], [226, 128, 169], [226, 128, 175], [226, 129, 159],
       [227, 128, 128]] :: nat list list)"

fun strip_any :: "string list \<Rightarrow> string \<Rightarrow> string option" where
  "strip_any [] s = None"
| "strip_any (e # es) s =
     (case strip_prefix e s of Some r \<Rightarrow> Some r | None \<Rightarrow> strip_any es s)"

lemma strip_any_None: "strip_any es s = None \<longleftrightarrow> (\<forall>e \<in> set es. \<not> starts_with s e)"
  by (induction es) (auto simp: starts_with_def split: option.splits)

function trim_left :: "string list \<Rightarrow> string \<Rightarrow> string" where
  "trim_left es s =
     (case strip_any es s of
        None \<Rightarrow> s
      | Some r \<Rightarrow> if length r < length s then trim_left es r else s)"
  by pat_completeness auto
termination
  by (relation "measure (\<lambda>(es, s). length s)") auto

declare trim_left.simps [simp del]

definition trim :: "string \<Rightarrow> string" where
  "trim s = rev (trim_left (map rev white_space) (rev (trim_left white_space s)))"

lemma strip_any_suffix: "strip_any es s = Some r \<Longrightarrow> \<exists>e \<in> set es. s = e @ r"
  by (induction es) (auto simp: strip_prefix_Some split: option.splits)

lemma trim_left_suffix: "\<exists>p. s = p @ trim_left es s"
proof (induction es s rule: trim_left.induct)
  case (1 es s)
  show ?case
  proof (cases "strip_any es s")
    case None
    then show ?thesis by (simp add: trim_left.simps [of es s])
  next
    case (Some r)
    show ?thesis
    proof (cases "length r < length s")
      case True
      then obtain p where "r = p @ trim_left es r"
        using "1.IH" [OF Some] by blast
      moreover obtain e where "s = e @ r"
        using strip_any_suffix [OF Some] by blast
      ultimately have "s = (e @ p) @ trim_left es r" by simp
      with Some True show ?thesis
        unfolding trim_left.simps [of es s] by (auto simp del: append_assoc)
    qed (simp add: Some trim_left.simps [of es s])
  qed
qed

lemma trim_left_done: "[] \<notin> set es \<Longrightarrow> strip_any es (trim_left es s) = None"
proof (induction es s rule: trim_left.induct)
  case (1 es s)
  show ?case
  proof (cases "strip_any es s")
    case None
    then show ?thesis by (simp add: trim_left.simps [of es s])
  next
    case (Some r)
    have "length r < length s"
      using strip_any_suffix [OF Some] "1.prems" by fastforce
    then have "strip_any es (trim_left es r) = None" "trim_left es s = trim_left es r"
      using "1.IH" [OF Some] "1.prems" Some by (auto simp: trim_left.simps [of es s])
    then show ?thesis by simp
  qed
qed

lemma trim_left_id: "strip_any es s = None \<Longrightarrow> trim_left es s = s"
  by (simp add: trim_left.simps [of es s])

lemma white_space_nonempty: "[] \<notin> set white_space" "[] \<notin> set (map rev white_space)"
  by (auto simp: white_space_def)

lemma length_trim: "length (trim s) \<le> length s"
proof -
  obtain p where p: "s = p @ trim_left white_space s"
    using trim_left_suffix by blast
  obtain q where q: "rev (trim_left white_space s)
      = q @ trim_left (map rev white_space) (rev (trim_left white_space s))"
    using trim_left_suffix by blast
  have "length (trim_left white_space s) = length q + length (trim s)"
    using arg_cong [OF q, of length] by (simp add: trim_def)
  with arg_cong [OF p, of length] show ?thesis by simp
qed

lemma chars_count_trim: "chars_count (trim s) \<le> chars_count s"
proof -
  obtain p where p: "s = p @ trim_left white_space s" using trim_left_suffix by blast
  obtain q where q: "rev (trim_left white_space s)
      = q @ trim_left (map rev white_space) (rev (trim_left white_space s))"
    using trim_left_suffix by blast
  have "trim_left white_space s = trim s @ rev q"
    using arg_cong [OF q, of rev] by (simp add: trim_def)
  with p have "s = p @ trim s @ rev q" by simp
  then have "chars_count s = chars_count p + chars_count (trim s) + chars_count (rev q)"
    by (metis append_assoc chars_count_def filter_append length_append)
  then show ?thesis by simp
qed

text \<open>A trimmed string is left alone by trimming it again.\<close>

lemma trim_idem [simp]: "trim (trim s) = trim s"
proof -
  let ?l = "trim_left white_space s"
  obtain q where q: "rev ?l = q @ trim_left (map rev white_space) (rev ?l)"
    using trim_left_suffix by blast
  then have l: "?l = trim s @ rev q"
    by (metis trim_def rev_append rev_rev_ident)
  have "strip_any white_space ?l = None"
    by (rule trim_left_done [OF white_space_nonempty(1)])
  then have "strip_any white_space (trim s) = None"
    unfolding l by (auto simp: strip_any_None dest: starts_with_mono)
  moreover have "strip_any (map rev white_space) (rev (trim s)) = None"
    using trim_left_done [OF white_space_nonempty(2), of "rev ?l"] by (simp add: trim_def)
  ultimately show ?thesis
    by (metis trim_def trim_left_id rev_rev_ident)
qed

definition trimmed :: "string \<Rightarrow> bool" where
  "trimmed s \<longleftrightarrow> strip_any white_space s = None \<and> strip_any (map rev white_space) (rev s) = None"

lemma trim_trimmed: "trimmed s \<Longrightarrow> trim s = s"
  by (simp add: trimmed_def trim_def trim_left_id)

text \<open>A string that begins and ends with visible ASCII characters is trimmed.\<close>

lemma white_space_not_visible:
  "e \<in> set white_space \<Longrightarrow> e \<noteq> [] \<and> \<not> chr_in 33 126 (hd e) \<and> \<not> chr_in 33 126 (last e)"
  by (auto simp: white_space_def chr_in_def)

lemma trim_visible:
  assumes "s \<noteq> []" "chr_in 33 126 (hd s)" "chr_in 33 126 (last s)"
  shows "trim s = s"
proof (rule trim_trimmed)
  have "\<not> starts_with s e" if "e \<in> set white_space" for e
    using white_space_not_visible [OF that] assms(2) by (auto simp: starts_with_iff)
  moreover have "\<not> starts_with (rev s) (rev e)" if "e \<in> set white_space" for e
  proof
    assume "starts_with (rev s) (rev e)"
    then obtain r where "rev s = rev e @ r" by (auto simp: starts_with_iff)
    then have "s = rev r @ e" by (metis rev_append rev_rev_ident)
    then show False using white_space_not_visible [OF that] assms(3) by simp
  qed
  ultimately show "trimmed s" by (simp add: trimmed_def strip_any_None)
qed

section \<open>Decimal numbers\<close>

definition digit :: "nat \<Rightarrow> char" where
  "digit d = char_of (48 + d)"

fun show_nat :: "nat \<Rightarrow> string" where
  "show_nat n = (if n < 10 then [digit n] else show_nat (n div 10) @ [digit (n mod 10)])"

declare show_nat.simps [simp del]

text \<open>\<open>to_string()\<close> of an \<open>i64\<close>, and \<open>parse::<i64>()\<close>: an optional sign, then digits in range.\<close>

definition show_int :: "int \<Rightarrow> string" where
  "show_int v = (if v < 0 then CHR ''-'' # show_nat (nat (- v)) else show_nat (nat v))"

fun parse_digits :: "nat \<Rightarrow> string \<Rightarrow> nat option" where
  "parse_digits acc [] = Some acc"
| "parse_digits acc (c # s) =
     (if is_digit c then parse_digits (10 * acc + (byte c - 48)) s else None)"

definition parse_nat :: "string \<Rightarrow> nat option" where
  "parse_nat s = (if s = [] then None else parse_digits 0 s)"

definition in_i64 :: "int \<Rightarrow> bool" where
  "in_i64 v \<longleftrightarrow> i64_min \<le> v \<and> v \<le> i64_max"

definition parse_i64 :: "string \<Rightarrow> int option" where
  "parse_i64 s =
     (let v = (case s of
                 [] \<Rightarrow> None
               | c # r \<Rightarrow>
                   if c = CHR ''-'' then map_option (\<lambda>n. - int n) (parse_nat r)
                   else if c = CHR ''+'' then map_option int (parse_nat r)
                   else map_option int (parse_nat s))
      in case v of None \<Rightarrow> None | Some n \<Rightarrow> if in_i64 n then Some n else None)"

lemma byte_digit: "d < 10 \<Longrightarrow> byte (digit d) = 48 + d"
  by (simp add: digit_def)

lemma is_digit_digit [simp]: "d < 10 \<Longrightarrow> is_digit (digit d)"
  by (simp add: is_digit_def chr_in_def byte_digit)

lemma parse_digits_append:
  "parse_digits acc (s @ t) =
     (case parse_digits acc s of None \<Rightarrow> None | Some a \<Rightarrow> parse_digits a t)"
  by (induction acc s rule: parse_digits.induct) auto

lemma show_nat_nonempty [simp]: "show_nat n \<noteq> []"
  by (subst show_nat.simps) simp

lemma parse_digits_show: "parse_digits 0 (show_nat n) = Some n"
proof (induction n rule: show_nat.induct)
  case (1 n)
  show ?case
    by (subst show_nat.simps) (auto simp: 1 parse_digits_append byte_digit)
qed

lemma parse_nat_show [simp]: "parse_nat (show_nat n) = Some n"
  by (simp add: parse_nat_def parse_digits_show)

lemma show_nat_digits: "list_all is_digit (show_nat n)"
proof (induction n rule: show_nat.induct)
  case (1 n)
  show ?case by (subst show_nat.simps) (auto simp: 1)
qed

lemma digits_no_slash: "list_all is_digit s \<Longrightarrow> CHR ''/'' \<notin> set s"
  by (auto simp: list_all_iff is_digit_def chr_in_def)

lemma length_show_nat: "n < 10 ^ k \<Longrightarrow> 0 < k \<Longrightarrow> length (show_nat n) \<le> k"
proof (induction n arbitrary: k rule: show_nat.induct)
  case (1 n)
  show ?case
  proof (cases "n < 10")
    case True
    with "1.prems" show ?thesis by (subst show_nat.simps) simp
  next
    case False
    with "1.prems" obtain j where k: "k = Suc j" "0 < j"
      by (cases k; cases "k - 1") auto
    with "1.prems" have "n div 10 < 10 ^ j" by (simp add: less_mult_imp_div_less mult.commute)
    with False k "1.IH" have "length (show_nat (n div 10)) \<le> j" by simp
    with False k show ?thesis by (subst show_nat.simps) simp
  qed
qed

lemma hd_show_nat: "0 < n \<Longrightarrow> hd (show_nat n) \<noteq> CHR ''0''"
proof (induction n rule: show_nat.induct)
  case (1 n)
  show ?case
  proof (cases "n < 10")
    case True
    have "byte (digit n) \<noteq> 48" using True "1.prems" by (simp add: byte_digit)
    then have "digit n \<noteq> CHR ''0''" by auto
    with True show ?thesis by (subst show_nat.simps) simp
  next
    case False
    with 1 have "hd (show_nat (n div 10)) \<noteq> CHR ''0''" by simp
    with False show ?thesis by (subst show_nat.simps) (simp add: hd_append)
  qed
qed

text \<open>A canonical decimal is the printed form of its value.\<close>

lemma show_nat_step: "\<lbrakk> 0 < a; d < 10 \<rbrakk> \<Longrightarrow> show_nat (10 * a + d) = show_nat a @ [digit d]"
  by (subst show_nat.simps) simp

lemma digit_of_byte: "is_digit c \<Longrightarrow> digit (byte c - 48) = c"
  by (simp add: is_digit_def chr_in_def digit_def)

lemma show_parse_digits:
  "\<lbrakk> parse_digits a s = Some n; 0 < a \<rbrakk> \<Longrightarrow> show_nat n = show_nat a @ s"
proof (induction a s rule: parse_digits.induct)
  case (2 acc c s)
  then have c: "is_digit c" by (simp split: if_splits)
  then have "byte c - 48 < 10" by (auto simp: is_digit_def chr_in_def)
  with 2 c show ?case
    by (simp add: show_nat_step digit_of_byte)
qed simp

lemma show_parse_nat:
  assumes "parse_nat (c # s) = Some n" "c \<noteq> CHR ''0''"
  shows "show_nat n = c # s"
proof -
  have c: "is_digit c" and p: "parse_digits (byte c - 48) s = Some n"
    using assms(1) by (auto simp: parse_nat_def split: if_splits)
  have "byte c \<noteq> 48" using assms(2) of_char_eq_iff [of c "CHR ''0''", where 'a = nat] by auto
  with c have d: "0 < byte c - 48" "byte c - 48 < 10"
    by (auto simp: is_digit_def chr_in_def)
  have "show_nat (byte c - 48) = [c]"
    using c d by (subst show_nat.simps) (simp add: digit_of_byte)
  with show_parse_digits [OF p d(1)] show ?thesis by simp
qed

lemma parse_i64_show: "in_i64 v \<Longrightarrow> parse_i64 (show_int v) = Some v"
proof (cases "v < 0")
  case False
  assume v: "in_i64 v"
  obtain c s where s: "show_nat (nat v) = c # s" by (cases "show_nat (nat v)") auto
  then have "is_digit c" using show_nat_digits [of "nat v"] by simp
  then have "c \<noteq> CHR ''-''" "c \<noteq> CHR ''+''" by (auto simp: is_digit_def chr_in_def)
  with s False v parse_nat_show [of "nat v"] show ?thesis
    by (simp add: parse_i64_def show_int_def)
qed (simp add: parse_i64_def show_int_def)

section \<open>Keyed stores\<close>

text \<open>
  The hash maps of the process and the tables of the database are association lists with
  distinct keys. \<open>find_by\<close> is \<open>get\<close> and \<open>find_by_id\<close>, \<open>put\<close> is \<open>insert\<close> and a row update,
  \<open>retain\<close> keeps the entries a predicate accepts, as \<open>HashMap::retain\<close> and \<open>DELETE\<close> do.
\<close>

type_synonym ('k, 'v) store = "('k \<times> 'v) list"

definition find_by :: "'k \<Rightarrow> ('k, 'v) store \<Rightarrow> 'v option" where
  "find_by k s = map_of s k"

definition put :: "'k \<Rightarrow> 'v \<Rightarrow> ('k, 'v) store \<Rightarrow> ('k, 'v) store" where
  "put k v s = AList.update k v s"

definition drop_key :: "'k \<Rightarrow> ('k, 'v) store \<Rightarrow> ('k, 'v) store" where
  "drop_key k s = AList.delete k s"

definition retain :: "('k \<Rightarrow> 'v \<Rightarrow> bool) \<Rightarrow> ('k, 'v) store \<Rightarrow> ('k, 'v) store" where
  "retain p s = filter (\<lambda>(k, v). p k v) s"

definition count :: "('k, 'v) store \<Rightarrow> nat" where
  "count s = length s"

definition keyed :: "('k, 'v) store \<Rightarrow> bool" where
  "keyed s \<longleftrightarrow> distinct (map fst s)"

text \<open>What the clients of a store rely on.\<close>

locale keyed_store =
  fixes look :: "'k \<Rightarrow> 's \<Rightarrow> 'v option"
    and ins :: "'k \<Rightarrow> 'v \<Rightarrow> 's \<Rightarrow> 's"
    and del :: "'k \<Rightarrow> 's \<Rightarrow> 's"
    and keep :: "('k \<Rightarrow> 'v \<Rightarrow> bool) \<Rightarrow> 's \<Rightarrow> 's"
    and size_of :: "'s \<Rightarrow> nat"
    and ok :: "'s \<Rightarrow> bool"
  assumes look_ins: "look k' (ins k v s) = (if k' = k then Some v else look k' s)"
    and look_del: "look k' (del k s) = (if k' = k then None else look k' s)"
    and look_keep: "ok s \<Longrightarrow> look k (keep p s) =
          (case look k s of None \<Rightarrow> None | Some v \<Rightarrow> if p k v then Some v else None)"
    and size_ins: "size_of (ins k v s) = (if look k s = None then Suc (size_of s) else size_of s)"
    and size_keep: "size_of (keep p s) \<le> size_of s"
    and ok_ins: "ok s \<Longrightarrow> ok (ins k v s)"
    and ok_del: "ok s \<Longrightarrow> ok (del k s)"
    and ok_keep: "ok s \<Longrightarrow> ok (keep p s)"
begin

lemma look_ins_same [simp]: "look k (ins k v s) = Some v"
  by (simp add: look_ins)

lemma look_ins_other: "k' \<noteq> k \<Longrightarrow> look k' (ins k v s) = look k' s"
  by (simp add: look_ins)

lemma look_keep_Some:
  "ok s \<Longrightarrow> look k (keep p s) = Some v \<longleftrightarrow> look k s = Some v \<and> p k v"
  by (auto simp: look_keep split: option.splits)

lemma size_ins_le: "look k s \<noteq> None \<or> size_of s < n \<Longrightarrow> size_of s \<le> n \<Longrightarrow> size_of (ins k v s) \<le> n"
  by (auto simp: size_ins)

text \<open>Writing a key twice keeps the last value; writes to different keys commute in what is read.\<close>

lemma look_ins_ins: "look k' (ins k v (ins k w s)) = look k' (ins k v s)"
  by (simp add: look_ins)

lemma look_ins_swap: "i \<noteq> j \<Longrightarrow> look k (ins i v (ins j w s)) = look k (ins j w (ins i v s))"
  by (simp add: look_ins)

end

lemma map_of_filter_distinct:
  "distinct (map fst s) \<Longrightarrow> map_of (filter (\<lambda>(k, v). p k v) s) k =
     (case map_of s k of None \<Rightarrow> None | Some v \<Rightarrow> if p k v then Some v else None)"
  by (induction s) (auto simp: map_of_eq_None_iff split: option.splits)

lemma length_update: "length (AList.update k v s) = (if map_of s k = None then Suc (length s) else length s)"
  by (induction s) auto

lemma distinct_keys_filter: "distinct (map fst s) \<Longrightarrow> distinct (map fst (filter p s))"
  by (induction s) auto

interpretation store: keyed_store find_by put drop_key retain count keyed
proof
  fix k' k v s
  show "find_by k' (put k v s) = (if k' = k then Some v else find_by k' s)" for s :: "('a, 'b) store"
    by (simp add: find_by_def put_def update_conv')
  show "find_by k' (drop_key k s) = (if k' = k then None else find_by k' s)" for s :: "('a, 'b) store"
    by (simp add: find_by_def drop_key_def delete_conv')
qed (auto simp: find_by_def put_def retain_def count_def keyed_def drop_key_def length_update
       map_of_filter_distinct distinct_keys_filter distinct_update distinct_delete)

lemma keyed_Nil [simp]: "keyed []" and find_by_Nil [simp]: "find_by k [] = None"
  and count_Nil [simp]: "count [] = 0"
  by (simp_all add: keyed_def find_by_def count_def)

lemma in_put: "(k', v') \<in> set (put k v s) \<Longrightarrow> (k' = k \<and> v' = v) \<or> (k', v') \<in> set s"
  by (induction s) (auto simp: put_def split: if_splits)

lemma list_all_put:
  "list_all (\<lambda>(_, v). P v) s \<Longrightarrow> P v \<Longrightarrow> list_all (\<lambda>(_, v). P v) (put k v s)"
  by (auto simp: list_all_iff dest!: in_put)

lemma find_by_in_set: "find_by k s = Some v \<Longrightarrow> (k, v) \<in> set s"
  by (simp add: find_by_def map_of_SomeD)

lemma in_set_find_by: "keyed s \<Longrightarrow> (k, v) \<in> set s \<Longrightarrow> find_by k s = Some v"
  by (simp add: find_by_def keyed_def)

end
