(* ===== verification/Rate_Limit.thy ===== *)
theory Rate_Limit
  imports Prelude
begin

text \<open>
  The login throttle, \<open>src/auth/rate\_limit.rs\<close>. The decision is the code's own pure
  transition \<open>reduce_rate_limit\<close>; \<open>check\<close> is the shell that locks the state and reads the
  clock. Monotonic instants and durations are counted in nanoseconds, so that
  \<open>saturating_duration_since\<close> and \<open>saturating_sub\<close> are subtraction on \<open>nat\<close>.
  The lemmas show that no interleaving of accounts lets more attempts through than the two
  budgets allow, that the table of accounts stays within its capacity, and that the answer
  of a refusal is the number of whole seconds until the window closes.
\<close>

section \<open>State\<close>

type_synonym instant = nat

record attempt_window =
  opened_at :: instant
  attempts :: nat \<comment> \<open>a \<open>u32\<close>\<close>

record rl_state =
  accounts :: "(string, attempt_window) store"
  global :: attempt_window

record rate_limit_policy =
  max_attempts :: nat
  global_max_attempts :: nat
  window :: nat
  max_keys :: nat

record rate_limit_attempt =
  account_key_of :: string
  observed_at :: instant

datatype rate_limit_rejection = AccountBudget | GlobalBudget | KeyCapacity

datatype rate_limit_outcome = Allowed | Rejected rate_limit_rejection nat

record rate_limit_transition =
  next_state :: rl_state
  outcome :: rate_limit_outcome

definition empty_state :: "instant \<Rightarrow> rl_state" where
  "empty_state now = \<lparr>accounts = [], global = \<lparr>opened_at = now, attempts = 0\<rparr>\<rparr>"

fun into_result :: "rate_limit_outcome \<Rightarrow> nat + unit" where
  "into_result Allowed = Inr ()"
| "into_result (Rejected _ retry_after_seconds) = Inl retry_after_seconds"

section \<open>The transition\<close>

definition nanos :: nat where "nanos = 1000000000"

definition retry_after :: "instant \<Rightarrow> instant \<Rightarrow> nat \<Rightarrow> nat" where
  "retry_after now opened win =
     (let remaining = win - (now - opened)
      in max 1 (sat_add u64_max (remaining div nanos) (if 0 < remaining mod nanos then 1 else 0)))"

definition rejected_transition ::
    "rl_state \<Rightarrow> rate_limit_rejection \<Rightarrow> instant \<Rightarrow> instant \<Rightarrow> nat \<Rightarrow> rate_limit_transition" where
  "rejected_transition st reason now opened win =
     \<lparr>next_state = st, outcome = Rejected reason (retry_after now opened win)\<rparr>"

text \<open>The global window is reopened once it has run out, then charged for this attempt.\<close>

definition charge :: "attempt_window \<Rightarrow> attempt_window" where
  "charge w = w\<lparr>attempts := sat_add u32_max (attempts w) 1\<rparr>"

definition roll_global :: "instant \<Rightarrow> nat \<Rightarrow> attempt_window \<Rightarrow> attempt_window" where
  "roll_global now win g =
     (if win \<le> now - opened_at g then \<lparr>opened_at = now, attempts = 0\<rparr> else g)"

definition live :: "instant \<Rightarrow> nat \<Rightarrow> attempt_window \<Rightarrow> bool" where
  "live now win e \<longleftrightarrow> now - opened_at e < win"

definition oldest :: "instant \<Rightarrow> (string, attempt_window) store \<Rightarrow> instant" where
  "oldest now accs =
     (case map (\<lambda>(_, e). opened_at e) accs of [] \<Rightarrow> now | x # xs \<Rightarrow> foldl min x xs)"

definition entry_or :: "string \<Rightarrow> instant \<Rightarrow> (string, attempt_window) store \<Rightarrow> attempt_window" where
  "entry_or key now accs =
     (case find_by key accs of Some e \<Rightarrow> e | None \<Rightarrow> \<lparr>opened_at = now, attempts = 0\<rparr>)"

definition reduce_rate_limit ::
    "rl_state \<Rightarrow> rate_limit_attempt \<Rightarrow> rate_limit_policy \<Rightarrow> rate_limit_transition" where
  "reduce_rate_limit st att pol =
     (let now = observed_at att;
          key = account_key_of att;
          st = st\<lparr>global := charge (roll_global now (window pol) (global st))\<rparr>
      in if global_max_attempts pol < attempts (global st) then
           rejected_transition st GlobalBudget now (opened_at (global st)) (window pol)
         else
           let accs = retain (\<lambda>_ e. live now (window pol) e) (accounts st);
               st = st\<lparr>accounts := accs\<rparr>
           in if find_by key accs = None \<and> max_keys pol \<le> count accs then
                \<lparr>next_state = st,
                 outcome = Rejected KeyCapacity (retry_after now (oldest now accs) (window pol))\<rparr>
              else
                let entry = charge (entry_or key now accs);
                    st = st\<lparr>accounts := put key entry accs\<rparr>
                in if max_attempts pol < attempts entry then
                     rejected_transition st AccountBudget now (opened_at entry) (window pol)
                   else \<lparr>next_state = st, outcome = Allowed\<rparr>)"

text \<open>
  The account key is a digest of the normalised email; \<open>digest\<close> stands for base64 of SHA-256.
\<close>

definition account_key :: "(string \<Rightarrow> string) \<Rightarrow> string \<Rightarrow> string" where
  "account_key digest email = digest (to_ascii_lowercase (trim email))"

definition check ::
    "(string \<Rightarrow> string) \<Rightarrow> rate_limit_policy \<Rightarrow> instant \<Rightarrow> string \<Rightarrow> rl_state \<Rightarrow> (nat + unit) \<times> rl_state" where
  "check digest pol now email st =
     (let t = reduce_rate_limit st
                \<lparr>account_key_of = account_key digest email, observed_at = now\<rparr> pol
      in (into_result (outcome t), next_state t))"

text \<open>A run of attempts, with the outcome of each.\<close>

fun rl_run ::
    "rate_limit_policy \<Rightarrow> rl_state \<Rightarrow> rate_limit_attempt list
       \<Rightarrow> (rate_limit_attempt \<times> rate_limit_outcome) list \<times> rl_state" where
  "rl_run pol st [] = ([], st)"
| "rl_run pol st (a # as) =
     (let t = reduce_rate_limit st a pol;
          (os, st') = rl_run pol (next_state t) as
      in ((a, outcome t) # os, st'))"

definition allowed_total :: "(rate_limit_attempt \<times> rate_limit_outcome) list \<Rightarrow> nat" where
  "allowed_total os = length (filter (\<lambda>(a, out). out = Allowed) os)"

definition allowed_for :: "string \<Rightarrow> (rate_limit_attempt \<times> rate_limit_outcome) list \<Rightarrow> nat" where
  "allowed_for key os = length (filter (\<lambda>(a, out). out = Allowed \<and> account_key_of a = key) os)"

section \<open>One transition\<close>

text \<open>What a transition does, without the order in which it does it.\<close>

lemma reduce_outcomes:
  fixes st att pol
  defines "g \<equiv> charge (roll_global (observed_at att) (window pol) (global st))"
    and "accs \<equiv> retain (\<lambda>_ e. live (observed_at att) (window pol) e) (accounts st)"
    and "t \<equiv> reduce_rate_limit st att pol"
  shows "global (next_state t) = g"
    and "global_max_attempts pol < attempts g \<Longrightarrow> accounts (next_state t) = accounts st"
    and "outcome t = Allowed \<Longrightarrow> attempts g \<le> global_max_attempts pol
           \<and> attempts (charge (entry_or (account_key_of att) (observed_at att) accs)) \<le> max_attempts pol"
    and "accounts (next_state t) = accounts st \<or> accounts (next_state t) = accs
           \<or> (accounts (next_state t) = put (account_key_of att)
                 (charge (entry_or (account_key_of att) (observed_at att) accs)) accs
              \<and> (find_by (account_key_of att) accs \<noteq> None \<or> count accs < max_keys pol))"
    and "outcome t = Allowed \<Longrightarrow> accounts (next_state t) = put (account_key_of att)
           (charge (entry_or (account_key_of att) (observed_at att) accs)) accs"
  unfolding assms
  by (auto simp: reduce_rate_limit_def rejected_transition_def Let_def not_less not_le
           split: if_splits)

lemma accounts_step_keyed:
  "keyed (accounts st) \<Longrightarrow> keyed (accounts (next_state (reduce_rate_limit st att pol)))"
  using reduce_outcomes(4) [of st att pol] by (auto simp: store.ok_keep store.ok_ins)

definition within_capacity :: "rate_limit_policy \<Rightarrow> rl_state \<Rightarrow> bool" where
  "within_capacity pol st \<longleftrightarrow> keyed (accounts st) \<and> count (accounts st) \<le> max_keys pol"

lemma step_within_capacity:
  assumes "within_capacity pol st"
  shows "within_capacity pol (next_state (reduce_rate_limit st att pol))"
proof -
  let ?accs = "retain (\<lambda>_ e. live (observed_at att) (window pol) e) (accounts st)"
  have "count ?accs \<le> max_keys pol"
    using assms store.size_keep [of _ "accounts st"] by (auto simp: within_capacity_def intro: order_trans)
  then show ?thesis
    using assms reduce_outcomes(4) [of st att pol] accounts_step_keyed [of st att pol]
    by (auto simp: within_capacity_def store.size_ins split: if_splits)
qed

lemma run_within_capacity:
  "within_capacity pol st \<Longrightarrow> within_capacity pol (snd (rl_run pol st as))"
  by (induction as arbitrary: st) (auto simp: Let_def split_beta step_within_capacity)

text \<open>
  The table of accounts never holds more entries than \<open>max_keys\<close>, and its keys stay distinct,
  whatever attempts a new limiter has answered: an attacker who spreads over many accounts
  cannot grow the process's memory.
\<close>

theorem account_table_bounded:
  "keyed (accounts (snd (rl_run pol (empty_state now) as)))
   \<and> count (accounts (snd (rl_run pol (empty_state now) as))) \<le> max_keys pol"
  using run_within_capacity [of pol "empty_state now" as]
  by (simp add: within_capacity_def empty_state_def)

section \<open>Budgets\<close>

lemma charge_simps [simp]:
  "opened_at (charge w) = opened_at w"
  "attempts (charge w) = sat_add u32_max (attempts w) 1"
  by (simp_all add: charge_def)

lemma roll_global_live: "live now win g \<Longrightarrow> roll_global now win g = g"
  by (simp add: roll_global_def live_def)

lemma sat_succ: "a < u32_max \<Longrightarrow> sat_add u32_max a 1 = Suc a"
  by (simp add: sat_add_def)

text \<open>
  While the global window is open, each attempt is charged to it; an allowed one has found
  room in the budget.
\<close>

lemma global_budget_run:
  assumes "\<forall>a \<in> set as. live (observed_at a) (window pol) (global st)"
    and "global_max_attempts pol < u32_max"
  shows "allowed_total (fst (rl_run pol st as)) \<le> global_max_attempts pol - attempts (global st)"
  using assms
proof (induction as arbitrary: st)
  case Nil
  then show ?case by (simp add: allowed_total_def)
next
  case (Cons a as)
  let ?t = "reduce_rate_limit st a pol"
  have g: "global (next_state ?t) = charge (global st)"
    using reduce_outcomes(1) [of st a pol] Cons.prems by (simp add: roll_global_live)
  then have "allowed_total (fst (rl_run pol (next_state ?t) as))
      \<le> global_max_attempts pol - sat_add u32_max (attempts (global st)) 1"
    using Cons.IH [of "next_state ?t"] Cons.prems by (simp add: live_def)
  moreover have "outcome ?t = Allowed
      \<Longrightarrow> sat_add u32_max (attempts (global st)) 1 \<le> global_max_attempts pol"
    using reduce_outcomes(3) [of st a pol] Cons.prems by (simp add: roll_global_live)
  moreover have "allowed_total (fst (rl_run pol st (a # as)))
      = (if outcome ?t = Allowed then 1 else 0) + allowed_total (fst (rl_run pol (next_state ?t) as))"
    by (simp add: allowed_total_def Let_def split_beta)
  ultimately show ?case
    using Cons.prems(2) by (auto simp: sat_add_def split: if_splits)
qed

text \<open>
  Account spraying: in any run of attempts, on any accounts, that are all observed inside the
  current global window, at most \<open>global_max_attempts\<close> less what the window has already been
  charged are let through to the authentication provider.
\<close>

theorem global_budget_respected:
  assumes "\<And>a. a \<in> set as \<Longrightarrow> observed_at a - opened_at (global st) < window pol"
    and "global_max_attempts pol < u32_max"
  shows "allowed_total (fst (rl_run pol st as)) \<le> global_max_attempts pol - attempts (global st)"
  using global_budget_run [of as pol st] assms by (simp add: live_def)

definition sample_policy :: rate_limit_policy where
  "sample_policy = \<lparr>max_attempts = 1, global_max_attempts = 2, window = 60 * nanos, max_keys = 2\<rparr>"

definition attempt_at :: "string \<Rightarrow> nat \<Rightarrow> rate_limit_attempt" where
  "attempt_at key t = \<lparr>account_key_of = key, observed_at = t\<rparr>"

theorem global_budget_respected_witness:
  "allowed_total (fst (rl_run sample_policy (empty_state 0)
     [attempt_at ''a'' 0, attempt_at ''b'' 1, attempt_at ''c'' 2]))
   \<le> global_max_attempts sample_policy - attempts (global (empty_state 0))"
  by (rule global_budget_respected)
     (auto simp: sample_policy_def attempt_at_def empty_state_def nanos_def u32_max_def)

text \<open>
  A live account window is never evicted, and it is charged for every attempt on its account
  that reaches it.
\<close>

lemma live_entry_step:
  fixes st a pol
  assumes "keyed (accounts st)"
    and "find_by key (accounts st) = Some e"
    and "live (observed_at a) (window pol) e"
    and "max_attempts pol < u32_max"
  shows "\<exists>e'. find_by key (accounts (next_state (reduce_rate_limit st a pol))) = Some e'
           \<and> opened_at e' = opened_at e \<and> min u32_max (attempts e) \<le> attempts e'
           \<and> (outcome (reduce_rate_limit st a pol) = Allowed \<and> account_key_of a = key
                \<longrightarrow> attempts e' = Suc (attempts e) \<and> attempts e' \<le> max_attempts pol)"
proof -
  let ?accs = "retain (\<lambda>_ e. live (observed_at a) (window pol) e) (accounts st)"
  have kept: "find_by key ?accs = Some e"
    using assms by (simp add: store.look_keep_Some)
  then have entry: "entry_or key now ?accs = e" for now
    by (simp add: entry_or_def)
  show ?thesis
  proof (cases "outcome (reduce_rate_limit st a pol) = Allowed")
    case True
    then show ?thesis
      using reduce_outcomes(3) [of st a pol] reduce_outcomes(5) [of st a pol] kept entry assms(4)
      by (auto simp: store.look_ins sat_add_def split: if_splits)
  next
    case False
    then show ?thesis
      using reduce_outcomes(4) [of st a pol] kept entry assms(2)
      by (auto simp: store.look_ins sat_add_def)
  qed
qed

lemma account_budget_run:
  assumes "keyed (accounts st)" "find_by key (accounts st) = Some e"
    and "\<forall>a \<in> set as. live (observed_at a) (window pol) e"
    and "max_attempts pol < u32_max"
  shows "allowed_for key (fst (rl_run pol st as)) \<le> max_attempts pol - attempts e"
  using assms
proof (induction as arbitrary: st e)
  case Nil
  then show ?case by (simp add: allowed_for_def)
next
  case (Cons a as)
  let ?t = "reduce_rate_limit st a pol"
  obtain e' where e': "find_by key (accounts (next_state ?t)) = Some e'"
      "opened_at e' = opened_at e" "min u32_max (attempts e) \<le> attempts e'"
      "outcome ?t = Allowed \<and> account_key_of a = key
         \<longrightarrow> attempts e' = Suc (attempts e) \<and> attempts e' \<le> max_attempts pol"
    using live_entry_step [of st key e a pol] Cons.prems by auto
  have "allowed_for key (fst (rl_run pol (next_state ?t) as)) \<le> max_attempts pol - attempts e'"
    using Cons.IH [of "next_state ?t" e'] Cons.prems e' accounts_step_keyed by (simp add: live_def)
  moreover have "allowed_for key (fst (rl_run pol st (a # as)))
      = (if outcome ?t = Allowed \<and> account_key_of a = key then 1 else 0)
        + allowed_for key (fst (rl_run pol (next_state ?t) as))"
    by (simp add: allowed_for_def Let_def split_beta)
  ultimately show ?case using e'(3,4) Cons.prems(4) by (auto split: if_splits)
qed

text \<open>
  Key churn cannot erase a block: once an account has an open window, any run of attempts on
  any accounts observed before that window closes lets through at most \<open>max_attempts\<close> less
  what the window was already charged for that account. An account that has used its budget is
  refused until its window closes, however many other accounts are tried in between.
\<close>

theorem account_budget_respected:
  assumes "keyed (accounts st)"
    and "find_by key (accounts st) = Some e"
    and "\<And>a. a \<in> set as \<Longrightarrow> observed_at a - opened_at e < window pol"
    and "max_attempts pol < u32_max"
  shows "allowed_for key (fst (rl_run pol st as)) \<le> max_attempts pol - attempts e"
  using account_budget_run [of st key e as pol] assms by (simp add: live_def)

definition blocked_state :: rl_state where
  "blocked_state = \<lparr>accounts = [(''a'', \<lparr>opened_at = 0, attempts = 1\<rparr>)],
                    global = \<lparr>opened_at = 0, attempts = 0\<rparr>\<rparr>"

theorem account_budget_respected_witness:
  "allowed_for ''a'' (fst (rl_run sample_policy blocked_state
      [attempt_at ''b'' 1, attempt_at ''a'' 2]))
   \<le> max_attempts sample_policy - attempts \<lparr>opened_at = 0, attempts = 1\<rparr>"
  by (rule account_budget_respected)
     (auto simp: sample_policy_def attempt_at_def nanos_def u32_max_def keyed_def find_by_def
       blocked_state_def)

section \<open>The advice of a refusal\<close>

lemma ceil_div_aux:
  fixes n m :: nat
  assumes "n = q * m + r" "r < m"
  shows "n \<le> (q + (if 0 < r then 1 else 0)) * m
    \<and> (0 < n \<longrightarrow> (q + (if 0 < r then 1 else 0) - 1) * m < n)"
  using assms by (cases q) auto

lemma ceil_div_nat:
  fixes n m :: nat
  assumes "0 < m"
  shows "n \<le> (n div m + (if 0 < n mod m then 1 else 0)) * m
    \<and> (0 < n \<longrightarrow> (n div m + (if 0 < n mod m then 1 else 0) - 1) * m < n)"
  by (rule ceil_div_aux) (use assms in simp_all)

lemma retry_after_ceil:
  assumes "win \<le> u64_max * nanos"
  shows "\<exists>u. retry_after now opened win = max 1 u \<and> win - (now - opened) \<le> u * nanos
    \<and> (0 < win - (now - opened) \<longrightarrow> (u - 1) * nanos < win - (now - opened))
    \<and> (win - (now - opened) = 0 \<longrightarrow> u = 0)"
proof -
  let ?rem = "win - (now - opened)"
  let ?up = "?rem div nanos + (if 0 < ?rem mod nanos then 1 else 0)"
  have pos: "0 < nanos" by (simp add: nanos_def)
  note c = ceil_div_nat [OF pos, of ?rem]
  have "?up \<le> u64_max"
  proof (cases "?rem = 0")
    case False
    with c assms have "(?up - 1) * nanos < u64_max * nanos" by linarith
    then have "?up - 1 < u64_max" by simp
    then show ?thesis by linarith
  qed simp
  then have "retry_after now opened win = max 1 ?up"
    by (simp add: retry_after_def Let_def sat_add_exact)
  with c show ?thesis by (intro exI [of _ ?up]) simp
qed

text \<open>
  The \<open>Retry-After\<close> of a refusal is the least positive number of whole seconds after which
  the window has closed: waiting that long is enough, and one second less is not, unless the
  answer is the minimum of one second.
\<close>

theorem retry_after_exact:
  assumes "win \<le> u64_max * nanos" and "opened \<le> now"
  shows "1 \<le> retry_after now opened win
    \<and> win \<le> (now + retry_after now opened win * nanos) - opened
    \<and> (1 < retry_after now opened win \<longrightarrow>
         (now + (retry_after now opened win - 1) * nanos) - opened < win)"
proof -
  obtain u where u: "retry_after now opened win = max 1 u" "win - (now - opened) \<le> u * nanos"
      "0 < win - (now - opened) \<longrightarrow> (u - 1) * nanos < win - (now - opened)"
      "win - (now - opened) = 0 \<longrightarrow> u = 0"
    using retry_after_ceil [OF assms(1)] by blast
  show ?thesis
  proof (cases "win - (now - opened) = 0")
    case True
    with u assms(2) show ?thesis by auto
  next
    case False
    with u(2) have "0 < u" by (cases u) auto
    then have "max 1 u = u" by simp
    with u False assms(2) show ?thesis by auto
  qed
qed

theorem retry_after_exact_witness:
  "retry_after (3 * nanos) nanos (60 * nanos) = 58
    \<and> 60 * nanos \<le> (3 * nanos + 58 * nanos) - nanos
    \<and> (3 * nanos + (58 - 1) * nanos) - nanos < 60 * nanos"
proof -
  have r: "retry_after (3 * nanos) nanos (60 * nanos) = 58"
    by (simp add: retry_after_def nanos_def sat_add_def u64_max_def)
  show ?thesis
    using retry_after_exact [of "60 * nanos" nanos "3 * nanos"] r by (simp add: nanos_def u64_max_def)
qed

end
