(* ===== verification/Json.thy ===== *)
theory Json
  imports Prelude
begin

text \<open>
  JSON values as \<open>serde_json::Value\<close> has them, the struct conventions of the derived
  \<open>Serialize\<close> and \<open>Deserialize\<close> implementations, and the record of the third-party functions
  the server calls: digests, base64, authenticated encryption, JSON text, UUID text. These
  functions are parameters of the model; each law that a property needs of them is a named
  predicate here and a hypothesis there.
\<close>

section \<open>Values\<close>

datatype json =
    JNull
  | JBool bool
  | JInt int
  | JFloat string
  | JStr string
  | JArr "json list"
  | JObj "(string \<times> json) list"

text \<open>\<open>get(key)\<close>, \<open>as_str()\<close> and \<open>as_i64()\<close>.\<close>

fun json_get :: "string \<Rightarrow> json \<Rightarrow> json option" where
  "json_get k (JObj fields) = map_of fields k"
| "json_get k _ = None"

fun as_str :: "json \<Rightarrow> string option" where
  "as_str (JStr s) = Some s"
| "as_str _ = None"

fun as_i64 :: "json \<Rightarrow> int option" where
  "as_i64 (JInt n) = (if in_i64 n then Some n else None)"
| "as_i64 _ = None"

fun as_u8 :: "json \<Rightarrow> nat option" where
  "as_u8 (JInt n) = (if 0 \<le> n \<and> n < 256 then Some (nat n) else None)"
| "as_u8 _ = None"

fun as_bool :: "json \<Rightarrow> bool option" where
  "as_bool (JBool b) = Some b"
| "as_bool _ = None"

text \<open>
  A derived \<open>Deserialize\<close> reads a struct from an object, whose declared fields may stand in
  any order but not twice, or from an array with exactly the declared fields in order.
  \<open>struct_fields\<close> gives each declared field's value, if present.
\<close>

definition no_duplicate_of :: "string list \<Rightarrow> (string \<times> json) list \<Rightarrow> bool" where
  "no_duplicate_of names fields \<longleftrightarrow>
     list_all (\<lambda>n. length (filter (\<lambda>(k, _). k = n) fields) \<le> 1) names"

fun struct_fields :: "string list \<Rightarrow> json \<Rightarrow> json option list option" where
  "struct_fields names (JObj fields) =
     (if no_duplicate_of names fields then Some (map (map_of fields) names) else None)"
| "struct_fields names (JArr js) =
     (if length js = length names then Some (map Some js) else None)"
| "struct_fields names _ = None"

text \<open>\<open>deny_unknown_fields\<close>\<close>

fun known_fields_only :: "string list \<Rightarrow> json \<Rightarrow> bool" where
  "known_fields_only names (JObj fields) = list_all (\<lambda>(k, _). k \<in> set names) fields"
| "known_fields_only names _ = True"

text \<open>An \<open>Option\<close> field: absent and \<open>null\<close> are \<open>None\<close>.\<close>

fun option_field :: "(json \<Rightarrow> 'a option) \<Rightarrow> json option \<Rightarrow> 'a option option" where
  "option_field f None = Some None"
| "option_field f (Some JNull) = Some None"
| "option_field f (Some j) = map_option Some (f j)"

definition required_field :: "(json \<Rightarrow> 'a option) \<Rightarrow> json option \<Rightarrow> 'a option" where
  "required_field f j = Option.bind j f"

lemma required_field_simps [simp]:
  "required_field f None = None"
  "required_field f (Some j) = f j"
  by (simp_all add: required_field_def)

section \<open>Third-party functions\<close>

record ext =
  sha256 :: "string \<Rightarrow> string"
  b64_encode :: "string \<Rightarrow> string"
  b64_decode :: "string \<Rightarrow> string option"
  b64_decode_padded :: "string \<Rightarrow> string option"
  aead_key_ok :: "string \<Rightarrow> bool"
  aead_seal :: "string \<Rightarrow> string \<Rightarrow> string \<Rightarrow> string option"
  aead_open :: "string \<Rightarrow> string \<Rightarrow> string \<Rightarrow> string option"
  json_text :: "json \<Rightarrow> string"
  json_parse :: "string \<Rightarrow> json option"
  uuid_text :: "uuid \<Rightarrow> string"
  uuid_parse :: "string \<Rightarrow> uuid option"

text \<open>
  The URL-safe alphabet without padding: \<open>b64_encode\<close> and \<open>b64_decode\<close> are
  \<open>URL_SAFE_NO_PAD\<close>, and \<open>b64_decode_padded\<close> is \<open>URL_SAFE\<close>. \<open>aead_seal key nonce\<close> and \<open>aead_open key nonce\<close> are AES-256-GCM,
  \<open>aead_key_ok\<close> is the key length check of \<open>new_from_slice\<close>.
\<close>

definition b64_law :: "ext \<Rightarrow> bool" where
  "b64_law x \<longleftrightarrow> (\<forall>s. b64_decode x (b64_encode x s) = Some s)"

definition uuid_law :: "ext \<Rightarrow> bool" where
  "uuid_law x \<longleftrightarrow> (\<forall>u. uuid_parse x (uuid_text x u) = Some u)"

text \<open>What a key and nonce seal is opened by them, and what JSON text was written is read back.\<close>

definition aead_law :: "ext \<Rightarrow> string \<Rightarrow> bool" where
  "aead_law x key \<longleftrightarrow>
     (\<forall>nonce plain c. aead_seal x key nonce plain = Some c \<longrightarrow> aead_open x key nonce c = Some plain)"

definition json_roundtrip :: "ext \<Rightarrow> json \<Rightarrow> bool" where
  "json_roundtrip x j \<longleftrightarrow> json_parse x (json_text x j) = Some j"

text \<open>
  A concrete instance of the parameters, for the witnesses: identity transports, decimal
  identifiers, and JSON text that keeps one given value.
\<close>

definition decimal_uuid :: "uuid \<Rightarrow> string" where
  "decimal_uuid u = show_nat (unat u)"

definition parse_decimal_uuid :: "string \<Rightarrow> uuid option" where
  "parse_decimal_uuid s = map_option of_nat (parse_nat s)"

definition sample_ext :: "json \<Rightarrow> ext" where
  "sample_ext j =
     \<lparr>sha256 = (\<lambda>s. s), b64_encode = (\<lambda>s. s), b64_decode = Some, b64_decode_padded = Some,
      aead_key_ok = (\<lambda>k. length k = 32),
      aead_seal = (\<lambda>k n p. Some p), aead_open = (\<lambda>k n c. Some c),
      json_text = (\<lambda>_. ''j''), json_parse = (\<lambda>_. Some j),
      uuid_text = decimal_uuid, uuid_parse = parse_decimal_uuid\<rparr>"

lemma sample_ext_laws [simp]:
  "b64_law (sample_ext j)" "uuid_law (sample_ext j)" "aead_law (sample_ext j) k"
  "json_roundtrip (sample_ext j) j"
  by (simp_all add: sample_ext_def b64_law_def uuid_law_def aead_law_def json_roundtrip_def
        decimal_uuid_def parse_decimal_uuid_def)

end
