(* ===== verification/Auth_Core.thy ===== *)
theory Auth_Core
  imports Json
begin

text \<open>
  The transport-neutral identity types and the GoTrue client,
  \<open>crates/canonical-auth/src/lib.rs\<close>, and the browser test provider,
  \<open>src/auth/test\_provider.rs\<close>. The HTTP exchange is an input: the answer of the server,
  or none. The interface the session state machine relies on is the locale
  \<open>auth_provider\<close>, which both providers interpret.
\<close>

section \<open>Identity\<close>

datatype credential_source = SessionCookie | Bearer

record auth_context =
  ctx_user_id :: uuid
  ctx_email :: string
  ctx_source :: credential_source
  ctx_supabase_session_id :: "uuid option"
  ctx_session_hash :: "string option"
  ctx_csrf_token :: "string option"
  ctx_expires_at :: timestamp

record supabase_user =
  su_id :: uuid
  su_email :: "string option"

record auth_tokens =
  at_access_token :: string
  at_refresh_token :: string
  at_expires_at :: timestamp
  at_user :: supabase_user

datatype auth_provider_error = InvalidCredentials | Unavailable | InvalidResponse

section \<open>Claims of an access token\<close>

definition claim_uuid :: "ext \<Rightarrow> string \<Rightarrow> json \<Rightarrow> uuid option" where
  "claim_uuid x k claims =
     Option.bind (Option.bind (json_get k claims) as_str) (uuid_parse x)"

text \<open>
  Only a token of exactly three segments is read as a JWT; any other shape is opaque and has
  no session identity.
\<close>

definition validated_session_id ::
    "ext \<Rightarrow> string \<Rightarrow> uuid \<Rightarrow> auth_provider_error + uuid option" where
  "validated_session_id x access_token expected_user_id =
     (case split_on (CHR ''.'') access_token of
        [header, payload, signature] \<Rightarrow>
          try_then (ok_or (b64_decode x payload) InvalidResponse) (\<lambda>bytes.
          try_then (ok_or (json_parse x bytes) InvalidResponse) (\<lambda>claims.
          try_then (ok_or (claim_uuid x ''sub'' claims) InvalidResponse) (\<lambda>subject.
          if subject \<noteq> expected_user_id then Inl InvalidResponse
          else try_then (ok_or (claim_uuid x ''session_id'' claims) InvalidResponse)
            (\<lambda>session_id. Inr (Some session_id)))))
      | _ \<Rightarrow> Inr None)"

text \<open>The claims a JWT-shaped token carries, if it is well formed.\<close>

definition token_claims :: "ext \<Rightarrow> string \<Rightarrow> json option" where
  "token_claims x token =
     (case split_on (CHR ''.'') token of
        [header, payload, signature] \<Rightarrow> Option.bind (b64_decode x payload) (json_parse x)
      | _ \<Rightarrow> None)"

lemma validated_session_id_Some:
  "validated_session_id x token user = Inr (Some sid) \<longleftrightarrow>
     (\<exists>claims. token_claims x token = Some claims
        \<and> claim_uuid x ''sub'' claims = Some user \<and> claim_uuid x ''session_id'' claims = Some sid)"
  by (auto simp: validated_session_id_def token_claims_def try_then_Inr ok_or_Inr
        split: list.splits if_splits option.splits bind_splits)

lemma validated_session_id_error:
  "validated_session_id x token user = Inl e \<Longrightarrow> e = InvalidResponse"
  by (auto simp: validated_session_id_def try_then_Inl ok_or_Inl
        split: list.splits if_splits)

lemma validated_session_id_None:
  "validated_session_id x token user = Inr None \<longleftrightarrow> length (split_on (CHR ''.'') token) \<noteq> 3"
  by (auto simp: validated_session_id_def try_then_Inr ok_or_Inr eval_nat_numeral
        split: list.splits if_splits)

text \<open>
  A session identity is only ever taken from a three-segment token whose \<open>sub\<close> claim is the
  expected user: two users can never obtain the same token's session identity, a
  JWT-shaped token without the claims is an error, and the check fails in no other way than
  \<open>InvalidResponse\<close>.
\<close>

theorem session_identity_is_bound:
  "(\<forall>sid. validated_session_id x token user = Inr (Some sid) \<longrightarrow>
       length (split_on (CHR ''.'') token) = 3
       \<and> (\<exists>claims. token_claims x token = Some claims \<and> claim_uuid x ''sub'' claims = Some user
            \<and> claim_uuid x ''session_id'' claims = Some sid)
       \<and> (\<forall>other. other \<noteq> user \<longrightarrow> validated_session_id x token other = Inl InvalidResponse))
   \<and> (length (split_on (CHR ''.'') token) = 3 \<longrightarrow>
       validated_session_id x token user = Inl InvalidResponse
       \<or> (\<exists>sid. validated_session_id x token user = Inr (Some sid)))"
proof (intro conjI allI impI)
  fix sid
  assume ok: "validated_session_id x token user = Inr (Some sid)"
  then show "length (split_on (CHR ''.'') token) = 3"
    using validated_session_id_None [of x token user] by auto
  show "\<exists>claims. token_claims x token = Some claims \<and> claim_uuid x ''sub'' claims = Some user
            \<and> claim_uuid x ''session_id'' claims = Some sid"
    using ok by (simp add: validated_session_id_Some)
  fix other
  assume "other \<noteq> user"
  with ok show "validated_session_id x token other = Inl InvalidResponse"
    by (auto simp: validated_session_id_def split: list.splits if_splits
          simp: try_then_Inr ok_or_Inr)
next
  assume "length (split_on (CHR ''.'') token) = 3"
  then show "validated_session_id x token user = Inl InvalidResponse
       \<or> (\<exists>sid. validated_session_id x token user = Inr (Some sid))"
    using validated_session_id_None [of x token user] validated_session_id_error [of x token user]
    by (cases "validated_session_id x token user") auto
qed

definition sample_claims :: json where
  "sample_claims = JObj [(''sub'', JStr ''7''), (''session_id'', JStr ''9'')]"

theorem session_identity_is_bound_witness:
  "length (split_on (CHR ''.'') ''a.b.c'') = 3
   \<and> validated_session_id (sample_ext sample_claims) ''a.b.c'' 7 = Inr (Some 9)
   \<and> validated_session_id (sample_ext sample_claims) ''a.b.c'' 8 = Inl InvalidResponse"
proof -
  have len: "length (split_on (CHR ''.'') ''a.b.c'') = 3" by simp
  have ok: "validated_session_id (sample_ext sample_claims) ''a.b.c'' 7 = Inr (Some 9)"
    by (simp add: validated_session_id_def sample_ext_def sample_claims_def claim_uuid_def
          parse_decimal_uuid_def parse_nat_def is_digit_def chr_in_def)
  have "(8::uuid) \<noteq> 7" by simp
  with ok len session_identity_is_bound [of "sample_ext sample_claims" "''a.b.c''" 7]
  show ?thesis by blast
qed

section \<open>API keys\<close>

text \<open>
  Only low-privilege keys are accepted: \<open>sb_publishable_\<close> keys and legacy JWTs whose role is
  \<open>anon\<close>. A payload may be base64 with or without padding.
\<close>

definition decode_payload :: "ext \<Rightarrow> string \<Rightarrow> string option" where
  "decode_payload x payload =
     (case b64_decode x payload of Some b \<Rightarrow> Some b | None \<Rightarrow> b64_decode_padded x payload)"

definition anon_key_claims :: "ext \<Rightarrow> string \<Rightarrow> bool" where
  "anon_key_claims x value =
     (case split_on (CHR ''.'') value of
        [header, payload, signature] \<Rightarrow>
          header \<noteq> [] \<and> payload \<noteq> [] \<and> signature \<noteq> []
          \<and> (case Option.bind (decode_payload x payload) (json_parse x) of
               None \<Rightarrow> False
             | Some claims \<Rightarrow> Option.bind (json_get ''role'' claims) as_str = Some ''anon'')
      | _ \<Rightarrow> False)"

definition validate_publishable_key :: "ext \<Rightarrow> string \<Rightarrow> bool" where
  "validate_publishable_key x raw =
     (let value = trim raw
      in case strip_prefix ''sb_publishable_'' value of
           Some (c # suffix) \<Rightarrow> True
         | _ \<Rightarrow> if starts_with value ''sb_secret_'' then False
                else anon_key_claims x value)"

section \<open>The GoTrue client\<close>

record http_answer =
  ha_status :: nat
  ha_body :: string

definition is_success :: "nat \<Rightarrow> bool" where
  "is_success status \<longleftrightarrow> 200 \<le> status \<and> status < 300"

record token_response =
  tr_access_token :: string
  tr_refresh_token :: string
  tr_expires_in :: int
  tr_expires_at :: "int option"
  tr_user :: supabase_user

definition user_of_json :: "ext \<Rightarrow> json \<Rightarrow> supabase_user option" where
  "user_of_json x j =
     Option.bind (struct_fields [''id'', ''email''] j) (\<lambda>fs.
       case fs of
         [i, e] \<Rightarrow>
           Option.bind (required_field (\<lambda>j. Option.bind (as_str j) (uuid_parse x)) i) (\<lambda>u.
           Option.bind (option_field as_str e) (\<lambda>em.
             Some \<lparr>su_id = u, su_email = em\<rparr>))
       | _ \<Rightarrow> None)"

definition token_response_of_json :: "ext \<Rightarrow> json \<Rightarrow> token_response option" where
  "token_response_of_json x j =
     Option.bind (struct_fields
         [''access_token'', ''refresh_token'', ''expires_in'', ''expires_at'', ''user''] j) (\<lambda>fs.
       case fs of
         [a, r, i, e, u] \<Rightarrow>
           Option.bind (required_field as_str a) (\<lambda>access.
           Option.bind (required_field as_str r) (\<lambda>refresh.
           Option.bind (required_field as_i64 i) (\<lambda>expires_in.
           Option.bind (option_field as_i64 e) (\<lambda>expires_at.
           Option.bind (required_field (user_of_json x) u) (\<lambda>user.
             Some \<lparr>tr_access_token = access, tr_refresh_token = refresh,
                   tr_expires_in = expires_in, tr_expires_at = expires_at, tr_user = user\<rparr>)))))
       | _ \<Rightarrow> None)"

text \<open>
  \<open>token_request\<close> after the exchange; \<open>timestamp_opt\<close> is chrono's range-checked conversion of
  seconds since the epoch.
\<close>

definition token_request ::
    "ext \<Rightarrow> (int \<Rightarrow> timestamp option) \<Rightarrow> timestamp \<Rightarrow> http_answer option
       \<Rightarrow> auth_provider_error + auth_tokens" where
  "token_request x timestamp_opt now answer =
     (case answer of
        None \<Rightarrow> Inl Unavailable
      | Some response \<Rightarrow>
          if ha_status response \<in> {400, 401} then Inl InvalidCredentials
          else if \<not> is_success (ha_status response) then Inl Unavailable
          else
            try_then (ok_or (Option.bind (json_parse x (ha_body response))
                               (token_response_of_json x)) InvalidResponse) (\<lambda>response.
            try_then (validated_session_id x (tr_access_token response) (su_id (tr_user response)))
              (\<lambda>sid.
            try_then (ok_or sid InvalidResponse) (\<lambda>_.
              let expires_at =
                (case Option.bind (tr_expires_at response) timestamp_opt of
                   Some t \<Rightarrow> t
                 | None \<Rightarrow> now + seconds (tr_expires_in response))
              in Inr \<lparr>at_access_token = tr_access_token response,
                      at_refresh_token = tr_refresh_token response,
                      at_expires_at = expires_at, at_user = tr_user response\<rparr>))))"

definition user_for_token ::
    "ext \<Rightarrow> http_answer option \<Rightarrow> auth_provider_error + supabase_user" where
  "user_for_token x answer =
     (case answer of
        None \<Rightarrow> Inl Unavailable
      | Some response \<Rightarrow>
          if ha_status response = 401 then Inl InvalidCredentials
          else if \<not> is_success (ha_status response) then Inl Unavailable
          else ok_or (Option.bind (json_parse x (ha_body response)) (user_of_json x))
                 InvalidResponse)"

definition sign_out :: "http_answer option \<Rightarrow> auth_provider_error + unit" where
  "sign_out answer =
     (case answer of
        None \<Rightarrow> Inl Unavailable
      | Some response \<Rightarrow>
          if is_success (ha_status response) then Inr ()
          else if ha_status response = 401 then Inl InvalidCredentials
          else Inl Unavailable)"

section \<open>The interface of a provider\<close>

text \<open>
  The session service receives tokens from a provider and derives the session identity from
  them. It relies on the tokens being readable for the user they come with.
\<close>

locale auth_provider =
  fixes x :: ext
    and issue :: "'w \<Rightarrow> auth_provider_error + auth_tokens"
  assumes readable: "issue w = Inr t \<Longrightarrow>
      \<exists>sid. validated_session_id x (at_access_token t) (su_id (at_user t)) = Inr sid"
begin

lemma issued_is_bound:
  assumes "issue w = Inr t"
    and "validated_session_id x (at_access_token t) user = Inr (Some sid)"
  shows "user = su_id (at_user t)"
proof -
  obtain s where s: "validated_session_id x (at_access_token t) (su_id (at_user t)) = Inr s"
    using readable [OF assms(1)] by blast
  have "s \<noteq> None"
    using s assms(2) validated_session_id_None [of x "at_access_token t" "su_id (at_user t)"]
      validated_session_id_None [of x "at_access_token t" user] by auto
  then show ?thesis
    using s assms(2) by (auto simp: validated_session_id_Some)
qed

end

text \<open>GoTrue always issues JWTs, so its tokens always carry a session identity.\<close>

locale jwt_auth_provider =
  fixes x :: ext
    and issue :: "'w \<Rightarrow> auth_provider_error + auth_tokens"
  assumes identified: "issue w = Inr t \<Longrightarrow>
      \<exists>sid. validated_session_id x (at_access_token t) (su_id (at_user t)) = Inr (Some sid)"
begin

sublocale auth_provider x issue
  by unfold_locales (use identified in blast)

lemma issued_claims:
  "issue w = Inr t \<Longrightarrow> \<exists>claims. token_claims x (at_access_token t) = Some claims
     \<and> claim_uuid x ''sub'' claims = Some (su_id (at_user t))"
  using identified [of w t] by (auto simp: validated_session_id_Some)

end

lemma token_request_identified:
  "token_request x timestamp_opt now answer = Inr t \<Longrightarrow>
     \<exists>sid. validated_session_id x (at_access_token t) (su_id (at_user t)) = Inr (Some sid)"
  by (auto simp: token_request_def try_then_Inr ok_or_Inr Let_def split: option.splits if_splits)

interpretation gotrue: jwt_auth_provider x "token_request x timestamp_opt now"
  for x timestamp_opt now
  by unfold_locales (rule token_request_identified)

section \<open>The browser test provider\<close>

definition test_email :: string where "test_email = ''browser-e2e@canonical.invalid''"
definition test_password :: string where "test_password = ''browser-e2e-only''"
definition test_access_token :: string where "test_access_token = ''canonical-browser-e2e-access''"
definition test_refresh_token :: string where "test_refresh_token = ''canonical-browser-e2e-refresh''"
definition test_user_id :: uuid where "test_user_id = 0x7f0a6ff994e74f6ea3d738df501792b4"

definition test_tokens :: "timestamp \<Rightarrow> auth_tokens" where
  "test_tokens now =
     \<lparr>at_access_token = test_access_token, at_refresh_token = test_refresh_token,
      at_expires_at = now + seconds 3600,
      at_user = \<lparr>su_id = test_user_id, su_email = Some test_email\<rparr>\<rparr>"

datatype token_grant = PasswordGrant string string | RefreshGrant string

fun test_issue :: "timestamp \<Rightarrow> token_grant \<Rightarrow> auth_provider_error + auth_tokens" where
  "test_issue now (PasswordGrant email password) =
     (if email = test_email \<and> password = test_password then Inr (test_tokens now)
      else Inl InvalidCredentials)"
| "test_issue now (RefreshGrant refresh_token) =
     (if refresh_token = test_refresh_token then Inr (test_tokens now)
      else Inl InvalidCredentials)"

lemma test_token_opaque: "validated_session_id x test_access_token user = Inr None"
  by (simp add: validated_session_id_def test_access_token_def)

interpretation browser: auth_provider x "test_issue now" for x now
proof
  fix w t
  assume "test_issue now w = Inr t"
  then have "at_access_token t = test_access_token"
    by (cases w) (auto simp: test_tokens_def split: if_splits)
  then show "\<exists>sid. validated_session_id x (at_access_token t) (su_id (at_user t)) = Inr sid"
    by (simp add: test_token_opaque)
qed

text \<open>
  Tokens issued by GoTrue through \<open>token_request\<close> are bound: the access token is a JWT whose
  subject is the returned user, no other user obtains a session identity from it, and neither
  a transport failure nor an answer outside 2xx ever yields tokens.
\<close>

theorem gotrue_tokens_are_bound:
  assumes "token_request x timestamp_opt now answer = Inr t"
  shows "(\<exists>claims. token_claims x (at_access_token t) = Some claims
           \<and> claim_uuid x ''sub'' claims = Some (su_id (at_user t)))
    \<and> (\<forall>user sid. validated_session_id x (at_access_token t) user = Inr (Some sid)
          \<longrightarrow> user = su_id (at_user t))
    \<and> (\<exists>response. answer = Some response \<and> is_success (ha_status response))"
proof (intro conjI allI impI)
  show "\<exists>claims. token_claims x (at_access_token t) = Some claims
           \<and> claim_uuid x ''sub'' claims = Some (su_id (at_user t))"
    by (rule gotrue.issued_claims [OF assms])
  show "user = su_id (at_user t)"
    if "validated_session_id x (at_access_token t) user = Inr (Some sid)" for user sid
    by (rule gotrue.issued_is_bound [OF assms that])
  show "\<exists>response. answer = Some response \<and> is_success (ha_status response)"
    using assms by (auto simp: token_request_def split: option.splits if_splits)
qed

definition sample_token_json :: json where
  "sample_token_json = JObj
     [(''access_token'', JStr ''a.b.c''), (''refresh_token'', JStr ''r''), (''expires_in'', JInt 60),
      (''user'', JObj [(''id'', JStr ''7'')]),
      (''sub'', JStr ''7''), (''session_id'', JStr ''9'')]"

definition sample_tokens :: auth_tokens where
  "sample_tokens = \<lparr>at_access_token = ''a.b.c'', at_refresh_token = ''r'',
     at_expires_at = 60000000, at_user = \<lparr>su_id = 7, su_email = None\<rparr>\<rparr>"

lemma sample_token_request:
  "token_request (sample_ext sample_token_json) (\<lambda>_. None) 0
     (Some \<lparr>ha_status = 200, ha_body = ''body''\<rparr>) = Inr sample_tokens"
  by (simp add: token_request_def sample_ext_def sample_token_json_def token_response_of_json_def
        user_of_json_def is_success_def no_duplicate_of_def validated_session_id_def claim_uuid_def
        parse_decimal_uuid_def parse_nat_def is_digit_def chr_in_def in_i64_def i64_min_def
        i64_max_def seconds_def sample_tokens_def)

theorem gotrue_tokens_are_bound_witness:
  "\<exists>claims. token_claims (sample_ext sample_token_json) (at_access_token sample_tokens) = Some claims
           \<and> claim_uuid (sample_ext sample_token_json) ''sub'' claims = Some (su_id (at_user sample_tokens))"
  using gotrue_tokens_are_bound [OF sample_token_request] by blast

end
