(* ===== verification/App_Error.thy ===== *)
theory App_Error
  imports Prelude
begin

text \<open>
  The error types, \<open>src/error.rs\<close> and \<open>SessionError\<close> of
  \<open>crates/canonical-session/src/lib.rs\<close>, and the HTTP answer each error becomes. Errors that
  wrap a third-party error keep only the variant: their contents never reach a response.
\<close>

datatype session_error =
    SUnauthorized
  | SBadRequest string
  | SAuthUpstream
  | SDatabase
  | SCrypto

datatype app_error =
    Unauthorized
  | Forbidden
  | BadRequest string
  | InvalidSyncCursor
  | NotFound
  | AuthUpstream
  | ServiceUpstream
  | RateLimited nat
  | LoginAuthBusy
  | AuthBusy
  | Database
  | Persistence
  | HttpClient
  | AuthClient
  | IntegrationConfig
  | Io
  | Crypto
  | Serialization
  | Configuration string

fun from_session_error :: "session_error \<Rightarrow> app_error" where
  "from_session_error SUnauthorized = Unauthorized"
| "from_session_error (SBadRequest message) = BadRequest message"
| "from_session_error SAuthUpstream = AuthUpstream"
| "from_session_error SDatabase = Database"
| "from_session_error SCrypto = Crypto"

record error_response =
  er_status :: nat
  er_code :: string
  er_message :: string
  er_retry_after :: "string option"

fun error_retry_after :: "app_error \<Rightarrow> nat option" where
  "error_retry_after (RateLimited retry_after_seconds) = Some retry_after_seconds"
| "error_retry_after LoginAuthBusy = Some 1"
| "error_retry_after AuthBusy = Some 1"
| "error_retry_after _ = None"

fun error_body :: "app_error \<Rightarrow> nat \<times> string \<times> string" where
  "error_body Unauthorized = (401, ''unauthorized'', ''authentication required'')"
| "error_body Forbidden = (403, ''forbidden'', ''request is not allowed'')"
| "error_body (BadRequest message) = (400, ''bad_request'', message)"
| "error_body InvalidSyncCursor = (400, ''invalid_sync_cursor'', ''invalid sync cursor'')"
| "error_body NotFound = (404, ''not_found'', ''resource not found'')"
| "error_body AuthUpstream =
     (503, ''auth_upstream_unavailable'', ''authentication service is temporarily unavailable'')"
| "error_body ServiceUpstream =
     (503, ''service_upstream_unavailable'', ''quote analysis is temporarily unavailable'')"
| "error_body (RateLimited _) = (429, ''rate_limited'', ''too many requests; retry later'')"
| "error_body LoginAuthBusy =
     (429, ''login_auth_busy'', ''authentication is temporarily busy; retry later'')"
| "error_body AuthBusy =
     (429, ''auth_verification_busy'', ''authentication verification is temporarily busy; retry later'')"
| "error_body _ =
     (500, ''internal_error'', ''the server could not complete the request'')"

definition into_response :: "app_error \<Rightarrow> error_response" where
  "into_response e =
     (case error_body e of (status, code, message) \<Rightarrow>
        \<lparr>er_status = status, er_code = code, er_message = message,
         er_retry_after = map_option show_nat (error_retry_after e)\<rparr>)"

definition internal :: "app_error \<Rightarrow> bool" where
  "internal e \<longleftrightarrow> er_status (into_response e) = 500"

text \<open>
  What a client learns from an error: a \<open>Retry-After\<close> header accompanies exactly the 429
  answers, and every internal failure (database, persistence, HTTP client, cryptography,
  serialization, configuration) gets the same opaque 500 answer, which no other error gets.
\<close>

theorem error_responses:
  "(er_retry_after (into_response e) \<noteq> None) = (er_status (into_response e) = 429)
   \<and> (internal e = (e \<in> {Database, Persistence, HttpClient, AuthClient, IntegrationConfig, Io,
        Crypto, Serialization} \<union> range Configuration))
   \<and> (if internal e then into_response e = into_response Database else True)
   \<and> er_status (into_response e) \<in> {400, 401, 403, 404, 429, 500, 503}"
  by (cases e) (auto simp: into_response_def internal_def)

end
