(* ===== verification/Hub.thy ===== *)
theory Hub
  imports Auth_Core App_Error
begin

text \<open>
  Invalidation fan-out and WebSocket connections, \<open>src/ws/mod.rs\<close>: the connection counters
  behind \<open>SocketPermit\<close>, the PostgreSQL backplane payloads, the reconnect delay of the
  listener, the ping challenge, and the loop of one connection as a step per \<open>select!\<close> branch.
  The lemmas show that the counters always equal the live permits, that a relayed hint is what
  another instance sent, that an owner only sees its own hints, and that a challenge is never
  replaced while it is unanswered.
\<close>

section \<open>Connection capacity\<close>

definition MAX_SOCKETS_PER_USER :: nat where "MAX_SOCKETS_PER_USER = 4"
definition MAX_SOCKETS_PER_INSTANCE :: nat where "MAX_SOCKETS_PER_INSTANCE = 1024"

record connection_counts =
  total :: nat
  by_owner :: "(uuid, nat) store"

definition no_connections :: connection_counts where
  "no_connections = \<lparr>total = 0, by_owner = []\<rparr>"

definition owner_count :: "uuid \<Rightarrow> connection_counts \<Rightarrow> nat" where
  "owner_count owner c = (case find_by owner (by_owner c) of Some n \<Rightarrow> n | None \<Rightarrow> 0)"

text \<open>The permit is the owner it was granted to.\<close>

definition try_acquire_socket :: "uuid \<Rightarrow> connection_counts \<Rightarrow> (uuid \<times> connection_counts) option" where
  "try_acquire_socket owner c =
     (if MAX_SOCKETS_PER_INSTANCE \<le> total c \<or> MAX_SOCKETS_PER_USER \<le> owner_count owner c then None
      else Some (owner, c\<lparr>total := total c + 1,
                          by_owner := put owner (owner_count owner c + 1) (by_owner c)\<rparr>))"

definition drop_permit :: "uuid \<Rightarrow> connection_counts \<Rightarrow> connection_counts" where
  "drop_permit owner c =
     (let c = c\<lparr>total := total c - 1\<rparr>
      in case find_by owner (by_owner c) of
           None \<Rightarrow> c
         | Some n \<Rightarrow>
             if n - 1 = 0 then c\<lparr>by_owner := drop_key owner (by_owner c)\<rparr>
             else c\<lparr>by_owner := put owner (n - 1) (by_owner c)\<rparr>)"

text \<open>
  The hub's life: connections acquire permits or are refused, and each live permit is dropped
  once, in any order.
\<close>

inductive hub_step :: "connection_counts \<times> uuid list \<Rightarrow> connection_counts \<times> uuid list \<Rightarrow> bool" where
  Acquire: "try_acquire_socket owner c = Some (p, c') \<Longrightarrow> hub_step (c, ps) (c', p # ps)"
| Refuse: "try_acquire_socket owner c = None \<Longrightarrow> hub_step (c, ps) (c, ps)"
| Release: "p \<in> set ps \<Longrightarrow> hub_step (c, ps) (drop_permit p c, remove1 p ps)"

inductive_cases hub_stepE: "hub_step (c, ps) s'"

inductive hub_reachable :: "connection_counts \<times> uuid list \<Rightarrow> bool" where
  Start: "hub_reachable (no_connections, [])"
| Step: "hub_reachable s \<Longrightarrow> hub_step s s' \<Longrightarrow> hub_reachable s'"

definition entry_of :: "nat \<Rightarrow> nat option" where
  "entry_of n = (if n = 0 then None else Some n)"

lemma entry_of_simps [simp]: "entry_of 0 = None" "entry_of (Suc n) = Some (Suc n)"
    "0 < n \<Longrightarrow> entry_of n = Some n"
  by (simp_all add: entry_of_def)

definition counts_permits :: "connection_counts \<Rightarrow> uuid list \<Rightarrow> bool" where
  "counts_permits c ps \<longleftrightarrow> total c = length ps
     \<and> (\<forall>u. find_by u (by_owner c) = entry_of (count_list ps u))
     \<and> length ps \<le> MAX_SOCKETS_PER_INSTANCE
     \<and> (\<forall>u. count_list ps u \<le> MAX_SOCKETS_PER_USER)"

lemma counts_permits_owner: "counts_permits c ps \<Longrightarrow> owner_count u c = count_list ps u"
  by (simp add: counts_permits_def owner_count_def entry_of_def)

lemma count_list_remove1:
  "p \<in> set ps \<Longrightarrow> count_list (remove1 p ps) u = (if u = p then count_list ps u - 1 else count_list ps u)"
  by (induction ps) (auto simp: count_list_0_iff)

lemma counts_permits_acquire:
  assumes "counts_permits c ps" "try_acquire_socket owner c = Some (p, c')"
  shows "counts_permits c' (p # ps)"
  using assms counts_permits_owner [OF assms(1), of owner]
  by (auto simp: counts_permits_def try_acquire_socket_def store.look_ins split: if_splits)

lemma counts_permits_release:
  assumes "counts_permits c ps" "p \<in> set ps"
  shows "counts_permits (drop_permit p c) (remove1 p ps)"
proof -
  have pos: "count_list ps p \<noteq> 0" using assms(2) by (simp add: count_list_0_iff)
  with assms have f: "find_by p (by_owner c) = Some (count_list ps p)"
    by (simp add: counts_permits_def)
  have "length (remove1 p ps) = length ps - 1" using assms(2) by (simp add: length_remove1)
  then show ?thesis
    using assms pos f
    by (auto simp: entry_of_def counts_permits_def drop_permit_def Let_def store.look_ins store.look_del
          count_list_remove1 intro: le_trans [OF diff_le_self])
qed

lemma hub_step_counts:
  "hub_step s s' \<Longrightarrow> counts_permits (fst s) (snd s) \<Longrightarrow> counts_permits (fst s') (snd s')"
  by (induction rule: hub_step.induct) (auto intro: counts_permits_acquire counts_permits_release)

lemma hub_reachable_counts: "hub_reachable s \<Longrightarrow> counts_permits (fst s) (snd s)"
  by (induction rule: hub_reachable.induct)
     (rule_tac [2] hub_step_counts, simp_all add: counts_permits_def no_connections_def)

text \<open>
  C14
  In every state the hub can reach by granting, refusing and dropping permits in any order, the
  counters are exactly the live permits: the total is their number, an owner's entry is its
  number of permits and exists only while it has one, so closed connections leave nothing
  behind; no instance serves more than 1024 sockets and no user more than 4; and a connection is
  refused only when one of these two limits is reached by permits that are still live.
\<close>

theorem socket_counters_exact:
  assumes "hub_reachable (c, permits)"
  shows "total c = length permits
    \<and> (\<forall>u. find_by u (by_owner c) =
          (if u \<in> set permits then Some (count_list permits u) else None))
    \<and> length permits \<le> 1024 \<and> (\<forall>u. count_list permits u \<le> 4)
    \<and> (\<forall>u. (try_acquire_socket u c = None) = (length permits = 1024 \<or> count_list permits u = 4))"
proof -
  have c: "counts_permits c permits" using hub_reachable_counts [OF assms] by simp
  then have o: "owner_count u c = count_list permits u" for u by (rule counts_permits_owner)
  show ?thesis
    using c o by (auto simp: counts_permits_def count_list_0_iff try_acquire_socket_def entry_of_def
        MAX_SOCKETS_PER_INSTANCE_def MAX_SOCKETS_PER_USER_def intro: le_antisym)
qed

theorem socket_counters_exact_witness:
  "total \<lparr>total = 1, by_owner = [(5, 1)]\<rparr> = length [5::uuid]
   \<and> try_acquire_socket 5 \<lparr>total = 1, by_owner = [(5, 1)]\<rparr> \<noteq> None"
proof -
  have "hub_step (no_connections, []) (\<lparr>total = 1, by_owner = [(5, 1)]\<rparr>, [5])"
    by (rule hub_step.Acquire [of 5])
       (simp add: try_acquire_socket_def no_connections_def owner_count_def put_def
          MAX_SOCKETS_PER_INSTANCE_def MAX_SOCKETS_PER_USER_def)
  with hub_reachable.Start have "hub_reachable (\<lparr>total = 1, by_owner = [(5, 1)]\<rparr>, [5])"
    by (rule hub_reachable.Step)
  from socket_counters_exact [OF this] show ?thesis by simp
qed

section \<open>The PostgreSQL backplane\<close>

definition POSTGRES_INVALIDATION_CHANNEL :: string where
  "POSTGRES_INVALIDATION_CHANNEL = ''canonical_sync_invalidation_v1''"

definition BACKPLANE_VERSION :: nat where "BACKPLANE_VERSION = 1"
definition MAX_BACKPLANE_PAYLOAD_BYTES :: nat where "MAX_BACKPLANE_PAYLOAD_BYTES = 512"

record invalidation =
  inv_owner_id :: uuid
  inv_cursor :: int

record backplane_invalidation =
  bp_version :: nat
  bp_source_instance :: uuid
  bp_owner_id :: uuid
  bp_cursor :: int

definition backplane_fields :: "string list" where
  "backplane_fields = [''version'', ''sourceInstance'', ''ownerId'', ''cursor'']"

definition backplane_to_json :: "ext \<Rightarrow> backplane_invalidation \<Rightarrow> json" where
  "backplane_to_json x b =
     JObj [(''version'', JInt (int (bp_version b))),
           (''sourceInstance'', JStr (uuid_text x (bp_source_instance b))),
           (''ownerId'', JStr (uuid_text x (bp_owner_id b))),
           (''cursor'', JInt (bp_cursor b))]"

definition uuid_of_json :: "ext \<Rightarrow> json \<Rightarrow> uuid option" where
  "uuid_of_json x j = Option.bind (as_str j) (uuid_parse x)"

definition backplane_of_json :: "ext \<Rightarrow> json \<Rightarrow> backplane_invalidation option" where
  "backplane_of_json x j =
     (if \<not> known_fields_only backplane_fields j then None
      else Option.bind (struct_fields backplane_fields j) (\<lambda>fs.
        case fs of
          [v, s, w, c] \<Rightarrow>
            Option.bind (required_field as_u8 v) (\<lambda>v.
            Option.bind (required_field (uuid_of_json x) s) (\<lambda>s.
            Option.bind (required_field (uuid_of_json x) w) (\<lambda>w.
            Option.bind (required_field as_i64 c) (\<lambda>c.
              Some \<lparr>bp_version = v, bp_source_instance = s, bp_owner_id = w, bp_cursor = c\<rparr>))))
        | _ \<Rightarrow> None))"

lemma backplane_json_roundtrip:
  assumes "uuid_law x" "bp_version b < 256" "in_i64 (bp_cursor b)"
  shows "backplane_of_json x (backplane_to_json x b) = Some b"
  using assms
  by (simp add: backplane_of_json_def backplane_to_json_def backplane_fields_def no_duplicate_of_def
        uuid_of_json_def uuid_law_def)

definition backplane_payload :: "ext \<Rightarrow> uuid \<Rightarrow> uuid \<Rightarrow> int \<Rightarrow> app_error + string" where
  "backplane_payload x instance_id owner cursor =
     (if owner = 0 \<or> cursor \<le> 0 then Inl Database
      else
        let payload = json_text x (backplane_to_json x
              \<lparr>bp_version = BACKPLANE_VERSION, bp_source_instance = instance_id,
               bp_owner_id = owner, bp_cursor = cursor\<rparr>)
        in if MAX_BACKPLANE_PAYLOAD_BYTES < length payload then Inl Database else Inr payload)"

text \<open>
  What a notification makes the hub broadcast to the sockets of this instance; the code's
  Boolean answer is whether it is \<open>Some\<close>.
\<close>

definition relay_backplane_payload :: "ext \<Rightarrow> uuid \<Rightarrow> string \<Rightarrow> invalidation option" where
  "relay_backplane_payload x instance_id payload =
     (if MAX_BACKPLANE_PAYLOAD_BYTES < length payload then None
      else case Option.bind (json_parse x payload) (backplane_of_json x) of
             None \<Rightarrow> None
           | Some message \<Rightarrow>
               if bp_version message \<noteq> BACKPLANE_VERSION \<or> bp_source_instance message = 0
                  \<or> bp_owner_id message = 0 \<or> bp_cursor message \<le> 0 then None
               else if bp_source_instance message = instance_id then None
               else Some \<lparr>inv_owner_id = bp_owner_id message, inv_cursor = bp_cursor message\<rparr>)"

definition relay_notification :: "ext \<Rightarrow> uuid \<Rightarrow> string \<Rightarrow> string \<Rightarrow> invalidation option" where
  "relay_notification x instance_id channel payload =
     (if channel = POSTGRES_INVALIDATION_CHANNEL then relay_backplane_payload x instance_id payload
      else None)"

text \<open>
  A hint sent by one instance is relayed by every other instance as the same owner and cursor,
  and ignored by the sender.
\<close>

theorem backplane_relay:
  assumes "backplane_payload x sender owner cursor = Inr payload"
    and "uuid_law x" and "in_i64 cursor" and "sender \<noteq> 0"
    and "json_roundtrip x (backplane_to_json x \<lparr>bp_version = 1, bp_source_instance = sender,
           bp_owner_id = owner, bp_cursor = cursor\<rparr>)"
  shows "relay_backplane_payload x receiver payload =
     (if receiver = sender then None else Some \<lparr>inv_owner_id = owner, inv_cursor = cursor\<rparr>)"
  using assms backplane_json_roundtrip
  by (auto simp: backplane_payload_def relay_backplane_payload_def json_roundtrip_def Let_def
        BACKPLANE_VERSION_def split: if_splits)

definition sample_hint :: backplane_invalidation where
  "sample_hint = \<lparr>bp_version = 1, bp_source_instance = 2, bp_owner_id = 3, bp_cursor = 41\<rparr>"

definition hint_ext :: ext where
  "hint_ext = sample_ext (backplane_to_json (sample_ext JNull) sample_hint)"

theorem backplane_relay_witness:
  "relay_backplane_payload hint_ext 1 ''j'' = Some \<lparr>inv_owner_id = 3, inv_cursor = 41\<rparr>
   \<and> relay_backplane_payload hint_ext 2 ''j'' = None"
proof -
  have p: "backplane_payload hint_ext 2 3 41 = Inr ''j''"
    by (simp add: backplane_payload_def hint_ext_def sample_ext_def MAX_BACKPLANE_PAYLOAD_BYTES_def)
  have l: "uuid_law hint_ext" "in_i64 41" "(2::uuid) \<noteq> 0"
    by (simp_all add: hint_ext_def in_i64_def i64_min_def i64_max_def)
  have j: "json_roundtrip hint_ext (backplane_to_json hint_ext \<lparr>bp_version = 1,
      bp_source_instance = 2, bp_owner_id = 3, bp_cursor = 41\<rparr>)"
    by (simp add: json_roundtrip_def hint_ext_def sample_ext_def sample_hint_def backplane_to_json_def)
  show ?thesis
    using backplane_relay [OF p l j, of 1] backplane_relay [OF p l j, of 2] by simp
qed

text \<open>
  \<open>invalidate\<close> is what the sockets of this instance are told; the notification is queued in the
  transaction of the change, on PostgreSQL only.
\<close>

definition invalidate :: "uuid \<Rightarrow> int \<Rightarrow> invalidation" where
  "invalidate owner cursor = \<lparr>inv_owner_id = owner, inv_cursor = cursor\<rparr>"

definition enqueue_postgres_invalidation ::
    "ext \<Rightarrow> bool \<Rightarrow> uuid \<Rightarrow> uuid \<Rightarrow> int \<Rightarrow> app_error + (string \<times> string) option" where
  "enqueue_postgres_invalidation x postgres instance_id owner cursor =
     (if \<not> postgres then Inr None
      else try_then (backplane_payload x instance_id owner cursor) (\<lambda>payload.
        Inr (Some (POSTGRES_INVALIDATION_CHANNEL, payload))))"

text \<open>The queued notification is the local hint of every other instance.\<close>

lemma enqueued_hint_is_relayed:
  assumes "enqueue_postgres_invalidation x True sender owner cursor = Inr (Some (channel, payload))"
    and "uuid_law x" and "in_i64 cursor" and "sender \<noteq> 0" and "receiver \<noteq> sender"
    and "json_roundtrip x (backplane_to_json x \<lparr>bp_version = 1, bp_source_instance = sender,
           bp_owner_id = owner, bp_cursor = cursor\<rparr>)"
  shows "relay_notification x receiver channel payload = Some (invalidate owner cursor)"
proof -
  from assms(1) have "backplane_payload x sender owner cursor = Inr payload" "channel = POSTGRES_INVALIDATION_CHANNEL"
    by (auto simp: enqueue_postgres_invalidation_def try_then_Inr)
  with backplane_relay [OF _ assms(2-4,6)] assms(5) show ?thesis
    by (simp add: relay_notification_def invalidate_def)
qed

lemma relay_sound:
  "relay_backplane_payload x me payload = Some i \<Longrightarrow>
     inv_owner_id i \<noteq> 0 \<and> 0 < inv_cursor i \<and> length payload \<le> 512"
  by (auto simp: relay_backplane_payload_def MAX_BACKPLANE_PAYLOAD_BYTES_def
        split: if_splits option.splits)

subsection \<open>Reconnecting\<close>

text \<open>
  Delays in seconds. A listener that had been up for the stable window starts over from the
  minimum; \<open>reconnect\<close> gives the delay slept now and the one kept for the next failure.
\<close>

definition MIN_RECONNECT_DELAY :: nat where "MIN_RECONNECT_DELAY = 1"
definition MAX_RECONNECT_DELAY :: nat where "MAX_RECONNECT_DELAY = 30"
definition STABLE_LISTENER_WINDOW :: nat where "STABLE_LISTENER_WINDOW = 60"

definition reconnect :: "nat \<Rightarrow> nat \<Rightarrow> nat \<times> nat" where
  "reconnect reconnect_delay elapsed =
     (let reconnect_delay =
        (if STABLE_LISTENER_WINDOW \<le> elapsed then MIN_RECONNECT_DELAY else reconnect_delay)
      in (reconnect_delay, min (sat_add u64_max reconnect_delay reconnect_delay) MAX_RECONNECT_DELAY))"

fun reconnect_delays :: "nat \<Rightarrow> nat list \<Rightarrow> nat list" where
  "reconnect_delays d [] = []"
| "reconnect_delays d (elapsed # es) =
     (case reconnect d elapsed of (now, later) \<Rightarrow> now # reconnect_delays later es)"

lemma reconnect_range:
  "1 \<le> d \<Longrightarrow> d \<le> 30 \<Longrightarrow> reconnect d e = (now, later) \<Longrightarrow>
     1 \<le> now \<and> now \<le> 30 \<and> 1 \<le> later \<and> later \<le> 30"
  by (auto simp: reconnect_def Let_def MIN_RECONNECT_DELAY_def MAX_RECONNECT_DELAY_def sat_add_def
        u64_max_def split: if_splits)

lemma reconnect_delays_range:
  "1 \<le> d \<Longrightarrow> d \<le> 30 \<Longrightarrow> n \<in> set (reconnect_delays d es) \<Longrightarrow> 1 \<le> n \<and> n \<le> 30"
proof (induction es arbitrary: d)
  case (Cons e es)
  obtain now later where r: "reconnect d e = (now, later)" by force
  with Cons reconnect_range [OF Cons.prems(1,2) r] show ?case by auto
qed simp

section \<open>One connection\<close>

datatype server_message =
    Hello nat nat
  | SyncInvalidated string
  | ResyncRequired
  | PongMessage

datatype frame = FText server_message | FPing string | FPong string | FClose string

datatype incoming =
    InPing string
  | InText string
  | InPong string
  | InClosed \<comment> \<open>a close frame, the end of the stream, or a receive error\<close>
  | InBinary

datatype broadcast_event = Event invalidation | Lagged | SenderClosed

record pending_pong =
  pp_payload :: string
  pp_deadline :: nat

record pong_tracker =
  pending :: "pending_pong option"

definition expect_pong :: "string \<Rightarrow> nat \<Rightarrow> nat \<Rightarrow> pong_tracker \<Rightarrow> pong_tracker" where
  "expect_pong payload now timeout t =
     t\<lparr>pending := Some \<lparr>pp_payload = payload, pp_deadline = now + timeout\<rparr>\<rparr>"

definition acknowledge :: "string \<Rightarrow> pong_tracker \<Rightarrow> bool \<times> pong_tracker" where
  "acknowledge payload t =
     (let matches = (case pending t of None \<Rightarrow> False | Some p \<Rightarrow> pp_payload p = payload)
      in (matches, if matches then t\<lparr>pending := None\<rparr> else t))"

definition pong_deadline :: "pong_tracker \<Rightarrow> nat option" where
  "pong_deadline t = map_option pp_deadline (pending t)"

definition is_waiting :: "pong_tracker \<Rightarrow> bool" where
  "is_waiting t \<longleftrightarrow> pending t \<noteq> None"

text \<open>
  The branches of the \<open>select!\<close>. A tick carries the wall clock, the monotonic clock, the answer
  of \<open>sessions.revalidate\<close> and the random challenge. \<open>sent_ok\<close> is whether the socket takes the
  frame this branch writes, within the write timeout. The state is the tracker, the frames
  written so far (newest first), and whether the loop goes on.
\<close>

datatype socket_event =
    Incoming incoming
  | Broadcast broadcast_event
  | DeadlineElapsed
  | HeartbeatTick timestamp nat bool string

record socket_state =
  tracker :: pong_tracker
  frames :: "frame list"
  open_loop :: bool

definition ping_text :: string where
  "ping_text = [CHR 0x22] @ ''type'' @ [CHR 0x22] @ '':'' @ [CHR 0x22] @ ''ping'' @ [CHR 0x22]"

definition send_or_break :: "bool \<Rightarrow> frame \<Rightarrow> socket_state \<Rightarrow> socket_state" where
  "send_or_break sent_ok f s =
     (if sent_ok then s\<lparr>frames := f # frames s\<rparr> else s\<lparr>open_loop := False\<rparr>)"

definition close_with :: "bool \<Rightarrow> string \<Rightarrow> socket_state \<Rightarrow> socket_state" where
  "close_with sent_ok reason s =
     (let s = (if sent_ok then s\<lparr>frames := FClose reason # frames s\<rparr> else s)
      in s\<lparr>open_loop := False\<rparr>)"

fun on_incoming :: "bool \<Rightarrow> incoming \<Rightarrow> socket_state \<Rightarrow> socket_state" where
  "on_incoming sent_ok (InPing payload) s = send_or_break sent_ok (FPong payload) s"
| "on_incoming sent_ok (InText text) s =
     (if contains text ping_text then send_or_break sent_ok (FText PongMessage) s else s)"
| "on_incoming sent_ok (InPong payload) s = s\<lparr>tracker := snd (acknowledge payload (tracker s))\<rparr>"
| "on_incoming sent_ok InClosed s = s\<lparr>open_loop := False\<rparr>"
| "on_incoming sent_ok InBinary s = s"

fun on_broadcast :: "bool \<Rightarrow> auth_context \<Rightarrow> broadcast_event \<Rightarrow> socket_state \<Rightarrow> socket_state" where
  "on_broadcast sent_ok actor (Event i) s =
     (if inv_owner_id i = ctx_user_id actor
      then send_or_break sent_ok (FText (SyncInvalidated (show_int (inv_cursor i)))) s
      else s)"
| "on_broadcast sent_ok actor Lagged s = send_or_break sent_ok (FText ResyncRequired) s"
| "on_broadcast sent_ok actor SenderClosed s = s\<lparr>open_loop := False\<rparr>"

definition on_tick ::
    "bool \<Rightarrow> auth_context \<Rightarrow> nat \<Rightarrow> timestamp \<Rightarrow> nat \<Rightarrow> bool \<Rightarrow> string \<Rightarrow> socket_state \<Rightarrow> socket_state" where
  "on_tick sent_ok actor pong_timeout wall ticks revalidated nonce s =
     (if ctx_expires_at actor \<le> wall \<or> \<not> revalidated then close_with sent_ok ''session expired'' s
      else if is_waiting (tracker s) then s
      else if sent_ok then
        s\<lparr>frames := FPing nonce # frames s, tracker := expect_pong nonce ticks pong_timeout (tracker s)\<rparr>
      else s\<lparr>open_loop := False\<rparr>)"

fun serve_step ::
    "auth_context \<Rightarrow> nat \<Rightarrow> socket_event \<times> bool \<Rightarrow> socket_state \<Rightarrow> socket_state" where
  "serve_step actor pong_timeout (Incoming m, sent_ok) s = on_incoming sent_ok m s"
| "serve_step actor pong_timeout (Broadcast e, sent_ok) s = on_broadcast sent_ok actor e s"
| "serve_step actor pong_timeout (DeadlineElapsed, sent_ok) s =
     (if is_waiting (tracker s) then close_with sent_ok ''heartbeat timeout'' s else s)"
| "serve_step actor pong_timeout (HeartbeatTick wall ticks revalidated nonce, sent_ok) s =
     on_tick sent_ok actor pong_timeout wall ticks revalidated nonce s"

definition serve_start :: "bool \<Rightarrow> nat \<Rightarrow> socket_state" where
  "serve_start sent_ok heartbeat_seconds =
     \<lparr>tracker = \<lparr>pending = None\<rparr>,
      frames = (if sent_ok then [FText (Hello 1 heartbeat_seconds)] else []),
      open_loop = sent_ok\<rparr>"

fun serve_loop ::
    "auth_context \<Rightarrow> nat \<Rightarrow> socket_state \<Rightarrow> (socket_event \<times> bool) list \<Rightarrow> socket_state" where
  "serve_loop actor pong_timeout s [] = s"
| "serve_loop actor pong_timeout s (e # es) =
     (if open_loop s then serve_loop actor pong_timeout (serve_step actor pong_timeout e s) es else s)"

lemmas serve_defs = send_or_break_def close_with_def on_tick_def acknowledge_def expect_pong_def
  is_waiting_def Let_def

lemma serve_loop_closed: "\<not> open_loop s \<Longrightarrow> serve_loop actor timeout s es = s"
  by (cases es) simp_all

text \<open>What one step may add to the frames.\<close>

fun hint_for :: "auth_context \<Rightarrow> socket_event \<Rightarrow> string \<Rightarrow> bool" where
  "hint_for actor (Broadcast (Event i)) t =
     (inv_owner_id i = ctx_user_id actor \<and> t = show_int (inv_cursor i))"
| "hint_for actor _ t = False"

lemma hint_for_event: "hint_for actor e t \<Longrightarrow>
    \<exists>i. e = Broadcast (Event i) \<and> inv_owner_id i = ctx_user_id actor \<and> t = show_int (inv_cursor i)"
  by (cases "(actor, e, t)" rule: hint_for.cases) simp_all

lemma on_incoming_frames:
  "FText (SyncInvalidated t) \<in> set (frames (on_incoming ok m s)) \<longleftrightarrow>
     FText (SyncInvalidated t) \<in> set (frames s)"
  by (cases m) (auto simp: serve_defs)

lemma close_with_frames:
  "FText m \<in> set (frames (close_with ok reason s)) \<longleftrightarrow> FText m \<in> set (frames s)"
  by (simp add: close_with_def Let_def)

lemma on_tick_frames:
  "FText m \<in> set (frames (on_tick ok actor timeout wall ticks valid nonce s)) \<longleftrightarrow> FText m \<in> set (frames s)"
  by (simp add: on_tick_def close_with_frames)

lemma serve_step_frames:
  "FText (SyncInvalidated t) \<in> set (frames (serve_step actor timeout (e, ok) s)) \<Longrightarrow>
     FText (SyncInvalidated t) \<in> set (frames s) \<or> hint_for actor e t"
proof (cases e)
  case (Broadcast b)
  assume "FText (SyncInvalidated t) \<in> set (frames (serve_step actor timeout (e, ok) s))"
  with Broadcast show ?thesis
    by (cases b) (simp_all add: send_or_break_def split: if_splits, blast)
qed (simp_all add: on_incoming_frames on_tick_frames close_with_frames split: if_splits)

lemma serve_loop_hints:
  "FText (SyncInvalidated t) \<in> set (frames (serve_loop actor timeout s es)) \<Longrightarrow>
     FText (SyncInvalidated t) \<in> set (frames s)
     \<or> (\<exists>i ok. (Broadcast (Event i), ok) \<in> set es \<and> inv_owner_id i = ctx_user_id actor
           \<and> t = show_int (inv_cursor i))"
proof (induction es arbitrary: s)
  case (Cons e es)
  obtain ev ok where e: "e = (ev, ok)" by force
  show ?case
  proof (cases "open_loop s")
    case True
    with Cons.prems e have "FText (SyncInvalidated t)
        \<in> set (frames (serve_loop actor timeout (serve_step actor timeout (ev, ok) s) es))"
      by simp
    from Cons.IH [OF this] serve_step_frames [of t actor timeout ev ok s] show ?thesis
      by (auto simp: e dest: hint_for_event)
  qed (use Cons.prems in simp)
qed simp

text \<open>
  C13
  Owner isolation of the wake-up hints: whatever the clients, other instances and the network
  do, a socket is only ever told about a cursor that was broadcast for the user who
  authenticated it.
\<close>

theorem hints_only_for_owner:
  assumes "FText (SyncInvalidated t)
     \<in> set (frames (serve_loop actor timeout (serve_start ok heartbeat) events))"
  shows "\<exists>i sent. (Broadcast (Event i), sent) \<in> set events
     \<and> inv_owner_id i = ctx_user_id actor \<and> t = show_int (inv_cursor i)"
  using serve_loop_hints [OF assms] by (auto simp: serve_start_def split: if_splits)

definition sample_actor :: auth_context where
  "sample_actor = \<lparr>ctx_user_id = 3, ctx_email = ''a@b'', ctx_source = Bearer,
     ctx_supabase_session_id = None, ctx_session_hash = None, ctx_csrf_token = None,
     ctx_expires_at = 100\<rparr>"

definition sample_events :: "(socket_event \<times> bool) list" where
  "sample_events = [(Broadcast (Event \<lparr>inv_owner_id = 4, inv_cursor = 9\<rparr>), True),
                    (Broadcast (Event \<lparr>inv_owner_id = 3, inv_cursor = 8\<rparr>), True)]"

theorem hints_only_for_owner_witness:
  "\<exists>i sent. (Broadcast (Event i), sent) \<in> set sample_events
     \<and> inv_owner_id i = ctx_user_id sample_actor \<and> ''8'' = show_int (inv_cursor i)"
proof -
  have "show_int 8 = ''8''" by code_simp
  then have "FText (SyncInvalidated ''8'')
     \<in> set (frames (serve_loop sample_actor 10 (serve_start True 25) sample_events))"
    by (simp add: sample_events_def sample_actor_def serve_start_def send_or_break_def)
  from hints_only_for_owner [OF this] show ?thesis .
qed

text \<open>
  An unanswered challenge stays as it is: no event but its own pong clears it, and none
  replaces it, so its deadline cannot move.
\<close>

lemma pending_kept:
  assumes "pending (tracker s) = Some p" "e \<noteq> Incoming (InPong (pp_payload p))"
  shows "pending (tracker (serve_step actor timeout (e, ok) s)) = Some p"
proof (cases e)
  case (Incoming m)
  with assms show ?thesis by (cases m) (auto simp: serve_defs)
next
  case (Broadcast b)
  with assms show ?thesis by (cases b) (auto simp: serve_defs)
qed (use assms in \<open>auto simp: serve_defs\<close>)

lemma pending_kept_loop:
  assumes "pending (tracker s) = Some p"
    and "\<forall>ok. (Incoming (InPong (pp_payload p)), ok) \<notin> set es"
  shows "pending (tracker (serve_loop actor timeout s es)) = Some p"
  using assms
proof (induction es arbitrary: s)
  case (Cons e es)
  obtain ev ok where e: "e = (ev, ok)" by force
  with Cons.prems have "pending (tracker (serve_step actor timeout e s)) = Some p"
    by (auto intro!: pending_kept)
  with Cons show ?case by simp
qed simp

text \<open>
  Liveness challenges cannot be outrun: while a ping is unanswered, no mixture of traffic,
  other pongs and heartbeat ticks replaces it or moves its deadline, and when the deadline
  branch is taken the connection closes and sends nothing more.
\<close>

theorem challenge_deadline_fixed:
  assumes "pending (tracker s) = Some p"
    and "\<And>ok. (Incoming (InPong (pp_payload p)), ok) \<notin> set events"
  shows "pong_deadline (tracker (serve_loop actor timeout s events)) = Some (pp_deadline p)
    \<and> (let s' = serve_step actor timeout (DeadlineElapsed, sent)
                  (serve_loop actor timeout s events)
       in \<not> open_loop s' \<and> serve_loop actor timeout s' later = s')"
  using pending_kept_loop [of s p events actor timeout] assms
  by (simp add: pong_deadline_def Let_def is_waiting_def close_with_def serve_loop_closed)

definition waiting_state :: socket_state where
  "waiting_state = \<lparr>tracker = \<lparr>pending = Some \<lparr>pp_payload = ''n'', pp_deadline = 35\<rparr>\<rparr>,
     frames = [], open_loop = True\<rparr>"

theorem challenge_deadline_fixed_witness:
  "pong_deadline (tracker (serve_loop sample_actor 10 waiting_state
     [(Incoming (InPong ''m''), True), (HeartbeatTick 50 60 True ''k'', True)])) = Some 35"
  using challenge_deadline_fixed [of waiting_state "\<lparr>pp_payload = ''n'', pp_deadline = 35\<rparr>"
     "[(Incoming (InPong ''m''), True), (HeartbeatTick 50 60 True ''k'', True)]" sample_actor 10]
  by (simp add: waiting_state_def)

text \<open>
  A heartbeat at which the session has expired or is no longer valid ends the connection: the
  loop stops, at most the close frame is written, and nothing that happens later is sent.
\<close>

theorem revoked_session_closes_socket:
  assumes "ctx_expires_at actor \<le> wall \<or> \<not> revalidated"
  shows "serve_loop actor timeout s ((HeartbeatTick wall ticks revalidated nonce, sent) # later) =
     (if open_loop s then s\<lparr>frames := (if sent then [FClose ''session expired''] else []) @ frames s,
                           open_loop := False\<rparr>
      else s)"
  using assms by (auto simp: on_tick_def close_with_def Let_def serve_loop_closed)

theorem revoked_session_closes_socket_witness:
  "serve_loop sample_actor 10 waiting_state
      [(HeartbeatTick 50 60 False ''k'', True), (Incoming (InPing ''x''), True)] =
   waiting_state\<lparr>frames := [FClose ''session expired''], open_loop := False\<rparr>"
  using revoked_session_closes_socket [of sample_actor 50 False 10 waiting_state 60 "''k''" True
      "[(Incoming (InPing ''x''), True)]"]
  by (simp add: waiting_state_def)

end
