(* ===== verification/Sync.thy ===== *)
theory Sync
  imports Hub
begin

text \<open>
  The sync protocol and its service, \<open>src/sync/protocol.rs\<close> and \<open>src/sync/service.rs\<close>, over
  the tables of \<open>crates/canonical-store/src/entity\<close> with the check constraints of the
  migration. \<open>apply_mutation\<close> is one transaction: its answer is an error, in which case the
  transaction is dropped and nothing was written, or a result with the new tables.
\<close>

section \<open>Protocol\<close>

definition PROTOCOL_VERSION :: nat where "PROTOCOL_VERSION = 1"
definition DRAFT_NOTE_KIND :: string where "DRAFT_NOTE_KIND = ''draft_note''"
definition MAX_BATCH_SIZE :: nat where "MAX_BATCH_SIZE = 50"
definition DEFAULT_PAGE_SIZE :: nat where "DEFAULT_PAGE_SIZE = 200"
definition MAX_PAGE_SIZE :: nat where "MAX_PAGE_SIZE = 500"
definition MAX_PAGE_CANDIDATES :: nat where "MAX_PAGE_CANDIDATES = 16"
definition MAX_PAGE_ENCODED_BYTES :: nat where "MAX_PAGE_ENCODED_BYTES = 1024 * 1024"

record record_key =
  rk_kind :: string
  rk_id :: uuid

datatype mutation_action = Put | Delete

record draft_note =
  dn_title :: string
  dn_body :: string

record mutation =
  m_mutation_id :: uuid
  m_key :: record_key
  m_action :: mutation_action
  m_base_version :: "string option"
  m_schema_version :: nat
  m_value :: "draft_note option"

record mutation_batch =
  mb_protocol_version :: nat
  mb_client_id :: uuid
  mb_operations :: "mutation list"

record record_snapshot =
  rs_key :: record_key
  rs_version :: string
  rs_schema_version :: nat
  rs_deleted :: bool
  rs_value :: "draft_note option"

datatype mutation_status = Applied | Conflict | Gone | Invalid | IdempotencyKeyReused

record mutation_result =
  mr_mutation_id :: uuid
  mr_status :: mutation_status
  mr_record :: "record_snapshot option"
  mr_message :: "string option"

record pull_query =
  pq_cursor :: "string option"
  pq_limit :: "nat option"

record pull_response =
  pr_changes :: "record_snapshot list"
  pr_next_cursor :: string
  pr_caught_up :: bool

subsection \<open>JSON forms\<close>

text \<open>The columns \<open>payload\<close> and \<open>result\<close> hold these values.\<close>

definition note_to_json :: "draft_note \<Rightarrow> json" where
  "note_to_json n = JObj [(''title'', JStr (dn_title n)), (''body'', JStr (dn_body n))]"

definition note_of_json :: "json \<Rightarrow> draft_note option" where
  "note_of_json j =
     Option.bind (struct_fields [''title'', ''body''] j) (\<lambda>fs.
       case fs of
         [t, b] \<Rightarrow>
           Option.bind (required_field as_str t) (\<lambda>t.
           Option.bind (required_field as_str b) (\<lambda>b.
             Some \<lparr>dn_title = t, dn_body = b\<rparr>))
       | _ \<Rightarrow> None)"

definition key_to_json :: "ext \<Rightarrow> record_key \<Rightarrow> json" where
  "key_to_json x k = JObj [(''kind'', JStr (rk_kind k)), (''id'', JStr (uuid_text x (rk_id k)))]"

definition key_of_json :: "ext \<Rightarrow> json \<Rightarrow> record_key option" where
  "key_of_json x j =
     Option.bind (struct_fields [''kind'', ''id''] j) (\<lambda>fs.
       case fs of
         [k, i] \<Rightarrow>
           Option.bind (required_field as_str k) (\<lambda>k.
           Option.bind (required_field (uuid_of_json x) i) (\<lambda>i.
             Some \<lparr>rk_kind = k, rk_id = i\<rparr>))
       | _ \<Rightarrow> None)"

definition snapshot_to_json :: "ext \<Rightarrow> record_snapshot \<Rightarrow> json" where
  "snapshot_to_json x s =
     JObj ([(''key'', key_to_json x (rs_key s)),
            (''version'', JStr (rs_version s)),
            (''schemaVersion'', JInt (int (rs_schema_version s))),
            (''deleted'', JBool (rs_deleted s))]
           @ (case rs_value s of None \<Rightarrow> [] | Some n \<Rightarrow> [(''value'', note_to_json n)]))"

definition snapshot_of_json :: "ext \<Rightarrow> json \<Rightarrow> record_snapshot option" where
  "snapshot_of_json x j =
     Option.bind (struct_fields [''key'', ''version'', ''schemaVersion'', ''deleted'', ''value''] j)
       (\<lambda>fs. case fs of
         [k, v, s, d, n] \<Rightarrow>
           Option.bind (required_field (key_of_json x) k) (\<lambda>k.
           Option.bind (required_field as_str v) (\<lambda>v.
           Option.bind (required_field as_u8 s) (\<lambda>s.
           Option.bind (required_field as_bool d) (\<lambda>d.
           Option.bind (option_field note_of_json n) (\<lambda>n.
             Some \<lparr>rs_key = k, rs_version = v, rs_schema_version = s, rs_deleted = d, rs_value = n\<rparr>)))))
       | _ \<Rightarrow> None)"

fun status_name :: "mutation_status \<Rightarrow> string" where
  "status_name Applied = ''applied''"
| "status_name Conflict = ''conflict''"
| "status_name Gone = ''gone''"
| "status_name Invalid = ''invalid''"
| "status_name IdempotencyKeyReused = ''idempotency_key_reused''"

definition status_of_json :: "json \<Rightarrow> mutation_status option" where
  "status_of_json j =
     Option.bind (as_str j) (\<lambda>s.
       find (\<lambda>m. status_name m = s) [Applied, Conflict, Gone, Invalid, IdempotencyKeyReused])"

definition result_to_json :: "ext \<Rightarrow> mutation_result \<Rightarrow> json" where
  "result_to_json x r =
     JObj ([(''mutationId'', JStr (uuid_text x (mr_mutation_id r))),
            (''status'', JStr (status_name (mr_status r)))]
           @ (case mr_record r of None \<Rightarrow> [] | Some s \<Rightarrow> [(''record'', snapshot_to_json x s)])
           @ (case mr_message r of None \<Rightarrow> [] | Some m \<Rightarrow> [(''message'', JStr m)]))"

definition result_of_json :: "ext \<Rightarrow> json \<Rightarrow> mutation_result option" where
  "result_of_json x j =
     Option.bind (struct_fields [''mutationId'', ''status'', ''record'', ''message''] j)
       (\<lambda>fs. case fs of
         [i, s, r, m] \<Rightarrow>
           Option.bind (required_field (uuid_of_json x) i) (\<lambda>i.
           Option.bind (required_field status_of_json s) (\<lambda>s.
           Option.bind (option_field (snapshot_of_json x) r) (\<lambda>r.
           Option.bind (option_field as_str m) (\<lambda>m.
             Some \<lparr>mr_mutation_id = i, mr_status = s, mr_record = r, mr_message = m\<rparr>))))
       | _ \<Rightarrow> None)"

text \<open>\<open>Option\<close> fields of a mutation are not skipped, so an absent one is \<open>null\<close>.\<close>

fun action_name :: "mutation_action \<Rightarrow> string" where
  "action_name Put = ''put''"
| "action_name Delete = ''delete''"

definition mutation_to_json :: "ext \<Rightarrow> mutation \<Rightarrow> json" where
  "mutation_to_json x m =
     JObj [(''mutationId'', JStr (uuid_text x (m_mutation_id m))),
           (''key'', key_to_json x (m_key m)),
           (''action'', JStr (action_name (m_action m))),
           (''baseVersion'', (case m_base_version m of None \<Rightarrow> JNull | Some v \<Rightarrow> JStr v)),
           (''schemaVersion'', JInt (int (m_schema_version m))),
           (''value'', (case m_value m of None \<Rightarrow> JNull | Some n \<Rightarrow> note_to_json n))]"

text \<open>The hash a receipt keeps of the whole mutation.\<close>

definition request_digest :: "ext \<Rightarrow> mutation \<Rightarrow> string" where
  "request_digest x m = b64_encode x (sha256 x (json_text x (mutation_to_json x m)))"

lemma note_json_roundtrip [simp]: "note_of_json (note_to_json n) = Some n"
  by (simp add: note_of_json_def note_to_json_def no_duplicate_of_def)

lemma key_json_roundtrip: "uuid_law x \<Longrightarrow> key_of_json x (key_to_json x k) = Some k"
  by (simp add: key_of_json_def key_to_json_def no_duplicate_of_def uuid_of_json_def uuid_law_def)

lemma option_field_note [simp]:
  "option_field note_of_json (Some (note_to_json n)) = Some (Some n)"
  by (simp add: note_to_json_def note_of_json_def no_duplicate_of_def)

lemma snapshot_json_roundtrip:
  "uuid_law x \<Longrightarrow> rs_schema_version s < 256 \<Longrightarrow> snapshot_of_json x (snapshot_to_json x s) = Some s"
  by (cases "rs_value s")
     (simp_all add: snapshot_of_json_def snapshot_to_json_def no_duplicate_of_def key_json_roundtrip)

lemma status_roundtrip [simp]: "status_of_json (JStr (status_name m)) = Some m"
  by (cases m) (simp_all add: status_of_json_def)

lemma option_field_snapshot:
  "uuid_law x \<Longrightarrow> rs_schema_version s < 256 \<Longrightarrow>
     option_field (snapshot_of_json x) (Some (snapshot_to_json x s)) = Some (Some s)"
  using snapshot_json_roundtrip [of x s] by (simp add: snapshot_to_json_def)

lemma result_json_roundtrip:
  assumes "uuid_law x" "\<forall>s. mr_record r = Some s \<longrightarrow> rs_schema_version s < 256"
  shows "result_of_json x (result_to_json x r) = Some r"
  using assms
  by (cases "mr_record r"; cases "mr_message r")
     (simp_all add: result_of_json_def result_to_json_def no_duplicate_of_def uuid_of_json_def
        uuid_law_def option_field_snapshot)

section \<open>Tables\<close>

record record_row =
  rr_version :: int
  rr_payload :: json
  rr_deleted_at :: "timestamp option"
  rr_updated_at :: timestamp

record change_row =
  ch_collection :: string
  ch_record_id :: uuid
  ch_version :: int
  ch_operation :: string
  ch_payload :: json
  ch_changed_at :: timestamp

record receipt_row =
  rc_request_hash :: string
  rc_result :: json
  rc_created_at :: timestamp

type_synonym record_id = "uuid \<times> string \<times> uuid"

text \<open>
  \<open>notified\<close> collects the \<open>pg_notify\<close> payloads, which PostgreSQL releases at commit.
\<close>

record sync_db =
  clocks :: "(uuid, int) store"
  records :: "(record_id, record_row) store"
  changes :: "(uuid \<times> int, change_row) store"
  receipts :: "(uuid \<times> uuid \<times> uuid, receipt_row) store"
  notified :: "string list"

definition empty_db :: sync_db where
  "empty_db = \<lparr>clocks = [], records = [], changes = [], receipts = [], notified = []\<rparr>"

text \<open>
  An insert fails on a taken primary key, an update on a missing row, and both on a violated
  check constraint.
\<close>

definition insert_row :: "('v \<Rightarrow> bool) \<Rightarrow> 'k \<Rightarrow> 'v \<Rightarrow> ('k, 'v) store \<Rightarrow> app_error + ('k, 'v) store" where
  "insert_row checked k v t =
     (if find_by k t \<noteq> None \<or> \<not> checked v then Inl Database else Inr (put k v t))"

definition update_row :: "('v \<Rightarrow> bool) \<Rightarrow> 'k \<Rightarrow> 'v \<Rightarrow> ('k, 'v) store \<Rightarrow> app_error + ('k, 'v) store" where
  "update_row checked k v t =
     (if find_by k t = None \<or> \<not> checked v then Inl Database else Inr (put k v t))"

lemma insert_row_Inr [bool_rules]:
  "insert_row c k v t = Inr t' \<longleftrightarrow> find_by k t = None \<and> c v \<and> t' = put k v t"
  by (auto simp: insert_row_def)

lemma update_row_Inr [bool_rules]:
  "update_row c k v t = Inr t' \<longleftrightarrow> find_by k t \<noteq> None \<and> c v \<and> t' = put k v t"
  by (auto simp: update_row_def)

definition clock_check :: "int \<Rightarrow> bool" where
  "clock_check cursor \<longleftrightarrow> 0 \<le> cursor"

definition record_check :: "record_row \<Rightarrow> bool" where
  "record_check r \<longleftrightarrow> 0 < rr_version r"

definition change_check :: "int \<Rightarrow> change_row \<Rightarrow> bool" where
  "change_check cursor c \<longleftrightarrow> 0 < cursor \<and> 0 < ch_version c \<and> ch_operation c \<in> {''put'', ''delete''}"

definition clock_of :: "uuid \<Rightarrow> sync_db \<Rightarrow> int" where
  "clock_of owner db = (case find_by owner (clocks db) of Some c \<Rightarrow> c | None \<Rightarrow> 0)"

section \<open>Validation\<close>

definition valid_base_version :: "string option \<Rightarrow> bool" where
  "valid_base_version value =
     (case value of
        None \<Rightarrow> True
      | Some v \<Rightarrow>
          v = ''0''
          \<or> ((case v of [] \<Rightarrow> False | first # _ \<Rightarrow> is_digit first \<and> first \<noteq> CHR ''0'')
             \<and> list_all is_digit v \<and> parse_i64 v \<noteq> None))"

definition parse_base_version :: "mutation \<Rightarrow> app_error + int option" where
  "parse_base_version m =
     (case m_base_version m of
        None \<Rightarrow> Inr None
      | Some v \<Rightarrow>
          (case parse_i64 v of
             None \<Rightarrow> Inl (BadRequest ''baseVersion must be a signed 64-bit decimal string'')
           | Some n \<Rightarrow> Inr (Some n)))"

definition mutation_problem :: "mutation \<Rightarrow> string option" where
  "mutation_problem m =
     (if rk_kind (m_key m) \<noteq> DRAFT_NOTE_KIND then Some ''unsupported record kind''
      else if m_schema_version m \<noteq> 1 then Some ''unsupported draft_note schema version''
      else if \<not> valid_base_version (m_base_version m) then
        Some ''baseVersion must be a canonical non-negative 64-bit decimal string''
      else case (m_action m, m_value m) of
             (Put, Some note) \<Rightarrow>
               if chars_count (dn_title note) \<le> 200 \<and> chars_count (dn_body note) \<le> 100000 then None
               else Some ''draft note exceeds its size limit''
           | (Put, None) \<Rightarrow> Some ''put requires a value''
           | (Delete, Some _) \<Rightarrow> Some ''delete must not include a value''
           | (Delete, None) \<Rightarrow> None)"

definition result_with ::
    "mutation \<Rightarrow> mutation_status \<Rightarrow> record_snapshot option \<Rightarrow> string option \<Rightarrow> mutation_result" where
  "result_with m status rec message =
     \<lparr>mr_mutation_id = m_mutation_id m, mr_status = status, mr_record = rec, mr_message = message\<rparr>"

definition validate_mutation :: "mutation \<Rightarrow> mutation_result option" where
  "validate_mutation m =
     map_option (\<lambda>message. result_with m Invalid None (Some message)) (mutation_problem m)"

lemma parse_i64_canonical:
  assumes "parse_i64 (c # s) = Some v" "list_all is_digit (c # s)" "c \<noteq> CHR ''0''"
  shows "0 \<le> v \<and> show_int v = c # s"
proof -
  have "c \<noteq> CHR ''-''" "c \<noteq> CHR ''+''" using assms(2) by (auto simp: is_digit_def chr_in_def)
  then obtain n where n: "parse_nat (c # s) = Some n" "v = int n"
    using assms(1) by (auto simp: parse_i64_def Let_def split: option.splits if_splits)
  then show ?thesis using show_parse_nat [OF n(1) assms(3)] by (simp add: show_int_def)
qed

lemma show_int_canonical:
  assumes "0 < v"
  shows "\<exists>c s. show_int v = c # s \<and> is_digit c \<and> c \<noteq> CHR ''0'' \<and> list_all is_digit s"
proof -
  have s: "show_int v = show_nat (nat v)" using assms by (simp add: show_int_def)
  moreover have "hd (show_nat (nat v)) \<noteq> CHR ''0''" using assms hd_show_nat [of "nat v"] by simp
  ultimately show ?thesis
    using show_nat_digits [of "nat v"] by (cases "show_nat (nat v)") auto
qed

lemma show_zero: "show_int 0 = ''0''"
  by code_simp

text \<open>
  The accepted base versions are exactly the canonical decimal forms of the non-negative
  64-bit integers: no sign, no leading zero, no overflow. So a base version that passes
  validation always parses, and two spellings never stand for one version.
\<close>

theorem base_version_canonical:
  "valid_base_version (Some s) = (\<exists>v. 0 \<le> v \<and> v \<le> i64_max \<and> s = show_int v)"
proof
  assume ok: "valid_base_version (Some s)"
  show "\<exists>v. 0 \<le> v \<and> v \<le> i64_max \<and> s = show_int v"
  proof (cases "s = ''0''")
    case True
    then show ?thesis by (intro exI [of _ 0]) (simp add: show_zero i64_max_def)
  next
    case False
    with ok obtain c r v where s: "s = c # r" "c \<noteq> CHR ''0''" "list_all is_digit (c # r)"
        "parse_i64 (c # r) = Some v"
      by (auto simp: valid_base_version_def split: list.splits)
    then have "in_i64 v" by (auto simp: parse_i64_def Let_def split: option.splits if_splits)
    with parse_i64_canonical [OF s(4,3,2)] s(1) show ?thesis
      by (auto simp: in_i64_def)
  qed
next
  assume "\<exists>v. 0 \<le> v \<and> v \<le> i64_max \<and> s = show_int v"
  then obtain v where v: "0 \<le> v" "v \<le> i64_max" "s = show_int v" by blast
  then have p: "parse_i64 s = Some v"
    by (simp add: parse_i64_show in_i64_def i64_min_def)
  show "valid_base_version (Some s)"
  proof (cases "v = 0")
    case True
    with v show ?thesis by (simp add: valid_base_version_def show_zero)
  next
    case False
    with v show_int_canonical [of v] p show ?thesis
      by (auto simp: valid_base_version_def)
  qed
qed

section \<open>Applying a mutation\<close>

definition snapshot_from_record :: "record_id \<Rightarrow> record_row \<Rightarrow> app_error + record_snapshot" where
  "snapshot_from_record rid model =
     try_then (if rr_deleted_at model \<noteq> None then Inr None
               else try_then (ok_or (note_of_json (rr_payload model)) Serialization) (\<lambda>n. Inr (Some n)))
       (\<lambda>value. Inr \<lparr>rs_key = \<lparr>rk_kind = fst (snd rid), rk_id = snd (snd rid)\<rparr>,
                     rs_version = show_int (rr_version model), rs_schema_version = 1,
                     rs_deleted = (rr_deleted_at model \<noteq> None), rs_value = value\<rparr>)"

definition write_change ::
    "ext \<Rightarrow> timestamp \<Rightarrow> uuid \<Rightarrow> int \<Rightarrow> record_snapshot \<Rightarrow> sync_db \<Rightarrow> app_error + int \<times> sync_db" where
  "write_change x now owner cursor snapshot db =
     try_then (update_row clock_check owner cursor (clocks db)) (\<lambda>cs.
     try_then (ok_or (parse_i64 (rs_version snapshot)) (BadRequest ''invalid internal record version''))
       (\<lambda>version.
     let row = \<lparr>ch_collection = rk_kind (rs_key snapshot), ch_record_id = rk_id (rs_key snapshot),
                ch_version = version,
                ch_operation = (if rs_deleted snapshot then ''delete'' else ''put''),
                ch_payload = snapshot_to_json x snapshot, ch_changed_at = now\<rparr>
     in try_then (insert_row (change_check cursor) (owner, cursor) row (changes db)) (\<lambda>chs.
        Inr (cursor, db\<lparr>clocks := cs, changes := chs\<rparr>))))"

definition store_receipt ::
    "ext \<Rightarrow> timestamp \<Rightarrow> uuid \<times> uuid \<times> uuid \<Rightarrow> string \<Rightarrow> mutation_result \<Rightarrow> sync_db
       \<Rightarrow> app_error + sync_db" where
  "store_receipt x now rid request_hash result db =
     try_then (insert_row (\<lambda>_. True) rid
         \<lparr>rc_request_hash = request_hash, rc_result = result_to_json x result, rc_created_at = now\<rparr>
         (receipts db)) (\<lambda>rs.
     Inr (db\<lparr>receipts := rs\<rparr>))"

text \<open>The row of a committed put or delete, and its snapshot and change.\<close>

definition commit_row ::
    "ext \<Rightarrow> timestamp \<Rightarrow> uuid \<Rightarrow> int \<Rightarrow> record_id \<Rightarrow> record_row \<Rightarrow> mutation
       \<Rightarrow> (record_id, record_row) store \<Rightarrow> sync_db
       \<Rightarrow> app_error + (mutation_result \<times> int option) \<times> sync_db" where
  "commit_row x now owner clock_cursor rid row m recs db =
     try_then (snapshot_from_record rid row) (\<lambda>snapshot.
     try_then (write_change x now owner (i64_wrap (clock_cursor + 1)) snapshot (db\<lparr>records := recs\<rparr>))
       (\<lambda>(cursor, db). Inr ((result_with m Applied (Some snapshot) None, Some cursor), db)))"

text \<open>
  The \<open>match (current, mutation.action)\<close>. A put that passed validation has a value, so the
  code's \<open>expect\<close> cannot fail; the model answers a failed \<open>expect\<close> with an error.
\<close>

definition decide ::
    "ext \<Rightarrow> timestamp \<Rightarrow> uuid \<Rightarrow> int \<Rightarrow> int option \<Rightarrow> mutation \<Rightarrow> sync_db
       \<Rightarrow> app_error + (mutation_result \<times> int option) \<times> sync_db" where
  "decide x now owner clock_cursor base_version m db =
     (let rid = (owner, rk_kind (m_key m), rk_id (m_key m))
      in case (find_by rid (records db), m_action m) of
           (None, Delete) \<Rightarrow>
             Inr ((result_with m Gone None (Some ''record does not exist''), None), db)
         | (None, Put) \<Rightarrow>
             if base_version \<noteq> None then
               Inr ((result_with m Conflict None (Some ''record was removed or never existed''), None), db)
             else
               try_then (ok_or (m_value m) Serialization) (\<lambda>value.
               let row = \<lparr>rr_version = 1, rr_payload = note_to_json value, rr_deleted_at = None,
                          rr_updated_at = now\<rparr>
               in try_then (insert_row record_check rid row (records db)) (\<lambda>recs.
                  commit_row x now owner clock_cursor rid row m recs db))
         | (Some model, action) \<Rightarrow>
             if rr_deleted_at model \<noteq> None then
               try_then (snapshot_from_record rid model) (\<lambda>s.
               Inr ((result_with m Gone (Some s) (Some ''deleted record IDs cannot be reused''), None), db))
             else if Some (rr_version model) \<noteq> base_version then
               try_then (snapshot_from_record rid model) (\<lambda>s.
               Inr ((result_with m Conflict (Some s) (Some ''base version is stale''), None), db))
             else
               let active = model\<lparr>rr_version := i64_wrap (rr_version model + 1), rr_updated_at := now\<rparr>
               in try_then
                    (case action of
                       Put \<Rightarrow> try_then (ok_or (m_value m) Serialization) (\<lambda>value.
                                Inr (active\<lparr>rr_payload := note_to_json value, rr_deleted_at := None\<rparr>))
                     | Delete \<Rightarrow> Inr (active\<lparr>rr_deleted_at := Some now\<rparr>)) (\<lambda>row.
                  try_then (update_row record_check rid row (records db)) (\<lambda>recs.
                  commit_row x now owner clock_cursor rid row m recs db)))"

text \<open>
  \<open>me\<close> is the instance the hub names in its hints. The insert of the clock row does nothing
  when the row exists.
\<close>

definition apply_mutation ::
    "ext \<Rightarrow> uuid \<Rightarrow> timestamp \<Rightarrow> uuid \<Rightarrow> uuid \<Rightarrow> mutation \<Rightarrow> sync_db
       \<Rightarrow> app_error + (mutation_result \<times> int option) \<times> sync_db" where
  "apply_mutation x me now owner client m db =
     (let request_hash = request_digest x m;
          rid = (owner, client, m_mutation_id m);
          db = (if find_by owner (clocks db) = None then db\<lparr>clocks := put owner 0 (clocks db)\<rparr> else db)
      in try_then (ok_or (find_by owner (clocks db)) (BadRequest ''sync clock was not initialized''))
         (\<lambda>clock_cursor.
      case find_by rid (receipts db) of
        Some receipt \<Rightarrow>
          if rc_request_hash receipt = request_hash then
            try_then (ok_or (result_of_json x (rc_result receipt)) Serialization) (\<lambda>result.
            Inr ((result, None), db))
          else
            Inr ((result_with m IdempotencyKeyReused None
                   (Some ''mutation ID was already used for different content''), None), db)
      | None \<Rightarrow>
          (case validate_mutation m of
             Some result \<Rightarrow>
               try_then (store_receipt x now rid request_hash result db) (\<lambda>db.
               Inr ((result, None), db))
           | None \<Rightarrow>
               try_then (parse_base_version m) (\<lambda>base_version.
               try_then (decide x now owner clock_cursor base_version m db) (\<lambda>((result, applied), db).
               try_then (case applied of
                           None \<Rightarrow> Inr db
                         | Some cursor \<Rightarrow>
                             try_then (backplane_payload x me owner cursor) (\<lambda>payload.
                             Inr (db\<lparr>notified := notified db @ [payload]\<rparr>))) (\<lambda>db.
               try_then (store_receipt x now rid request_hash result db) (\<lambda>db.
               Inr ((result, applied), db))))))))"

text \<open>
  A batch is a transaction per mutation, in order; an error stops it and leaves what was
  already committed. The hints broadcast to this instance come with the answer.
\<close>

fun push_operations ::
    "ext \<Rightarrow> uuid \<Rightarrow> timestamp \<Rightarrow> uuid \<Rightarrow> uuid \<Rightarrow> mutation list \<Rightarrow> sync_db
       \<Rightarrow> (app_error + mutation_result list) \<times> invalidation list \<times> sync_db" where
  "push_operations x me now owner client [] db = (Inr [], [], db)"
| "push_operations x me now owner client (m # ms) db =
     (case apply_mutation x me now owner client m db of
        Inl e \<Rightarrow> (Inl e, [], db)
      | Inr ((result, cursor), db') \<Rightarrow>
          (let hint = (case cursor of None \<Rightarrow> []
                       | Some c \<Rightarrow> [\<lparr>inv_owner_id = owner, inv_cursor = c\<rparr>]);
               (rest, hints, db'') = push_operations x me now owner client ms db'
           in (try_then rest (\<lambda>rs. Inr (result # rs)), hint @ hints, db'')))"

definition push_mutations ::
    "ext \<Rightarrow> uuid \<Rightarrow> timestamp \<Rightarrow> auth_context \<Rightarrow> mutation_batch \<Rightarrow> sync_db
       \<Rightarrow> (app_error + mutation_result list) \<times> invalidation list \<times> sync_db" where
  "push_mutations x me now actor batch db =
     (if mb_protocol_version batch \<noteq> PROTOCOL_VERSION then
        (Inl (BadRequest ''unsupported sync protocol version''), [], db)
      else if mb_operations batch = [] \<or> MAX_BATCH_SIZE < length (mb_operations batch) then
        (Inl (BadRequest ''operations must contain between 1 and 50 items''), [], db)
      else push_operations x me now (ctx_user_id actor) (mb_client_id batch)
             (mb_operations batch) db)"

section \<open>What one transaction does\<close>

definition rid_of :: "uuid \<Rightarrow> mutation \<Rightarrow> record_id" where
  "rid_of owner m = (owner, rk_kind (m_key m), rk_id (m_key m))"

definition with_clock :: "uuid \<Rightarrow> sync_db \<Rightarrow> sync_db" where
  "with_clock owner db =
     (if find_by owner (clocks db) = None then db\<lparr>clocks := put owner 0 (clocks db)\<rparr> else db)"

text \<open>The compare-and-swap rule: which row a valid mutation may write over which.\<close>

definition cas :: "timestamp \<Rightarrow> mutation \<Rightarrow> record_row option \<Rightarrow> record_row \<Rightarrow> bool" where
  "cas now m old new =
     (case old of
        None \<Rightarrow> m_action m = Put \<and> m_base_version m = None
          \<and> (\<exists>n. m_value m = Some n \<and> new = \<lparr>rr_version = 1, rr_payload = note_to_json n,
                rr_deleted_at = None, rr_updated_at = now\<rparr>)
      | Some model \<Rightarrow> rr_deleted_at model = None
          \<and> Option.bind (m_base_version m) parse_i64 = Some (rr_version model)
          \<and> (case m_action m of
               Put \<Rightarrow> (\<exists>n. m_value m = Some n \<and> new = \<lparr>rr_version = i64_wrap (rr_version model + 1),
                  rr_payload = note_to_json n, rr_deleted_at = None, rr_updated_at = now\<rparr>)
             | Delete \<Rightarrow> new = \<lparr>rr_version = i64_wrap (rr_version model + 1),
                  rr_payload = rr_payload model, rr_deleted_at = Some now, rr_updated_at = now\<rparr>))"

text \<open>The tables after an applied mutation, up to the receipt.\<close>

definition change_of :: "ext \<Rightarrow> timestamp \<Rightarrow> record_id \<Rightarrow> record_row \<Rightarrow> record_snapshot \<Rightarrow> change_row" where
  "change_of x now rid row snap =
     \<lparr>ch_collection = fst (snd rid), ch_record_id = snd (snd rid), ch_version = rr_version row,
      ch_operation = (if rs_deleted snap then ''delete'' else ''put''),
      ch_payload = snapshot_to_json x snap, ch_changed_at = now\<rparr>"

definition applied_to ::
    "ext \<Rightarrow> timestamp \<Rightarrow> uuid \<Rightarrow> mutation \<Rightarrow> int \<Rightarrow> record_row \<Rightarrow> record_snapshot \<Rightarrow> sync_db \<Rightarrow> sync_db \<Rightarrow> bool" where
  "applied_to x now owner m cursor row snap db db' \<longleftrightarrow>
     cursor = i64_wrap (clock_of owner db + 1) \<and> 0 < cursor
     \<and> cas now m (find_by (rid_of owner m) (records db)) row \<and> 0 < rr_version row
     \<and> snapshot_from_record (rid_of owner m) row = Inr snap
     \<and> find_by (owner, cursor) (changes db) = None
     \<and> records db' = put (rid_of owner m) row (records db)
     \<and> changes db' = put (owner, cursor) (change_of x now (rid_of owner m) row snap) (changes db)
     \<and> clocks db' = put owner cursor (clocks (with_clock owner db))"

definition unapplied_to :: "uuid \<Rightarrow> sync_db \<Rightarrow> sync_db \<Rightarrow> bool" where
  "unapplied_to owner db db' \<longleftrightarrow>
     records db' = records db \<and> changes db' = changes db \<and> clocks db' = clocks (with_clock owner db)
     \<and> notified db' = notified db"

lemma snapshot_fields:
  "snapshot_from_record rid row = Inr s \<Longrightarrow>
     rs_key s = \<lparr>rk_kind = fst (snd rid), rk_id = snd (snd rid)\<rparr>
     \<and> rs_version s = show_int (rr_version row) \<and> rs_schema_version s = 1
     \<and> rs_deleted s = (rr_deleted_at row \<noteq> None)"
  by (auto simp: snapshot_from_record_def try_then_Inr)

lemma write_change_Inr:
  assumes "write_change x now owner cursor snap db = Inr (c, db')"
    and "snapshot_from_record rid row = Inr snap" and "in_i64 (rr_version row)"
  shows "c = cursor \<and> 0 < cursor \<and> 0 < rr_version row \<and> find_by (owner, cursor) (changes db) = None
    \<and> db' = db\<lparr>clocks := put owner cursor (clocks db),
              changes := put (owner, cursor) (change_of x now rid row snap) (changes db)\<rparr>"
  using assms(1) snapshot_fields [OF assms(2)] parse_i64_show [OF assms(3)]
  by (auto simp: write_change_def try_then_Inr update_row_Inr insert_row_Inr Let_def change_of_def
        change_check_def ok_or_Inr)

lemma i64_wrap_range: "in_i64 (i64_wrap n)"
proof -
  have "0 \<le> (n + 2 ^ 63) mod 2 ^ 64" "(n + 2 ^ 63) mod 2 ^ 64 < (2 ^ 64 :: int)" by simp_all
  then show ?thesis by (simp add: in_i64_def i64_min_def i64_max_def i64_wrap_def)
qed

lemma in_i64_one: "in_i64 1"
  by (simp add: in_i64_def i64_min_def i64_max_def)

lemma cas_range: "cas now m old row \<Longrightarrow> in_i64 (rr_version row)"
  by (auto simp: cas_def i64_wrap_range in_i64_one split: option.splits mutation_action.splits)

lemma commit_row_Inr:
  assumes "commit_row x now owner (clock_of owner db) (rid_of owner m) row m
             (put (rid_of owner m) row (records db)) (with_clock owner db) = Inr ((r, cur), db')"
    and "cas now m (find_by (rid_of owner m) (records db)) row"
  shows "\<exists>snap cursor. applied_to x now owner m cursor row snap db db' \<and> cur = Some cursor
    \<and> r = result_with m Applied (Some snap) None \<and> receipts db' = receipts db
    \<and> notified db' = notified db"
proof -
  obtain snap cursor where snap: "snapshot_from_record (rid_of owner m) row = Inr snap"
    and w: "write_change x now owner (i64_wrap (clock_of owner db + 1)) snap
        ((with_clock owner db)\<lparr>records := put (rid_of owner m) row (records db)\<rparr>) = Inr (cursor, db')"
    and r: "r = result_with m Applied (Some snap) None" "cur = Some cursor"
    using assms(1) by (auto simp: commit_row_def try_then_Inr split: prod.splits)
  note c = write_change_Inr [OF w snap cas_range [OF assms(2)]]
  show ?thesis
    using c snap r assms(2)
    by (intro exI [of _ snap] exI [of _ cursor]) (auto simp: applied_to_def with_clock_def)
qed

lemma parse_base_version_Inr:
  "parse_base_version m = Inr b \<Longrightarrow> b = Option.bind (m_base_version m) parse_i64
     \<and> (b = None \<longleftrightarrow> m_base_version m = None)"
  by (cases "m_base_version m"; cases "parse_i64 (the (m_base_version m))")
     (auto simp: parse_base_version_def)

lemma decide_Inr:
  assumes "decide x now owner (clock_of owner db) b m (with_clock owner db) = Inr ((r, cur), db')"
    and "parse_base_version m = Inr b"
  shows "mr_mutation_id r = m_mutation_id m \<and> receipts db' = receipts db \<and> notified db' = notified db
    \<and> ((cur = None \<and> db' = with_clock owner db \<and> mr_status r \<in> {Gone, Conflict}
         \<and> (\<forall>s. mr_record r = Some s \<longrightarrow> rs_schema_version s = 1))
       \<or> (\<exists>row snap cursor. applied_to x now owner m cursor row snap db db' \<and> cur = Some cursor
            \<and> r = result_with m Applied (Some snap) None))"
proof -
  have rec: "records (with_clock owner db) = records db"
    "receipts (with_clock owner db) = receipts db" "notified (with_clock owner db) = notified db"
    by (simp_all add: with_clock_def)
  note b = parse_base_version_Inr [OF assms(2)]
  have wrap_up: "commit_row x now owner (clock_of owner db) (rid_of owner m) row m
       (put (rid_of owner m) row (records db)) (with_clock owner db) = Inr ((r, cur), db') \<Longrightarrow>
     cas now m (find_by (rid_of owner m) (records db)) row \<Longrightarrow> ?thesis" for row
    using commit_row_Inr [of x now owner db m row r cur db'] by (fastforce simp: result_with_def)
  show ?thesis
  proof (cases "find_by (rid_of owner m) (records db)")
    case None
    show ?thesis
    proof (cases "m_action m = Put \<and> b = None")
      case True
      with None assms(1) b obtain n where n: "m_value m = Some n"
        and c: "commit_row x now owner (clock_of owner db) (rid_of owner m)
          \<lparr>rr_version = 1, rr_payload = note_to_json n, rr_deleted_at = None, rr_updated_at = now\<rparr> m
          (put (rid_of owner m) \<lparr>rr_version = 1, rr_payload = note_to_json n, rr_deleted_at = None,
             rr_updated_at = now\<rparr> (records db)) (with_clock owner db) = Inr ((r, cur), db')"
        by (auto simp: decide_def Let_def rec rid_of_def try_then_Inr ok_or_Inr insert_row_Inr)
      show ?thesis by (rule wrap_up [OF c]) (use None True n b in \<open>auto simp: cas_def\<close>)
    next
      case False
      with None assms(1) show ?thesis
        by (cases "m_action m")
           (auto simp: decide_def Let_def rec rid_of_def result_with_def with_clock_def)
    qed
  next
    case (Some model)
    show ?thesis
    proof (cases "rr_deleted_at model = None \<and> Some (rr_version model) = b")
      case False
      with Some assms(1) show ?thesis
        by (auto simp: decide_def Let_def rec rid_of_def result_with_def try_then_Inr
              with_clock_def dest!: snapshot_fields split: if_splits)
    next
      case True
      let ?row = "\<lambda>p d. \<lparr>rr_version = i64_wrap (rr_version model + 1), rr_payload = p,
          rr_deleted_at = d, rr_updated_at = now\<rparr>"
      have "\<exists>row. cas now m (find_by (rid_of owner m) (records db)) row
          \<and> commit_row x now owner (clock_of owner db) (rid_of owner m) row m
            (put (rid_of owner m) row (records db)) (with_clock owner db) = Inr ((r, cur), db')"
        using Some True assms(1) b
        by (cases "m_action m"; cases model)
           (auto simp: decide_def Let_def rec rid_of_def try_then_Inr ok_or_Inr update_row_Inr cas_def)
      then show ?thesis using wrap_up by blast
    qed
  qed
qed

definition receipt_of :: "ext \<Rightarrow> timestamp \<Rightarrow> mutation \<Rightarrow> mutation_result \<Rightarrow> receipt_row" where
  "receipt_of x now m r =
     \<lparr>rc_request_hash = request_digest x m, rc_result = result_to_json x r, rc_created_at = now\<rparr>"

text \<open>
  A transaction either answers from the receipt of an earlier one, or runs and leaves a
  receipt; only the second kind can apply the mutation.
\<close>

lemma with_clock_simps [effect_simps, simp]:
  "records (with_clock owner db) = records db" "changes (with_clock owner db) = changes db"
  "receipts (with_clock owner db) = receipts db" "notified (with_clock owner db) = notified db"
  by (simp_all add: with_clock_def)

lemma clock_with_clock: "find_by owner (clocks (with_clock owner db)) = Some (clock_of owner db)"
  by (auto simp: with_clock_def clock_of_def split: option.splits)

lemma apply_replay:
  assumes "find_by (owner, client, m_mutation_id m) (receipts db) = Some receipt"
  shows "apply_mutation x me now owner client m db =
    (if rc_request_hash receipt = request_digest x m then
       try_then (ok_or (result_of_json x (rc_result receipt)) Serialization)
         (\<lambda>r. Inr ((r, None), with_clock owner db))
     else Inr ((result_with m IdempotencyKeyReused None
             (Some ''mutation ID was already used for different content''), None), with_clock owner db))"
  using assms clock_with_clock [of owner db]
  by (simp add: apply_mutation_def Let_def flip: with_clock_def)

lemma apply_fresh:
  assumes "find_by (owner, client, m_mutation_id m) (receipts db) = None"
    and "apply_mutation x me now owner client m db = Inr ((r, cur), db')"
  shows "mr_mutation_id r = m_mutation_id m
    \<and> receipts db' = put (owner, client, m_mutation_id m) (receipt_of x now m r) (receipts db)
    \<and> (\<forall>s. mr_record r = Some s \<longrightarrow> rs_schema_version s = 1)
    \<and> ((cur = None \<and> unapplied_to owner db db' \<and> mr_status r \<in> {Invalid, Gone, Conflict}
         \<and> (mr_status r = Invalid) = (validate_mutation m \<noteq> None))
       \<or> (\<exists>row snap cursor. applied_to x now owner m cursor row snap db db' \<and> cur = Some cursor
            \<and> validate_mutation m = None \<and> owner \<noteq> 0
            \<and> (\<exists>payload. backplane_payload x me owner cursor = Inr payload
                  \<and> notified db' = notified db @ [payload])
            \<and> r = result_with m Applied (Some snap) None))"
proof (cases "validate_mutation m")
  case (Some bad)
  with assms clock_with_clock [of owner db] show ?thesis
    by (auto simp: apply_mutation_def Let_def try_then_Inr store_receipt_def insert_row_Inr
          unapplied_to_def receipt_of_def validate_mutation_def result_with_def
        simp flip: with_clock_def)
next
  case None
  with assms clock_with_clock [of owner db] obtain b cur1 db1 db2
    where b: "parse_base_version m = Inr b"
    and d: "decide x now owner (clock_of owner db) b m (with_clock owner db) = Inr ((r, cur), db1)"
    and n: "(case cur of None \<Rightarrow> Inr db1 | Some cursor \<Rightarrow>
        try_then (backplane_payload x me owner cursor) (\<lambda>payload.
          Inr (db1\<lparr>notified := notified db1 @ [payload]\<rparr>))) = Inr db2"
    and s: "store_receipt x now (owner, client, m_mutation_id m) (request_digest x m) r db2 = Inr db'"
    by (auto simp: apply_mutation_def Let_def try_then_Inr split: prod.splits simp flip: with_clock_def)
  note d = decide_Inr [OF d b]
  have db': "records db' = records db2" "changes db' = changes db2" "clocks db' = clocks db2"
      "notified db' = notified db2"
      "receipts db' = put (owner, client, m_mutation_id m) (receipt_of x now m r) (receipts db2)"
    using s by (auto simp: store_receipt_def try_then_Inr insert_row_Inr receipt_of_def)
  show ?thesis
  proof (cases cur)
    case None
    with d n db' \<open>validate_mutation m = None\<close> show ?thesis
      by (auto simp: unapplied_to_def)
  next
    case (Some cursor)
    then obtain payload where p: "backplane_payload x me owner cursor = Inr payload"
      "db2 = db1\<lparr>notified := notified db1 @ [payload]\<rparr>"
      using n by (auto simp: try_then_Inr)
    obtain row snap where a: "applied_to x now owner m cursor row snap db db1"
      "r = result_with m Applied (Some snap) None"
      using d Some by auto
    then have "rs_schema_version snap = 1"
      using snapshot_fields by (fastforce simp: applied_to_def)
    moreover have "owner \<noteq> 0" using p(1) by (auto simp: backplane_payload_def)
    moreover have "applied_to x now owner m cursor row snap db db'"
      using a(1) db' p(2) by (auto simp: applied_to_def)
    ultimately show ?thesis
      using Some d db' p a(2) None by (auto simp: result_with_def)
  qed
qed

section \<open>Histories\<close>

text \<open>
  The transactions that reach the database, from any users, clients and instances and at any
  times; one that fails leaves it as it was.
\<close>

record sync_op =
  op_instance :: uuid
  op_now :: timestamp
  op_owner :: uuid
  op_client :: uuid
  op_mutation :: mutation

definition run_op :: "ext \<Rightarrow> sync_op \<Rightarrow> sync_db \<Rightarrow> sync_db" where
  "run_op x p db =
     (case apply_mutation x (op_instance p) (op_now p) (op_owner p) (op_client p) (op_mutation p) db of
        Inl _ \<Rightarrow> db
      | Inr (_, db') \<Rightarrow> db')"

definition history :: "ext \<Rightarrow> sync_op list \<Rightarrow> sync_db \<Rightarrow> sync_db" where
  "history x ops db = foldl (\<lambda>db p. run_op x p db) db ops"

lemma history_simps [simp]:
  "history x [] db = db"
  "history x (p # ops) db = history x ops (run_op x p db)"
  by (simp_all add: history_def)

lemma history_append: "history x (ops @ ops') db = history x ops' (history x ops db)"
  by (simp add: history_def)

text \<open>An invariant of single transactions is one of histories.\<close>

lemma history_invariant:
  "P db \<Longrightarrow> (\<And>db p. P db \<Longrightarrow> p \<in> set ops \<Longrightarrow> P (run_op x p db)) \<Longrightarrow> P (history x ops db)"
  by (induction ops arbitrary: db) auto

text \<open>The five ways a transaction can leave the tables.\<close>

lemma run_op_cases:
  fixes p db
  defines "owner \<equiv> op_owner p" and "m \<equiv> op_mutation p"
  shows "run_op x p db = db
    \<or> run_op x p db = with_clock owner db
    \<or> (find_by (owner, op_client p, m_mutation_id m) (receipts db) = None
       \<and> (\<exists>r. receipts (run_op x p db) = put (owner, op_client p, m_mutation_id m)
                (receipt_of x (op_now p) m r) (receipts db))
       \<and> (unapplied_to owner db (run_op x p db)
          \<or> (\<exists>row snap cursor.
                applied_to x (op_now p) owner m cursor row snap db (run_op x p db))))"
proof (cases "apply_mutation x (op_instance p) (op_now p) owner (op_client p) m db")
  case (Inl e)
  then show ?thesis by (simp add: run_op_def owner_def m_def)
next
  case (Inr t)
  obtain r cur db' where t: "t = ((r, cur), db')" by (cases t) auto
  have db': "run_op x p db = db'" using Inr t by (simp add: run_op_def owner_def m_def)
  show ?thesis
  proof (cases "find_by (owner, op_client p, m_mutation_id m) (receipts db)")
    case (Some receipt)
    with Inr t have "db' = with_clock owner db"
      by (auto simp: apply_replay try_then_Inr split: if_splits)
    with db' show ?thesis by simp
  next
    case None
    show ?thesis using apply_fresh [OF None] Inr t None db' by blast
  qed
qed

lemma receipts_kept:
  "find_by k (receipts db) = Some v \<Longrightarrow> find_by k (receipts (run_op x p db)) = Some v"
  using run_op_cases [of x p db] by (auto simp: store.look_ins)

lemma receipts_kept_history:
  "find_by k (receipts db) = Some v \<Longrightarrow> find_by k (receipts (history x ops db)) = Some v"
  by (rule history_invariant [where P = "\<lambda>db. find_by k (receipts db) = Some v"])
     (auto intro: receipts_kept)

lemma clocks_kept:
  "find_by owner (clocks db) \<noteq> None \<Longrightarrow> find_by owner (clocks (run_op x p db)) \<noteq> None"
  using run_op_cases [of x p db]
  by (auto simp: unapplied_to_def applied_to_def with_clock_def store.look_ins)

lemma clocks_kept_history:
  "find_by owner (clocks db) \<noteq> None \<Longrightarrow> find_by owner (clocks (history x ops db)) \<noteq> None"
  by (rule history_invariant [where P = "\<lambda>db. find_by owner (clocks db) \<noteq> None"])
     (assumption, rule clocks_kept)

lemma with_clock_id: "find_by owner (clocks db) \<noteq> None \<Longrightarrow> with_clock owner db = db"
  by (auto simp: with_clock_def)

lemma apply_fresh_clock:
  assumes "apply_mutation x me now owner client m db = Inr ((r, cur), db')"
    and "find_by (owner, client, m_mutation_id m) (receipts db) = None"
  shows "find_by owner (clocks db') \<noteq> None"
  using apply_fresh [OF assms(2,1)] clock_with_clock [of owner db]
  by (auto simp: unapplied_to_def applied_to_def store.look_ins)

text \<open>
  C11
  Exactly once: when a mutation has been answered, the same mutation sent again, by any
  instance, at any time, after any other transactions of any users, gets the same answer and
  changes nothing at all.
\<close>

theorem mutation_exactly_once:
  assumes "uuid_law x"
    and "find_by (owner, client, m_mutation_id m) (receipts db) = None"
    and "apply_mutation x me now owner client m db = Inr ((r, cursor), db')"
  shows "apply_mutation x me' now' owner client m (history x ops db') =
           Inr ((r, None), history x ops db')"
proof -
  note f = apply_fresh [OF assms(2,3)]
  have "find_by (owner, client, m_mutation_id m) (receipts (history x ops db'))
      = Some (receipt_of x now m r)"
    using f by (intro receipts_kept_history) simp
  moreover have "result_of_json x (result_to_json x r) = Some r"
    using f by (intro result_json_roundtrip [OF assms(1)]) auto
  ultimately show ?thesis
    using apply_fresh_clock [OF assms(3,2)]
    by (simp add: apply_replay receipt_of_def with_clock_id clocks_kept_history)
qed

text \<open>
  A mutation identifier that has been used is never applied to other content: the answer is
  \<open>IdempotencyKeyReused\<close> without a record, and nothing is written.
\<close>

theorem mutation_id_not_reusable:
  assumes "find_by (owner, client, m_mutation_id m) (receipts db) = None"
    and "apply_mutation x me now owner client m db = Inr ((r, cursor), db')"
    and "m_mutation_id m' = m_mutation_id m" and "request_digest x m' \<noteq> request_digest x m"
  shows "\<exists>message. apply_mutation x me' now' owner client m' (history x ops db') =
     Inr ((\<lparr>mr_mutation_id = m_mutation_id m, mr_status = IdempotencyKeyReused, mr_record = None,
            mr_message = Some message\<rparr>, None), history x ops db')"
proof -
  note f = apply_fresh [OF assms(1,2)]
  have "find_by (owner, client, m_mutation_id m') (receipts (history x ops db'))
      = Some (receipt_of x now m r)"
    using f assms(3) by (intro receipts_kept_history) simp
  then show ?thesis
    using assms(3,4) apply_fresh_clock [OF assms(2,1)]
    by (simp add: apply_replay receipt_of_def with_clock_id clocks_kept_history result_with_def)
qed

subsection \<open>Versions and tombstones\<close>

lemma cas_version:
  assumes "cas now m old row" "0 < rr_version row" "old = Some model" "0 < rr_version model"
    "in_i64 (rr_version model)"
  shows "rr_version row = rr_version model + 1"
proof -
  have v: "rr_version row = i64_wrap (rr_version model + 1)"
    using assms by (auto simp: cas_def split: mutation_action.splits)
  have "rr_version model \<noteq> i64_max"
  proof
    assume "rr_version model = i64_max"
    then have "rr_version row = i64_wrap (i64_max + 1)" using v by simp
    also have "\<dots> = i64_min" by (simp add: i64_wrap_def i64_max_def i64_min_def)
    finally show False using assms(2) by (simp add: i64_min_def)
  qed
  then show ?thesis
    using v assms(4,5) by (simp add: i64_wrap_id in_i64_def i64_min_def)
qed

definition version_of :: "record_id \<Rightarrow> sync_db \<Rightarrow> int" where
  "version_of rid db = (case find_by rid (records db) of Some row \<Rightarrow> rr_version row | None \<Rightarrow> 0)"

definition versions_ok :: "sync_db \<Rightarrow> bool" where
  "versions_ok db \<longleftrightarrow> (\<forall>rid row. find_by rid (records db) = Some row \<longrightarrow>
      0 < rr_version row \<and> in_i64 (rr_version row))"

lemma applied_version:
  assumes "applied_to x now owner m cursor row snap db db'" "versions_ok db"
  shows "rr_version row = version_of (rid_of owner m) db + 1"
proof (cases "find_by (rid_of owner m) (records db)")
  case None
  with assms(1) show ?thesis by (auto simp: applied_to_def version_of_def cas_def)
next
  case (Some model)
  then have "0 < rr_version model \<and> in_i64 (rr_version model)"
    using assms(2) unfolding versions_ok_def by blast
  moreover have "cas now m (find_by (rid_of owner m) (records db)) row" "0 < rr_version row"
    using assms(1) by (auto simp: applied_to_def)
  ultimately show ?thesis
    using cas_version [of now m _ row model] Some by (simp add: version_of_def)
qed

lemma versions_ok_step: "versions_ok db \<Longrightarrow> versions_ok (run_op x p db)"
  using run_op_cases [of x p db]
  by (auto simp: versions_ok_def unapplied_to_def applied_to_def store.look_ins
        dest: cas_range split: if_splits)

lemma versions_ok_history: "versions_ok db \<Longrightarrow> versions_ok (history x ops db)"
  by (rule history_invariant [where P = versions_ok]) (auto intro: versions_ok_step)

lemma version_of_step:
  assumes "versions_ok db"
  shows "version_of rid db \<le> version_of rid (run_op x p db)"
  using run_op_cases [of x p db]
proof (elim disjE conjE exE)
  fix row snap cursor
  assume a: "applied_to x (op_now p) (op_owner p) (op_mutation p) cursor row snap db (run_op x p db)"
  then show ?thesis
    using applied_version [OF a assms]
    by (cases "rid = rid_of (op_owner p) (op_mutation p)")
       (auto simp: applied_to_def version_of_def store.look_ins)
qed (auto simp: version_of_def unapplied_to_def)

lemma version_of_history:
  assumes "versions_ok db"
  shows "version_of rid db \<le> version_of rid (history x ops db)"
proof -
  have "versions_ok (history x ops db) \<and> version_of rid db \<le> version_of rid (history x ops db)"
    by (rule history_invariant [where P = "\<lambda>d. versions_ok d \<and> version_of rid db \<le> version_of rid d"])
       (auto simp: assms intro: versions_ok_step order_trans [OF _ version_of_step])
  then show ?thesis by blast
qed

text \<open>A mutation is applied only on the version it names, which for a new record is none.\<close>

lemma applied_base:
  assumes "applied_to x now owner m cursor row snap db db'"
  shows "(case m_base_version m of None \<Rightarrow> Some 0 | Some s \<Rightarrow> parse_i64 s)
      = Some (version_of (rid_of owner m) db)"
  using assms
  by (auto simp: applied_to_def cas_def version_of_def split: option.splits mutation_action.splits)

lemma applied_at:
  assumes "apply_mutation x me now owner client m db = Inr ((r, Some c), db')"
  shows "\<exists>row snap. applied_to x now owner m c row snap db db' \<and> r = result_with m Applied (Some snap) None"
proof (cases "find_by (owner, client, m_mutation_id m) (receipts db)")
  case None
  then show ?thesis using apply_fresh [OF None assms] by auto
next
  case (Some receipt)
  with assms show ?thesis by (auto simp: apply_replay try_then_Inr split: if_splits)
qed

text \<open>
  C12
  No lost update: of all mutations of one record that name the same base version (or none, for
  a creation), at most one is ever applied. Once one has been, a later one, whatever happened
  in between, writes no record and no change.
\<close>

theorem no_lost_update:
  assumes "versions_ok db"
    and "apply_mutation x me now owner client m db = Inr ((r, Some c), db')"
    and "m_key m' = m_key m" and "m_base_version m' = m_base_version m"
    and "apply_mutation x me' now' owner client' m' (history x ops db') = Inr ((r', c'), db'')"
  shows "c' = None \<and> records db'' = records (history x ops db')
    \<and> changes db'' = changes (history x ops db')"
proof -
  let ?h = "history x ops db'"
  obtain row snap where a: "applied_to x now owner m c row snap db db'"
    using applied_at [OF assms(2)] by blast
  have rid: "rid_of owner m' = rid_of owner m" using assms(3) by (simp add: rid_of_def)
  have ok: "versions_ok db'"
    using assms(1) a
    by (auto simp: applied_to_def versions_ok_def store.look_ins dest: cas_range split: if_splits)
  have "version_of (rid_of owner m) db' = version_of (rid_of owner m) db + 1"
    using a applied_version [OF a assms(1)] by (simp add: applied_to_def version_of_def)
  then have grown: "version_of (rid_of owner m) db < version_of (rid_of owner m) ?h"
    using version_of_history [OF ok, of "rid_of owner m" x ops] by simp
  have none: "c' = None"
  proof (cases c')
    case (Some c2)
    then obtain row' snap' where "applied_to x now' owner m' c2 row' snap' ?h db''"
      using applied_at assms(5) by blast
    from applied_base [OF this] applied_base [OF a] grown rid assms(4) show ?thesis by simp
  qed
  moreover have "records db'' = records ?h \<and> changes db'' = changes ?h"
  proof (cases "find_by (owner, client', m_mutation_id m') (receipts ?h)")
    case None
    from apply_fresh [OF None assms(5)] none show ?thesis by (auto simp: unapplied_to_def)
  next
    case (Some receipt)
    with assms(5) show ?thesis by (auto simp: apply_replay try_then_Inr split: if_splits)
  qed
  ultimately show ?thesis by blast
qed

lemma tombstone_step:
  "find_by rid (records db) = Some row \<Longrightarrow> rr_deleted_at row \<noteq> None \<Longrightarrow>
     find_by rid (records (run_op x p db)) = Some row"
  using run_op_cases [of x p db]
  by (auto simp: unapplied_to_def applied_to_def store.look_ins cas_def)

text \<open>
  Tombstones are final: a deleted record keeps its row, with its version and its time of
  deletion, through every later transaction. Its identifier cannot be reused.
\<close>

theorem tombstones_are_final:
  assumes "find_by rid (records db) = Some row" and "rr_deleted_at row \<noteq> None"
  shows "find_by rid (records (history x ops db)) = Some row"
  by (rule history_invariant [where P = "\<lambda>db. find_by rid (records db) = Some row"])
     (use assms tombstone_step in blast)+

subsection \<open>Isolation of owners\<close>

definition same_for :: "uuid \<Rightarrow> sync_db \<Rightarrow> sync_db \<Rightarrow> bool" where
  "same_for owner db db' \<longleftrightarrow>
     find_by owner (clocks db') = find_by owner (clocks db)
     \<and> (\<forall>kind i. find_by (owner, kind, i) (records db') = find_by (owner, kind, i) (records db))
     \<and> (\<forall>c. find_by (owner, c) (changes db') = find_by (owner, c) (changes db))
     \<and> (\<forall>client i. find_by (owner, client, i) (receipts db') = find_by (owner, client, i) (receipts db))"

lemma same_for_step: "op_owner p \<noteq> owner \<Longrightarrow> same_for owner db (run_op x p db)"
  using run_op_cases [of x p db]
  by (auto simp: same_for_def unapplied_to_def applied_to_def with_clock_def store.look_ins rid_of_def)

text \<open>
  Owner isolation: transactions of other users leave every row of a user, in all four tables,
  exactly as it was.
\<close>

theorem owners_are_isolated:
  assumes "\<And>p. p \<in> set ops \<Longrightarrow> op_owner p \<noteq> owner"
  shows "find_by owner (clocks (history x ops db)) = find_by owner (clocks db)
    \<and> find_by (owner, kind, i) (records (history x ops db)) = find_by (owner, kind, i) (records db)
    \<and> find_by (owner, c) (changes (history x ops db)) = find_by (owner, c) (changes db)
    \<and> find_by (owner, client, j) (receipts (history x ops db))
        = find_by (owner, client, j) (receipts db)"
proof -
  have "same_for owner db (history x ops db)"
  proof (rule history_invariant [where P = "same_for owner db"])
    fix d p
    assume "same_for owner db d" "p \<in> set ops"
    with same_for_step [of p owner d x] assms show "same_for owner db (run_op x p d)"
      by (simp add: same_for_def)
  qed (simp add: same_for_def)
  then show ?thesis by (simp add: same_for_def)
qed

section \<open>Samples\<close>

lemmas sync_run = apply_mutation_def Let_def validate_mutation_def mutation_problem_def
  DRAFT_NOTE_KIND_def valid_base_version_def chars_count_def parse_base_version_def decide_def
  insert_row_def update_row_def commit_row_def snapshot_from_record_def record_check_def
  write_change_def clock_check_def change_check_def parse_i64_show in_i64_one i64_wrap_def
  backplane_payload_def MAX_BACKPLANE_PAYLOAD_BYTES_def backplane_to_json_def store_receipt_def
definition sample_put :: "uuid \<Rightarrow> string option \<Rightarrow> string \<Rightarrow> mutation" where
  "sample_put i base title = \<lparr>m_mutation_id = i, m_key = \<lparr>rk_kind = ''draft_note'', rk_id = 9\<rparr>,
     m_action = Put, m_base_version = base, m_schema_version = 1,
     m_value = Some \<lparr>dn_title = title, dn_body = ''text''\<rparr>\<rparr>"

definition sync_ext :: ext where
  "sync_ext = (sample_ext JNull)\<lparr>json_text :=
     (\<lambda>j. if json_get ''baseVersion'' j = Some (JStr ''1'') then ''second'' else ''first'')\<rparr>"

definition answered :: "uuid \<Rightarrow> mutation \<Rightarrow> sync_db \<Rightarrow> (mutation_result \<times> int option) \<times> sync_db" where
  "answered client m db = (case apply_mutation sync_ext 7 0 1 client m db of
     Inr t \<Rightarrow> t | Inl _ \<Rightarrow> ((result_with m Invalid None None, None), db))"

lemma sync_ext_uuid: "uuid_law sync_ext"
  by (simp add: sync_ext_def sample_ext_def uuid_law_def decimal_uuid_def parse_decimal_uuid_def)

lemma first_put_answered:
  "apply_mutation sync_ext 7 0 1 2 (sample_put 5 None ''a'') empty_db
     = Inr ((fst (fst (answered 2 (sample_put 5 None ''a'') empty_db)), Some 1),
            snd (answered 2 (sample_put 5 None ''a'') empty_db))"
  by (simp add: sync_run answered_def empty_db_def sample_put_def sync_ext_def)

text \<open>A later write of the same record, from another instance.\<close>

definition later_op :: sync_op where
  "later_op = \<lparr>op_instance = 8, op_now = 3, op_owner = 1, op_client = 2,
     op_mutation = sample_put 6 (Some ''1'') ''b''\<rparr>"

theorem mutation_exactly_once_witness:
  "apply_mutation sync_ext 8 50 1 2 (sample_put 5 None ''a'')
     (history sync_ext [later_op] (snd (answered 2 (sample_put 5 None ''a'') empty_db)))
   = Inr ((fst (fst (answered 2 (sample_put 5 None ''a'') empty_db)), None),
          history sync_ext [later_op] (snd (answered 2 (sample_put 5 None ''a'') empty_db)))"
  by (rule mutation_exactly_once [OF sync_ext_uuid _ first_put_answered]) (simp add: empty_db_def)

theorem mutation_id_not_reusable_witness:
  "\<exists>message. apply_mutation sync_ext 8 50 1 2 (sample_put 5 (Some ''1'') ''b'')
      (history sync_ext [later_op] (snd (answered 2 (sample_put 5 None ''a'') empty_db))) =
    Inr ((\<lparr>mr_mutation_id = m_mutation_id (sample_put 5 None ''a''), mr_status = IdempotencyKeyReused,
           mr_record = None, mr_message = Some message\<rparr>, None),
         history sync_ext [later_op] (snd (answered 2 (sample_put 5 None ''a'') empty_db)))"
  by (rule mutation_id_not_reusable [OF _ first_put_answered])
     (simp_all add: empty_db_def sample_put_def request_digest_def sync_ext_def sample_ext_def
        mutation_to_json_def)

definition first_db :: sync_db where
  "first_db = snd (answered 2 (sample_put 5 None ''a'') empty_db)"

lemma second_put_answered:
  "apply_mutation sync_ext 7 0 1 4 (sample_put 6 None ''c'') (history sync_ext [] first_db)
   = Inr ((fst (fst (answered 4 (sample_put 6 None ''c'') first_db)),
           snd (fst (answered 4 (sample_put 6 None ''c'') first_db))),
          snd (answered 4 (sample_put 6 None ''c'') first_db))"
  by (simp add: sync_run answered_def first_db_def empty_db_def sample_put_def sync_ext_def store.look_ins)

theorem no_lost_update_witness:
  "snd (fst (answered 4 (sample_put 6 None ''c'') first_db)) = None
   \<and> records (snd (answered 4 (sample_put 6 None ''c'') first_db)) = records (history sync_ext [] first_db)
   \<and> changes (snd (answered 4 (sample_put 6 None ''c'') first_db)) = changes (history sync_ext [] first_db)"
proof (rule no_lost_update [OF _ _ _ _ second_put_answered])
  show "apply_mutation sync_ext 7 0 1 2 (sample_put 5 None ''a'') empty_db
     = Inr ((fst (fst (answered 2 (sample_put 5 None ''a'') empty_db)), Some 1), first_db)"
    using first_put_answered by (simp add: first_db_def)
qed (simp_all add: versions_ok_def empty_db_def sample_put_def)

definition buried_db :: sync_db where
  "buried_db = empty_db\<lparr>records := [((1, ''draft_note'', 9), \<lparr>rr_version = 2, rr_payload = JNull,
     rr_deleted_at = Some 4, rr_updated_at = 4\<rparr>)]\<rparr>"

theorem tombstones_are_final_witness:
  "find_by (1, ''draft_note'', 9) (records (history sync_ext [later_op] buried_db))
    = Some \<lparr>rr_version = 2, rr_payload = JNull, rr_deleted_at = Some 4, rr_updated_at = 4\<rparr>"
  by (rule tombstones_are_final) (simp_all add: buried_db_def find_by_def)

theorem owners_are_isolated_witness:
  "find_by 3 (clocks (history sync_ext [later_op] empty_db)) = find_by 3 (clocks empty_db)
   \<and> find_by (3, ''draft_note'', 9) (records (history sync_ext [later_op] empty_db))
      = find_by (3, ''draft_note'', 9) (records empty_db)
   \<and> find_by (3, 1) (changes (history sync_ext [later_op] empty_db)) = find_by (3, 1) (changes empty_db)
   \<and> find_by (3, 2, 6) (receipts (history sync_ext [later_op] empty_db))
      = find_by (3, 2, 6) (receipts empty_db)"
  by (rule owners_are_isolated) (simp add: later_op_def)
end
