(* ===== verification/Replication.thy ===== *)
theory Replication
  imports Sync
begin

text \<open>
  Pulling changes, the second half of \<open>src/sync/service.rs\<close>: the sealed cursors of
  \<open>CursorCodec\<close>, the pages of \<open>pull_changes\<close>, and what a client that follows the cursors ends
  up with. The contract between the two halves is \<open>sync_wf\<close>: the change log of a user has
  exactly the entries 1 to the user's clock, and replaying it gives the user's records.
\<close>

section \<open>Cursors\<close>

record cursor_payload =
  cp_owner_id :: uuid
  cp_position :: int
  cp_high_water :: int

definition cursor_to_json :: "ext \<Rightarrow> cursor_payload \<Rightarrow> json" where
  "cursor_to_json x p =
     JObj [(''ownerId'', JStr (uuid_text x (cp_owner_id p))),
           (''position'', JInt (cp_position p)), (''highWater'', JInt (cp_high_water p))]"

definition cursor_of_json :: "ext \<Rightarrow> json \<Rightarrow> cursor_payload option" where
  "cursor_of_json x j =
     Option.bind (struct_fields [''ownerId'', ''position'', ''highWater''] j) (\<lambda>fs.
       case fs of
         [u, p, h] \<Rightarrow>
           Option.bind (required_field (uuid_of_json x) u) (\<lambda>u.
           Option.bind (required_field as_i64 p) (\<lambda>p.
           Option.bind (required_field as_i64 h) (\<lambda>h.
             Some \<lparr>cp_owner_id = u, cp_position = p, cp_high_water = h\<rparr>)))
       | _ \<Rightarrow> None)"

text \<open>
  \<open>CursorCodec::new\<close> and one of its methods, together. The nonce is the twelve random bytes.
\<close>

definition codec_new :: "ext \<Rightarrow> string \<Rightarrow> app_error + unit" where
  "codec_new x key = ensure (aead_key_ok x key) Crypto"

definition cursor_encode :: "ext \<Rightarrow> string \<Rightarrow> string \<Rightarrow> uuid \<Rightarrow> int \<Rightarrow> int \<Rightarrow> app_error + string" where
  "cursor_encode x key nonce owner position high_water =
     (let plaintext = json_text x (cursor_to_json x
            \<lparr>cp_owner_id = owner, cp_position = position, cp_high_water = high_water\<rparr>)
      in try_then (ok_or (aead_seal x key nonce plaintext) Crypto) (\<lambda>ciphertext.
         Inr (b64_encode x (nonce @ ciphertext))))"

definition cursor_decode :: "ext \<Rightarrow> string \<Rightarrow> string \<Rightarrow> uuid \<Rightarrow> app_error + cursor_payload" where
  "cursor_decode x key cursor expected_owner =
     try_then (ok_or (b64_decode x cursor) InvalidSyncCursor) (\<lambda>bytes.
     if length bytes < 12 then Inl InvalidSyncCursor
     else
     try_then (ok_or (aead_open x key (take 12 bytes) (drop 12 bytes)) InvalidSyncCursor) (\<lambda>plaintext.
     try_then (ok_or (Option.bind (json_parse x plaintext) (cursor_of_json x)) InvalidSyncCursor)
       (\<lambda>decoded.
     if cp_owner_id decoded \<noteq> expected_owner \<or> cp_position decoded < 0
          \<or> cp_high_water decoded < cp_position decoded
     then Inl InvalidSyncCursor
     else Inr decoded)))"

lemma cursor_json_roundtrip:
  "uuid_law x \<Longrightarrow> in_i64 (cp_position p) \<Longrightarrow> in_i64 (cp_high_water p) \<Longrightarrow>
     cursor_of_json x (cursor_to_json x p) = Some p"
  by (simp add: cursor_of_json_def cursor_to_json_def no_duplicate_of_def uuid_of_json_def uuid_law_def)

lemma cursor_decode_Inr:
  "cursor_decode x key c owner = Inr p \<Longrightarrow>
     cp_owner_id p = owner \<and> 0 \<le> cp_position p \<and> cp_position p \<le> cp_high_water p"
  by (auto simp: cursor_decode_def try_then_Inr split: if_splits)

lemma cursor_decode_Inl: "cursor_decode x key c owner = Inl e \<Longrightarrow> e = InvalidSyncCursor"
  by (auto simp: cursor_decode_def try_then_Inl ok_or_Inl split: if_splits)

text \<open>
  C16
  A cursor opens, with the key that sealed it, to exactly the position and high-water mark it
  was issued for; presented by any other user it is an invalid cursor, and whatever text is
  presented, the only failure is \<open>InvalidSyncCursor\<close> and the only success is a cursor of that
  user with an ordered, non-negative range.
\<close>

theorem cursors_are_sealed:
  assumes "b64_law x" "aead_law x key" "uuid_law x"
    and "json_roundtrip x (cursor_to_json x p)" "length nonce = 12"
    and "0 \<le> cp_position p" "cp_position p \<le> cp_high_water p" "cp_high_water p \<le> i64_max"
    and "cursor_encode x key nonce (cp_owner_id p) (cp_position p) (cp_high_water p) = Inr c"
  shows "cursor_decode x key c owner = (if owner = cp_owner_id p then Inr p else Inl InvalidSyncCursor)
    \<and> (case cursor_decode x key any owner of
         Inl e \<Rightarrow> e = InvalidSyncCursor
       | Inr d \<Rightarrow> cp_owner_id d = owner \<and> 0 \<le> cp_position d \<and> cp_position d \<le> cp_high_water d)"
proof
  have range: "in_i64 (cp_position p)" "in_i64 (cp_high_water p)"
    using assms(6-8) by (simp_all add: in_i64_def i64_min_def)
  have eta: "\<lparr>cp_owner_id = cp_owner_id p, cp_position = cp_position p, cp_high_water = cp_high_water p\<rparr> = p"
    by simp
  obtain ciphertext where sealed: "aead_seal x key nonce (json_text x (cursor_to_json x p)) = Some ciphertext"
      "c = b64_encode x (nonce @ ciphertext)"
    using assms(9) eta by (auto simp: cursor_encode_def Let_def try_then_Inr ok_or_Inr)
  show "cursor_decode x key c owner = (if owner = cp_owner_id p then Inr p else Inl InvalidSyncCursor)"
    using assms(1-7) cursor_json_roundtrip [OF assms(3) range] sealed
    by (simp add: cursor_decode_def b64_law_def aead_law_def json_roundtrip_def)
  show "case cursor_decode x key any owner of
         Inl e \<Rightarrow> e = InvalidSyncCursor
       | Inr d \<Rightarrow> cp_owner_id d = owner \<and> 0 \<le> cp_position d \<and> cp_position d \<le> cp_high_water d"
    using cursor_decode_Inl [of x key any owner] cursor_decode_Inr [of x key any owner]
    by (simp split: sum.split)
qed

definition sample_cursor :: cursor_payload where
  "sample_cursor = \<lparr>cp_owner_id = 1, cp_position = 3, cp_high_water = 5\<rparr>"

definition cursor_ext :: ext where
  "cursor_ext = sample_ext (cursor_to_json (sample_ext JNull) sample_cursor)"

theorem cursors_are_sealed_witness:
  "cursor_decode cursor_ext ''k'' ''abcdefghijklj'' 1 = Inr sample_cursor
   \<and> cursor_decode cursor_ext ''k'' ''abcdefghijklj'' 2 = Inl InvalidSyncCursor"
proof -
  have laws: "b64_law cursor_ext" "aead_law cursor_ext ''k''" "uuid_law cursor_ext"
    by (simp_all add: cursor_ext_def)
  have j: "json_roundtrip cursor_ext (cursor_to_json cursor_ext sample_cursor)"
    by (simp add: cursor_ext_def json_roundtrip_def sample_ext_def cursor_to_json_def)
  have sealed: "cursor_encode cursor_ext ''k'' ''abcdefghijkl'' (cp_owner_id sample_cursor)
      (cp_position sample_cursor) (cp_high_water sample_cursor) = Inr ''abcdefghijklj''"
    by (simp add: cursor_encode_def cursor_ext_def sample_ext_def)
  note t = cursors_are_sealed [OF laws j _ _ _ _ sealed]
  show ?thesis
    using t [of 1] t [of 2] by (simp add: sample_cursor_def i64_max_def)
qed

section \<open>Pages\<close>

definition page_limit :: "nat option \<Rightarrow> nat" where
  "page_limit limit =
     max 1 (min (case limit of None \<Rightarrow> DEFAULT_PAGE_SIZE | Some n \<Rightarrow> n) MAX_PAGE_SIZE)"

text \<open>The rows of the query, with their cursors.\<close>

definition page_rows :: "uuid \<Rightarrow> int \<Rightarrow> int \<Rightarrow> nat \<Rightarrow> sync_db \<Rightarrow> (int \<times> change_row) list" where
  "page_rows owner position high_water limit db =
     take (min limit MAX_PAGE_CANDIDATES)
       (sort_key fst
         (map (\<lambda>((_, cursor), row). (cursor, row))
           (filter (\<lambda>((o', cursor), _). o' = owner \<and> position < cursor \<and> cursor \<le> high_water)
             (changes db))))"

text \<open>The loop over the rows, within the byte budget; sizes saturate at the width of \<open>usize\<close>.\<close>

fun fill_page ::
    "ext \<Rightarrow> (int \<times> change_row) list \<Rightarrow> record_snapshot list \<Rightarrow> int \<Rightarrow> nat
       \<Rightarrow> app_error + record_snapshot list \<times> int" where
  "fill_page x [] page next_position encoded_bytes = Inr (page, next_position)"
| "fill_page x ((cursor, row) # rows) page next_position encoded_bytes =
     try_then (ok_or (snapshot_of_json x (ch_payload row)) Serialization) (\<lambda>snapshot.
       let snapshot_bytes = length (json_text x (snapshot_to_json x snapshot));
           separator_bytes = (if page = [] then 0 else 1);
           next_bytes = sat_add u64_max (sat_add u64_max encoded_bytes separator_bytes) snapshot_bytes
       in if page \<noteq> [] \<and> MAX_PAGE_ENCODED_BYTES < next_bytes then Inr (page, next_position)
          else fill_page x rows (page @ [snapshot]) cursor next_bytes)"

definition pull_range ::
    "ext \<Rightarrow> string \<Rightarrow> uuid \<Rightarrow> string option \<Rightarrow> int \<Rightarrow> app_error + int \<times> int" where
  "pull_range x key owner cursor current_high_water =
     (case cursor of
        None \<Rightarrow> Inr (0, current_high_water)
      | Some c \<Rightarrow>
          try_then (cursor_decode x key c owner) (\<lambda>decoded.
          if cp_high_water decoded \<le> cp_position decoded
          then Inr (cp_position decoded, current_high_water)
          else Inr (cp_position decoded, cp_high_water decoded)))"

definition pull_changes ::
    "ext \<Rightarrow> string \<Rightarrow> string \<Rightarrow> uuid \<Rightarrow> pull_query \<Rightarrow> sync_db \<Rightarrow> app_error + pull_response" where
  "pull_changes x key nonce owner query db =
     (let limit = page_limit (pq_limit query)
      in try_then (codec_new x key) (\<lambda>_.
         let current_high_water = clock_of owner db
         in try_then (pull_range x key owner (pq_cursor query) current_high_water)
              (\<lambda>(position, high_water).
            let rows = page_rows owner position high_water limit db
            in try_then (fill_page x rows [] position 2) (\<lambda>(page, next_position).
               try_then (cursor_encode x key nonce owner next_position high_water) (\<lambda>next_cursor.
               Inr \<lparr>pr_changes = page, pr_next_cursor = next_cursor,
                     pr_caught_up = (high_water \<le> next_position)\<rparr>)))))"

section \<open>The change log and the records\<close>

text \<open>The snapshots of the log entries after \<open>p\<close> up to \<open>q\<close>, in order.\<close>

definition log_at :: "ext \<Rightarrow> uuid \<Rightarrow> sync_db \<Rightarrow> int \<Rightarrow> record_snapshot option" where
  "log_at x owner db c =
     Option.bind (find_by (owner, c) (changes db)) (\<lambda>row. snapshot_of_json x (ch_payload row))"

definition log_of :: "ext \<Rightarrow> uuid \<Rightarrow> sync_db \<Rightarrow> int \<Rightarrow> int \<Rightarrow> record_snapshot list" where
  "log_of x owner db p q = List.map_filter (log_at x owner db) [p + 1..q]"

text \<open>A replica absorbs snapshots by key; the view is what the records table shows.\<close>

definition absorb ::
    "record_snapshot list \<Rightarrow> (record_key \<rightharpoonup> record_snapshot) \<Rightarrow> (record_key \<rightharpoonup> record_snapshot)" where
  "absorb ss m = foldl (\<lambda>m s. m(rs_key s \<mapsto> s)) m ss"

definition view :: "uuid \<Rightarrow> sync_db \<Rightarrow> (record_key \<rightharpoonup> record_snapshot)" where
  "view owner db = (\<lambda>k.
     Option.bind (find_by (owner, rk_kind k, rk_id k) (records db)) (\<lambda>row.
       case snapshot_from_record (owner, rk_kind k, rk_id k) row of Inr s \<Rightarrow> Some s | Inl _ \<Rightarrow> None))"

definition log_ok :: "ext \<Rightarrow> uuid \<Rightarrow> sync_db \<Rightarrow> bool" where
  "log_ok x owner db \<longleftrightarrow>
     0 \<le> clock_of owner db \<and> clock_of owner db \<le> i64_max
     \<and> (\<forall>c. (find_by (owner, c) (changes db) \<noteq> None) = (1 \<le> c \<and> c \<le> clock_of owner db))
     \<and> (\<forall>c row. find_by (owner, c) (changes db) = Some row \<longrightarrow>
          snapshot_of_json x (ch_payload row) \<noteq> None)"

definition readable :: "sync_db \<Rightarrow> bool" where
  "readable db \<longleftrightarrow> (\<forall>rid row. find_by rid (records db) = Some row \<longrightarrow>
     (\<exists>s. snapshot_from_record rid row = Inr s))"

definition sync_wf :: "ext \<Rightarrow> sync_db \<Rightarrow> bool" where
  "sync_wf x db \<longleftrightarrow> keyed (changes db) \<and> versions_ok db \<and> readable db
     \<and> (\<forall>owner. log_ok x owner db
          \<and> absorb (log_of x owner db 0 (clock_of owner db)) Map.empty = view owner db)"

lemma absorb_append: "absorb (ss @ ts) m = absorb ts (absorb ss m)"
  by (simp add: absorb_def)

lemma log_of_empty [simp]: "q \<le> p \<Longrightarrow> log_of x owner db p q = []"
  by (simp add: log_of_def List.map_filter_def)

lemma log_of_append:
  assumes "p \<le> q" "q \<le> r"
  shows "log_of x owner db p q @ log_of x owner db q r = log_of x owner db p r"
proof -
  have "[p + 1..r] = [p + 1..q] @ [q + 1..r]"
    using assms upto_split2 [of "p + 1" "q" r] by (cases "p = q") auto
  then show ?thesis by (simp add: log_of_def List.map_filter_def)
qed

lemma log_of_cong:
  "(\<And>c. p < c \<Longrightarrow> c \<le> q \<Longrightarrow> log_at x owner db c = log_at x owner db' c) \<Longrightarrow>
     log_of x owner db p q = log_of x owner db' p q"
  unfolding log_of_def List.map_filter_def by (rule map_cong) (auto intro: filter_cong)

lemma sync_wf_empty: "sync_wf x empty_db"
  by (simp add: sync_wf_def empty_db_def versions_ok_def readable_def log_ok_def clock_of_def
        i64_max_def absorb_def view_def)

subsection \<open>Every transaction keeps the contract\<close>

text \<open>Only the rows of the owner count.\<close>

lemma log_ok_cong:
  assumes "clock_of owner db' = clock_of owner db"
    and "\<And>c. find_by (owner, c) (changes db') = find_by (owner, c) (changes db)"
  shows "log_ok x owner db' = log_ok x owner db"
    and "log_of x owner db' p q = log_of x owner db p q"
proof -
  show "log_ok x owner db' = log_ok x owner db"
    by (simp add: log_ok_def assms)
  show "log_of x owner db' p q = log_of x owner db p q"
    by (rule log_of_cong) (simp add: log_at_def assms)
qed

lemma view_cong:
  "(\<And>kind i. find_by (owner, kind, i) (records db') = find_by (owner, kind, i) (records db)) \<Longrightarrow>
     view owner db' = view owner db"
  by (simp add: view_def)

lemma clock_of_with_clock [simp]: "clock_of owner (with_clock u db) = clock_of owner db"
  by (auto simp: clock_of_def with_clock_def store.look_ins)

lemma applied_clock:
  assumes "applied_to x now owner m cursor row snap db db'" "log_ok x owner db"
  shows "cursor = clock_of owner db + 1" "clock_of owner db + 1 \<le> i64_max"
    "clock_of owner db' = clock_of owner db + 1"
proof -
  have c: "cursor = i64_wrap (clock_of owner db + 1)" "0 < cursor"
    "clocks db' = put owner cursor (clocks (with_clock owner db))"
    using assms(1) by (simp_all add: applied_to_def)
  have "clock_of owner db \<noteq> i64_max"
  proof
    assume "clock_of owner db = i64_max"
    then have "cursor = i64_wrap (i64_max + 1)" using c by simp
    also have "\<dots> < 0" by (simp add: i64_wrap_def i64_max_def)
    finally show False using c by simp
  qed
  then show le: "clock_of owner db + 1 \<le> i64_max"
    using assms(2) by (simp add: log_ok_def)
  then show eq: "cursor = clock_of owner db + 1"
    using assms(2) c(1) by (simp add: log_ok_def i64_wrap_id i64_min_def)
  show "clock_of owner db' = clock_of owner db + 1"
    using eq by (simp add: clock_of_def c(3))
qed

lemma applied_log:
  assumes a: "applied_to x now owner m cursor row snap db db'" and "log_ok x owner db"
    and "uuid_law x"
  shows "log_ok x owner db'"
    and "log_of x owner db' 0 (clock_of owner db') = log_of x owner db 0 (clock_of owner db) @ [snap]"
proof -
  let ?n = "clock_of owner db"
  note c = applied_clock [OF a assms(2)]
  have ch: "changes db' = put (owner, ?n + 1) (change_of x now (rid_of owner m) row snap) (changes db)"
    using a c(1) by (simp add: applied_to_def)
  have "rs_schema_version snap = 1"
    using a snapshot_fields [of "rid_of owner m" row snap] by (simp add: applied_to_def)
  then have read: "snapshot_of_json x (ch_payload (change_of x now (rid_of owner m) row snap)) = Some snap"
    using snapshot_json_roundtrip [OF assms(3)] by (simp add: change_of_def)
  show "log_ok x owner db'"
    using assms(2) c(2) read by (auto simp: log_ok_def c(3) ch store.look_ins)
  have n: "0 \<le> ?n" using assms(2) by (simp add: log_ok_def)
  have "log_of x owner db' 0 (?n + 1) = log_of x owner db' 0 ?n @ log_of x owner db' ?n (?n + 1)"
    using n by (intro log_of_append [symmetric]) simp_all
  also have "log_of x owner db' 0 ?n = log_of x owner db 0 ?n"
    by (rule log_of_cong) (simp add: log_at_def ch store.look_ins)
  also have "log_of x owner db' ?n (?n + 1) = [snap]"
    using read by (simp add: log_of_def log_at_def ch)
  finally show "log_of x owner db' 0 (clock_of owner db') = log_of x owner db 0 ?n @ [snap]"
    by (simp add: c(3))
qed

lemma applied_view:
  assumes "applied_to x now owner m cursor row snap db db'"
  shows "view owner db' = (view owner db)(rs_key snap \<mapsto> snap)"
proof
  fix k :: record_key
  have r: "records db' = put (rid_of owner m) row (records db)"
    "snapshot_from_record (rid_of owner m) row = Inr snap"
    using assms by (simp_all add: applied_to_def)
  then have key: "rs_key snap = \<lparr>rk_kind = rk_kind (m_key m), rk_id = rk_id (m_key m)\<rparr>"
    using snapshot_fields by (fastforce simp: rid_of_def)
  show "view owner db' k = ((view owner db)(rs_key snap \<mapsto> snap)) k"
  proof (cases "k = rs_key snap")
    case True
    then show ?thesis using r key by (simp add: view_def rid_of_def)
  next
    case False
    then have "(owner, rk_kind k, rk_id k) \<noteq> rid_of owner m"
      using key by (cases k) (auto simp: rid_of_def)
    with False show ?thesis by (simp add: view_def r(1) store.look_ins)
  qed
qed

lemma applied_others:
  assumes "applied_to x now u m cursor row snap db db'" "owner \<noteq> u"
  shows "clock_of owner db' = clock_of owner db"
    and "find_by (owner, c) (changes db') = find_by (owner, c) (changes db)"
    and "find_by (owner, kind, i) (records db') = find_by (owner, kind, i) (records db)"
  using assms
  by (auto simp: applied_to_def clock_of_def store.look_ins rid_of_def with_clock_def)

lemma sync_wf_applied:
  assumes a: "applied_to x now u m cursor row snap db db'" and wf: "sync_wf x db" and law: "uuid_law x"
    and versions: "versions_ok db'"
  shows "sync_wf x db'"
  unfolding sync_wf_def
proof (intro conjI allI)
  have r: "records db' = put (rid_of u m) row (records db)" "changes db' = put (u, cursor)
      (change_of x now (rid_of u m) row snap) (changes db)"
    "snapshot_from_record (rid_of u m) row = Inr snap"
    using a by (simp_all add: applied_to_def)
  show "keyed (changes db')" using wf r by (simp add: sync_wf_def store.ok_ins)
  show "versions_ok db'" by (rule versions)
  show "readable db'" using wf r by (auto simp: sync_wf_def readable_def store.look_ins)
  fix owner
  have old: "log_ok x owner db" "absorb (log_of x owner db 0 (clock_of owner db)) Map.empty = view owner db"
    using wf by (auto simp: sync_wf_def)
  show "log_ok x owner db'"
    using old applied_log(1) [OF a _ law] log_ok_cong(1) [of owner db' db x] applied_others [OF a]
    by (cases "owner = u") auto
  show "absorb (log_of x owner db' 0 (clock_of owner db')) Map.empty = view owner db'"
  proof (cases "owner = u")
    case True
    with old applied_log(2) [OF a _ law] applied_view [OF a] show ?thesis
      by (simp add: absorb_append absorb_def)
  next
    case False
    with old applied_others [OF a False] show ?thesis
      by (simp add: log_ok_cong(2) [of owner db' db] view_cong [of owner db' db])
  qed
qed

lemma sync_wf_cong:
  assumes "changes db' = changes db" "records db' = records db" "clocks db' = clocks (with_clock u db)"
  shows "sync_wf x db' = sync_wf x db"
proof -
  have "clock_of owner db' = clock_of owner db" for owner
    using assms(3) clock_of_with_clock [of owner u db] by (simp add: clock_of_def)
  then show ?thesis
    using assms log_ok_cong [of _ db' db x] view_cong [of _ db' db]
    by (simp add: sync_wf_def versions_ok_def readable_def)
qed

lemma sync_wf_step:
  assumes "sync_wf x db" "uuid_law x"
  shows "sync_wf x (run_op x p db)"
proof -
  have versions: "versions_ok (run_op x p db)"
    using assms(1) versions_ok_step by (simp add: sync_wf_def)
  show ?thesis
    using run_op_cases [of x p db]
  proof (elim disjE conjE exE)
    assume "run_op x p db = with_clock (op_owner p) db"
    then show ?thesis using assms(1) sync_wf_cong [of "run_op x p db" db "op_owner p"] by simp
  next
    assume "unapplied_to (op_owner p) db (run_op x p db)"
    then show ?thesis
      using assms(1) sync_wf_cong [of "run_op x p db" db "op_owner p"] by (simp add: unapplied_to_def)
  qed (use assms versions sync_wf_applied in \<open>fastforce+\<close>)
qed

lemma sync_wf_history: "sync_wf x db \<Longrightarrow> uuid_law x \<Longrightarrow> sync_wf x (history x ops db)"
  by (rule history_invariant [where P = "sync_wf x"]) (auto intro: sync_wf_step)

text \<open>
  C3
  The change log is complete and gap-free: from an empty database, after any transactions, each
  user's log has exactly the cursors 1 to the user's clock, the clock never wraps, every entry
  and every record reads back, and replaying the log in cursor order gives exactly the records
  the server holds, tombstones included.
\<close>

theorem change_log_is_the_truth:
  assumes "uuid_law x"
  shows "sync_wf x (history x ops empty_db)
    \<and> (find_by (owner, c) (changes (history x ops empty_db)) \<noteq> None)
        = (1 \<le> c \<and> c \<le> clock_of owner (history x ops empty_db))
    \<and> absorb (log_of x owner (history x ops empty_db) 0 (clock_of owner (history x ops empty_db)))
        Map.empty = view owner (history x ops empty_db)"
proof -
  have "sync_wf x (history x ops empty_db)" by (rule sync_wf_history [OF sync_wf_empty assms])
  then show ?thesis unfolding sync_wf_def log_ok_def by blast
qed

definition two_writes :: "sync_op list" where
  "two_writes = [later_op\<lparr>op_mutation := sample_put 5 None ''a''\<rparr>, later_op]"

theorem change_log_is_the_truth_witness:
  "sync_wf sync_ext (history sync_ext two_writes empty_db)
   \<and> (find_by (1, 2) (changes (history sync_ext two_writes empty_db)) \<noteq> None)
        = ((1::int) \<le> 2 \<and> 2 \<le> clock_of 1 (history sync_ext two_writes empty_db))
   \<and> absorb (log_of sync_ext 1 (history sync_ext two_writes empty_db) 0
        (clock_of 1 (history sync_ext two_writes empty_db))) Map.empty
      = view 1 (history sync_ext two_writes empty_db)"
  by (rule change_log_is_the_truth [OF sync_ext_uuid])

section \<open>Pages of the log\<close>

lemma sorted_segment:
  assumes "sorted cs" "distinct cs" "set cs = {p<..q}"
  shows "cs = [p + 1..q]"
proof (rule sorted_distinct_set_unique [OF assms(1,2)])
  show "set cs = set [p + 1..q]" using assms(3) by auto
qed simp_all

lemma take_segment: "take n [p + 1..q] = [p + 1..min q (p + int n)]"
proof (cases "q \<le> p + int n")
  case True
  then have "length [p + 1..q] \<le> n" by simp
  with True show ?thesis by simp
next
  case False
  then have "[p + 1..q] = [p + 1..p + int n] @ [p + int n + 1..q]"
    using upto_split2 [of "p + 1" "p + int n" q] by (cases "n = 0") auto
  with False show ?thesis by simp
qed

definition logged :: "uuid \<Rightarrow> sync_db \<Rightarrow> int \<Rightarrow> int \<times> change_row" where
  "logged owner db c = (c, the (find_by (owner, c) (changes db)))"

text \<open>The rows of a query before they are sorted.\<close>

definition candidates :: "uuid \<Rightarrow> int \<Rightarrow> int \<Rightarrow> sync_db \<Rightarrow> (int \<times> change_row) list" where
  "candidates owner p q db = map (\<lambda>((_, cursor), row). (cursor, row))
     (filter (\<lambda>((o', cursor), _). o' = owner \<and> p < cursor \<and> cursor \<le> q) (changes db))"

lemma in_candidates:
  assumes k: "keyed (changes db)"
  shows "(c, r) \<in> set (candidates owner p q db)
    \<longleftrightarrow> find_by (owner, c) (changes db) = Some r \<and> p < c \<and> c \<le> q"
  using in_set_find_by [OF k, of "(owner, c)" r] find_by_in_set [of "(owner, c)" "changes db" r]
  by (force simp: candidates_def)

lemma distinct_candidates:
  assumes k: "keyed (changes db)"
  shows "distinct (map fst (candidates owner p q db))"
proof -
  let ?F = "filter (\<lambda>((o', cursor), _). o' = owner \<and> p < cursor \<and> cursor \<le> q) (changes db)"
  have "distinct (map fst ?F)"
    using k by (simp add: keyed_def distinct_keys_filter)
  moreover have "inj_on snd (set (map fst ?F))" by (auto simp: inj_on_def)
  ultimately have "distinct (map snd (map fst ?F))"
    unfolding distinct_map [of snd] by blast
  moreover have "map fst (candidates owner p q db) = map snd (map fst ?F)"
    by (simp add: candidates_def case_prod_beta)
  ultimately show ?thesis by (simp only:)
qed

lemma page_rows_segment:
  assumes k: "keyed (changes db)" and l: "log_ok x owner db"
    and range: "0 \<le> p" "q \<le> clock_of owner db"
  shows "page_rows owner p q n db
    = map (logged owner db) [p + 1..min q (p + int (min n MAX_PAGE_CANDIDATES))]"
proof -
  let ?L = "candidates owner p q db"
  note mem = in_candidates [OF k, of _ _ owner p q] and d = distinct_candidates [OF k, of owner p q]
  have s: "set (map fst ?L) = {p<..q}"
  proof (rule set_eqI)
    fix c
    have "c \<in> set (map fst ?L) \<longleftrightarrow> (\<exists>r. (c, r) \<in> set ?L)" by force
    also have "\<dots> \<longleftrightarrow> find_by (owner, c) (changes db) \<noteq> None \<and> p < c \<and> c \<le> q"
      unfolding mem by auto
    also have "\<dots> \<longleftrightarrow> c \<in> {p<..q}" using l range by (auto simp: log_ok_def)
    finally show "c \<in> set (map fst ?L) \<longleftrightarrow> c \<in> {p<..q}" .
  qed
  let ?S = "sort_key fst ?L"
  have keys: "map fst ?S = [p + 1..q]"
  proof (rule sorted_segment)
    show "distinct (map fst ?S)"
    proof -
      have "card (set (map fst ?S)) = card (set (map fst ?L))" by (simp only: set_map set_sort)
      also have "\<dots> = length (map fst ?S)"
        using distinct_card [OF d] by (simp only: length_map length_sort)
      finally show ?thesis by (rule card_distinct)
    qed
    show "set (map fst ?S) = {p<..q}" using s by (simp only: set_map set_sort)
  qed simp
  have "?S = map (logged owner db) (map fst ?S)"
  proof (rule nth_equalityI)
    fix i
    assume i: "i < length ?S"
    then have "?S ! i \<in> set ?L" using nth_mem [OF i] by (simp only: set_sort)
    then have "find_by (owner, fst (?S ! i)) (changes db) = Some (snd (?S ! i))"
      using mem [of "fst (?S ! i)" "snd (?S ! i)"] by simp
    then show "?S ! i = map (logged owner db) (map fst ?S) ! i"
      using i by (simp add: logged_def)
  qed simp
  then have "?S = map (logged owner db) [p + 1..q]" using keys by simp
  then have "page_rows owner p q n db = map (logged owner db) (take (min n MAX_PAGE_CANDIDATES) [p + 1..q])"
    by (simp add: page_rows_def candidates_def take_map)
  then show ?thesis by (simp add: take_segment)
qed

text \<open>A page depends on the rows of its owner only, not on the order in which the table has them.\<close>

lemma page_rows_cong:
  assumes "keyed (changes db)" "keyed (changes db')"
    and "\<And>c. find_by (owner, c) (changes db') = find_by (owner, c) (changes db)"
  shows "page_rows owner p q n db' = page_rows owner p q n db"
proof -
  let ?A = "candidates owner p q db" and ?B = "candidates owner p q db'"
  have sets: "set ?B = set ?A"
    using in_candidates [OF assms(1), of _ _ owner p q] in_candidates [OF assms(2), of _ _ owner p q] assms(3)
    by auto
  have "sort_key fst ?B = sort_key fst ?A"
  proof (rule map_sorted_distinct_set_unique [where f = fst])
    show "inj_on fst (set (sort_key fst ?B) \<union> set (sort_key fst ?A))"
      using distinct_candidates [OF assms(1), of owner p q] sets by (simp add: distinct_map)
    show "distinct (map fst (sort_key fst ?B))" "distinct (map fst (sort_key fst ?A))"
      using distinct_candidates [OF assms(1), of owner p q] distinct_candidates [OF assms(2), of owner p q]
      by (simp_all add: distinct_map)
  qed (simp_all add: sets)
  then show ?thesis by (simp add: page_rows_def candidates_def)
qed

text \<open>The loop takes a first part of the rows, at least one if there is one.\<close>

lemma fill_page_segment:
  assumes l: "log_ok x owner db" and m: "m \<le> clock_of owner db"
  shows "0 \<le> p \<Longrightarrow> \<exists>q. p \<le> q \<and> q \<le> max p m
    \<and> fill_page x (map (logged owner db) [p + 1..m]) page p bytes = Inr (page @ log_of x owner db p q, q)
    \<and> (page = [] \<and> p < m \<longrightarrow> p < q)"
proof (induction "nat (m - p)" arbitrary: p page bytes)
  case 0
  then have "m \<le> p" by simp
  then show ?case by (intro exI [of _ p]) simp
next
  case (Suc n)
  then have less: "p < m" by simp
  then have seg: "[p + 1..m] = (p + 1) # [p + 1 + 1..m]" by (simp add: upto_rec1)
  have "find_by (owner, p + 1) (changes db) \<noteq> None"
    using l m less Suc.prems by (auto simp: log_ok_def)
  then obtain row where row: "find_by (owner, p + 1) (changes db) = Some row" by blast
  then obtain snap where snap: "snapshot_of_json x (ch_payload row) = Some snap"
    using l by (fastforce simp: log_ok_def)
  have first: "log_of x owner db p (p + 1) = [snap]"
    by (simp add: log_of_def log_at_def row snap)
  let ?bytes = "sat_add u64_max (sat_add u64_max bytes (if page = [] then 0 else 1))
      (length (json_text x (snapshot_to_json x snap)))"
  have head: "logged owner db (p + 1) = (p + 1, row)" by (simp add: logged_def row)
  show ?case
  proof (cases "page \<noteq> [] \<and> MAX_PAGE_ENCODED_BYTES < ?bytes")
    case True
    then have "page \<noteq> []" "MAX_PAGE_ENCODED_BYTES < ?bytes" by blast+
    then have "fill_page x (map (logged owner db) [p + 1..m]) page p bytes = Inr (page, p)"
      by (simp add: seg head snap Let_def)
    with \<open>page \<noteq> []\<close> less show ?thesis by (intro exI [of _ p]) simp
  next
    case False
    have "n = nat (m - (p + 1))" "0 \<le> p + 1" using Suc.hyps(2) Suc.prems by simp_all
    from Suc.hyps(1) [OF this, of "page @ [snap]" ?bytes] obtain q where q: "p + 1 \<le> q"
      "q \<le> max (p + 1) m"
      "fill_page x (map (logged owner db) [p + 1 + 1..m]) (page @ [snap]) (p + 1) ?bytes
        = Inr ((page @ [snap]) @ log_of x owner db (p + 1) q, q)"
      by blast
    have "fill_page x (map (logged owner db) [p + 1..m]) page p bytes
        = fill_page x (map (logged owner db) [p + 1 + 1..m]) (page @ [snap]) (p + 1) ?bytes"
      using False by (auto simp: seg head snap Let_def)
    also have "\<dots> = Inr (page @ log_of x owner db p q, q)"
      using q(1,3) first log_of_append [of p "p + 1" q x owner db] by simp
    finally show ?thesis using q(1,2) less by (intro exI [of _ q]) auto
  qed
qed

lemma page_segment:
  assumes "keyed (changes db)" "log_ok x owner db" "0 \<le> p" "q \<le> clock_of owner db" "1 \<le> n"
  shows "\<exists>r. p \<le> r \<and> r \<le> max p q \<and> r \<le> p + 16
    \<and> fill_page x (page_rows owner p q n db) [] p 2 = Inr (log_of x owner db p r, r)
    \<and> (p < q \<longrightarrow> p < r)"
proof -
  let ?m = "min q (p + int (min n MAX_PAGE_CANDIDATES))"
  have "?m \<le> clock_of owner db" using assms(4) by simp
  from fill_page_segment [OF assms(2) this assms(3), of "[]" 2] obtain r where r: "p \<le> r"
      "r \<le> max p ?m" "p < ?m \<longrightarrow> p < r"
      "fill_page x (map (logged owner db) [p + 1..?m]) [] p 2 = Inr (log_of x owner db p r, r)"
    unfolding append_Nil by blast
  moreover have "p < q \<longrightarrow> p < ?m" using assms(5) by (auto simp: MAX_PAGE_CANDIDATES_def)
  moreover have "max p ?m \<le> max p q" "max p ?m \<le> p + 16" by (auto simp: MAX_PAGE_CANDIDATES_def)
  ultimately show ?thesis
    using page_rows_segment [OF assms(1-4), of n] by (intro exI [of _ r]) auto
qed

lemma page_limit_range: "1 \<le> page_limit limit \<and> page_limit limit \<le> 500"
  by (auto simp: page_limit_def MAX_PAGE_SIZE_def split: option.splits)

section \<open>Following the cursors\<close>

text \<open>
  What a client's progress rests on: the transport functions invert each other, the key is one
  the cipher takes, and cursors of this user, which are small, can be sealed and printed.
\<close>

definition transports :: "ext \<Rightarrow> string \<Rightarrow> uuid \<Rightarrow> bool" where
  "transports x key owner \<longleftrightarrow> b64_law x \<and> aead_law x key \<and> uuid_law x \<and> aead_key_ok x key
     \<and> (\<forall>p h. 0 \<le> p \<and> p \<le> h \<and> h \<le> i64_max \<longrightarrow>
          (let j = cursor_to_json x \<lparr>cp_owner_id = owner, cp_position = p, cp_high_water = h\<rparr>
           in json_roundtrip x j
              \<and> (\<forall>nonce. length nonce = 12 \<longrightarrow> aead_seal x key nonce (json_text x j) \<noteq> None)))"

text \<open>The position and high-water mark a cursor stands for; none stands for the beginning.\<close>

definition cursor_stands :: "ext \<Rightarrow> string \<Rightarrow> uuid \<Rightarrow> string option \<Rightarrow> int \<Rightarrow> int \<Rightarrow> bool" where
  "cursor_stands x key owner cursor p h =
     (case cursor of
        None \<Rightarrow> p = 0 \<and> h = 0
      | Some c \<Rightarrow> cursor_decode x key c owner
          = Inr \<lparr>cp_owner_id = owner, cp_position = p, cp_high_water = h\<rparr>)"

lemma cursor_encode_decode:
  assumes "transports x key owner" "length nonce = 12" "0 \<le> p" "p \<le> h" "h \<le> i64_max"
  shows "\<exists>c. cursor_encode x key nonce owner p h = Inr c \<and> cursor_stands x key owner (Some c) p h"
proof -
  let ?p = "\<lparr>cp_owner_id = owner, cp_position = p, cp_high_water = h\<rparr>"
  have laws: "b64_law x" "aead_law x key" "uuid_law x" "json_roundtrip x (cursor_to_json x ?p)"
    and seal: "aead_seal x key nonce (json_text x (cursor_to_json x ?p)) \<noteq> None"
    using assms by (auto simp: transports_def Let_def)
  then obtain ct where ct: "aead_seal x key nonce (json_text x (cursor_to_json x ?p)) = Some ct" by blast
  have "in_i64 p" "in_i64 h" using assms(3-5) by (simp_all add: in_i64_def i64_min_def)
  then have "cursor_of_json x (cursor_to_json x ?p) = Some ?p"
    using cursor_json_roundtrip [OF laws(3), of ?p] by simp
  with laws ct assms(2-4) show ?thesis
    by (simp add: cursor_encode_def cursor_stands_def cursor_decode_def b64_law_def aead_law_def
          json_roundtrip_def)
qed

lemma pull_range_stands:
  assumes "cursor_stands x key owner cursor p h" "0 \<le> p" "p \<le> h" "h \<le> n"
  shows "\<exists>h'. pull_range x key owner cursor n = Inr (p, h') \<and> p \<le> h' \<and> h' \<le> n
    \<and> (h' = n \<or> p < h') \<and> (cursor = None \<or> h = n \<longrightarrow> h' = n)"
  using assms by (cases cursor) (auto simp: cursor_stands_def pull_range_def)

text \<open>One pull, whatever cursor the client holds.\<close>

lemma pull_page:
  assumes wf: "sync_wf x db" and t: "transports x key owner" and nonce: "length nonce = 12"
    and c: "cursor_stands x key owner (pq_cursor query) p h" "0 \<le> p" "p \<le> h" "h \<le> clock_of owner db"
  shows "\<exists>q h' c'. pull_changes x key nonce owner query db
      = Inr \<lparr>pr_changes = log_of x owner db p q, pr_next_cursor = c', pr_caught_up = (h' \<le> q)\<rparr>
    \<and> p \<le> q \<and> q \<le> h' \<and> h' \<le> clock_of owner db \<and> q \<le> p + 16
    \<and> cursor_stands x key owner (Some c') q h'
    \<and> (p < clock_of owner db \<longrightarrow> p < q)
    \<and> (pq_cursor query = None \<or> h = clock_of owner db \<longrightarrow> h' = clock_of owner db)"
proof -
  obtain h' where h': "pull_range x key owner (pq_cursor query) (clock_of owner db) = Inr (p, h')"
    "p \<le> h'" "h' \<le> clock_of owner db" "h' = clock_of owner db \<or> p < h'"
    "pq_cursor query = None \<or> h = clock_of owner db \<longrightarrow> h' = clock_of owner db"
    using pull_range_stands [OF c] by blast
  have l: "keyed (changes db)" "log_ok x owner db" using wf by (auto simp: sync_wf_def)
  have limit: "1 \<le> page_limit (pq_limit query)" using page_limit_range by blast
  from page_segment [OF l c(2) h'(3) limit] h'(2) obtain q where q: "p \<le> q" "q \<le> h'" "q \<le> p + 16"
    "fill_page x (page_rows owner p h' (page_limit (pq_limit query)) db) [] p 2
      = Inr (log_of x owner db p q, q)" "p < h' \<longrightarrow> p < q"
    by (auto simp: max_def split: if_splits)
  have "0 \<le> q" "h' \<le> i64_max" using q(1) c(2) h'(3) l(2) by (simp_all add: log_ok_def)
  from cursor_encode_decode [OF t nonce this(1) q(2) this(2)] obtain c' where c':
    "cursor_encode x key nonce owner q h' = Inr c'" "cursor_stands x key owner (Some c') q h'"
    by blast
  have "aead_key_ok x key" using t by (simp add: transports_def)
  then have "pull_changes x key nonce owner query db
      = Inr \<lparr>pr_changes = log_of x owner db p q, pr_next_cursor = c', pr_caught_up = (h' \<le> q)\<rparr>"
    using h'(1) q(4) c'(1) by (simp add: pull_changes_def codec_new_def Let_def)
  moreover have "p < clock_of owner db \<longrightarrow> p < q" using q(5) h'(4) by auto
  ultimately show ?thesis using q h' c' by blast
qed

subsection \<open>Pulls among writes\<close>

text \<open>
  A client sends back the cursor of each answer until one says that it has caught up. Before
  each pull any transactions may run, of this user or others. The result: what it received,
  whether it was told that it is caught up, its last cursor, and the tables at that time.
\<close>

fun follow ::
    "ext \<Rightarrow> string \<Rightarrow> uuid \<Rightarrow> nat option \<Rightarrow> (sync_op list \<times> string) list \<Rightarrow> string option
       \<Rightarrow> record_snapshot list \<Rightarrow> sync_db
       \<Rightarrow> app_error + record_snapshot list \<times> bool \<times> string option \<times> sync_db" where
  "follow x key owner limit [] cursor got db = Inr (got, False, cursor, db)"
| "follow x key owner limit ((ops, nonce) # rest) cursor got db =
     (let db = history x ops db
      in try_then (pull_changes x key nonce owner \<lparr>pq_cursor = cursor, pq_limit = limit\<rparr> db)
        (\<lambda>response.
           let got = got @ pr_changes response; cursor = Some (pr_next_cursor response)
           in if pr_caught_up response then Inr (got, True, cursor, db)
              else follow x key owner limit rest cursor got db))"

lemma change_kept:
  "find_by k (changes db) = Some row \<Longrightarrow> find_by k (changes (history x ops db)) = Some row"
proof (rule history_invariant [where P = "\<lambda>db. find_by k (changes db) = Some row"])
  fix d :: sync_db and p
  assume "find_by k (changes d) = Some row"
  then show "find_by k (changes (run_op x p d)) = Some row"
    using run_op_cases [of x p d] by (auto simp: unapplied_to_def applied_to_def store.look_ins)
qed

text \<open>Entries never change and the clock never goes back.\<close>

lemma log_grows:
  assumes wf: "sync_wf x db" and "uuid_law x"
  shows "clock_of owner db \<le> clock_of owner (history x ops db)"
    and "0 \<le> p \<Longrightarrow> q \<le> clock_of owner db \<Longrightarrow>
      log_of x owner (history x ops db) p q = log_of x owner db p q"
proof -
  let ?h = "history x ops db"
  have l: "log_ok x owner db" "log_ok x owner ?h"
    using wf sync_wf_history [OF wf assms(2), of ops] by (auto simp: sync_wf_def)
  have same: "find_by (owner, c) (changes ?h) = find_by (owner, c) (changes db)"
    if "1 \<le> c" "c \<le> clock_of owner db" for c
  proof -
    have "find_by (owner, c) (changes db) \<noteq> None" using l(1) that by (simp add: log_ok_def)
    then show ?thesis using change_kept [of "(owner, c)" db _ x ops] by force
  qed
  show "clock_of owner db \<le> clock_of owner ?h"
  proof (cases "clock_of owner db = 0")
    case False
    then have "1 \<le> clock_of owner db" using l(1) by (simp add: log_ok_def)
    then have "find_by (owner, clock_of owner db) (changes ?h) \<noteq> None"
      using same [of "clock_of owner db"] l(1) by (simp add: log_ok_def)
    then show ?thesis using l(2) by (auto simp: log_ok_def)
  qed (use l(2) in \<open>simp add: log_ok_def\<close>)
  show "log_of x owner ?h p q = log_of x owner db p q" if "0 \<le> p" "q \<le> clock_of owner db"
    using that same by (intro log_of_cong) (simp add: log_at_def)
qed

subsection \<open>Batches\<close>

text \<open>The transactions of a batch, as steps of a history.\<close>

definition batch_ops :: "uuid \<Rightarrow> timestamp \<Rightarrow> uuid \<Rightarrow> uuid \<Rightarrow> mutation list \<Rightarrow> sync_op list" where
  "batch_ops me now owner client ms =
     map (\<lambda>m. \<lparr>op_instance = me, op_now = now, op_owner = owner, op_client = client, op_mutation = m\<rparr>) ms"

lemma run_op_apply:
  "apply_mutation x me now owner client m db = Inr (r, db') \<Longrightarrow>
     history x (batch_ops me now owner client (m # ms)) db = history x (batch_ops me now owner client ms) db'"
  by (simp add: batch_ops_def run_op_def)

lemma push_operations_history:
  "push_operations x me now owner client ms db = (r, hints, db') \<Longrightarrow>
     \<exists>k \<le> length ms. db' = history x (batch_ops me now owner client (take k ms)) db
       \<and> (case r of Inr rs \<Rightarrow> k = length ms \<and> length rs = k | Inl _ \<Rightarrow> k < length ms)
       \<and> length hints \<le> k
       \<and> (\<forall>i \<in> set hints. inv_owner_id i = owner
            \<and> find_by (owner, inv_cursor i) (changes db') \<noteq> None)"
proof (induction ms arbitrary: r hints db)
  case Nil
  then show ?case by (auto simp: batch_ops_def)
next
  case (Cons m ms)
  show ?case
  proof (cases "apply_mutation x me now owner client m db")
    case (Inl e)
    with Cons.prems show ?thesis by (intro exI [of _ 0]) (auto simp: batch_ops_def)
  next
    case (Inr t)
    then obtain res cur db1 where a: "apply_mutation x me now owner client m db = Inr ((res, cur), db1)"
      by (cases t) (auto simp: split_paired_all)
    obtain r1 hints1 where p: "push_operations x me now owner client ms db1 = (r1, hints1, db')"
      and r: "r = try_then r1 (\<lambda>rs. Inr (res # rs))"
      and h: "hints = (case cur of None \<Rightarrow> []
                | Some c \<Rightarrow> [\<lparr>inv_owner_id = owner, inv_cursor = c\<rparr>]) @ hints1"
      using Cons.prems a by (auto split: prod.splits)
    from Cons.IH [OF p] obtain k where k: "k \<le> length ms"
      "db' = history x (batch_ops me now owner client (take k ms)) db1"
      "case r1 of Inr rs \<Rightarrow> k = length ms \<and> length rs = k | Inl _ \<Rightarrow> k < length ms"
      "length hints1 \<le> k"
      "\<forall>i \<in> set hints1. inv_owner_id i = owner \<and> find_by (owner, inv_cursor i) (changes db') \<noteq> None"
      by blast
    have own: "find_by (owner, c) (changes db') \<noteq> None" if "cur = Some c" for c
    proof -
      obtain row snap where "applied_to x now owner m c row snap db db1"
        using applied_at a \<open>cur = Some c\<close> by blast
      then have "find_by (owner, c) (changes db1) \<noteq> None" by (simp add: applied_to_def)
      then obtain ch where "find_by (owner, c) (changes db1) = Some ch" by blast
      from change_kept [OF this] show ?thesis by (simp add: k(2))
    qed
    have "db' = history x (batch_ops me now owner client (take (Suc k) (m # ms))) db"
      using run_op_apply [OF a] k(2) by simp
    moreover have "case r of Inr rs \<Rightarrow> Suc k = length (m # ms) \<and> length rs = Suc k
        | Inl _ \<Rightarrow> Suc k < length (m # ms)"
      using k(3) by (cases r1) (simp_all add: r)
    moreover have "length hints \<le> Suc k" using k(4) by (simp add: h split: option.split)
    moreover have "\<forall>i \<in> set hints. inv_owner_id i = owner
        \<and> find_by (owner, inv_cursor i) (changes db') \<noteq> None"
      using k(5) own by (auto simp: h split: option.splits)
    ultimately show ?thesis using k(1) by (intro exI [of _ "Suc k"]) auto
  qed
qed

text \<open>
  C15
  A batch commits a prefix: what a push leaves in the tables is exactly the effect of the first
  \<open>k\<close> of its mutations, each in its own transaction and in order; an answer without error means
  all of them, with one result each, and that there were 1 to 50; and each hint sent names the
  user and a change that has been committed.
\<close>

theorem batches_commit_a_prefix:
  assumes "push_mutations x me now actor batch db = (r, hints, db')"
  shows "\<exists>k \<le> length (mb_operations batch).
     db' = history x (batch_ops me now (ctx_user_id actor) (mb_client_id batch)
             (take k (mb_operations batch))) db
     \<and> (case r of Inr rs \<Rightarrow> k = length (mb_operations batch) \<and> length rs = k \<and> 1 \<le> k \<and> k \<le> 50
          \<and> mb_protocol_version batch = 1 | Inl _ \<Rightarrow> k = 0 \<or> k < length (mb_operations batch))
     \<and> length hints \<le> k
     \<and> list_all (\<lambda>i. inv_owner_id i = ctx_user_id actor
          \<and> find_by (ctx_user_id actor, inv_cursor i) (changes db') \<noteq> None) hints"
proof (cases "mb_protocol_version batch \<noteq> PROTOCOL_VERSION
    \<or> mb_operations batch = [] \<or> MAX_BATCH_SIZE < length (mb_operations batch)")
  case True
  then show ?thesis
    using assms by (intro exI [of _ 0]) (auto simp: push_mutations_def batch_ops_def split: if_splits)
next
  case False
  then have "push_operations x me now (ctx_user_id actor) (mb_client_id batch) (mb_operations batch) db
      = (r, hints, db')"
    using assms by (simp add: push_mutations_def)
  from push_operations_history [OF this] obtain k where k: "k \<le> length (mb_operations batch)"
    "db' = history x (batch_ops me now (ctx_user_id actor) (mb_client_id batch)
             (take k (mb_operations batch))) db"
    "case r of Inr rs \<Rightarrow> k = length (mb_operations batch) \<and> length rs = k
       | Inl _ \<Rightarrow> k < length (mb_operations batch)" "length hints \<le> k"
    "\<forall>i \<in> set hints. inv_owner_id i = ctx_user_id actor
       \<and> find_by (ctx_user_id actor, inv_cursor i) (changes db') \<noteq> None"
    by blast
  have "1 \<le> length (mb_operations batch)" "length (mb_operations batch) \<le> 50"
    "mb_protocol_version batch = 1"
    using False by (simp_all add: PROTOCOL_VERSION_def MAX_BATCH_SIZE_def Suc_le_eq)
  then show ?thesis
    using k by (intro exI [of _ k]) (auto simp: list_all_iff split: sum.splits)
qed

definition pair_batch :: mutation_batch where
  "pair_batch = \<lparr>mb_protocol_version = 1, mb_client_id = 2,
     mb_operations = [sample_put 5 None ''a'', sample_put 6 (Some ''1'') ''b'']\<rparr>"

definition pair_answer :: "(app_error + mutation_result list) \<times> invalidation list \<times> sync_db" where
  "pair_answer = push_mutations sync_ext 7 0 sample_actor pair_batch empty_db"

theorem batches_commit_a_prefix_witness:
  "\<exists>k \<le> length (mb_operations pair_batch).
     snd (snd pair_answer) = history sync_ext (batch_ops 7 0 (ctx_user_id sample_actor)
             (mb_client_id pair_batch) (take k (mb_operations pair_batch))) empty_db
     \<and> (case fst pair_answer of
          Inr rs \<Rightarrow> k = length (mb_operations pair_batch) \<and> length rs = k \<and> 1 \<le> k \<and> k \<le> 50
            \<and> mb_protocol_version pair_batch = 1
        | Inl _ \<Rightarrow> k = 0 \<or> k < length (mb_operations pair_batch))
     \<and> length (fst (snd pair_answer)) \<le> k
     \<and> list_all (\<lambda>i. inv_owner_id i = ctx_user_id sample_actor
          \<and> find_by (ctx_user_id sample_actor, inv_cursor i) (changes (snd (snd pair_answer))) \<noteq> None)
         (fst (snd pair_answer))"
  by (rule batches_commit_a_prefix) (simp add: pair_answer_def)

subsection \<open>What a follower has\<close>

lemma follow_log:
  assumes law: "uuid_law x" and t: "transports x key owner"
  shows "sync_wf x db \<Longrightarrow> list_all (\<lambda>(_, nonce). length nonce = 12) steps \<Longrightarrow>
    cursor_stands x key owner cursor p h \<Longrightarrow> 0 \<le> p \<Longrightarrow> p \<le> h \<Longrightarrow> h \<le> clock_of owner db \<Longrightarrow>
    got = log_of x owner db 0 p \<Longrightarrow>
    \<exists>got' caught cursor' db' q h'. follow x key owner limit steps cursor got db
        = Inr (got', caught, cursor', db')
      \<and> sync_wf x db' \<and> p \<le> q \<and> q \<le> h' \<and> h' \<le> clock_of owner db'
      \<and> cursor_stands x key owner cursor' q h' \<and> got' = log_of x owner db' 0 q"
proof (induction steps arbitrary: cursor p h got db)
  case Nil
  then show ?case
    by (intro exI [of _ got] exI [of _ False] exI [of _ cursor] exI [of _ db] exI [of _ p]
        exI [of _ h]) simp
next
  case (Cons step steps)
  obtain ops nonce where step: "step = (ops, nonce)" by (cases step)
  let ?db = "history x ops db"
  have wf: "sync_wf x ?db" by (rule sync_wf_history [OF Cons.prems(1) law])
  note grown = log_grows [OF Cons.prems(1) law, where owner = owner]
  have nonce: "length nonce = 12" using Cons.prems(2) step by auto
  have "h \<le> clock_of owner ?db" using Cons.prems(6) grown(1) [where ops = ops] by simp
  from pull_page [OF wf t nonce, where query = "\<lparr>pq_cursor = cursor, pq_limit = limit\<rparr>", simplified,
      OF Cons.prems(3-5) this]
  obtain q h' c' where q: "pull_changes x key nonce owner \<lparr>pq_cursor = cursor, pq_limit = limit\<rparr> ?db
      = Inr \<lparr>pr_changes = log_of x owner ?db p q, pr_next_cursor = c', pr_caught_up = (h' \<le> q)\<rparr>"
    "p \<le> q" "q \<le> h'" "h' \<le> clock_of owner ?db" "cursor_stands x key owner (Some c') q h'"
    by blast
  have got: "got @ log_of x owner ?db p q = log_of x owner ?db 0 q"
    using Cons.prems(4-7) q(2) grown(2) [where p = 0 and q = p and ops = ops] log_of_append [of 0 p q x owner ?db] by simp
  show ?case
  proof (cases "h' \<le> q")
    case True
    then show ?thesis
      using q got wf by (simp add: step Let_def) blast
  next
    case False
    have later: "list_all (\<lambda>(_, nonce). length nonce = 12) steps"
      using Cons.prems(2) by auto
    have "0 \<le> q" using q(2) Cons.prems(4) by simp
    from Cons.IH [OF wf later q(5) this q(3,4) got] obtain got' caught cursor' db' q' h''
      where r: "follow x key owner limit steps (Some c') (got @ log_of x owner ?db p q) ?db
          = Inr (got', caught, cursor', db')" "sync_wf x db'" "q \<le> q'" "q' \<le> h''"
        "h'' \<le> clock_of owner db'" "cursor_stands x key owner cursor' q' h''"
        "got' = log_of x owner db' 0 q'"
      by blast
    have "follow x key owner limit (step # steps) cursor got db = Inr (got', caught, cursor', db')"
      using q(1) False r(1) by (simp add: step Let_def)
    moreover have "p \<le> q'" using q(2) r(3) by simp
    ultimately show ?thesis using r(2,4-7) by blast
  qed
qed

text \<open>
  C2
  No page skips or repeats a change: a client that follows the cursors from the beginning,
  through any number of pulls of any page size, with any transactions of any users before each
  pull, never gets an error, and what it has received is at every moment exactly the entries of
  its user's log from the first up to the position of its cursor, in order.
\<close>

theorem pulls_are_gap_free:
  assumes "uuid_law x" and "transports x key owner" and "sync_wf x db"
    and "list_all (\<lambda>(_, nonce). length nonce = 12) steps"
  shows "\<exists>got caught cursor db' q h. follow x key owner limit steps None [] db
        = Inr (got, caught, cursor, db')
      \<and> cursor_stands x key owner cursor q h \<and> 0 \<le> q \<and> q \<le> h \<and> h \<le> clock_of owner db'
      \<and> got = log_of x owner db' 0 q"
proof -
  have "cursor_stands x key owner None 0 0" by (simp add: cursor_stands_def)
  moreover have "0 \<le> clock_of owner db" using assms(3) by (simp add: sync_wf_def log_ok_def)
  moreover have "[] = log_of x owner db 0 0" by simp
  ultimately show ?thesis
    using follow_log [OF assms(1-4), where cursor = None and p = 0 and h = 0 and got = "[]"]
    by blast
qed

lemma follow_quiet:
  assumes wf: "sync_wf x db" and t: "transports x key owner"
  shows "list_all (\<lambda>nonce. length nonce = 12) nonces \<Longrightarrow> nonces \<noteq> [] \<Longrightarrow>
    cursor_stands x key owner cursor p h \<Longrightarrow> cursor = None \<or> h = clock_of owner db \<Longrightarrow>
    0 \<le> p \<Longrightarrow> p \<le> h \<Longrightarrow> h \<le> clock_of owner db \<Longrightarrow> clock_of owner db - p \<le> int (length nonces) \<Longrightarrow>
    got = log_of x owner db 0 p \<Longrightarrow>
    \<exists>cursor'. follow x key owner limit (map (\<lambda>nonce. ([], nonce)) nonces) cursor got db
        = Inr (log_of x owner db 0 (clock_of owner db), True, cursor', db)"
proof (induction nonces arbitrary: cursor p h got)
  case (Cons nonce nonces)
  let ?n = "clock_of owner db"
  have nonce: "length nonce = 12" using Cons.prems(1) by simp
  from pull_page [OF wf t nonce, where query = "\<lparr>pq_cursor = cursor, pq_limit = limit\<rparr>", simplified,
      OF Cons.prems(3,5-7)]
  obtain q h' c' where q: "pull_changes x key nonce owner \<lparr>pq_cursor = cursor, pq_limit = limit\<rparr> db
      = Inr \<lparr>pr_changes = log_of x owner db p q, pr_next_cursor = c', pr_caught_up = (h' \<le> q)\<rparr>"
    "p \<le> q" "q \<le> h'" "h' \<le> ?n" "cursor_stands x key owner (Some c') q h'" "p < ?n \<longrightarrow> p < q"
    "cursor = None \<or> h = ?n \<longrightarrow> h' = ?n"
    by blast
  have h': "h' = ?n" using q(7) Cons.prems(4) by blast
  have got: "got @ log_of x owner db p q = log_of x owner db 0 q"
    using Cons.prems(5,9) q(2) log_of_append [of 0 p q x owner db] by simp
  show ?case
  proof (cases "q = ?n")
    case True
    then show ?thesis using q(1) got h' by (simp add: Let_def)
  next
    case False
    then have less: "q < ?n" "p < q" using q(2,3,4,6) h' by auto
    have ne: "nonces \<noteq> []" using Cons.prems(8) less by auto
    have nn: "list_all (\<lambda>nonce. length nonce = 12) nonces" using Cons.prems(1) by simp
    have "?n - q \<le> int (length nonces)" "0 \<le> q" using Cons.prems(5,8) less by auto
    then show ?thesis
      using Cons.IH [OF nn ne q(5), of "got @ log_of x owner db p q"] less q(1,3,4) h' got
      by (simp add: Let_def)
  qed
qed simp

text \<open>
  C1
  Replicas converge: when the writes stop, a fresh client is told that it is caught up after at
  most as many pulls as its user has changes (each pull makes progress, and an oversized entry
  cannot stall it), and the replica it has built then holds, key by key, exactly the records
  the server holds for its user, with their versions and tombstones.
\<close>

theorem replication_converges:
  assumes "transports x key owner" and "sync_wf x db" and "nonces \<noteq> []"
    and "list_all (\<lambda>nonce. length nonce = 12) nonces"
    and "clock_of owner db \<le> int (length nonces)"
  shows "\<exists>got cursor. follow x key owner limit (map (\<lambda>nonce. ([], nonce)) nonces) None [] db
        = Inr (got, True, cursor, db) \<and> absorb got Map.empty = view owner db"
proof -
  have "cursor_stands x key owner None 0 0" by (simp add: cursor_stands_def)
  moreover have "0 \<le> clock_of owner db" using assms(2) by (simp add: sync_wf_def log_ok_def)
  ultimately have "\<exists>cursor. follow x key owner limit (map (\<lambda>nonce. ([], nonce)) nonces) None [] db
        = Inr (log_of x owner db 0 (clock_of owner db), True, cursor, db)"
    using follow_quiet [OF assms(2,1,4,3), where cursor = None and p = 0 and h = 0 and got = "[]"] assms(5) by simp
  then show ?thesis using assms(2) by (auto simp: sync_wf_def)
qed

subsection \<open>Samples\<close>

text \<open>Transports with an exact text for cursors: the three fields, parted by slashes.\<close>

definition cursor_text :: "json \<Rightarrow> string" where
  "cursor_text j =
     (case j of
        JObj [(_, JStr u), (_, JInt p), (_, JInt h)] \<Rightarrow>
          u @ CHR ''/'' # show_int p @ CHR ''/'' # show_int h
      | _ \<Rightarrow> [])"

definition cursor_parse :: "string \<Rightarrow> json option" where
  "cursor_parse s =
     (case split_on (CHR ''/'') s of
        [u, p, h] \<Rightarrow>
          Option.bind (parse_i64 p) (\<lambda>p. Option.bind (parse_i64 h) (\<lambda>h.
            Some (JObj [(''ownerId'', JStr u), (''position'', JInt p), (''highWater'', JInt h)])))
      | _ \<Rightarrow> None)"

definition text_ext :: ext where
  "text_ext = (sample_ext JNull)\<lparr>json_text := cursor_text, json_parse := cursor_parse\<rparr>"

lemma text_ext_transports: "transports text_ext (replicate 32 (CHR ''k'')) owner"
proof -
  have "json_roundtrip text_ext (cursor_to_json text_ext
      \<lparr>cp_owner_id = owner, cp_position = p, cp_high_water = h\<rparr>)"
    if "0 \<le> p" "p \<le> h" "h \<le> i64_max" for p h
  proof -
    have i: "show_int p = show_nat (nat p)" "show_int h = show_nat (nat h)"
      using that by (simp_all add: show_int_def)
    have "in_i64 p" "in_i64 h" using that by (simp_all add: in_i64_def i64_min_def)
    then have "parse_i64 (show_int p) = Some p" "parse_i64 (show_int h) = Some h"
      by (simp_all add: parse_i64_show)
    then show ?thesis
      using show_nat_digits [THEN digits_no_slash]
      by (simp add: json_roundtrip_def text_ext_def cursor_to_json_def cursor_text_def
            cursor_parse_def sample_ext_def decimal_uuid_def split_on_append split_on_none i)
  qed
  then show ?thesis
    by (simp add: transports_def text_ext_def sample_ext_def b64_law_def aead_law_def uuid_law_def
          decimal_uuid_def parse_decimal_uuid_def Let_def)
qed

lemma text_ext_uuid: "uuid_law text_ext"
  using text_ext_transports by (simp add: transports_def)

theorem pulls_are_gap_free_witness:
  "\<exists>got caught cursor db' q h.
     follow text_ext (replicate 32 (CHR ''k'')) 1 None
         [(two_writes, ''abcdefghijkl''), (two_writes, ''lkjihgfedcba'')] None [] empty_db
        = Inr (got, caught, cursor, db')
      \<and> cursor_stands text_ext (replicate 32 (CHR ''k'')) 1 cursor q h \<and> 0 \<le> q \<and> q \<le> h
      \<and> h \<le> clock_of 1 db' \<and> got = log_of text_ext 1 db' 0 q"
  by (rule pulls_are_gap_free [OF text_ext_uuid text_ext_transports sync_wf_empty]) simp

text \<open>A table of one record and its change, which is all a clock of 1 needs.\<close>

definition one_change_db :: sync_db where
  "one_change_db = history text_ext [later_op\<lparr>op_mutation := sample_put 5 None ''a''\<rparr>] empty_db"

theorem replication_converges_witness:
  "\<exists>got cursor. follow text_ext (replicate 32 (CHR ''k'')) 1 (Some 5)
       (map (\<lambda>nonce. ([], nonce)) [''abcdefghijkl'']) None [] one_change_db
        = Inr (got, True, cursor, one_change_db) \<and> absorb got Map.empty = view 1 one_change_db"
proof (rule replication_converges [OF text_ext_transports])
  show "sync_wf text_ext one_change_db"
    unfolding one_change_db_def by (rule sync_wf_history [OF sync_wf_empty text_ext_uuid])
  have "clock_of 1 one_change_db = 1"
    by (simp add: one_change_db_def run_op_def later_op_def sample_put_def sync_run empty_db_def
          text_ext_def cursor_text_def clock_of_def store.look_ins)
  then show "clock_of 1 one_change_db \<le> int (length [''abcdefghijkl''])" by simp
qed simp_all

end
