(* ===== verification/Session.thy ===== *)
theory Session
  imports App_Error Auth_Core
begin

text \<open>
  The browser sessions of \<open>crates/canonical-session/src/lib.rs\<close> over the tables of
  \<open>entity/web_session.rs\<close> and \<open>entity/user_profile.rs\<close>: creation, authentication, the fenced
  refresh of the upstream tokens, and the reconciliation of logouts. Each definition that takes
  and returns a \<open>session_db\<close> is one database transaction unless its text says otherwise; \<open>wall\<close>
  is the process clock (\<open>Utc::now\<close>), \<open>now\<close> the clock of the database (\<open>database_now\<close>).
\<close>

section \<open>Tables\<close>

record web_session =
  ws_user_id :: uuid
  ws_email :: string
  ws_supabase_session_id :: "uuid option"
  ws_encrypted_access_token :: string
  ws_encrypted_refresh_token :: string
  ws_access_expires_at :: timestamp
  ws_refresh_lease_id :: "uuid option"
  ws_refresh_lease_expires_at :: "timestamp option"
  ws_csrf_token :: string
  ws_created_at :: timestamp
  ws_updated_at :: timestamp
  ws_expires_at :: timestamp
  ws_revoked_at :: "timestamp option"
  ws_revocation_pending_at :: "timestamp option"
  ws_revocation_next_attempt_at :: "timestamp option"
  ws_revocation_attempts :: int
  ws_upstream_revoked_at :: "timestamp option"
  ws_revocation_abandoned_at :: "timestamp option"
  ws_revocation_failure_kind :: "string option"

record user_profile =
  up_email :: string
  up_display_name :: "string option"
  up_created_at :: timestamp
  up_updated_at :: timestamp

record session_db =
  sessions :: "(string, web_session) store"
  profiles :: "(uuid, user_profile) store"

definition no_sessions :: session_db where
  "no_sessions = \<lparr>sessions = [], profiles = []\<rparr>"

definition save :: "string \<Rightarrow> web_session \<Rightarrow> session_db \<Rightarrow> session_db" where
  "save id_hash m db = db\<lparr>sessions := put id_hash m (sessions db)\<rparr>"

lemma find_save [simp]:
  "find_by i (sessions (save j m db)) = (if i = j then Some m else find_by i (sessions db))"
  "profiles (save j m db) = profiles db"
  by (simp_all add: save_def store.look_ins)

section \<open>Constants\<close>

definition REVOCATION_BATCH_SIZE :: nat where "REVOCATION_BATCH_SIZE = 32"
definition REVOCATION_LEASE :: int where "REVOCATION_LEASE = seconds 75"
definition REVOCATION_RETENTION :: int where "REVOCATION_RETENTION = seconds (7 * 86400)"
definition REFRESH_LEASE :: int where "REFRESH_LEASE = seconds 30"
definition REFRESH_WAIT :: nat where "REFRESH_WAIT = 22000"
definition REFRESH_POLL_INITIAL :: nat where "REFRESH_POLL_INITIAL = 50"
definition REFRESH_POLL_MAX :: nat where "REFRESH_POLL_MAX = 1000"
definition MAX_REFRESH_COORDINATORS :: nat where "MAX_REFRESH_COORDINATORS = 4096"

section \<open>Helpers\<close>

definition hash_token :: "ext \<Rightarrow> string \<Rightarrow> string" where
  "hash_token x value = b64_encode x (sha256 x value)"

definition random_token :: "ext \<Rightarrow> string \<Rightarrow> string" where
  "random_token x bytes = b64_encode x bytes"

definition encrypt :: "ext \<Rightarrow> string \<Rightarrow> string \<Rightarrow> string \<Rightarrow> session_error + string" where
  "encrypt x key nonce plaintext =
     try_then (ok_or (aead_seal x key nonce plaintext) SCrypto) (\<lambda>ciphertext.
     Inr (b64_encode x (nonce @ ciphertext)))"

definition decrypt :: "ext \<Rightarrow> string \<Rightarrow> string \<Rightarrow> session_error + string" where
  "decrypt x key encoded =
     try_then (ok_or (b64_decode x encoded) SCrypto) (\<lambda>bytes.
     if length bytes < 12 then Inl SCrypto
     else try_then (ok_or (aead_open x key (take 12 bytes) (drop 12 bytes)) SCrypto) (\<lambda>plaintext.
          ok_or (from_utf8 plaintext) SCrypto))"

fun map_auth_error :: "auth_provider_error \<Rightarrow> session_error" where
  "map_auth_error InvalidCredentials = SUnauthorized"
| "map_auth_error Unavailable = SAuthUpstream"
| "map_auth_error InvalidResponse = SAuthUpstream"

definition resolve_rotated_session_id ::
    "uuid option \<Rightarrow> uuid option \<Rightarrow> auth_provider_error + uuid option" where
  "resolve_rotated_session_id stored observed =
     (case (stored, observed) of
        (Some expected, Some actual) \<Rightarrow>
          if expected \<noteq> actual then Inl InvalidResponse else Inr (Some expected)
      | (Some expected, None) \<Rightarrow> Inr (Some expected)
      | (None, observed) \<Rightarrow> Inr observed)"

text \<open>The claim \<open>exp\<close>; the second of the dot-separated parts is read whatever their number.\<close>

definition bearer_expiry :: "ext \<Rightarrow> (int \<Rightarrow> timestamp option) \<Rightarrow> string \<Rightarrow> timestamp option" where
  "bearer_expiry x timestamp_opt token =
     (case split_on (CHR ''.'') token of
        _ # payload # _ \<Rightarrow>
          Option.bind (b64_decode x payload) (\<lambda>bytes.
          Option.bind (json_parse x bytes) (\<lambda>value.
          Option.bind (Option.bind (json_get ''exp'' value) as_i64) timestamp_opt))
      | _ \<Rightarrow> None)"

definition context_from_model :: "string \<Rightarrow> web_session \<Rightarrow> auth_context" where
  "context_from_model id_hash m =
     \<lparr>ctx_user_id = ws_user_id m, ctx_email = ws_email m, ctx_source = SessionCookie,
      ctx_supabase_session_id = ws_supabase_session_id m, ctx_session_hash = Some id_hash,
      ctx_csrf_token = Some (ws_csrf_token m), ctx_expires_at = ws_expires_at m\<rparr>"

definition validate_model :: "timestamp \<Rightarrow> web_session \<Rightarrow> session_error + unit" where
  "validate_model wall m =
     (if ws_revoked_at m \<noteq> None \<or> ws_expires_at m \<le> wall then Inl SUnauthorized else Inr ())"

lemma validate_model_Inr [simp]:
  "validate_model wall m = Inr u \<longleftrightarrow> ws_revoked_at m = None \<and> wall < ws_expires_at m"
  by (auto simp: validate_model_def)

lemma encrypt_decrypt:
  assumes "b64_law x" "aead_law x key" "length nonce = 12" "valid_utf8 plaintext"
    and "encrypt x key nonce plaintext = Inr c"
  shows "decrypt x key c = Inr plaintext"
proof -
  obtain ciphertext where "aead_seal x key nonce plaintext = Some ciphertext"
      "c = b64_encode x (nonce @ ciphertext)"
    using assms(5) by (auto simp: encrypt_def try_then_Inr ok_or_Inr)
  then show ?thesis
    using assms(1-4) by (simp add: decrypt_def b64_law_def aead_law_def from_utf8_def)
qed

lemma resolve_keeps:
  "resolve_rotated_session_id (Some s) observed = Inr r \<Longrightarrow> r = Some s"
  by (auto simp: resolve_rotated_session_id_def split: option.splits if_splits)

section \<open>Creating and authenticating\<close>

record created_session =
  cs_raw_id :: string
  cs_csrf_token :: string
  cs_context :: auth_context

text \<open>
  The random inputs of one call: two 32-byte strings and the nonces of the two encryptions. A
  time to live in seconds that chrono cannot represent in milliseconds is refused.
\<close>

record create_random =
  cr_raw :: string
  cr_csrf :: string
  cr_access_nonce :: string
  cr_refresh_nonce :: string

definition from_std :: "nat \<Rightarrow> int option" where
  "from_std ttl = (if int ttl \<le> i64_max div 1000 then Some (seconds (int ttl)) else None)"

definition new_session ::
    "timestamp \<Rightarrow> timestamp \<Rightarrow> auth_tokens \<Rightarrow> uuid option \<Rightarrow> string \<Rightarrow> string \<Rightarrow> string \<Rightarrow> web_session" where
  "new_session now expires_at tokens sid enc_access enc_refresh csrf =
     \<lparr>ws_user_id = su_id (at_user tokens),
      ws_email = (case su_email (at_user tokens) of None \<Rightarrow> [] | Some e \<Rightarrow> e),
      ws_supabase_session_id = sid,
      ws_encrypted_access_token = enc_access, ws_encrypted_refresh_token = enc_refresh,
      ws_access_expires_at = at_expires_at tokens,
      ws_refresh_lease_id = None, ws_refresh_lease_expires_at = None,
      ws_csrf_token = csrf, ws_created_at = now, ws_updated_at = now, ws_expires_at = expires_at,
      ws_revoked_at = None, ws_revocation_pending_at = None, ws_revocation_next_attempt_at = None,
      ws_revocation_attempts = 0, ws_upstream_revoked_at = None, ws_revocation_abandoned_at = None,
      ws_revocation_failure_kind = None\<rparr>"

text \<open>The profile upsert: a conflict on the user updates the email and the time.\<close>

definition upsert_profile :: "timestamp \<Rightarrow> uuid \<Rightarrow> string \<Rightarrow> session_db \<Rightarrow> session_db" where
  "upsert_profile now user email db =
     (let p = (case find_by user (profiles db) of
                 None \<Rightarrow> \<lparr>up_email = email, up_display_name = None, up_created_at = now, up_updated_at = now\<rparr>
               | Some p \<Rightarrow> p\<lparr>up_email := email, up_updated_at := now\<rparr>)
      in db\<lparr>profiles := put user p (profiles db)\<rparr>)"

definition create ::
    "ext \<Rightarrow> string \<Rightarrow> nat \<Rightarrow> create_random \<Rightarrow> timestamp \<Rightarrow> auth_tokens \<Rightarrow> session_db
       \<Rightarrow> (session_error + created_session) \<times> session_db" where
  "create x key ttl rnd now tokens db =
     (let raw_id = random_token x (cr_raw rnd);
          id_hash = hash_token x raw_id;
          csrf_token = random_token x (cr_csrf rnd)
      in case try_then (ok_or (from_std ttl) (SBadRequest ''session TTL is too large'')) (\<lambda>d.
              try_then (map_err map_auth_error
                  (validated_session_id x (at_access_token tokens) (su_id (at_user tokens)))) (\<lambda>sid.
              try_then (encrypt x key (cr_access_nonce rnd) (at_access_token tokens)) (\<lambda>enc_access.
              try_then (encrypt x key (cr_refresh_nonce rnd) (at_refresh_token tokens)) (\<lambda>enc_refresh.
              if find_by id_hash (sessions db) \<noteq> None then Inl SDatabase
              else Inr (new_session now (now + d) tokens sid enc_access enc_refresh csrf_token))))) of
           Inl e \<Rightarrow> (Inl e, db)
         | Inr m \<Rightarrow>
             (Inr \<lparr>cs_raw_id = raw_id, cs_csrf_token = csrf_token,
                   cs_context = context_from_model id_hash m\<rparr>,
              upsert_profile now (ws_user_id m) (ws_email m) (save id_hash m db)))"

text \<open>
  A session whose access token ends within a minute needs a refresh, which is several
  transactions; otherwise the answer is the context of the row.
\<close>

datatype authentication = Authenticated auth_context | NeedsRefresh string

definition authenticate_hash ::
    "timestamp \<Rightarrow> string \<Rightarrow> session_db \<Rightarrow> session_error + authentication" where
  "authenticate_hash wall id_hash db =
     try_then (ok_or (find_by id_hash (sessions db)) SUnauthorized) (\<lambda>m.
     try_then (validate_model wall m) (\<lambda>_.
     if ws_access_expires_at m \<le> wall + seconds 60 then Inr (NeedsRefresh id_hash)
     else Inr (Authenticated (context_from_model id_hash m))))"

definition authenticate ::
    "ext \<Rightarrow> timestamp \<Rightarrow> string \<Rightarrow> session_db \<Rightarrow> session_error + authentication" where
  "authenticate x wall raw_id db = authenticate_hash wall (hash_token x raw_id) db"

definition reject_locally_revoked_bearer :: "uuid \<Rightarrow> uuid \<Rightarrow> session_db \<Rightarrow> session_error + unit" where
  "reject_locally_revoked_bearer user sid db =
     (if list_ex (\<lambda>(_, m). ws_user_id m = user \<and> ws_supabase_session_id m = Some sid
            \<and> ws_revoked_at m \<noteq> None) (sessions db)
      then Inl SUnauthorized else Inr ())"

text \<open>\<open>looked_up\<close> is the provider's answer for the token.\<close>

definition authenticate_bearer ::
    "ext \<Rightarrow> (int \<Rightarrow> timestamp option) \<Rightarrow> timestamp \<Rightarrow> string \<Rightarrow> auth_provider_error + supabase_user
       \<Rightarrow> session_db \<Rightarrow> session_error + auth_context" where
  "authenticate_bearer x timestamp_opt wall token looked_up db =
     try_then (map_err map_auth_error looked_up) (\<lambda>user.
     try_then (map_err map_auth_error (validated_session_id x token (su_id user))) (\<lambda>sid.
     try_then (case sid of None \<Rightarrow> Inr () | Some s \<Rightarrow> reject_locally_revoked_bearer (su_id user) s db)
       (\<lambda>_.
     Inr \<lparr>ctx_user_id = su_id user, ctx_email = (case su_email user of None \<Rightarrow> [] | Some e \<Rightarrow> e),
          ctx_source = Bearer, ctx_supabase_session_id = sid, ctx_session_hash = None,
          ctx_csrf_token = None,
          ctx_expires_at = (case bearer_expiry x timestamp_opt token of
             Some t \<Rightarrow> t | None \<Rightarrow> wall + seconds (5 * 60))\<rparr>)))"

text \<open>\<open>revalidate\<close>; \<open>refreshed\<close> is the outcome of the refresh, if one is needed.\<close>

definition revalidate ::
    "timestamp \<Rightarrow> auth_context \<Rightarrow> (string \<Rightarrow> session_error + auth_context) \<Rightarrow> session_db
       \<Rightarrow> session_error + unit" where
  "revalidate wall ctx refreshed db =
     (case ctx_session_hash ctx of
        Some id_hash \<Rightarrow>
          try_then (authenticate_hash wall id_hash db) (\<lambda>a.
          case a of Authenticated _ \<Rightarrow> Inr ()
          | NeedsRefresh i \<Rightarrow> try_then (refreshed i) (\<lambda>_. Inr ()))
      | None \<Rightarrow>
          if wall < ctx_expires_at ctx then
            (case ctx_supabase_session_id ctx of
               None \<Rightarrow> Inr ()
             | Some sid \<Rightarrow> reject_locally_revoked_bearer (ctx_user_id ctx) sid db)
          else Inl SUnauthorized)"

section \<open>Logout: queueing and claiming\<close>

definition terminal :: "web_session \<Rightarrow> bool" where
  "terminal m \<longleftrightarrow> ws_upstream_revoked_at m \<noteq> None \<or> ws_revocation_abandoned_at m \<noteq> None"

definition or_now :: "timestamp option \<Rightarrow> timestamp \<Rightarrow> timestamp" where
  "or_now t now = (case t of None \<Rightarrow> now | Some t \<Rightarrow> t)"

definition mark_revocation :: "timestamp \<Rightarrow> web_session \<Rightarrow> web_session" where
  "mark_revocation now m =
     (if terminal m then m
      else m\<lparr>ws_revoked_at := Some (or_now (ws_revoked_at m) now),
             ws_revocation_pending_at := Some (or_now (ws_revocation_pending_at m) now),
             ws_revocation_next_attempt_at :=
               (if ws_revocation_pending_at m = None then Some now else ws_revocation_next_attempt_at m),
             ws_refresh_lease_id := None, ws_refresh_lease_expires_at := None,
             ws_updated_at := now\<rparr>)"

definition queue_revocation :: "timestamp \<Rightarrow> string \<Rightarrow> session_db \<Rightarrow> session_db" where
  "queue_revocation now id_hash db =
     (case find_by id_hash (sessions db) of
        None \<Rightarrow> db
      | Some m \<Rightarrow> save id_hash (mark_revocation now m) db)"

record revocation_claim =
  rv_id_hash :: string
  rv_access_token :: string
  rv_refresh_token :: string
  rv_access_expires_at :: timestamp
  rv_supabase_session_id :: "uuid option"
  rv_attempts :: int
  rv_user_id :: uuid

text \<open>\<open>attempts.saturating_add(1)\<close> on an \<open>i32\<close>.\<close>

definition next_attempts :: "int \<Rightarrow> int" where
  "next_attempts n = min i32_max (n + 1)"

definition claimable :: "timestamp \<Rightarrow> web_session \<Rightarrow> bool" where
  "claimable now m \<longleftrightarrow> ws_revoked_at m \<noteq> None \<and> \<not> terminal m
     \<and> (case ws_revocation_next_attempt_at m of None \<Rightarrow> True | Some t \<Rightarrow> t \<le> now)"

definition undecryptable :: "timestamp \<Rightarrow> web_session \<Rightarrow> web_session" where
  "undecryptable now m =
     m\<lparr>ws_revocation_attempts := next_attempts (ws_revocation_attempts m),
       ws_revocation_pending_at := None, ws_revocation_next_attempt_at := None,
       ws_revocation_abandoned_at := Some now,
       ws_revocation_failure_kind := Some ''token_decryption_failed'', ws_updated_at := now\<rparr>"

definition claim_revocation ::
    "ext \<Rightarrow> string \<Rightarrow> timestamp \<Rightarrow> string \<Rightarrow> session_db
       \<Rightarrow> (session_error + revocation_claim option) \<times> session_db" where
  "claim_revocation x key now id_hash db =
     (case find_by id_hash (sessions db) of
        None \<Rightarrow> (Inr None, db)
      | Some m \<Rightarrow>
          if \<not> claimable now m then (Inr None, db)
          else
            (case try_then (decrypt x key (ws_encrypted_access_token m)) (\<lambda>a.
                  try_then (decrypt x key (ws_encrypted_refresh_token m)) (\<lambda>r. Inr (a, r))) of
               Inl _ \<Rightarrow> (Inr None, save id_hash (undecryptable now m) db)
             | Inr (access, refresh) \<Rightarrow>
                 (case map_err map_auth_error
                         (try_then (validated_session_id x access (ws_user_id m))
                            (resolve_rotated_session_id (ws_supabase_session_id m))) of
                    Inl e \<Rightarrow> (Inl e, db)
                  | Inr sid \<Rightarrow>
                      let attempts = next_attempts (ws_revocation_attempts m)
                      in (Inr (Some \<lparr>rv_id_hash = id_hash, rv_access_token = access,
                            rv_refresh_token = refresh, rv_access_expires_at = ws_access_expires_at m,
                            rv_supabase_session_id = sid, rv_attempts = attempts,
                            rv_user_id = ws_user_id m\<rparr>),
                          save id_hash (m\<lparr>ws_supabase_session_id := sid,
                            ws_revocation_attempts := attempts,
                            ws_revocation_next_attempt_at := Some (now + REVOCATION_LEASE),
                            ws_updated_at := now\<rparr>) db))))"

section \<open>Logout: the outcomes of an attempt\<close>

text \<open>
  The check every outcome makes under the row lock: the row is not terminal and no later
  attempt has claimed it.
\<close>

definition owns_attempt :: "revocation_claim \<Rightarrow> web_session \<Rightarrow> bool" where
  "owns_attempt c m \<longleftrightarrow> \<not> terminal m \<and> ws_revocation_attempts m = rv_attempts c"

definition finish_attempt ::
    "revocation_claim \<Rightarrow> (web_session \<Rightarrow> web_session) \<Rightarrow> session_db \<Rightarrow> session_db" where
  "finish_attempt c update db =
     (case find_by (rv_id_hash c) (sessions db) of
        None \<Rightarrow> db
      | Some m \<Rightarrow> if owns_attempt c m then save (rv_id_hash c) (update m) db else db)"

definition confirmed :: "timestamp \<Rightarrow> web_session \<Rightarrow> web_session" where
  "confirmed now m =
     m\<lparr>ws_upstream_revoked_at := Some now, ws_revocation_abandoned_at := None,
       ws_revocation_failure_kind := None, ws_revocation_pending_at := None,
       ws_revocation_next_attempt_at := None, ws_updated_at := now\<rparr>"

definition confirm_revocation :: "timestamp \<Rightarrow> revocation_claim \<Rightarrow> session_db \<Rightarrow> session_db" where
  "confirm_revocation now c db = finish_attempt c (confirmed now) db"

definition abandoned :: "timestamp \<Rightarrow> string \<Rightarrow> web_session \<Rightarrow> web_session" where
  "abandoned now failure_kind m =
     m\<lparr>ws_revocation_abandoned_at := Some now, ws_revocation_failure_kind := Some failure_kind,
       ws_revocation_pending_at := None, ws_revocation_next_attempt_at := None, ws_updated_at := now\<rparr>"

definition abandon_revocation ::
    "timestamp \<Rightarrow> string \<Rightarrow> revocation_claim \<Rightarrow> session_db \<Rightarrow> session_db" where
  "abandon_revocation now failure_kind c db = finish_attempt c (abandoned now failure_kind) db"

text \<open>\<open>2_i64.saturating_pow\<close> of an exponent clamped to 1 to 10, capped at an hour.\<close>

definition revocation_retry_delay :: "int \<Rightarrow> int" where
  "revocation_retry_delay attempts =
     seconds (min (min i64_max (2 ^ nat (max 1 (min attempts 10)))) 3600)"

definition deferred :: "timestamp \<Rightarrow> int \<Rightarrow> web_session \<Rightarrow> web_session" where
  "deferred now attempts m =
     m\<lparr>ws_revocation_pending_at := Some (or_now (ws_revocation_pending_at m) now),
       ws_revocation_next_attempt_at := Some (now + revocation_retry_delay attempts),
       ws_updated_at := now\<rparr>"

definition defer_revocation :: "timestamp \<Rightarrow> revocation_claim \<Rightarrow> session_db \<Rightarrow> session_db" where
  "defer_revocation now c db = finish_attempt c (deferred now (rv_attempts c)) db"

definition rotated_row ::
    "timestamp \<Rightarrow> auth_tokens \<Rightarrow> uuid option \<Rightarrow> string \<Rightarrow> string \<Rightarrow> web_session \<Rightarrow> web_session" where
  "rotated_row now tokens sid enc_access enc_refresh m =
     m\<lparr>ws_email := (case su_email (at_user tokens) of None \<Rightarrow> ws_email m | Some e \<Rightarrow> e),
       ws_supabase_session_id := sid, ws_encrypted_access_token := enc_access,
       ws_encrypted_refresh_token := enc_refresh, ws_access_expires_at := at_expires_at tokens,
       ws_updated_at := now\<rparr>"

definition persist_revocation_rotation ::
    "ext \<Rightarrow> string \<Rightarrow> string \<times> string \<Rightarrow> timestamp \<Rightarrow> revocation_claim \<Rightarrow> auth_tokens \<Rightarrow> uuid option
       \<Rightarrow> session_db \<Rightarrow> (session_error + revocation_claim) \<times> session_db" where
  "persist_revocation_rotation x key nonces now c tokens sid db =
     (case try_then (encrypt x key (fst nonces) (at_access_token tokens)) (\<lambda>a.
           try_then (encrypt x key (snd nonces) (at_refresh_token tokens)) (\<lambda>r. Inr (a, r))) of
        Inl e \<Rightarrow> (Inl e, db)
      | Inr (enc_access, enc_refresh) \<Rightarrow>
          (case find_by (rv_id_hash c) (sessions db) of
             None \<Rightarrow> (Inl SUnauthorized, db)
           | Some m \<Rightarrow>
               if \<not> owns_attempt c m then (Inl SUnauthorized, db)
               else (Inr (c\<lparr>rv_access_token := at_access_token tokens,
                            rv_refresh_token := at_refresh_token tokens,
                            rv_access_expires_at := at_expires_at tokens,
                            rv_supabase_session_id := sid\<rparr>),
                     save (rv_id_hash c) (rotated_row now tokens sid enc_access enc_refresh m) db)))"

section \<open>Logout: a whole attempt\<close>

text \<open>
  The answers of the provider during one attempt. It signs out at most twice, once before and
  once after the tokens were refreshed, so the calls are told apart by that flag. \<open>ac_wall\<close> is
  the process clock at the expiry check, the others the database clock in the transactions that
  claim, rotate and finish. This is the attempt of one process with nothing in between; the
  step relation of the revocation theory has all interleavings.
\<close>

record provider =
  pv_refresh :: "string \<Rightarrow> auth_provider_error + auth_tokens"
  pv_sign_out :: "bool \<Rightarrow> string \<Rightarrow> auth_provider_error + unit"

record attempt_clock =
  ac_claim :: timestamp
  ac_wall :: timestamp
  ac_rotate :: timestamp
  ac_finish :: timestamp

datatype revocation_refresh_failure = Upstream auth_provider_error | Local session_error

definition refresh_revocation_claim ::
    "ext \<Rightarrow> string \<Rightarrow> string \<times> string \<Rightarrow> provider \<Rightarrow> timestamp \<Rightarrow> revocation_claim \<Rightarrow> session_db
       \<Rightarrow> (revocation_refresh_failure + revocation_claim) \<times> session_db" where
  "refresh_revocation_claim x key nonces p now c db =
     (case try_then (pv_refresh p (rv_refresh_token c)) (\<lambda>tokens.
           if su_id (at_user tokens) \<noteq> rv_user_id c then Inl InvalidResponse
           else try_then (validated_session_id x (at_access_token tokens) (rv_user_id c)) (\<lambda>observed.
                try_then (resolve_rotated_session_id (rv_supabase_session_id c) observed) (\<lambda>sid.
                Inr (tokens, sid)))) of
        Inl e \<Rightarrow> (Inl (Upstream e), db)
      | Inr (tokens, sid) \<Rightarrow>
          (case persist_revocation_rotation x key nonces now c tokens sid db of
             (r, db) \<Rightarrow> (map_err Local r, db)))"

text \<open>The three arms that follow a failed refresh, the same at both places.\<close>

definition after_failed_refresh ::
    "attempt_clock \<Rightarrow> revocation_claim \<Rightarrow> revocation_refresh_failure \<Rightarrow> session_db
       \<Rightarrow> (session_error + unit) \<times> session_db" where
  "after_failed_refresh t c failure db =
     (case failure of
        Upstream InvalidCredentials \<Rightarrow>
          (Inr (), abandon_revocation (ac_finish t) ''credentials_rejected'' c db)
      | Upstream e \<Rightarrow> (Inl (map_auth_error e), defer_revocation (ac_finish t) c db)
      | Local e \<Rightarrow> (Inl e, db))"

function sign_out_loop ::
    "ext \<Rightarrow> string \<Rightarrow> string \<times> string \<Rightarrow> provider \<Rightarrow> attempt_clock \<Rightarrow> bool \<Rightarrow> revocation_claim
       \<Rightarrow> session_db \<Rightarrow> (session_error + unit) \<times> session_db" where
  "sign_out_loop x key nonces p t refreshed c db =
     (case pv_sign_out p refreshed (rv_access_token c) of
        Inr _ \<Rightarrow> (Inr (), confirm_revocation (ac_finish t) c db)
      | Inl e \<Rightarrow>
          if e = InvalidCredentials \<and> \<not> refreshed then
            (case refresh_revocation_claim x key nonces p (ac_rotate t) c db of
               (Inr c', db') \<Rightarrow> sign_out_loop x key nonces p t True c' db'
             | (Inl failure, db') \<Rightarrow> after_failed_refresh t c failure db')
          else (Inl (map_auth_error e), defer_revocation (ac_finish t) c db))"
  by pat_completeness auto
termination
  by (relation "measure (\<lambda>(x, key, nonces, p, t, refreshed, c, db). if refreshed then 0 else 1)") auto

declare sign_out_loop.simps [simp del]

definition attempt_revocation ::
    "ext \<Rightarrow> string \<Rightarrow> string \<times> string \<Rightarrow> provider \<Rightarrow> attempt_clock \<Rightarrow> string \<Rightarrow> session_db
       \<Rightarrow> (session_error + unit) \<times> session_db" where
  "attempt_revocation x key nonces p t id_hash db =
     (case claim_revocation x key (ac_claim t) id_hash db of
        (Inl e, db) \<Rightarrow> (Inl e, db)
      | (Inr None, db) \<Rightarrow> (Inr (), db)
      | (Inr (Some c), db) \<Rightarrow>
          if rv_access_expires_at c \<le> ac_wall t + seconds 5 then
            (case refresh_revocation_claim x key nonces p (ac_rotate t) c db of
               (Inr c', db') \<Rightarrow> sign_out_loop x key nonces p t True c' db'
             | (Inl failure, db') \<Rightarrow> after_failed_refresh t c failure db')
          else sign_out_loop x key nonces p t False c db)"

text \<open>A logout: queued, then attempted; the caller never sees a failed attempt.\<close>

definition revoke ::
    "ext \<Rightarrow> string \<Rightarrow> string \<times> string \<Rightarrow> provider \<Rightarrow> timestamp \<Rightarrow> attempt_clock \<Rightarrow> string \<Rightarrow> session_db
       \<Rightarrow> session_db" where
  "revoke x key nonces p now t raw_id db =
     snd (attempt_revocation x key nonces p t (hash_token x raw_id)
            (queue_revocation now (hash_token x raw_id) db))"

section \<open>Reconciliation\<close>

definition expired_sessions :: "timestamp \<Rightarrow> session_db \<Rightarrow> (string \<times> web_session) list" where
  "expired_sessions now db =
     take REVOCATION_BATCH_SIZE (sort_key (\<lambda>(_, m). ws_expires_at m)
       (filter (\<lambda>(_, m). ws_revoked_at m = None \<and> ws_expires_at m \<le> now) (sessions db)))"

definition due_now :: "timestamp \<Rightarrow> web_session \<Rightarrow> bool" where
  "due_now now m \<longleftrightarrow> ws_revocation_pending_at m \<noteq> None \<and> \<not> terminal m
     \<and> (case ws_revocation_next_attempt_at m of None \<Rightarrow> False | Some t \<Rightarrow> t \<le> now)"

definition due_revocations :: "timestamp \<Rightarrow> session_db \<Rightarrow> string list" where
  "due_revocations now db =
     map fst (take REVOCATION_BATCH_SIZE
       (sort_key (\<lambda>(_, m). case ws_revocation_next_attempt_at m of None \<Rightarrow> 0 | Some t \<Rightarrow> t)
         (filter (\<lambda>(_, m). due_now now m) (sessions db))))"

definition at_most :: "timestamp option \<Rightarrow> timestamp \<Rightarrow> bool" where
  "at_most t limit = (case t of None \<Rightarrow> False | Some t \<Rightarrow> t \<le> limit)"

definition prunable :: "timestamp \<Rightarrow> web_session \<Rightarrow> bool" where
  "prunable now m \<longleftrightarrow>
     (at_most (ws_upstream_revoked_at m) (now - REVOCATION_RETENTION)
        \<or> at_most (ws_revocation_abandoned_at m) (now - REVOCATION_RETENTION))
     \<and> ws_access_expires_at m \<le> now"

definition prune :: "timestamp \<Rightarrow> session_db \<Rightarrow> session_db" where
  "prune now db = db\<lparr>sessions := retain (\<lambda>_ m. \<not> prunable now m) (sessions db)\<rparr>"

text \<open>The first transaction, with the identifiers it selected.\<close>

definition reconcile_scan :: "timestamp \<Rightarrow> session_db \<Rightarrow> string list \<times> session_db" where
  "reconcile_scan now db =
     (let db = foldl (\<lambda>db (id_hash, m). save id_hash (mark_revocation now m) db) db
                 (expired_sessions now db)
      in (due_revocations now db, prune now db))"

definition reconcile_revocations ::
    "ext \<Rightarrow> string \<Rightarrow> (string \<Rightarrow> string \<times> string) \<Rightarrow> provider \<Rightarrow> timestamp \<Rightarrow> (string \<Rightarrow> attempt_clock)
       \<Rightarrow> session_db \<Rightarrow> session_db" where
  "reconcile_revocations x key nonces p now t db =
     (case reconcile_scan now db of
        (pending_ids, db) \<Rightarrow>
          foldl (\<lambda>db i. snd (attempt_revocation x key (nonces i) p (t i) i db)) db pending_ids)"

section \<open>Refreshing\<close>

record refresh_claim =
  rf_id_hash :: string
  rf_lease_id :: uuid
  rf_user_id :: uuid
  rf_supabase_session_id :: "uuid option"
  rf_refresh_token :: string

datatype refresh_claim_result = Fresh web_session | Claimed refresh_claim | Busy

definition refresh_lease_is_active :: "uuid option \<Rightarrow> timestamp option \<Rightarrow> timestamp \<Rightarrow> bool" where
  "refresh_lease_is_active lease_id expires_at now \<longleftrightarrow>
     lease_id \<noteq> None \<and> (case expires_at of None \<Rightarrow> False | Some e \<Rightarrow> now < e)"

definition claim_refresh ::
    "ext \<Rightarrow> string \<Rightarrow> timestamp \<Rightarrow> timestamp \<Rightarrow> uuid \<Rightarrow> string \<Rightarrow> session_db
       \<Rightarrow> (session_error + refresh_claim_result) \<times> session_db" where
  "claim_refresh x key wall now lease id_hash db =
     (case try_then (ok_or (find_by id_hash (sessions db)) SUnauthorized) (\<lambda>m.
           try_then (validate_model wall m) (\<lambda>_. Inr m)) of
        Inl e \<Rightarrow> (Inl e, db)
      | Inr m \<Rightarrow>
          if now + seconds 60 < ws_access_expires_at m then (Inr (Fresh m), db)
          else if refresh_lease_is_active (ws_refresh_lease_id m) (ws_refresh_lease_expires_at m) now
          then (Inr Busy, db)
          else
            (case decrypt x key (ws_encrypted_refresh_token m) of
               Inl e \<Rightarrow> (Inl e, db)
             | Inr refresh_token \<Rightarrow>
                 (Inr (Claimed \<lparr>rf_id_hash = id_hash, rf_lease_id = lease, rf_user_id = ws_user_id m,
                     rf_supabase_session_id = ws_supabase_session_id m,
                     rf_refresh_token = refresh_token\<rparr>),
                  save id_hash (m\<lparr>ws_refresh_lease_id := Some lease,
                     ws_refresh_lease_expires_at := Some (now + REFRESH_LEASE),
                     ws_updated_at := now\<rparr>) db)))"

definition without_lease :: "timestamp \<Rightarrow> web_session \<Rightarrow> web_session" where
  "without_lease now m =
     m\<lparr>ws_refresh_lease_id := None, ws_refresh_lease_expires_at := None, ws_updated_at := now\<rparr>"

definition finish_refresh_claim ::
    "timestamp \<Rightarrow> refresh_claim \<Rightarrow> bool \<Rightarrow> session_db \<Rightarrow> bool \<times> session_db" where
  "finish_refresh_claim now c revoke_it db =
     (case find_by (rf_id_hash c) (sessions db) of
        None \<Rightarrow> (False, db)
      | Some m \<Rightarrow>
          if ws_refresh_lease_id m \<noteq> Some (rf_lease_id c) then (False, db)
          else (True, save (rf_id_hash c)
                  (if revoke_it then mark_revocation now m else without_lease now m) db))"

definition outcome_after_lost_refresh ::
    "timestamp \<Rightarrow> timestamp \<Rightarrow> string \<Rightarrow> session_db \<Rightarrow> session_error + auth_context" where
  "outcome_after_lost_refresh wall now id_hash db =
     try_then (ok_or (find_by id_hash (sessions db)) SUnauthorized) (\<lambda>m.
     try_then (validate_model wall m) (\<lambda>_.
     if ws_refresh_lease_id m = None \<and> now < ws_access_expires_at m
     then Inr (context_from_model id_hash m) else Inl SAuthUpstream))"

definition refreshed_row ::
    "timestamp \<Rightarrow> auth_tokens \<Rightarrow> uuid option \<Rightarrow> string \<Rightarrow> string \<Rightarrow> web_session \<Rightarrow> web_session" where
  "refreshed_row now tokens sid enc_access enc_refresh m =
     m\<lparr>ws_email := (case su_email (at_user tokens) of None \<Rightarrow> [] | Some e \<Rightarrow> e),
       ws_supabase_session_id := sid, ws_encrypted_access_token := enc_access,
       ws_encrypted_refresh_token := enc_refresh, ws_access_expires_at := at_expires_at tokens,
       ws_refresh_lease_id := None, ws_refresh_lease_expires_at := None, ws_updated_at := now\<rparr>"

text \<open>What the answer of the provider means for a claim: an error, and whether it revokes.\<close>

definition refresh_answer ::
    "ext \<Rightarrow> refresh_claim \<Rightarrow> auth_provider_error + auth_tokens
       \<Rightarrow> (session_error \<times> bool) + auth_tokens \<times> uuid option" where
  "refresh_answer x c answer =
     (case answer of
        Inl InvalidCredentials \<Rightarrow> Inl (SUnauthorized, True)
      | Inl e \<Rightarrow> Inl (map_auth_error e, False)
      | Inr tokens \<Rightarrow>
          if su_id (at_user tokens) \<noteq> rf_user_id c then Inl (SUnauthorized, True)
          else map_err (\<lambda>e. (map_auth_error e, True))
                 (try_then (validated_session_id x (at_access_token tokens) (su_id (at_user tokens)))
                    (\<lambda>observed.
                  try_then (resolve_rotated_session_id (rf_supabase_session_id c) observed) (\<lambda>sid.
                  Inr (tokens, sid)))))"

text \<open>The last transaction; \<open>None\<close> is a lost lease.\<close>

definition persist_refresh ::
    "timestamp \<Rightarrow> timestamp \<Rightarrow> refresh_claim \<Rightarrow> auth_tokens \<Rightarrow> uuid option \<Rightarrow> string \<Rightarrow> string
       \<Rightarrow> session_db \<Rightarrow> (session_error + auth_context) option \<times> session_db" where
  "persist_refresh wall now c tokens sid enc_access enc_refresh db =
     (case find_by (rf_id_hash c) (sessions db) of
        None \<Rightarrow> (Some (Inl SUnauthorized), db)
      | Some m \<Rightarrow>
          if ws_refresh_lease_id m \<noteq> Some (rf_lease_id c) then (None, db)
          else if validate_model wall m \<noteq> Inr () then
            (Some (Inl SUnauthorized), save (rf_id_hash c) (without_lease now m) db)
          else
            let updated = refreshed_row now tokens sid enc_access enc_refresh m
            in (Some (Inr (context_from_model (rf_id_hash c) updated)), save (rf_id_hash c) updated db))"

definition execute_refresh_claim ::
    "ext \<Rightarrow> string \<Rightarrow> string \<times> string \<Rightarrow> timestamp \<Rightarrow> timestamp \<Rightarrow> refresh_claim
       \<Rightarrow> auth_provider_error + auth_tokens \<Rightarrow> session_db \<Rightarrow> (session_error + auth_context) \<times> session_db" where
  "execute_refresh_claim x key nonces wall now c answer db =
     (case refresh_answer x c answer of
        Inl (e, revoke_it) \<Rightarrow>
          (case finish_refresh_claim now c revoke_it db of
             (True, db) \<Rightarrow> (Inl e, db)
           | (False, db) \<Rightarrow> (outcome_after_lost_refresh wall now (rf_id_hash c) db, db))
      | Inr (tokens, sid) \<Rightarrow>
          (case try_then (encrypt x key (fst nonces) (at_access_token tokens)) (\<lambda>a.
                try_then (encrypt x key (snd nonces) (at_refresh_token tokens)) (\<lambda>r. Inr (a, r))) of
             Inl e \<Rightarrow> (Inl e, snd (finish_refresh_claim now c False db))
           | Inr (enc_access, enc_refresh) \<Rightarrow>
               (case persist_refresh wall now c tokens sid enc_access enc_refresh db of
                  (Some r, db) \<Rightarrow> (r, db)
                | (None, db) \<Rightarrow> (outcome_after_lost_refresh wall now (rf_id_hash c) db, db))))"

section \<open>Waiting for a busy refresh\<close>

text \<open>Durations in milliseconds. Doubling fails only beyond the range of a \<open>Duration\<close>.\<close>

definition next_refresh_poll_interval :: "nat \<Rightarrow> nat" where
  "next_refresh_poll_interval current = min (2 * current) REFRESH_POLL_MAX"

definition poll_interval :: "nat \<Rightarrow> nat" where
  "poll_interval i = (next_refresh_poll_interval ^^ i) REFRESH_POLL_INITIAL"

lemma poll_interval_simps:
  "poll_interval 0 = REFRESH_POLL_INITIAL"
  "poll_interval (Suc i) = next_refresh_poll_interval (poll_interval i)"
  by (simp_all add: poll_interval_def)

lemma poll_interval_range: "50 \<le> poll_interval i \<and> poll_interval i \<le> 1000"
  by (induction i) (auto simp: poll_interval_simps next_refresh_poll_interval_def
        REFRESH_POLL_INITIAL_def REFRESH_POLL_MAX_def)

text \<open>
  The leader's loop, at \<open>elapsed\<close> milliseconds after its start and before its \<open>i\<close>-th wait.
  \<open>world\<close> gives, for a time, what the rest of the system has done to the tables since the last
  poll, the two clocks and the lease identifier drawn; \<open>answer\<close> is the provider's. It answers
  with the list of the waits, too.
\<close>

record poll_world =
  pw_tables :: "session_db \<Rightarrow> session_db"
  pw_wall :: timestamp
  pw_now :: timestamp
  pw_lease :: uuid

function refresh_as_local_leader ::
    "ext \<Rightarrow> string \<Rightarrow> string \<times> string \<Rightarrow> (nat \<Rightarrow> poll_world) \<Rightarrow> auth_provider_error + auth_tokens
       \<Rightarrow> string \<Rightarrow> nat \<Rightarrow> nat \<Rightarrow> session_db
       \<Rightarrow> (session_error + auth_context) \<times> nat list \<times> session_db" where
  "refresh_as_local_leader x key nonces world answer id_hash elapsed i db =
     (let w = world elapsed
      in case claim_refresh x key (pw_wall w) (pw_now w) (pw_lease w) id_hash (pw_tables w db) of
           (Inl e, db') \<Rightarrow> (Inl e, [], db')
         | (Inr (Fresh m), db') \<Rightarrow> (Inr (context_from_model id_hash m), [], db')
         | (Inr (Claimed c), db') \<Rightarrow>
             (case execute_refresh_claim x key nonces (pw_wall w) (pw_now w) c answer db' of
                (r, db'') \<Rightarrow> (r, [], db''))
         | (Inr Busy, db') \<Rightarrow>
             if elapsed < REFRESH_WAIT then
               (let d = min (poll_interval i) (REFRESH_WAIT - elapsed);
                    (r, waits, db'') =
                      refresh_as_local_leader x key nonces world answer id_hash (elapsed + d) (Suc i) db'
                in (r, d # waits, db''))
             else (Inl SAuthUpstream, [], db'))"
  by pat_completeness auto

lemma poll_progress: "elapsed < REFRESH_WAIT \<Longrightarrow> 0 < min (poll_interval i) (REFRESH_WAIT - elapsed)"
  using poll_interval_range [of i] by simp

termination refresh_as_local_leader
proof (relation "measure (\<lambda>(x, key, nonces, world, answer, id_hash, elapsed, i, db). REFRESH_WAIT - elapsed)",
    goal_cases)
  case 1
  show ?case by simp
next
  case (2 x key nonces world answer id_hash elapsed i db)
  then show ?case using poll_progress [of elapsed i] by simp
qed

declare refresh_as_local_leader.simps [simp del]

section \<open>Local coordination\<close>

text \<open>
  The entries of the coordinator hold, for each session, how many tasks of this process have
  its lock; a weak entry without holders is dead and goes at the next call.
\<close>

type_synonym coordinator = "(string, nat) store"

definition prune_locks :: "coordinator \<Rightarrow> coordinator" where
  "prune_locks entries = retain (\<lambda>_ holders. 0 < holders) entries"

definition lock_for :: "string \<Rightarrow> coordinator \<Rightarrow> bool \<times> coordinator" where
  "lock_for id_hash entries =
     (let entries = prune_locks entries
      in case find_by id_hash entries of
           Some holders \<Rightarrow> (True, put id_hash (holders + 1) entries)
         | None \<Rightarrow>
             if MAX_REFRESH_COORDINATORS \<le> count entries then (False, entries)
             else (True, put id_hash 1 entries))"

definition release_lock :: "string \<Rightarrow> coordinator \<Rightarrow> coordinator" where
  "release_lock id_hash entries =
     prune_locks (case find_by id_hash entries of
        None \<Rightarrow> entries | Some holders \<Rightarrow> put id_hash (holders - 1) entries)"

text \<open>
  \<open>refresh_fenced\<close>; \<open>leading\<close> is whether the lock was free. A follower waits for the leader and
  then reads once.
\<close>

definition refresh_fenced ::
    "ext \<Rightarrow> string \<Rightarrow> string \<times> string \<Rightarrow> (nat \<Rightarrow> poll_world) \<Rightarrow> auth_provider_error + auth_tokens
       \<Rightarrow> bool \<Rightarrow> string \<Rightarrow> coordinator \<Rightarrow> session_db
       \<Rightarrow> (session_error + auth_context) \<times> coordinator \<times> session_db" where
  "refresh_fenced x key nonces world answer leading id_hash locks db =
     (case lock_for id_hash locks of
        (False, locks) \<Rightarrow> (Inl SAuthUpstream, locks, db)
      | (True, locks) \<Rightarrow>
          (case (if leading then
                   (case refresh_as_local_leader x key nonces world answer id_hash 0 0 db of
                      (r, _, db') \<Rightarrow> (r, db'))
                 else
                   (let w = world 0; db' = pw_tables w db
                    in (outcome_after_lost_refresh (pw_wall w) (pw_now w) id_hash db', db'))) of
             (r, db') \<Rightarrow> (r, release_lock id_hash locks, db')))"

section \<open>Properties of the calls\<close>

lemma create_Inr:
  assumes "create x key ttl rnd now tokens db = (Inr cs, db')"
  shows "\<exists>d sid a r m. from_std ttl = Some d
    \<and> validated_session_id x (at_access_token tokens) (su_id (at_user tokens)) = Inr sid
    \<and> encrypt x key (cr_access_nonce rnd) (at_access_token tokens) = Inr a
    \<and> encrypt x key (cr_refresh_nonce rnd) (at_refresh_token tokens) = Inr r
    \<and> cs_raw_id cs = random_token x (cr_raw rnd)
    \<and> m = new_session now (now + d) tokens sid a r (random_token x (cr_csrf rnd))
    \<and> find_by (hash_token x (cs_raw_id cs)) (sessions db) = None
    \<and> cs_context cs = context_from_model (hash_token x (cs_raw_id cs)) m
    \<and> db' = upsert_profile now (ws_user_id m) (ws_email m) (save (hash_token x (cs_raw_id cs)) m db)"
  using assms
  by (auto simp: create_def Let_def try_then_Inr ok_or_Inr map_err_Inr split: sum.splits if_splits)

lemma upsert_sessions [simp]: "sessions (upsert_profile now user email db) = sessions db"
  by (simp add: upsert_profile_def Let_def)

text \<open>
  What \<open>create\<close> hands out authenticates: until the session or its access token comes to its end,
  the raw identifier answers with exactly the context that was returned at creation, whose user
  is the one the provider vouched for; the row is new and stands under the hash of the raw
  identifier, and no other session is touched.
\<close>

theorem created_session_authenticates:
  assumes "create x key ttl rnd now tokens db = (Inr cs, db')"
    and "wall < ctx_expires_at (cs_context cs)"
    and "wall + seconds 60 < at_expires_at tokens"
  shows "authenticate x wall (cs_raw_id cs) db' = Inr (Authenticated (cs_context cs))
    \<and> ctx_user_id (cs_context cs) = su_id (at_user tokens)
    \<and> ctx_session_hash (cs_context cs) = Some (hash_token x (cs_raw_id cs))
    \<and> (if id_hash = hash_token x (cs_raw_id cs) then find_by id_hash (sessions db) = None
       else find_by id_hash (sessions db') = find_by id_hash (sessions db))"
proof -
  obtain d sid a r m where m: "m = new_session now (now + d) tokens sid a r (random_token x (cr_csrf rnd))"
    "cs_context cs = context_from_model (hash_token x (cs_raw_id cs)) m"
    "find_by (hash_token x (cs_raw_id cs)) (sessions db) = None"
    "db' = upsert_profile now (ws_user_id m) (ws_email m) (save (hash_token x (cs_raw_id cs)) m db)"
    using create_Inr [OF assms(1)] by blast
  then have "ws_revoked_at m = None" "wall < ws_expires_at m" "wall + seconds 60 < ws_access_expires_at m"
    using assms(2,3) by (simp_all add: new_session_def context_from_model_def)
  then show ?thesis
    using m(2-4) by (simp add: authenticate_def authenticate_hash_def validate_model_def m(1)
          new_session_def context_from_model_def)
qed

text \<open>
  C17
  Nobody is authenticated by a dead session: an answer other than an error means that the
  session is stored under the hash of what was presented, has not been revoked and has not
  expired, and the context is that of its row; and a bearer token is accepted only when the
  provider vouches for it and no revoked session of that user has its session identity.
\<close>

theorem authentication_is_sound:
  "(case authenticate x wall raw_id db of
      Inl e \<Rightarrow> e = SUnauthorized
    | Inr answer \<Rightarrow>
        (case find_by (hash_token x raw_id) (sessions db) of
           None \<Rightarrow> False
         | Some m \<Rightarrow> ws_revoked_at m = None \<and> wall < ws_expires_at m
             \<and> answer = (if ws_access_expires_at m \<le> wall + seconds 60
                         then NeedsRefresh (hash_token x raw_id)
                         else Authenticated (context_from_model (hash_token x raw_id) m))))
   \<and> (case authenticate_bearer x timestamp_opt wall token looked_up db of
        Inl e \<Rightarrow> e \<in> {SUnauthorized, SAuthUpstream}
      | Inr ctx \<Rightarrow>
          (case looked_up of Inl _ \<Rightarrow> False | Inr user \<Rightarrow> ctx_user_id ctx = su_id user)
          \<and> ctx_session_hash ctx = None
          \<and> list_all (\<lambda>(_, m). \<not> (ws_user_id m = ctx_user_id ctx \<and> ws_revoked_at m \<noteq> None
               \<and> ws_supabase_session_id m \<noteq> None
               \<and> ws_supabase_session_id m = ctx_supabase_session_id ctx)) (sessions db))"
proof
  show "case authenticate x wall raw_id db of
      Inl e \<Rightarrow> e = SUnauthorized
    | Inr answer \<Rightarrow>
        (case find_by (hash_token x raw_id) (sessions db) of
           None \<Rightarrow> False
         | Some m \<Rightarrow> ws_revoked_at m = None \<and> wall < ws_expires_at m
             \<and> answer = (if ws_access_expires_at m \<le> wall + seconds 60
                         then NeedsRefresh (hash_token x raw_id)
                         else Authenticated (context_from_model (hash_token x raw_id) m)))"
    by (cases "find_by (hash_token x raw_id) (sessions db)")
       (auto simp: authenticate_def authenticate_hash_def validate_model_def)
  have errors: "map_auth_error e \<in> {SUnauthorized, SAuthUpstream}" for e by (cases e) simp_all
  show "case authenticate_bearer x timestamp_opt wall token looked_up db of
        Inl e \<Rightarrow> e \<in> {SUnauthorized, SAuthUpstream}
      | Inr ctx \<Rightarrow>
          (case looked_up of Inl _ \<Rightarrow> False | Inr user \<Rightarrow> ctx_user_id ctx = su_id user)
          \<and> ctx_session_hash ctx = None
          \<and> list_all (\<lambda>(_, m). \<not> (ws_user_id m = ctx_user_id ctx \<and> ws_revoked_at m \<noteq> None
               \<and> ws_supabase_session_id m \<noteq> None
               \<and> ws_supabase_session_id m = ctx_supabase_session_id ctx)) (sessions db)"
  proof (cases looked_up)
    case (Inl e)
    then show ?thesis using errors [of e] by (simp add: authenticate_bearer_def)
  next
    case (Inr user)
    show ?thesis
    proof (cases "validated_session_id x token (su_id user)")
      case (Inl e)
      then show ?thesis using errors [of e] Inr by (simp add: authenticate_bearer_def \<open>looked_up = Inr user\<close>)
    next
      case (Inr sid)
      then show ?thesis using \<open>looked_up = Inr user\<close>
        by (cases sid) (auto simp: authenticate_bearer_def reject_locally_revoked_bearer_def
              list_all_iff list_ex_iff)
    qed
  qed
qed

text \<open>
  A logout uses the tokens of its session: when a created session is queued for revocation and
  then claimed, the claim carries exactly the access and refresh tokens, the user and the
  session identity it was created with, both tokens having been stored encrypted; the row is
  revoked and leased for 75 seconds, with one attempt counted.
\<close>

theorem logout_claims_the_stored_tokens:
  assumes "b64_law x" "aead_law x key"
    and "length (cr_access_nonce rnd) = 12" "length (cr_refresh_nonce rnd) = 12"
    and "valid_utf8 (at_access_token tokens)" "valid_utf8 (at_refresh_token tokens)"
    and "create x key ttl rnd now tokens db = (Inr cs, db')"
    and "queued \<le> claimed"
  shows "\<exists>c m. claim_revocation x key claimed (hash_token x (cs_raw_id cs))
        (queue_revocation queued (hash_token x (cs_raw_id cs)) db')
      = (Inr (Some c), save (hash_token x (cs_raw_id cs)) m
          (queue_revocation queued (hash_token x (cs_raw_id cs)) db'))
    \<and> rv_access_token c = at_access_token tokens \<and> rv_refresh_token c = at_refresh_token tokens
    \<and> rv_user_id c = su_id (at_user tokens) \<and> rv_attempts c = 1
    \<and> rv_supabase_session_id c = ctx_supabase_session_id (cs_context cs)
    \<and> ws_revoked_at m = Some queued \<and> ws_revocation_attempts m = 1
    \<and> ws_revocation_next_attempt_at m = Some (claimed + seconds 75)"
proof -
  let ?id = "hash_token x (cs_raw_id cs)"
  obtain d sid a r where sid: "validated_session_id x (at_access_token tokens) (su_id (at_user tokens)) = Inr sid"
    and enc: "encrypt x key (cr_access_nonce rnd) (at_access_token tokens) = Inr a"
      "encrypt x key (cr_refresh_nonce rnd) (at_refresh_token tokens) = Inr r"
    and ctx: "cs_context cs = context_from_model ?id
      (new_session now (now + d) tokens sid a r (random_token x (cr_csrf rnd)))"
    and row: "find_by ?id (sessions db')
      = Some (new_session now (now + d) tokens sid a r (random_token x (cr_csrf rnd)))"
    using create_Inr [OF assms(7)] by auto
  have dec: "decrypt x key a = Inr (at_access_token tokens)" "decrypt x key r = Inr (at_refresh_token tokens)"
    using encrypt_decrypt assms(1-6) enc by blast+
  have same: "resolve_rotated_session_id sid sid = Inr sid"
    by (auto simp: resolve_rotated_session_id_def split: option.splits)
  let ?m = "mark_revocation queued
      (new_session now (now + d) tokens sid a r (random_token x (cr_csrf rnd)))"
  have q: "find_by ?id (sessions (queue_revocation queued ?id db')) = Some ?m"
    using row by (simp add: queue_revocation_def)
  have m: "ws_encrypted_access_token ?m = a" "ws_encrypted_refresh_token ?m = r" "claimable claimed ?m"
    "ws_user_id ?m = su_id (at_user tokens)" "ws_supabase_session_id ?m = sid"
    "ws_revocation_attempts ?m = 0" "ws_revoked_at ?m = Some queued"
    using assms(8)
    by (simp_all add: new_session_def mark_revocation_def terminal_def claimable_def or_now_def)
  have ctx_sid: "ctx_supabase_session_id (cs_context cs) = sid"
    by (simp add: ctx context_from_model_def new_session_def)
  have claim: "claim_revocation x key claimed ?id (queue_revocation queued ?id db')
    = (Inr (Some \<lparr>rv_id_hash = ?id, rv_access_token = at_access_token tokens,
         rv_refresh_token = at_refresh_token tokens, rv_access_expires_at = ws_access_expires_at ?m,
         rv_supabase_session_id = sid, rv_attempts = 1, rv_user_id = su_id (at_user tokens)\<rparr>),
       save ?id (?m\<lparr>ws_supabase_session_id := sid, ws_revocation_attempts := 1,
         ws_revocation_next_attempt_at := Some (claimed + seconds 75), ws_updated_at := claimed\<rparr>)
         (queue_revocation queued ?id db'))"
    by (simp add: claim_revocation_def q m dec sid same next_attempts_def i32_max_def
          REVOCATION_LEASE_def Let_def)
  show ?thesis
    by (intro exI, rule conjI [OF claim])
       (simp add: m ctx_sid)
qed

text \<open>
  The retry delays double with the attempts and stay between two seconds and 1024 seconds,
  whatever the attempt count, so the cap of an hour that the code also applies has no effect.
\<close>

theorem retry_delays_double:
  "revocation_retry_delay n = seconds (2 ^ nat (max 1 (min n 10)))
   \<and> seconds 2 \<le> revocation_retry_delay n \<and> revocation_retry_delay n \<le> seconds 1024
   \<and> (if 1 \<le> n \<and> n < 10 then revocation_retry_delay (n + 1) = 2 * revocation_retry_delay n
      else revocation_retry_delay (n + 1) = (if n = 0 then seconds 2 else revocation_retry_delay n))"
proof -
  have cap: "(2::int) ^ nat (max 1 (min n 10)) \<le> 2 ^ 10" and low: "(2::int) ^ 1 \<le> 2 ^ nat (max 1 (min n 10))"
    for n by (rule power_increasing; simp)+
  have eq: "revocation_retry_delay n = seconds (2 ^ nat (max 1 (min n 10)))" for n
    using cap [of n] by (simp add: revocation_retry_delay_def i64_max_def)
  show ?thesis
  proof (intro conjI)
    show "revocation_retry_delay n = seconds (2 ^ nat (max 1 (min n 10)))" by (rule eq)
    show "seconds 2 \<le> revocation_retry_delay n" "revocation_retry_delay n \<le> seconds 1024"
      using cap [of n] low [of n] by (simp_all add: eq seconds_def)
    have "nat (n + 1) = Suc (nat n)" if "1 \<le> n" using that by simp
    then show "if 1 \<le> n \<and> n < 10 then revocation_retry_delay (n + 1) = 2 * revocation_retry_delay n
      else revocation_retry_delay (n + 1) = (if n = 0 then seconds 2 else revocation_retry_delay n)"
      by (auto simp: eq seconds_def max_def min_def)
  qed
qed

subsection \<open>Bounded waiting\<close>

lemma poll_interval_full: "5 \<le> i \<Longrightarrow> poll_interval i = 1000"
proof (induction i rule: dec_induct)
  case base
  show ?case
    by (simp add: eval_nat_numeral poll_interval_simps next_refresh_poll_interval_def
          REFRESH_POLL_INITIAL_def REFRESH_POLL_MAX_def)
next
  case (step i)
  then show ?case by (simp add: poll_interval_simps next_refresh_poll_interval_def REFRESH_POLL_MAX_def)
qed

lemma wait_budget:
  assumes "d = min (poll_interval i) (22000 - elapsed)" "elapsed < 22000"
  shows "Suc (5 - Suc i + (22000 - (elapsed + d) + 999) div 1000) \<le> 5 - i + (22000 - elapsed + 999) div 1000"
proof (cases "i < 5")
  case True
  have "(22000 - (elapsed + d) + 999) div 1000 \<le> (22000 - elapsed + 999) div (1000::nat)"
    by (rule div_le_mono) simp
  moreover have "Suc (5 - Suc i) = 5 - i" using True by simp
  ultimately show ?thesis by linarith
next
  case False
  then have d: "d = min 1000 (22000 - elapsed)" using assms(1) poll_interval_full by simp
  show ?thesis
  proof (cases "22000 - elapsed < 1000")
    case True
    then have "22000 - (elapsed + d) = 0" using d by simp
    moreover have "1 \<le> (22000 - elapsed + 999) div (1000::nat)" using assms(2) by simp
    ultimately show ?thesis using False by simp
  next
    case big: False
    then have "22000 - elapsed = (22000 - (elapsed + d)) + 1000" using d by simp
    then have "(22000 - elapsed + 999) div (1000::nat) = Suc ((22000 - (elapsed + d) + 999) div 1000)"
      by simp
    with False show ?thesis by simp
  qed
qed

lemma leader_waits:
  "refresh_as_local_leader x key nonces world answer id_hash elapsed i db = (r, waits, db') \<Longrightarrow>
     sum_list waits \<le> 22000 - elapsed
     \<and> length waits \<le> 5 - i + (22000 - elapsed + 999) div 1000
     \<and> list_all (\<lambda>d. d \<le> 1000) waits"
proof (induction x key nonces world answer id_hash elapsed i db arbitrary: r waits db'
    rule: refresh_as_local_leader.induct)
  case (1 x key nonces world answer id_hash elapsed i db)
  let ?w = "world elapsed"
  obtain claim tables where c: "claim_refresh x key (pw_wall ?w) (pw_now ?w) (pw_lease ?w) id_hash
      (pw_tables ?w db) = (claim, tables)" by force
  show ?case
  proof (cases "claim = Inr Busy \<and> elapsed < 22000")
    case False
    then have "waits = []"
      using 1(2) c
      by (subst (asm) refresh_as_local_leader.simps)
         (auto simp: Let_def REFRESH_WAIT_def split: sum.splits refresh_claim_result.splits prod.splits)
    then show ?thesis by simp
  next
    case True
    let ?d = "min (poll_interval i) (22000 - elapsed)"
    obtain r' waits' db'' where rest: "refresh_as_local_leader x key nonces world answer id_hash
        (elapsed + ?d) (Suc i) tables = (r', waits', db'')" by (metis prod_cases3)
    have waits: "waits = ?d # waits'"
      using 1(2) c True rest
      by (subst (asm) refresh_as_local_leader.simps) (auto simp: Let_def REFRESH_WAIT_def)
    have ih: "sum_list waits' \<le> 22000 - (elapsed + ?d)
      \<and> length waits' \<le> 5 - Suc i + (22000 - (elapsed + ?d) + 999) div 1000
      \<and> list_all (\<lambda>d. d \<le> 1000) waits'"
      using 1(1) [of ?w "Inr Busy" tables Busy ?d] c True rest by (simp add: REFRESH_WAIT_def)
    then have "sum_list waits' \<le> 22000 - (elapsed + ?d)" "list_all (\<lambda>d. d \<le> 1000) waits'" by blast+
    moreover have "?d \<le> 22000 - elapsed" "?d \<le> 1000" using poll_interval_range [of i] by linarith+
    moreover have "22000 - (elapsed + ?d) = 22000 - elapsed - ?d" by simp
    moreover have "sum_list waits = ?d + sum_list waits'" unfolding waits by (rule sum_list.Cons)
    ultimately have "sum_list waits \<le> 22000 - elapsed" "list_all (\<lambda>d. d \<le> 1000) waits"
      by (linarith, simp only: waits list.pred_inject)
    moreover have "length waits \<le> 5 - i + (22000 - elapsed + 999) div 1000"
      using ih wait_budget [of ?d i elapsed] True unfolding waits by simp
    ultimately show ?thesis by blast
  qed
qed

text \<open>
  C18
  Waiting for another replica's refresh always comes to an end: whatever the rest of the system
  does to the tables in the meantime and whatever the provider answers, the leader sleeps at
  most 27 times and 22 seconds in all, less than the 30-second lease it waits for, and none of
  its sleeps is longer than a second.
\<close>

theorem refresh_wait_bounded:
  assumes "refresh_as_local_leader x key nonces world answer id_hash 0 0 db = (r, waits, db')"
  shows "sum_list waits \<le> REFRESH_WAIT \<and> length waits \<le> 27
    \<and> list_all (\<lambda>d. d \<le> 1000) waits \<and> 1000 * int REFRESH_WAIT < REFRESH_LEASE"
  using leader_waits [OF assms] by (simp add: REFRESH_WAIT_def REFRESH_LEASE_def seconds_def)

lemma keyed_prune [simp]: "keyed entries \<Longrightarrow> keyed (prune_locks entries)"
  by (simp add: prune_locks_def store.ok_keep)

lemma find_prune:
  "keyed entries \<Longrightarrow> find_by i (prune_locks entries) =
     (case find_by i entries of Some n \<Rightarrow> if 0 < n then Some n else None | None \<Rightarrow> None)"
  by (simp add: prune_locks_def store.look_keep split: option.split)

text \<open>
  The coordinator keeps one lock per session and stays bounded: a call prunes the dead entries,
  never touches the holders of another session's live lock, adds a holder to this session's
  lock if it has one or room is left for a new one, refuses only when 4096 other sessions have
  live locks, and never exceeds that number.
\<close>

theorem coordinator_is_bounded:
  assumes "keyed entries" and "count entries \<le> MAX_REFRESH_COORDINATORS"
    and "lock_for id_hash entries = (granted, entries')"
  shows "keyed entries' \<and> count entries' \<le> MAX_REFRESH_COORDINATORS
    \<and> granted = (find_by id_hash (prune_locks entries) \<noteq> None
                  \<or> count (prune_locks entries) < MAX_REFRESH_COORDINATORS)
    \<and> find_by i entries' =
        (if i = id_hash \<and> granted
         then Some ((case find_by id_hash entries of Some n \<Rightarrow> n | None \<Rightarrow> 0) + 1)
         else find_by i (prune_locks entries))"
proof -
  have small: "count (prune_locks entries) \<le> MAX_REFRESH_COORDINATORS"
    using store.size_keep assms(2) unfolding prune_locks_def by (rule order_trans)
  show ?thesis
  proof (cases "find_by id_hash (prune_locks entries)")
    case None
    then have "\<forall>n. find_by id_hash entries = Some n \<longrightarrow> n = 0"
      using find_prune [OF assms(1), of id_hash] by (auto split: if_splits)
    with None assms(1,3) small show ?thesis
      by (auto simp: lock_for_def Let_def store.ok_ins store.size_ins store.look_ins
            split: if_splits option.splits)
  next
    case (Some n)
    then have "find_by id_hash entries = Some n"
      using find_prune [OF assms(1), of id_hash] by (auto split: option.splits if_splits)
    with Some assms(1,3) small show ?thesis
      by (auto simp: lock_for_def Let_def store.ok_ins store.size_ins store.look_ins)
  qed
qed

subsection \<open>Samples\<close>

definition session_key :: string where "session_key = replicate 32 (CHR ''k'')"

definition session_random :: create_random where
  "session_random = \<lparr>cr_raw = ''raw'', cr_csrf = ''csrf'', cr_access_nonce = ''abcdefghijkl'',
     cr_refresh_nonce = ''mnopqrstuvwx''\<rparr>"

definition opaque_tokens :: auth_tokens where
  "opaque_tokens = \<lparr>at_access_token = ''a'', at_refresh_token = ''r'', at_expires_at = seconds 3600,
     at_user = \<lparr>su_id = 7, su_email = Some ''a@b''\<rparr>\<rparr>"

definition opaque_row :: web_session where
  "opaque_row = new_session 0 (seconds 7200) opaque_tokens None ''abcdefghijkla'' ''mnopqrstuvwxr'' ''csrf''"

definition opaque_db :: session_db where
  "opaque_db = upsert_profile 0 7 ''a@b'' (save ''raw'' opaque_row no_sessions)"

definition opaque_created :: created_session where
  "opaque_created = \<lparr>cs_raw_id = ''raw'', cs_csrf_token = ''csrf'',
     cs_context = context_from_model ''raw'' opaque_row\<rparr>"

lemma sample_create:
  "create (sample_ext JNull) session_key 7200 session_random 0 opaque_tokens no_sessions
     = (Inr opaque_created, opaque_db)"
  by (simp add: create_def Let_def sample_ext_def random_token_def hash_token_def encrypt_def
        session_random_def opaque_tokens_def validated_session_id_def no_sessions_def from_std_def
        i64_max_def opaque_created_def opaque_db_def opaque_row_def new_session_def)

theorem created_session_authenticates_witness:
  "authenticate (sample_ext JNull) 5 (cs_raw_id opaque_created) opaque_db
      = Inr (Authenticated (cs_context opaque_created))
    \<and> ctx_user_id (cs_context opaque_created) = su_id (at_user opaque_tokens)
    \<and> ctx_session_hash (cs_context opaque_created)
        = Some (hash_token (sample_ext JNull) (cs_raw_id opaque_created))
    \<and> (if ''other'' = hash_token (sample_ext JNull) (cs_raw_id opaque_created)
       then find_by ''other'' (sessions no_sessions) = None
       else find_by ''other'' (sessions opaque_db) = find_by ''other'' (sessions no_sessions))"
  by (rule created_session_authenticates [OF sample_create])
     (simp_all add: opaque_created_def opaque_row_def new_session_def context_from_model_def
        opaque_tokens_def seconds_def)

theorem logout_claims_the_stored_tokens_witness:
  "\<exists>c m. claim_revocation (sample_ext JNull) session_key 9
        (hash_token (sample_ext JNull) (cs_raw_id opaque_created))
        (queue_revocation 8 (hash_token (sample_ext JNull) (cs_raw_id opaque_created)) opaque_db)
      = (Inr (Some c), save (hash_token (sample_ext JNull) (cs_raw_id opaque_created)) m
          (queue_revocation 8 (hash_token (sample_ext JNull) (cs_raw_id opaque_created)) opaque_db))
    \<and> rv_access_token c = at_access_token opaque_tokens
    \<and> rv_refresh_token c = at_refresh_token opaque_tokens
    \<and> rv_user_id c = su_id (at_user opaque_tokens) \<and> rv_attempts c = 1
    \<and> rv_supabase_session_id c = ctx_supabase_session_id (cs_context opaque_created)
    \<and> ws_revoked_at m = Some 8 \<and> ws_revocation_attempts m = 1
    \<and> ws_revocation_next_attempt_at m = Some (9 + seconds 75)"
  by (rule logout_claims_the_stored_tokens [OF _ _ _ _ _ _ sample_create])
     (simp_all add: session_random_def opaque_tokens_def)

text \<open>Another replica holds the lease at first, and is done at the second poll.\<close>

definition held_db :: session_db where
  "held_db = save ''raw'' (opaque_row\<lparr>ws_access_expires_at := 0, ws_refresh_lease_id := Some 4,
     ws_refresh_lease_expires_at := Some (seconds 30)\<rparr>) no_sessions"

definition busy_world :: "nat \<Rightarrow> poll_world" where
  "busy_world t = \<lparr>pw_tables = (\<lambda>_. if t = 0 then held_db else opaque_db), pw_wall = 0, pw_now = 0,
     pw_lease = 1\<rparr>"

theorem refresh_wait_bounded_witness:
  "sum_list [50] \<le> REFRESH_WAIT \<and> length [50 :: nat] \<le> 27
    \<and> list_all (\<lambda>d. d \<le> 1000) [50 :: nat] \<and> 1000 * int REFRESH_WAIT < REFRESH_LEASE"
proof (rule refresh_wait_bounded)
  have fresh: "refresh_as_local_leader (sample_ext JNull) session_key (''n'', ''m'') busy_world
      (Inl Unavailable) ''raw'' 50 (Suc 0) held_db
      = (Inr (context_from_model ''raw'' opaque_row), [], opaque_db)"
    by (subst refresh_as_local_leader.simps)
       (simp add: Let_def busy_world_def claim_refresh_def opaque_db_def opaque_row_def new_session_def
          opaque_tokens_def validate_model_def seconds_def)
  have busy: "claim_refresh (sample_ext JNull) session_key 0 0 1 ''raw'' held_db = (Inr Busy, held_db)"
    by (simp add: claim_refresh_def held_db_def opaque_row_def new_session_def validate_model_def
          seconds_def refresh_lease_is_active_def)
  show "refresh_as_local_leader (sample_ext JNull) session_key (''n'', ''m'') busy_world
      (Inl Unavailable) ''raw'' 0 0 no_sessions = (Inr (context_from_model ''raw'' opaque_row), [50], opaque_db)"
    by (subst refresh_as_local_leader.simps)
       (simp add: Let_def fresh [unfolded One_nat_def] busy busy_world_def [of 0] REFRESH_WAIT_def
          poll_interval_simps REFRESH_POLL_INITIAL_def)
qed

definition one_lock :: coordinator where "one_lock = [(''raw'', 1)]"

theorem coordinator_is_bounded_witness:
  "keyed (put ''raw'' 2 one_lock) \<and> count (put ''raw'' 2 one_lock) \<le> MAX_REFRESH_COORDINATORS
    \<and> True = (find_by ''raw'' (prune_locks one_lock) \<noteq> None
                  \<or> count (prune_locks one_lock) < MAX_REFRESH_COORDINATORS)
    \<and> find_by ''raw'' (put ''raw'' 2 one_lock) =
        (if ''raw'' = ''raw'' \<and> True
         then Some ((case find_by ''raw'' one_lock of Some n \<Rightarrow> n | None \<Rightarrow> 0) + 1)
         else find_by ''raw'' (prune_locks one_lock))"
  by (rule coordinator_is_bounded)
     (simp_all add: one_lock_def keyed_def count_def MAX_REFRESH_COORDINATORS_def lock_for_def
        prune_locks_def retain_def find_by_def put_def)

end
