(* ===== verification/Revocation.thy ===== *)
theory Revocation
  imports Session
begin

text \<open>
  The sessions as several replicas and the revoker run them: a step relation whose steps are the
  single transactions of \<open>crates/canonical-session/src/lib.rs\<close>, in any order, at any times (the
  clocks need not agree or advance), with any answers of the provider. The claims that handlers
  hold between their transactions are part of the state; a handler that is slow or dies keeps
  its claim or drops it. Session identifiers and lease identifiers, which are random, are not
  drawn twice.
\<close>

section \<open>Steps\<close>

record session_world =
  tables :: session_db
  issued :: "string list"
  rev_claims :: "revocation_claim list"
  ref_claims :: "refresh_claim list"

definition start_world :: session_world where
  "start_world = \<lparr>tables = no_sessions, issued = [], rev_claims = [], ref_claims = []\<rparr>"

inductive session_step :: "ext \<Rightarrow> string \<Rightarrow> session_world \<Rightarrow> session_world \<Rightarrow> bool"
  for x :: ext and key :: string where
  st_create: "create x key ttl rnd now tokens (tables w) = (Inr cs, db) \<Longrightarrow>
     hash_token x (cs_raw_id cs) \<notin> set (issued w) \<Longrightarrow>
     session_step x key w (w\<lparr>tables := db, issued := hash_token x (cs_raw_id cs) # issued w\<rparr>)"
| st_logout: "session_step x key w (w\<lparr>tables := queue_revocation now i (tables w)\<rparr>)"
| st_scan: "session_step x key w (w\<lparr>tables := snd (reconcile_scan now (tables w))\<rparr>)"
| st_claim: "claim_revocation x key now i (tables w) = (Inr (Some c), db) \<Longrightarrow>
     session_step x key w (w\<lparr>tables := db, rev_claims := c # rev_claims w\<rparr>)"
| st_no_claim: "claim_revocation x key now i (tables w) = (Inr None, db) \<Longrightarrow>
     session_step x key w (w\<lparr>tables := db\<rparr>)"
| st_confirm: "c \<in> set (rev_claims w) \<Longrightarrow>
     session_step x key w (w\<lparr>tables := confirm_revocation now c (tables w)\<rparr>)"
| st_abandon: "c \<in> set (rev_claims w) \<Longrightarrow>
     session_step x key w (w\<lparr>tables := abandon_revocation now kind c (tables w)\<rparr>)"
| st_defer: "c \<in> set (rev_claims w) \<Longrightarrow>
     session_step x key w (w\<lparr>tables := defer_revocation now c (tables w)\<rparr>)"
| st_rotate: "c \<in> set (rev_claims w) \<Longrightarrow>
     resolve_rotated_session_id (rv_supabase_session_id c) observed = Inr sid \<Longrightarrow>
     persist_revocation_rotation x key nonces now c tokens sid (tables w) = (Inr c', db) \<Longrightarrow>
     session_step x key w (w\<lparr>tables := db, rev_claims := c' # remove1 c (rev_claims w)\<rparr>)"
| st_drop: "session_step x key w (w\<lparr>rev_claims := remove1 c (rev_claims w)\<rparr>)"
| st_lease: "claim_refresh x key wall now lease i (tables w) = (Inr (Claimed c), db) \<Longrightarrow>
     lease \<notin> rf_lease_id ` set (ref_claims w) \<Longrightarrow>
     session_step x key w (w\<lparr>tables := db, ref_claims := c # ref_claims w\<rparr>)"
| st_unlease: "c \<in> set (ref_claims w) \<Longrightarrow>
     session_step x key w (w\<lparr>tables := snd (finish_refresh_claim now c revoke_it (tables w))\<rparr>)"
| st_refresh: "c \<in> set (ref_claims w) \<Longrightarrow> refresh_answer x c (Inr tokens) = Inr (tokens, sid) \<Longrightarrow>
     session_step x key w
       (w\<lparr>tables := snd (persist_refresh wall now c tokens sid enc_access enc_refresh (tables w))\<rparr>)"

abbreviation session_steps :: "ext \<Rightarrow> string \<Rightarrow> session_world \<Rightarrow> session_world \<Rightarrow> bool" where
  "session_steps x key \<equiv> (session_step x key)\<^sup>*\<^sup>*"

section \<open>Rows\<close>

text \<open>The life of a row.\<close>

datatype phase = Active | Pending | Settled

definition phase_rank :: "phase \<Rightarrow> nat" where
  "phase_rank p = (case p of Active \<Rightarrow> 0 | Pending \<Rightarrow> 1 | Settled \<Rightarrow> 2)"

instantiation phase :: linorder
begin

definition less_eq_phase :: "phase \<Rightarrow> phase \<Rightarrow> bool" where
  "less_eq_phase p q \<longleftrightarrow> phase_rank p \<le> phase_rank q"

definition less_phase :: "phase \<Rightarrow> phase \<Rightarrow> bool" where
  "less_phase p q \<longleftrightarrow> phase_rank p < phase_rank q"

instance
  by intro_classes
     (auto simp: less_eq_phase_def less_phase_def phase_rank_def split: phase.splits)

end

definition phase_of :: "web_session \<Rightarrow> phase" where
  "phase_of m = (if terminal m then Settled else if ws_revoked_at m \<noteq> None then Pending else Active)"

definition row_ok :: "web_session \<Rightarrow> bool" where
  "row_ok m \<longleftrightarrow>
     (ws_revoked_at m \<noteq> None) = (ws_revocation_pending_at m \<noteq> None \<or> terminal m)
     \<and> (terminal m \<longrightarrow> ws_revocation_pending_at m = None)
     \<and> (ws_revocation_next_attempt_at m \<noteq> None) = (ws_revocation_pending_at m \<noteq> None)
     \<and> \<not> (ws_upstream_revoked_at m \<noteq> None \<and> ws_revocation_abandoned_at m \<noteq> None)
     \<and> (ws_revocation_failure_kind m \<noteq> None) = (ws_revocation_abandoned_at m \<noteq> None)
     \<and> (ws_revoked_at m \<noteq> None \<longrightarrow> ws_refresh_lease_id m = None)
     \<and> (ws_refresh_lease_id m = None) = (ws_refresh_lease_expires_at m = None)
     \<and> 0 \<le> ws_revocation_attempts m \<and> ws_revocation_attempts m \<le> i32_max"

text \<open>What a step may do to a row that stays.\<close>

definition row_step :: "web_session \<Rightarrow> web_session \<Rightarrow> bool" where
  "row_step m m' \<longleftrightarrow>
     (ws_revoked_at m \<noteq> None \<longrightarrow> ws_revoked_at m' = ws_revoked_at m)
     \<and> (terminal m \<longrightarrow> m' = m) \<and> phase_of m \<le> phase_of m'
     \<and> ws_user_id m' = ws_user_id m \<and> ws_csrf_token m' = ws_csrf_token m
     \<and> ws_created_at m' = ws_created_at m \<and> ws_expires_at m' = ws_expires_at m
     \<and> ws_revocation_attempts m \<le> ws_revocation_attempts m'"

lemma row_step_refl [simp]: "row_step m m"
  by (simp add: row_step_def)

lemma row_step_trans: "row_step m m' \<Longrightarrow> row_step m' m'' \<Longrightarrow> row_step m m''"
  by (auto simp: row_step_def)

lemmas row_defs = row_ok_def row_step_def phase_of_def terminal_def less_eq_phase_def phase_rank_def

lemma row_stepI:
  assumes "\<not> terminal m" and "ws_revoked_at m \<noteq> None \<longrightarrow> ws_revoked_at m' = ws_revoked_at m"
    and "ws_user_id m' = ws_user_id m" "ws_csrf_token m' = ws_csrf_token m"
    and "ws_created_at m' = ws_created_at m" "ws_expires_at m' = ws_expires_at m"
    and "ws_revocation_attempts m \<le> ws_revocation_attempts m'"
  shows "row_step m m'"
proof -
  have "phase_of m \<le> phase_of m'"
    using assms(1,2) by (auto simp: phase_of_def less_eq_phase_def phase_rank_def)
  then show ?thesis using assms by (simp add: row_step_def)
qed

lemma not_terminal:
  "\<not> terminal m \<longleftrightarrow> ws_upstream_revoked_at m = None \<and> ws_revocation_abandoned_at m = None"
  by (auto simp: terminal_def)

lemma row_mark:
  assumes "row_ok m"
  shows "row_ok (mark_revocation now m) \<and> row_step m (mark_revocation now m)"
proof (cases "terminal m")
  case True
  with assms show ?thesis by (simp add: mark_revocation_def)
next
  case False
  show ?thesis
  proof
    show "row_ok (mark_revocation now m)"
      using assms False unfolding not_terminal
      by (auto simp: mark_revocation_def row_ok_def terminal_def or_now_def)
    show "row_step m (mark_revocation now m)"
      using False by (intro row_stepI [OF False]) (auto simp: mark_revocation_def or_now_def)
  qed
qed

lemma row_undecryptable:
  assumes "row_ok m" "claimable now m"
  shows "row_ok (undecryptable now m) \<and> row_step m (undecryptable now m)"
proof
  have nt: "\<not> terminal m" using assms by (auto simp: claimable_def row_ok_def)
  show "row_ok (undecryptable now m)"
    using assms nt unfolding not_terminal by (auto simp: undecryptable_def next_attempts_def claimable_def row_ok_def terminal_def)
  show "row_step m (undecryptable now m)"
    using assms by (intro row_stepI [OF nt]) (simp_all add: undecryptable_def next_attempts_def claimable_def row_ok_def)
qed

lemma row_claimed:
  assumes "row_ok m" "claimable now m"
  shows "row_ok (m\<lparr>ws_supabase_session_id := sid,
       ws_revocation_attempts := next_attempts (ws_revocation_attempts m),
       ws_revocation_next_attempt_at := Some t, ws_updated_at := now\<rparr>) \<and> row_step m (m\<lparr>ws_supabase_session_id := sid,
       ws_revocation_attempts := next_attempts (ws_revocation_attempts m),
       ws_revocation_next_attempt_at := Some t, ws_updated_at := now\<rparr>)"
proof
  have nt: "\<not> terminal m" using assms by (auto simp: claimable_def row_ok_def)
  show "row_ok (m\<lparr>ws_supabase_session_id := sid,
       ws_revocation_attempts := next_attempts (ws_revocation_attempts m),
       ws_revocation_next_attempt_at := Some t, ws_updated_at := now\<rparr>)"
    using assms nt unfolding not_terminal by (auto simp: next_attempts_def claimable_def row_ok_def terminal_def)
  show "row_step m (m\<lparr>ws_supabase_session_id := sid,
       ws_revocation_attempts := next_attempts (ws_revocation_attempts m),
       ws_revocation_next_attempt_at := Some t, ws_updated_at := now\<rparr>)"
    using assms by (intro row_stepI [OF nt]) (simp_all add: next_attempts_def claimable_def row_ok_def)
qed

lemma row_confirmed:
  assumes "row_ok m" "\<not> terminal m" "ws_revoked_at m \<noteq> None"
  shows "row_ok (confirmed now m) \<and> row_step m (confirmed now m)"
proof
  have nt: "\<not> terminal m" using assms by (auto simp: claimable_def row_ok_def)
  show "row_ok (confirmed now m)"
    using assms nt unfolding not_terminal by (auto simp: confirmed_def or_now_def row_ok_def terminal_def)
  show "row_step m (confirmed now m)"
    using assms by (intro row_stepI [OF nt]) (simp_all add: confirmed_def or_now_def row_ok_def)
qed

lemma row_abandoned:
  assumes "row_ok m" "\<not> terminal m" "ws_revoked_at m \<noteq> None"
  shows "row_ok (abandoned now kind m) \<and> row_step m (abandoned now kind m)"
proof
  have nt: "\<not> terminal m" using assms by (auto simp: claimable_def row_ok_def)
  show "row_ok (abandoned now kind m)"
    using assms nt unfolding not_terminal by (auto simp: abandoned_def or_now_def row_ok_def terminal_def)
  show "row_step m (abandoned now kind m)"
    using assms by (intro row_stepI [OF nt]) (simp_all add: abandoned_def or_now_def row_ok_def)
qed

lemma row_deferred:
  assumes "row_ok m" "\<not> terminal m" "ws_revoked_at m \<noteq> None"
  shows "row_ok (deferred now n m) \<and> row_step m (deferred now n m)"
proof
  have nt: "\<not> terminal m" using assms by (auto simp: claimable_def row_ok_def)
  show "row_ok (deferred now n m)"
    using assms nt unfolding not_terminal by (auto simp: deferred_def or_now_def row_ok_def terminal_def)
  show "row_step m (deferred now n m)"
    using assms by (intro row_stepI [OF nt]) (simp_all add: deferred_def or_now_def row_ok_def)
qed

lemma row_rotated:
  assumes "row_ok m" "\<not> terminal m"
  shows "row_ok (rotated_row now tokens sid a r m) \<and> row_step m (rotated_row now tokens sid a r m)"
proof
  have nt: "\<not> terminal m" using assms by (auto simp: claimable_def row_ok_def)
  show "row_ok (rotated_row now tokens sid a r m)"
    using assms nt unfolding not_terminal by (auto simp: rotated_row_def row_ok_def terminal_def)
  show "row_step m (rotated_row now tokens sid a r m)"
    using assms by (intro row_stepI [OF nt]) (simp_all add: rotated_row_def row_ok_def)
qed

lemma row_leased:
  assumes "row_ok m" "ws_revoked_at m = None"
  shows "row_ok (m\<lparr>ws_refresh_lease_id := Some l, ws_refresh_lease_expires_at := Some t, ws_updated_at := now\<rparr>) \<and> row_step m (m\<lparr>ws_refresh_lease_id := Some l, ws_refresh_lease_expires_at := Some t, ws_updated_at := now\<rparr>)"
proof
  have nt: "\<not> terminal m" using assms by (auto simp: claimable_def row_ok_def)
  show "row_ok (m\<lparr>ws_refresh_lease_id := Some l, ws_refresh_lease_expires_at := Some t, ws_updated_at := now\<rparr>)"
    using assms nt unfolding not_terminal by (auto simp: row_ok_def terminal_def)
  show "row_step m (m\<lparr>ws_refresh_lease_id := Some l, ws_refresh_lease_expires_at := Some t, ws_updated_at := now\<rparr>)"
    using assms by (intro row_stepI [OF nt]) (simp_all add: row_ok_def)
qed

lemma row_without_lease:
  assumes "row_ok m" "ws_refresh_lease_id m \<noteq> None"
  shows "row_ok (without_lease now m) \<and> row_step m (without_lease now m)"
proof
  have nt: "\<not> terminal m" using assms by (auto simp: claimable_def row_ok_def)
  show "row_ok (without_lease now m)"
    using assms nt unfolding not_terminal by (auto simp: without_lease_def row_ok_def terminal_def)
  show "row_step m (without_lease now m)"
    using assms by (intro row_stepI [OF nt]) (simp_all add: without_lease_def row_ok_def)
qed

lemma row_refreshed:
  assumes "row_ok m" "ws_refresh_lease_id m \<noteq> None"
  shows "row_ok (refreshed_row now tokens sid a r m) \<and> row_step m (refreshed_row now tokens sid a r m)"
proof
  have nt: "\<not> terminal m" using assms by (auto simp: claimable_def row_ok_def)
  show "row_ok (refreshed_row now tokens sid a r m)"
    using assms nt unfolding not_terminal by (auto simp: refreshed_row_def row_ok_def terminal_def)
  show "row_step m (refreshed_row now tokens sid a r m)"
    using assms by (intro row_stepI [OF nt]) (simp_all add: refreshed_row_def row_ok_def)
qed

lemma row_new: "row_ok (new_session now e tokens sid a r csrf)"
  by (simp add: new_session_def row_defs i32_max_def)

section \<open>Tables\<close>

text \<open>
  A transaction evolves the tables by a relation of rows: no row appears, and one that stays is
  in the relation.
\<close>

definition evolves :: "(web_session \<Rightarrow> web_session \<Rightarrow> bool) \<Rightarrow> session_db \<Rightarrow> session_db \<Rightarrow> bool" where
  "evolves R db db' \<longleftrightarrow>
     (keyed (sessions db) \<longrightarrow> keyed (sessions db'))
     \<and> (\<forall>i. case find_by i (sessions db) of
            None \<Rightarrow> find_by i (sessions db') = None
          | Some m \<Rightarrow> (case find_by i (sessions db') of None \<Rightarrow> True | Some m' \<Rightarrow> R m m'))"

lemma evolvesD:
  assumes "evolves R db db'" "find_by i (sessions db') = Some m'"
  shows "\<exists>m. find_by i (sessions db) = Some m \<and> R m m'"
proof -
  have "case find_by i (sessions db) of None \<Rightarrow> find_by i (sessions db') = None
      | Some m \<Rightarrow> (case find_by i (sessions db') of None \<Rightarrow> True | Some m' \<Rightarrow> R m m')"
    using assms(1) by (simp add: evolves_def)
  with assms(2) show ?thesis by (simp split: option.splits)
qed

lemma evolves_refl: "(\<And>i m. find_by i (sessions db) = Some m \<Longrightarrow> R m m) \<Longrightarrow> evolves R db db"
  by (auto simp: evolves_def split: option.split)

lemma evolves_save:
  assumes "find_by i (sessions db) = Some m" "R m m'"
    and "\<And>j n. find_by j (sessions db) = Some n \<Longrightarrow> R n n"
  shows "evolves R db (save i m' db)"
  using assms by (auto simp: evolves_def save_def store.look_ins store.ok_ins split: option.split)

lemma evolves_trans:
  assumes "evolves R db db'" "evolves S db' db''"
    and "\<And>i m m' m''. R m m' \<Longrightarrow> S m' m'' \<Longrightarrow> T m m''"
  shows "evolves T db db''"
  unfolding evolves_def
proof (intro conjI allI)
  show "keyed (sessions db) \<longrightarrow> keyed (sessions db'')"
    using assms(1,2) by (simp add: evolves_def)
  fix i
  have "case find_by i (sessions db) of None \<Rightarrow> find_by i (sessions db') = None
      | Some m \<Rightarrow> (case find_by i (sessions db') of None \<Rightarrow> True | Some m' \<Rightarrow> R m m')"
    "case find_by i (sessions db') of None \<Rightarrow> find_by i (sessions db'') = None
      | Some m \<Rightarrow> (case find_by i (sessions db'') of None \<Rightarrow> True | Some m' \<Rightarrow> S m m')"
    using assms(1,2) by (simp_all add: evolves_def)
  then show "case find_by i (sessions db) of None \<Rightarrow> find_by i (sessions db'') = None
      | Some m \<Rightarrow> (case find_by i (sessions db'') of None \<Rightarrow> True | Some m' \<Rightarrow> T m m')"
    using assms(3) by (cases "find_by i (sessions db')") (auto split: option.splits)
qed

text \<open>The relation all transactions but creation have in common.\<close>

definition good_rows :: "session_db \<Rightarrow> bool" where
  "good_rows db \<longleftrightarrow> (\<forall>i m. find_by i (sessions db) = Some m \<longrightarrow> row_ok m)"

definition life :: "web_session \<Rightarrow> web_session \<Rightarrow> bool" where
  "life m m' \<longleftrightarrow> row_ok m' \<and> row_step m m'"

lemma good_rowsD: "good_rows db \<Longrightarrow> find_by i (sessions db) = Some m \<Longrightarrow> row_ok m"
  by (simp add: good_rows_def)

lemma life_refl: "good_rows db \<Longrightarrow> find_by i (sessions db) = Some m \<Longrightarrow> life m m"
  by (simp add: life_def good_rowsD)

lemma life_trans: "life m m' \<Longrightarrow> life m' m'' \<Longrightarrow> life m m''"
  using row_step_trans by (auto simp: life_def)

lemmas life_rows =
  row_mark [folded life_def] row_undecryptable [folded life_def] row_claimed [folded life_def]
  row_rotated [folded life_def] row_leased [folded life_def] row_without_lease [folded life_def]
  row_refreshed [folded life_def]

lemma life_save:
  "good_rows db \<Longrightarrow> find_by i (sessions db) = Some m \<Longrightarrow> life m m' \<Longrightarrow>
     evolves life db (save i m' db)"
  by (rule evolves_save) (auto simp: life_def good_rowsD)

lemma life_same: "good_rows db \<Longrightarrow> evolves life db db"
  by (rule evolves_refl) (rule life_refl)

lemma evolves_good: "good_rows db \<Longrightarrow> evolves life db db' \<Longrightarrow> good_rows db'"
  unfolding good_rows_def using evolvesD [of life db db'] by (auto simp: life_def)

lemma life_queue: "good_rows db \<Longrightarrow> evolves life db (queue_revocation now i db)"
  by (auto simp: queue_revocation_def intro: life_save life_same life_rows good_rowsD split: option.split)

lemma life_claim:
  assumes "good_rows db"
  shows "evolves life db (snd (claim_revocation x key now i db))"
proof (cases "find_by i (sessions db)")
  case None
  then show ?thesis using assms by (simp add: claim_revocation_def life_same)
next
  case (Some m)
  then have ok: "row_ok m" using assms by (simp add: good_rowsD)
  show ?thesis
  proof (cases "claimable now m")
    case True
    note u = life_save [OF assms Some life_rows(2) [OF ok True]]
    note c = life_save [OF assms Some life_rows(3) [OF ok True]]
    show ?thesis
      using Some True u c life_same [OF assms]
      by (simp add: claim_revocation_def Let_def split: sum.split prod.split)
  qed (use Some assms in \<open>simp add: claim_revocation_def life_same\<close>)
qed

lemma life_finish:
  assumes "good_rows db"
    and "\<And>m. row_ok m \<Longrightarrow> \<not> terminal m \<Longrightarrow> ws_revoked_at m \<noteq> None \<Longrightarrow>
      life m (update m)"
    and "\<And>m. find_by (rv_id_hash c) (sessions db) = Some m \<Longrightarrow> ws_revoked_at m \<noteq> None"
  shows "evolves life db (finish_attempt c update db)"
proof (cases "find_by (rv_id_hash c) (sessions db)")
  case (Some m)
  then have "owns_attempt c m \<Longrightarrow> life m (update m)"
    using assms good_rowsD by (auto simp: owns_attempt_def)
  with Some assms(1) show ?thesis by (simp add: finish_attempt_def life_same life_save)
qed (use assms(1) in \<open>simp add: finish_attempt_def life_same\<close>)

lemma life_outcomes:
  assumes "good_rows db"
    and "\<And>m. find_by (rv_id_hash c) (sessions db) = Some m \<Longrightarrow> ws_revoked_at m \<noteq> None"
  shows life_confirm: "evolves life db (confirm_revocation now c db)"
    and life_abandon: "evolves life db (abandon_revocation now kind c db)"
    and life_defer: "evolves life db (defer_revocation now c db)"
  unfolding confirm_revocation_def abandon_revocation_def defer_revocation_def
  using row_confirmed row_abandoned row_deferred
  by (auto intro!: life_finish [OF assms(1) _ assms(2)] simp: life_def)

lemma life_rotate:
  "good_rows db \<Longrightarrow> evolves life db (snd (persist_revocation_rotation x key nonces now c tokens sid db))"
  by (auto simp: persist_revocation_rotation_def owns_attempt_def intro: life_same
        intro!: life_save life_rows dest: good_rowsD split: option.split sum.split)

lemma life_lease:
  "good_rows db \<Longrightarrow> evolves life db (snd (claim_refresh x key wall now lease i db))"
  by (auto simp: claim_refresh_def try_then_Inr ok_or_Inr intro: life_same intro!: life_save life_rows
        dest: good_rowsD split: sum.split)

lemma life_unlease:
  "good_rows db \<Longrightarrow> evolves life db (snd (finish_refresh_claim now c revoke_it db))"
  by (auto simp: finish_refresh_claim_def intro: life_same intro!: life_save life_rows
        dest: good_rowsD split: option.split)

lemma life_refresh:
  "good_rows db \<Longrightarrow> evolves life db (snd (persist_refresh wall now c tokens sid a r db))"
  by (auto simp: persist_refresh_def Let_def intro: life_same intro!: life_save life_rows dest: good_rowsD split: option.split)

text \<open>The scan marks rows it selected earlier in the same transaction, then prunes.\<close>

lemma expired_in: "(i, m) \<in> set (expired_sessions now db) \<Longrightarrow> (i, m) \<in> set (sessions db)"
  by (auto simp: expired_sessions_def dest: in_set_takeD)

lemma expired_distinct: "keyed (sessions db) \<Longrightarrow> distinct (map fst (expired_sessions now db))"
proof -
  let ?F = "filter (\<lambda>(_, m). ws_revoked_at m = None \<and> ws_expires_at m \<le> now) (sessions db)"
  let ?S = "sort_key (\<lambda>(_, m). ws_expires_at m) ?F"
  assume "keyed (sessions db)"
  then have d: "distinct (map fst ?F)" by (simp add: keyed_def distinct_keys_filter)
  have "card (set (map fst ?S)) = card (set (map fst ?F))" by (simp only: set_map set_sort)
  also have "\<dots> = length (map fst ?S)" using distinct_card [OF d] by (simp only: length_map length_sort)
  finally have "distinct (map fst ?S)" by (rule card_distinct)
  then show ?thesis by (simp add: expired_sessions_def take_map [symmetric])
qed

definition mark_all :: "timestamp \<Rightarrow> (string \<times> web_session) list \<Rightarrow> session_db \<Rightarrow> session_db" where
  "mark_all now rows db = foldl (\<lambda>db (i, m). save i (mark_revocation now m) db) db rows"

lemma find_mark_all:
  "distinct (map fst rows) \<Longrightarrow> find_by i (sessions (mark_all now rows db)) =
     (case map_of rows i of Some m \<Rightarrow> Some (mark_revocation now m) | None \<Rightarrow> find_by i (sessions db))"
proof (induction rows arbitrary: db)
  case (Cons r rows)
  obtain j m where r: "r = (j, m)" by (cases r)
  have "map_of rows j = None" using Cons.prems r by (simp add: map_of_eq_None_iff)
  with Cons r show ?case by (auto simp: mark_all_def split: option.split)
qed (simp add: mark_all_def)

lemma keyed_mark_all: "keyed (sessions db) \<Longrightarrow> keyed (sessions (mark_all now rows db))"
  by (induction rows arbitrary: db) (auto simp: mark_all_def save_def store.ok_ins)

lemma expired_find:
  assumes "keyed (sessions db)" "map_of (expired_sessions now db) i = Some m"
  shows "find_by i (sessions db) = Some m"
  using assms expired_in in_set_find_by map_of_SomeD by metis

lemma find_prune_sessions:
  "keyed (sessions db) \<Longrightarrow> find_by i (sessions (prune now db)) =
     (case find_by i (sessions db) of
        None \<Rightarrow> None | Some m \<Rightarrow> if prunable now m then None else Some m)"
  by (simp add: prune_def store.look_keep split: option.split)

lemma scan_tables: "snd (reconcile_scan now db) = prune now (mark_all now (expired_sessions now db) db)"
  by (simp add: reconcile_scan_def mark_all_def Let_def)

lemma find_scan:
  assumes "keyed (sessions db)"
  shows "find_by i (sessions (snd (reconcile_scan now db))) =
     (case find_by i (sessions db) of
        None \<Rightarrow> None
      | Some m \<Rightarrow>
          (let m' = (if map_of (expired_sessions now db) i = None then m else mark_revocation now m)
           in if prunable now m' then None else Some m'))"
  using expired_find [OF assms, of now i]
  by (auto simp: scan_tables find_prune_sessions keyed_mark_all assms
        find_mark_all [OF expired_distinct [OF assms]] Let_def split: option.splits)

lemma life_scan:
  assumes "keyed (sessions db)" "good_rows db"
  shows "evolves life db (snd (reconcile_scan now db))"
  unfolding evolves_def
proof (intro conjI allI impI)
  show "keyed (sessions (snd (reconcile_scan now db)))"
    using assms(1) by (simp add: scan_tables prune_def store.ok_keep keyed_mark_all)
  fix i
  show "case find_by i (sessions db) of None \<Rightarrow> find_by i (sessions (snd (reconcile_scan now db))) = None
      | Some m \<Rightarrow> (case find_by i (sessions (snd (reconcile_scan now db))) of None \<Rightarrow> True
          | Some m' \<Rightarrow> life m m')"
    using find_scan [OF assms(1), of i now] life_refl [OF assms(2)] life_rows(1) good_rowsD [OF assms(2)]
    by (cases "find_by i (sessions db)") (auto simp: Let_def split: option.splits if_splits)
qed

section \<open>Reachable worlds\<close>

text \<open>
  What holds of every reachable world: rows are well formed and their identifiers issued, and a
  claim belongs to a session that was issued, revoked, and claimed at least as often since.
\<close>

definition claim_fits :: "session_world \<Rightarrow> revocation_claim \<Rightarrow> bool" where
  "claim_fits w c \<longleftrightarrow> rv_id_hash c \<in> set (issued w)
     \<and> (case find_by (rv_id_hash c) (sessions (tables w)) of
          None \<Rightarrow> True
        | Some m \<Rightarrow> ws_revoked_at m \<noteq> None \<and> rv_attempts c \<le> ws_revocation_attempts m
            \<and> ws_user_id m = rv_user_id c)"

definition world_ok :: "session_world \<Rightarrow> bool" where
  "world_ok w \<longleftrightarrow> keyed (sessions (tables w)) \<and> good_rows (tables w)
     \<and> (\<forall>i. find_by i (sessions (tables w)) \<noteq> None \<longrightarrow> i \<in> set (issued w))
     \<and> (\<forall>c \<in> set (rev_claims w). claim_fits w c)"

lemma world_ok_start: "world_ok start_world"
  by (simp add: world_ok_def start_world_def no_sessions_def good_rows_def)

lemma claim_fits_evolves:
  assumes "evolves life (tables w) db" "claim_fits w c"
    and "tables w' = db" "issued w' = issued w"
  shows "claim_fits w' c"
proof (cases "find_by (rv_id_hash c) (sessions db)")
  case None
  with assms(2-4) show ?thesis by (simp add: claim_fits_def)
next
  case (Some m')
  from evolvesD [OF assms(1) this] obtain m where m: "find_by (rv_id_hash c) (sessions (tables w)) = Some m"
    "row_step m m'" by (auto simp: life_def)
  then have "ws_revoked_at m \<noteq> None" "rv_attempts c \<le> ws_revocation_attempts m"
    "ws_user_id m = rv_user_id c" "rv_id_hash c \<in> set (issued w)"
    using assms(2) by (simp_all add: claim_fits_def)
  moreover have "ws_revoked_at m \<noteq> None \<longrightarrow> ws_revoked_at m' = ws_revoked_at m"
    "ws_user_id m' = ws_user_id m" "ws_revocation_attempts m \<le> ws_revocation_attempts m'"
    using m(2) by (simp_all add: row_step_def)
  ultimately show ?thesis using Some assms(3,4) by (simp add: claim_fits_def)
qed

lemma world_ok_evolves:
  assumes "world_ok w" "evolves life (tables w) (tables w')" "issued w' = issued w"
    and "\<And>c. c \<in> set (rev_claims w') \<Longrightarrow> c \<in> set (rev_claims w) \<or> claim_fits w' c"
  shows "world_ok w'"
  unfolding world_ok_def
proof (intro conjI allI impI ballI)
  show "keyed (sessions (tables w'))" using assms(1,2) by (simp add: world_ok_def evolves_def)
  show "good_rows (tables w')" using assms(1,2) evolves_good by (auto simp: world_ok_def)
  show "i \<in> set (issued w')" if "find_by i (sessions (tables w')) \<noteq> None" for i
  proof -
    have "find_by i (sessions (tables w)) \<noteq> None"
      using evolvesD [OF assms(2), of i] that by auto
    then show ?thesis using assms(1,3) by (simp add: world_ok_def)
  qed
  show "claim_fits w' c" if "c \<in> set (rev_claims w')" for c
    using assms(4) [OF that] claim_fits_evolves [OF assms(2)] assms(1,3) by (auto simp: world_ok_def)
qed

lemma claim_Some:
  assumes "claim_revocation x key now i db = (Inr (Some c), db')"
  shows "\<exists>m. find_by i (sessions db) = Some m \<and> claimable now m \<and> rv_id_hash c = i
    \<and> rv_attempts c = next_attempts (ws_revocation_attempts m) \<and> rv_user_id c = ws_user_id m
    \<and> resolve_rotated_session_id (ws_supabase_session_id m) (rv_supabase_session_id c)
        = Inr (rv_supabase_session_id c)
    \<and> db' = save i (m\<lparr>ws_supabase_session_id := rv_supabase_session_id c,
          ws_revocation_attempts := rv_attempts c,
          ws_revocation_next_attempt_at := Some (now + REVOCATION_LEASE), ws_updated_at := now\<rparr>) db"
proof (cases "find_by i (sessions db)")
  case None
  with assms show ?thesis by (simp add: claim_revocation_def)
next
  case (Some m)
  with assms have ok: "claimable now m" by (auto simp: claim_revocation_def split: if_splits)
  obtain a r where dec: "try_then (decrypt x key (ws_encrypted_access_token m)) (\<lambda>a.
      try_then (decrypt x key (ws_encrypted_refresh_token m)) (\<lambda>r. Inr (a, r))) = Inr (a, r)"
    using assms Some ok by (auto simp: claim_revocation_def split: sum.splits)
  obtain sid where sid: "try_then (validated_session_id x a (ws_user_id m))
      (resolve_rotated_session_id (ws_supabase_session_id m)) = Inr sid"
    using assms Some ok dec by (auto simp: claim_revocation_def map_err_Inr split: sum.splits)
  then have "resolve_rotated_session_id (ws_supabase_session_id m) sid = Inr sid"
    by (auto simp: try_then_Inr resolve_rotated_session_id_def split: option.splits if_splits)
  then show ?thesis
    using assms by (intro exI [of _ m]) (auto simp: claim_revocation_def Some ok dec sid Let_def)
qed

lemma rotation_Inr:
  assumes "persist_revocation_rotation x key nonces now c tokens sid db = (Inr c', db')"
  shows "\<exists>m a r. find_by (rv_id_hash c) (sessions db) = Some m \<and> owns_attempt c m
    \<and> rv_id_hash c' = rv_id_hash c \<and> rv_attempts c' = rv_attempts c \<and> rv_user_id c' = rv_user_id c
    \<and> rv_supabase_session_id c' = sid \<and> db' = save (rv_id_hash c) (rotated_row now tokens sid a r m) db"
  using assms
  by (auto simp: persist_revocation_rotation_def split: sum.splits prod.splits option.splits if_splits)

text \<open>What a step does to the rows of sessions that have been issued.\<close>

definition lives_on :: "session_world \<Rightarrow> session_world \<Rightarrow> bool" where
  "lives_on w w' \<longleftrightarrow> set (issued w) \<subseteq> set (issued w')
     \<and> (\<forall>i \<in> set (issued w). case find_by i (sessions (tables w)) of
          None \<Rightarrow> find_by i (sessions (tables w')) = None
        | Some m \<Rightarrow> (case find_by i (sessions (tables w')) of None \<Rightarrow> True | Some m' \<Rightarrow> life m m'))"

lemma lives_on_evolves:
  "evolves life (tables w) (tables w') \<Longrightarrow> issued w' = issued w \<Longrightarrow> lives_on w w'"
  by (simp add: lives_on_def evolves_def)

lemma world_step_evolves:
  assumes "world_ok w" "evolves life (tables w) (tables w')" "issued w' = issued w"
    and "\<And>c. c \<in> set (rev_claims w') \<Longrightarrow> c \<in> set (rev_claims w) \<or> claim_fits w' c"
  shows "world_ok w' \<and> lives_on w w'"
  using assms world_ok_evolves lives_on_evolves by blast

lemma claims_revoked:
  "world_ok w \<Longrightarrow> c \<in> set (rev_claims w) \<Longrightarrow>
     find_by (rv_id_hash c) (sessions (tables w)) = Some m \<Longrightarrow> ws_revoked_at m \<noteq> None"
  unfolding world_ok_def claim_fits_def by fastforce

lemma world_step:
  assumes "session_step x key w w'" "world_ok w"
  shows "world_ok w' \<and> lives_on w w'"
  using assms(1)
proof cases
  case (st_create ttl rnd now tokens cs db)
  let ?i = "hash_token x (cs_raw_id cs)"
  obtain d sid a r m where m: "m = new_session now (now + d) tokens sid a r (random_token x (cr_csrf rnd))"
    "find_by ?i (sessions (tables w)) = None"
    "db = upsert_profile now (ws_user_id m) (ws_email m) (save ?i m (tables w))"
    using create_Inr [OF st_create(2)] by blast
  have find: "find_by j (sessions db) = (if j = ?i then Some m else find_by j (sessions (tables w)))" for j
    by (simp add: m(3))
  have fits: "claim_fits w' c" if "c \<in> set (rev_claims w)" for c
  proof -
    have "claim_fits w c" using assms(2) that by (simp add: world_ok_def)
    then show ?thesis using st_create(1,3) find by (auto simp: claim_fits_def)
  qed
  have good: "good_rows db"
    using assms(2) row_new m(1) by (auto simp: world_ok_def good_rows_def find)
  have "world_ok w'"
    using assms(2) fits good find
    by (auto simp: world_ok_def st_create(1) m(3) save_def store.ok_ins)
  moreover have "lives_on w w'"
    using assms(2) st_create(3) find life_refl
    by (auto simp: lives_on_def st_create(1) world_ok_def split: option.splits)
  ultimately show ?thesis ..
next
  case (st_logout now i)
  then show ?thesis
    using assms(2) life_queue by (intro world_step_evolves) (auto simp: world_ok_def)
next
  case (st_scan now)
  then show ?thesis
    using assms(2) life_scan by (intro world_step_evolves) (auto simp: world_ok_def)
next
  case (st_claim now i c db)
  have ev: "evolves life (tables w) db"
    using assms(2) life_claim [of "tables w" x key now i] st_claim(2) by (simp add: world_ok_def)
  obtain m where m: "find_by i (sessions (tables w)) = Some m" "claimable now m" "rv_id_hash c = i"
    "rv_user_id c = ws_user_id m" "db = save i (m\<lparr>ws_supabase_session_id := rv_supabase_session_id c,
          ws_revocation_attempts := rv_attempts c,
          ws_revocation_next_attempt_at := Some (now + REVOCATION_LEASE), ws_updated_at := now\<rparr>) (tables w)"
    using claim_Some [OF st_claim(2)] by blast
  then have "claim_fits w' c"
    using assms(2) by (auto simp: claim_fits_def claimable_def st_claim(1) world_ok_def)
  then show ?thesis
    using assms(2) ev by (intro world_step_evolves) (auto simp: st_claim(1))
next
  case (st_no_claim now i db)
  have "evolves life (tables w) db"
    using assms(2) life_claim [of "tables w" x key now i] st_no_claim(2) by (simp add: world_ok_def)
  then show ?thesis using assms(2) by (intro world_step_evolves) (auto simp: st_no_claim(1))
next
  case (st_confirm c now)
  then show ?thesis
    using assms(2) life_outcomes(1) [of "tables w" c] claims_revoked
    by (intro world_step_evolves) (auto simp: world_ok_def)
next
  case (st_abandon c now kind)
  then show ?thesis
    using assms(2) life_outcomes(2) [of "tables w" c] claims_revoked
    by (intro world_step_evolves) (auto simp: world_ok_def)
next
  case (st_defer c now)
  then show ?thesis
    using assms(2) life_outcomes(3) [of "tables w" c] claims_revoked
    by (intro world_step_evolves) (auto simp: world_ok_def)
next
  case (st_rotate c observed sid nonces now tokens c' db)
  have ev: "evolves life (tables w) db"
    using assms(2) life_rotate [of "tables w" x key nonces now c tokens sid] st_rotate(4)
    by (simp add: world_ok_def)
  have "claim_fits w c" using assms(2) st_rotate(2) by (simp add: world_ok_def)
  then have "claim_fits w' c'"
    using rotation_Inr [OF st_rotate(4)]
    by (auto simp: claim_fits_def st_rotate(1) rotated_row_def)
  then show ?thesis
    using assms(2) ev by (intro world_step_evolves) (auto simp: st_rotate(1) dest: set_remove1_subset [THEN subsetD])
next
  case (st_drop c)
  then show ?thesis
    using assms(2) life_same by (intro world_step_evolves) (auto simp: world_ok_def dest: set_remove1_subset [THEN subsetD])
next
  case (st_lease wall now lease i c db)
  have "evolves life (tables w) db"
    using assms(2) life_lease [of "tables w" x key wall now lease i] st_lease(2)
    by (simp add: world_ok_def)
  then show ?thesis using assms(2) by (intro world_step_evolves) (auto simp: st_lease(1))
next
  case (st_unlease c now revoke_it)
  then show ?thesis
    using assms(2) life_unlease by (intro world_step_evolves) (auto simp: world_ok_def)
next
  case (st_refresh c tokens sid wall now enc_access enc_refresh)
  then show ?thesis
    using assms(2) life_refresh by (intro world_step_evolves) (auto simp: world_ok_def)
qed

lemma lives_on_refl: "world_ok w \<Longrightarrow> lives_on w w"
  unfolding lives_on_def world_ok_def by (auto split: option.split intro: life_refl)

lemma lives_on_trans: "lives_on w w' \<Longrightarrow> lives_on w' w'' \<Longrightarrow> lives_on w w''"
  unfolding lives_on_def
proof (elim conjE, intro conjI ballI)
  fix i
  assume *: "set (issued w) \<subseteq> set (issued w')" "i \<in> set (issued w)"
    "\<forall>i \<in> set (issued w). case find_by i (sessions (tables w)) of
          None \<Rightarrow> find_by i (sessions (tables w')) = None
        | Some m \<Rightarrow> (case find_by i (sessions (tables w')) of None \<Rightarrow> True | Some m' \<Rightarrow> life m m')"
    "\<forall>i \<in> set (issued w'). case find_by i (sessions (tables w')) of
          None \<Rightarrow> find_by i (sessions (tables w'')) = None
        | Some m \<Rightarrow> (case find_by i (sessions (tables w'')) of None \<Rightarrow> True | Some m' \<Rightarrow> life m m')"
  then have "i \<in> set (issued w')" by blast
  with * have "case find_by i (sessions (tables w)) of
          None \<Rightarrow> find_by i (sessions (tables w')) = None
        | Some m \<Rightarrow> (case find_by i (sessions (tables w')) of None \<Rightarrow> True | Some m' \<Rightarrow> life m m')"
    "case find_by i (sessions (tables w')) of
          None \<Rightarrow> find_by i (sessions (tables w'')) = None
        | Some m \<Rightarrow> (case find_by i (sessions (tables w'')) of None \<Rightarrow> True | Some m' \<Rightarrow> life m m')"
    by blast+
  then show "case find_by i (sessions (tables w)) of
          None \<Rightarrow> find_by i (sessions (tables w'')) = None
        | Some m \<Rightarrow> (case find_by i (sessions (tables w'')) of None \<Rightarrow> True | Some m' \<Rightarrow> life m m')"
    by (cases "find_by i (sessions (tables w'))") (auto split: option.splits intro: life_trans)
qed blast

lemma world_steps:
  assumes "session_steps x key w w'" "world_ok w"
  shows "world_ok w' \<and> lives_on w w'"
  using assms
proof (induction rule: rtranclp_induct)
  case base
  then show ?case by (simp add: lives_on_refl)
next
  case (step w1 w2)
  then show ?case using world_step lives_on_trans by blast
qed

lemma reachable_ok: "session_steps x key start_world w \<Longrightarrow> world_ok w"
  using world_steps world_ok_start by blast

lemma reachable_row:
  "session_steps x key start_world w \<Longrightarrow> find_by i (sessions (tables w)) = Some m \<Longrightarrow> row_ok m"
  using reachable_ok by (auto simp: world_ok_def intro: good_rowsD)

lemma later_row:
  assumes "world_ok w" "session_steps x key w w'" "find_by i (sessions (tables w)) = Some m"
  shows "case find_by i (sessions (tables w')) of None \<Rightarrow> True | Some m' \<Rightarrow> life m m'"
proof -
  have "i \<in> set (issued w)" using assms(1,3) by (simp add: world_ok_def)
  moreover have "lives_on w w'" using world_steps assms(1,2) by blast
  ultimately show ?thesis using assms(3) unfolding lives_on_def by fastforce
qed

lemma revoked_unauthorized:
  "(case find_by (hash_token x raw) (sessions db) of None \<Rightarrow> True | Some m \<Rightarrow> ws_revoked_at m \<noteq> None) \<Longrightarrow>
     authenticate x wall raw db = Inl SUnauthorized"
  by (auto simp: authenticate_def authenticate_hash_def validate_model_def split: option.splits)

section \<open>Properties of all interleavings\<close>

text \<open>
  C4
  Logout is immediate and permanent: once a logout has been queued, no later sequence of steps
  of any replicas, with any provider answers, clocks, refreshes in flight, reconciliations and
  prunings, lets the session authenticate again.
\<close>

theorem logout_is_permanent:
  assumes "session_steps x key start_world w"
    and "session_steps x key (w\<lparr>tables := queue_revocation now (hash_token x raw) (tables w)\<rparr>) w'"
    and "find_by (hash_token x raw) (sessions (tables w)) \<noteq> None"
  shows "authenticate x wall raw (tables w') = Inl SUnauthorized"
proof -
  let ?i = "hash_token x raw"
  let ?w = "w\<lparr>tables := queue_revocation now ?i (tables w)\<rparr>"
  have ok: "world_ok ?w"
    using world_step [OF st_logout] reachable_ok [OF assms(1)] by blast
  obtain m where m: "find_by ?i (sessions (tables w)) = Some m" using assms(3) by blast
  then have row: "find_by ?i (sessions (tables ?w)) = Some (mark_revocation now m)"
    by (simp add: queue_revocation_def)
  have "row_ok m" using reachable_ok [OF assms(1)] m by (simp add: world_ok_def good_rows_def)
  then have revoked: "ws_revoked_at (mark_revocation now m) \<noteq> None"
    by (auto simp: mark_revocation_def row_ok_def)
  from later_row [OF ok assms(2) row] revoked show ?thesis
    by (intro revoked_unauthorized) (auto simp: life_def row_step_def split: option.splits)
qed

text \<open>
  Every session row of a reachable world is well formed: it is revoked exactly when a logout is
  pending or settled; a settled one is confirmed or abandoned, never both, with nothing
  scheduled; a pending one always has a next attempt scheduled; a failure is recorded exactly
  for the abandoned; and a revoked session never has a refresh lease.
\<close>

theorem session_rows_well_formed:
  assumes "session_steps x key start_world w" and "find_by i (sessions (tables w)) = Some m"
  shows "(ws_revoked_at m \<noteq> None) = (ws_revocation_pending_at m \<noteq> None \<or> terminal m)
    \<and> \<not> (terminal m \<and> ws_revocation_pending_at m \<noteq> None)
    \<and> (ws_revocation_next_attempt_at m \<noteq> None) = (ws_revocation_pending_at m \<noteq> None)
    \<and> \<not> (ws_upstream_revoked_at m \<noteq> None \<and> ws_revocation_abandoned_at m \<noteq> None)
    \<and> (ws_revocation_failure_kind m \<noteq> None) = (ws_revocation_abandoned_at m \<noteq> None)
    \<and> \<not> (ws_revoked_at m \<noteq> None \<and> ws_refresh_lease_id m \<noteq> None)"
  using reachable_row [OF assms] unfolding row_ok_def by argo

text \<open>
  A session only moves forward, from active over pending to settled, and a settled row is never
  written again; its user, its CSRF token and its expiry never change, its count of attempts
  never decreases, and a revocation time, once set, stays as it is.
\<close>

theorem sessions_only_advance:
  assumes "session_steps x key start_world w" and "session_steps x key w w'"
    and "find_by i (sessions (tables w)) = Some m" and "find_by i (sessions (tables w')) = Some m'"
  shows "phase_of m \<le> phase_of m' \<and> (if phase_of m = Settled then m' = m else True)
    \<and> ws_user_id m' = ws_user_id m \<and> ws_csrf_token m' = ws_csrf_token m
    \<and> ws_expires_at m' = ws_expires_at m
    \<and> ws_revocation_attempts m \<le> ws_revocation_attempts m'
    \<and> (if ws_revoked_at m = None then True else ws_revoked_at m' = ws_revoked_at m)"
proof -
  have "life m m'"
    using later_row [OF reachable_ok [OF assms(1)] assms(2,3)] assms(4) by simp
  moreover have "phase_of m = Settled \<longleftrightarrow> terminal m" by (simp add: phase_of_def)
  ultimately show ?thesis by (simp add: life_def row_step_def)
qed

lemma prunable_mark: "prunable now (mark_revocation t m) \<Longrightarrow> prunable now m"
  by (cases "terminal m") (simp_all add: mark_revocation_def prunable_def)

lemma finish_keeps:
  "find_by i (sessions db) = Some m \<Longrightarrow> find_by i (sessions (finish_attempt c update db)) \<noteq> None"
  by (auto simp: finish_attempt_def split: option.split)

text \<open>
  Nothing is forgotten early: a step that removes a session's row is a pruning, and the logout
  of that session was confirmed or abandoned at least seven days before and its access token
  has expired.
\<close>

theorem only_settled_rows_vanish:
  assumes "session_step x key w w'" and "session_steps x key start_world w"
    and "find_by i (sessions (tables w)) = Some m" and "find_by i (sessions (tables w')) = None"
  shows "\<exists>now. phase_of m = Settled \<and> ws_access_expires_at m \<le> now
    \<and> (at_most (ws_upstream_revoked_at m) (now - seconds (7 * 86400))
        \<or> at_most (ws_revocation_abandoned_at m) (now - seconds (7 * 86400)))"
  using assms(1)
proof cases
  case (st_scan now)
  have "keyed (sessions (tables w))" using reachable_ok [OF assms(2)] by (simp add: world_ok_def)
  from find_scan [OF this, of i now] assms(3,4) prunable_mark [of now now m]
  have "prunable now m" by (auto simp: st_scan Let_def split: if_splits)
  then show ?thesis
    by (intro exI [of _ now])
       (auto simp: prunable_def phase_of_def terminal_def REVOCATION_RETENTION_def at_most_def
          split: option.splits)
next
  case (st_create ttl rnd now tokens cs db)
  then show ?thesis using assms(3,4) create_Inr [OF st_create(2)] by (auto split: if_splits)
next
  case (st_claim now j c db)
  then show ?thesis using assms(3,4) claim_Some [OF st_claim(2)] by (auto split: if_splits)
next
  case (st_no_claim now j db)
  then show ?thesis
    using assms(3,4) by (auto simp: claim_revocation_def Let_def split: option.splits if_splits sum.splits prod.splits)
next
  case (st_rotate c observed sid nonces now tokens c' db)
  then show ?thesis using assms(3,4) rotation_Inr [OF st_rotate(4)] by (auto split: if_splits)
next
  case (st_lease wall now lease j c db)
  then show ?thesis
    using assms(3,4) by (auto simp: claim_refresh_def split: option.splits if_splits sum.splits)
qed (use assms(3,4) finish_keeps in \<open>auto simp: queue_revocation_def confirm_revocation_def
    abandon_revocation_def defer_revocation_def finish_refresh_claim_def persist_refresh_def Let_def
    split: option.splits if_splits\<close>)

text \<open>
  Of several attempts to log one session out upstream only the latest can write: when a later
  attempt has been claimed, whatever an earlier one learns from the provider, its confirmation,
  abandonment, deferral and rotation of tokens leave the tables exactly as they are.
\<close>

theorem stale_attempts_write_nothing:
  assumes "session_steps x key start_world w"
    and "late \<in> set (rev_claims w)" and "rv_id_hash early = rv_id_hash late"
    and "rv_attempts early < rv_attempts late"
  shows "confirm_revocation now early (tables w) = tables w
    \<and> abandon_revocation now kind early (tables w) = tables w
    \<and> defer_revocation now early (tables w) = tables w
    \<and> snd (persist_revocation_rotation x key nonces now early tokens sid (tables w)) = tables w"
proof -
  have "claim_fits w late" using reachable_ok [OF assms(1)] assms(2) by (simp add: world_ok_def)
  then have lost: "find_by (rv_id_hash early) (sessions (tables w)) = Some m \<Longrightarrow> \<not> owns_attempt early m" for m
    using assms(3,4) by (simp add: claim_fits_def owns_attempt_def)
  show ?thesis
    using lost
    by (auto simp: confirm_revocation_def abandon_revocation_def defer_revocation_def
          finish_attempt_def persist_revocation_rotation_def split: option.split sum.split)
qed

text \<open>
  A refresh cannot revive a session: in a reachable world, a refresh that was in flight when its
  session was revoked, or whose lease another one has taken since, writes nothing, whatever the
  provider answered: it neither stores the new tokens nor clears or revokes anything.
\<close>

theorem lost_refreshes_write_nothing:
  assumes "session_steps x key start_world w"
    and "find_by (rf_id_hash c) (sessions (tables w)) = Some m"
    and "ws_revoked_at m \<noteq> None \<or> ws_refresh_lease_id m \<noteq> Some (rf_lease_id c)"
  shows "finish_refresh_claim now c revoke_it (tables w) = (False, tables w)
    \<and> persist_refresh wall now c tokens sid enc_access enc_refresh (tables w) = (None, tables w)
    \<and> snd (execute_refresh_claim x key nonces wall now c answer (tables w)) = tables w"
proof -
  have lost: "ws_refresh_lease_id m \<noteq> Some (rf_lease_id c)"
    using reachable_row [OF assms(1,2)] assms(3) by (auto simp: row_ok_def)
  have f: "finish_refresh_claim now c b (tables w) = (False, tables w)" for b
    using assms(2) lost by (simp add: finish_refresh_claim_def)
  have p: "persist_refresh wall now c tokens sid a r (tables w) = (None, tables w)" for tokens sid a r
    using assms(2) lost by (simp add: persist_refresh_def)
  show ?thesis
    by (auto simp: f p execute_refresh_claim_def split: sum.split prod.split)
qed

section \<open>Handlers are sequences of steps\<close>

definition runs_to :: "ext \<Rightarrow> string \<Rightarrow> session_world \<Rightarrow> session_db \<Rightarrow> bool" where
  "runs_to x key w db \<longleftrightarrow> (\<exists>w'. session_steps x key w w' \<and> tables w' = db)"

lemma runs_to_refl: "runs_to x key w (tables w)"
  by (auto simp: runs_to_def)

lemma runs_to_step:
  assumes "session_step x key w w'" "runs_to x key w' db"
  shows "runs_to x key w db"
proof -
  obtain w'' where "session_steps x key w' w''" "tables w'' = db"
    using assms(2) by (auto simp: runs_to_def)
  then show ?thesis
    using converse_rtranclp_into_rtranclp [of "session_step x key", OF assms(1)]
    by (auto simp: runs_to_def)
qed

lemma runs_to_one: "session_step x key w w' \<Longrightarrow> runs_to x key w (tables w')"
  using runs_to_step runs_to_refl by blast

lemma runs_confirm: "c \<in> set (rev_claims w) \<Longrightarrow> runs_to x key w (confirm_revocation now c (tables w))"
  using runs_to_one [OF st_confirm] by fastforce

lemma runs_abandon: "c \<in> set (rev_claims w) \<Longrightarrow> runs_to x key w (abandon_revocation now kind c (tables w))"
  using runs_to_one [OF st_abandon] by fastforce

lemma runs_defer: "c \<in> set (rev_claims w) \<Longrightarrow> runs_to x key w (defer_revocation now c (tables w))"
  using runs_to_one [OF st_defer] by fastforce

lemma claim_Inl: "claim_revocation x key now i db = (Inl e, db') \<Longrightarrow> db' = db"
  by (auto simp: claim_revocation_def Let_def split: option.splits if_splits sum.splits prod.splits)

lemma runs_failed:
  "c \<in> set (rev_claims w) \<Longrightarrow> runs_to x key w (snd (after_failed_refresh t c failure (tables w)))"
  using runs_abandon runs_defer runs_to_refl
  by (auto simp: after_failed_refresh_def split: revocation_refresh_failure.split auth_provider_error.split)

lemma refresh_claim_step:
  assumes "refresh_revocation_claim x key nonces p now c (tables w) = (r, db)"
    and "c \<in> set (rev_claims w)"
  shows "case r of
     Inl _ \<Rightarrow> db = tables w
   | Inr c' \<Rightarrow> session_step x key w (w\<lparr>tables := db, rev_claims := c' # remove1 c (rev_claims w)\<rparr>)"
proof (cases r)
  case (Inl failure)
  with assms(1) show ?thesis
    by (auto simp: refresh_revocation_claim_def persist_revocation_rotation_def
          split: sum.splits prod.splits option.splits if_splits)
next
  case (Inr c')
  with assms(1) obtain tokens observed sid where
    "resolve_rotated_session_id (rv_supabase_session_id c) observed = Inr sid"
    "persist_revocation_rotation x key nonces now c tokens sid (tables w) = (Inr c', db)"
    by (auto simp: refresh_revocation_claim_def try_then_Inr map_err_Inr
          split: sum.splits prod.splits if_splits)
  from st_rotate [OF assms(2) this] Inr show ?thesis by simp
qed

lemma runs_sign_out_refreshed:
  "c \<in> set (rev_claims w) \<Longrightarrow> runs_to x key w (snd (sign_out_loop x key nonces p t True c (tables w)))"
  using runs_confirm runs_defer
  by (subst sign_out_loop.simps) (auto split: sum.split)

lemma runs_refreshed:
  assumes "c \<in> set (rev_claims w)"
  shows "runs_to x key w (snd (case refresh_revocation_claim x key nonces p (ac_rotate t) c (tables w) of
     (Inr c', db') \<Rightarrow> sign_out_loop x key nonces p t True c' db'
   | (Inl failure, db') \<Rightarrow> after_failed_refresh t c failure db'))"
proof -
  obtain r db where r: "refresh_revocation_claim x key nonces p (ac_rotate t) c (tables w) = (r, db)"
    by force
  note step = refresh_claim_step [OF r assms]
  show ?thesis
  proof (cases r)
    case (Inl failure)
    with step r runs_failed [OF assms] show ?thesis by simp
  next
    case (Inr c')
    let ?w = "w\<lparr>tables := db, rev_claims := c' # remove1 c (rev_claims w)\<rparr>"
    have "session_step x key w ?w" using step Inr by simp
    moreover have "runs_to x key ?w (snd (sign_out_loop x key nonces p t True c' db))"
      using runs_sign_out_refreshed [of c' ?w] by simp
    ultimately show ?thesis using r Inr runs_to_step by simp
  qed
qed

lemma runs_sign_out:
  assumes "c \<in> set (rev_claims w)"
  shows "runs_to x key w (snd (sign_out_loop x key nonces p t False c (tables w)))"
proof (cases "pv_sign_out p False (rv_access_token c)")
  case (Inr u)
  then show ?thesis using runs_confirm [OF assms] by (subst sign_out_loop.simps) simp
next
  case (Inl e)
  show ?thesis
  proof (cases "e = InvalidCredentials")
    case True
    then show ?thesis using Inl runs_refreshed [OF assms] by (subst sign_out_loop.simps) simp
  next
    case False
    then show ?thesis using Inl runs_defer [OF assms] by (subst sign_out_loop.simps) simp
  qed
qed

lemma attempt_runs: "runs_to x key w (snd (attempt_revocation x key nonces p t i (tables w)))"
proof -
  obtain r db where r: "claim_revocation x key (ac_claim t) i (tables w) = (r, db)" by force
  show ?thesis
  proof (cases r)
    case (Inl e)
    with r claim_Inl have "db = tables w" by blast
    with r Inl runs_to_refl show ?thesis by (simp add: attempt_revocation_def)
  next
    case (Inr o')
    show ?thesis
    proof (cases o')
      case None
      with r Inr have "session_step x key w (w\<lparr>tables := db\<rparr>)" by (intro st_no_claim) simp
      from runs_to_one [OF this] r Inr None show ?thesis by (simp add: attempt_revocation_def)
    next
      case (Some c)
      let ?w = "w\<lparr>tables := db, rev_claims := c # rev_claims w\<rparr>"
      have step: "session_step x key w ?w" using r Inr Some by (intro st_claim) simp
      have "runs_to x key ?w (snd (attempt_revocation x key nonces p t i (tables w)))"
        using runs_refreshed [of c ?w] runs_sign_out [of c ?w] r Inr Some
        by (simp add: attempt_revocation_def)
      with step runs_to_step show ?thesis by blast
    qed
  qed
qed

lemma runs_to_trans:
  assumes "runs_to x key w db" and "\<And>w'. tables w' = db \<Longrightarrow> runs_to x key w' db'"
  shows "runs_to x key w db'"
proof -
  obtain w1 where w1: "session_steps x key w w1" "tables w1 = db"
    using assms(1) by (auto simp: runs_to_def)
  then obtain w2 where "session_steps x key w1 w2" "tables w2 = db'"
    using assms(2) by (auto simp: runs_to_def)
  with w1 rtranclp_trans [of "session_step x key" w w1 w2] show ?thesis by (auto simp: runs_to_def)
qed

lemma attempts_run:
  "runs_to x key w (foldl (\<lambda>db i. snd (attempt_revocation x key (nonces i) p (t i) i db)) (tables w) ids)"
proof (induction ids arbitrary: w)
  case Nil
  then show ?case by (simp add: runs_to_refl)
next
  case (Cons i ids)
  show ?case
  proof (rule runs_to_trans [OF attempt_runs [of x key w "nonces i" p "t i" i]])
    fix w' :: session_world
    assume "tables w' = snd (attempt_revocation x key (nonces i) p (t i) i (tables w))"
    then show "runs_to x key w' (foldl (\<lambda>db i. snd (attempt_revocation x key (nonces i) p (t i) i db))
        (tables w) (i # ids))"
      using Cons.IH [of w'] by simp
  qed
qed


section \<open>Samples\<close>

text \<open>One session is created, and logged out twice by two replicas that both claim it.\<close>

definition created_world :: session_world where
  "created_world = start_world\<lparr>tables := opaque_db, issued := [''raw'']\<rparr>"

lemma reach_created: "session_steps (sample_ext JNull) session_key start_world created_world"
proof -
  have "create (sample_ext JNull) session_key 7200 session_random 0 opaque_tokens (tables start_world)
      = (Inr opaque_created, opaque_db)"
    using sample_create by (simp add: start_world_def)
  from st_create [OF this] have "session_step (sample_ext JNull) session_key start_world created_world"
    by (simp add: created_world_def start_world_def opaque_created_def hash_token_def sample_ext_def)
  then show ?thesis by blast
qed

definition queued_world :: session_world where
  "queued_world = created_world\<lparr>tables := queue_revocation 8 ''raw'' (tables created_world)\<rparr>"

lemma reach_queued: "session_steps (sample_ext JNull) session_key start_world queued_world"
  unfolding queued_world_def using reach_created st_logout by (rule rtranclp.rtrancl_into_rtrancl)

definition pending_row :: "int \<Rightarrow> timestamp \<Rightarrow> web_session" where
  "pending_row n t = (mark_revocation 8 opaque_row)\<lparr>ws_revocation_attempts := n,
     ws_revocation_next_attempt_at := Some (t + seconds 75), ws_updated_at := t\<rparr>"

definition sample_claim :: "int \<Rightarrow> revocation_claim" where
  "sample_claim n = \<lparr>rv_id_hash = ''raw'', rv_access_token = ''a'', rv_refresh_token = ''r'',
     rv_access_expires_at = seconds 3600, rv_supabase_session_id = None, rv_attempts = n,
     rv_user_id = 7\<rparr>"

lemma sample_claim_revocation:
  assumes "find_by ''raw'' (sessions db) = Some (if n = 0 then mark_revocation 8 opaque_row else pending_row n 9)"
    and "n \<in> {0, 1}" and "t \<in> {9, seconds 100}" and "n = 1 \<longrightarrow> t = seconds 100"
  shows "claim_revocation (sample_ext JNull) session_key t ''raw'' db
     = (Inr (Some (sample_claim (n + 1))), save ''raw'' (pending_row (n + 1) t) db)"
  using assms
  by (auto simp: claim_revocation_def claimable_def terminal_def mark_revocation_def opaque_row_def
        new_session_def pending_row_def or_now_def decrypt_def sample_ext_def from_utf8_def
        validated_session_id_def resolve_rotated_session_id_def opaque_tokens_def next_attempts_def
        i32_max_def sample_claim_def REVOCATION_LEASE_def seconds_def)

definition twice_claimed :: session_world where
  "twice_claimed = queued_world\<lparr>
     tables := save ''raw'' (pending_row 2 (seconds 100)) (save ''raw'' (pending_row 1 9) (tables queued_world)),
     rev_claims := [sample_claim 2, sample_claim 1]\<rparr>"

lemma reach_twice_claimed: "session_steps (sample_ext JNull) session_key start_world twice_claimed"
proof -
  let ?w1 = "queued_world\<lparr>tables := save ''raw'' (pending_row 1 9) (tables queued_world),
      rev_claims := [sample_claim 1]\<rparr>"
  have "find_by ''raw'' (sessions (tables queued_world)) = Some (mark_revocation 8 opaque_row)"
    by (simp add: queued_world_def created_world_def queue_revocation_def opaque_db_def)
  then have "claim_revocation (sample_ext JNull) session_key 9 ''raw'' (tables queued_world)
      = (Inr (Some (sample_claim 1)), save ''raw'' (pending_row 1 9) (tables queued_world))"
    using sample_claim_revocation [of "tables queued_world" 0 9] by simp
  from st_claim [OF this] have 1: "session_step (sample_ext JNull) session_key queued_world ?w1"
    by (simp add: queued_world_def created_world_def start_world_def)
  have "claim_revocation (sample_ext JNull) session_key (seconds 100) ''raw'' (tables ?w1)
      = (Inr (Some (sample_claim 2)), save ''raw'' (pending_row 2 (seconds 100)) (tables ?w1))"
    using sample_claim_revocation [of "tables ?w1" 1 "seconds 100"] by simp
  from st_claim [OF this] have 2: "session_step (sample_ext JNull) session_key ?w1 twice_claimed"
    by (simp add: twice_claimed_def)
  from reach_queued 1 2 show ?thesis by (meson rtranclp.rtrancl_into_rtrancl)
qed

theorem stale_attempts_write_nothing_witness:
  "confirm_revocation 200 (sample_claim 1) (tables twice_claimed) = tables twice_claimed
    \<and> abandon_revocation 200 ''credentials_rejected'' (sample_claim 1) (tables twice_claimed)
        = tables twice_claimed
    \<and> defer_revocation 200 (sample_claim 1) (tables twice_claimed) = tables twice_claimed
    \<and> snd (persist_revocation_rotation (sample_ext JNull) session_key (''n'', ''m'') 200 (sample_claim 1)
        opaque_tokens None (tables twice_claimed)) = tables twice_claimed"
  by (rule stale_attempts_write_nothing [OF reach_twice_claimed, of "sample_claim 2"])
     (simp_all add: twice_claimed_def sample_claim_def)

theorem logout_is_permanent_witness:
  "authenticate (sample_ext JNull) 50 ''raw'' (tables queued_world) = Inl SUnauthorized"
proof (rule logout_is_permanent [OF reach_created])
  have h: "hash_token (sample_ext JNull) ''raw'' = ''raw''"
    by (simp add: hash_token_def sample_ext_def)
  show "session_steps (sample_ext JNull) session_key
      (created_world\<lparr>tables := queue_revocation 8 (hash_token (sample_ext JNull) ''raw'') (tables created_world)\<rparr>)
      queued_world"
    by (simp add: h queued_world_def)
  show "find_by (hash_token (sample_ext JNull) ''raw'') (sessions (tables created_world)) \<noteq> None"
    by (simp add: h created_world_def opaque_db_def)
qed

lemma queued_row: "find_by ''raw'' (sessions (tables queued_world)) = Some (mark_revocation 8 opaque_row)"
  by (simp add: queued_world_def created_world_def queue_revocation_def opaque_db_def)

theorem session_rows_well_formed_witness:
  "(ws_revoked_at (mark_revocation 8 opaque_row) \<noteq> None)
      = (ws_revocation_pending_at (mark_revocation 8 opaque_row) \<noteq> None
          \<or> terminal (mark_revocation 8 opaque_row))
    \<and> \<not> (ws_revoked_at (mark_revocation 8 opaque_row) \<noteq> None
          \<and> ws_refresh_lease_id (mark_revocation 8 opaque_row) \<noteq> None)"
  using session_rows_well_formed [OF reach_queued queued_row] by argo

theorem sessions_only_advance_witness:
  "phase_of opaque_row \<le> phase_of (mark_revocation 8 opaque_row)
    \<and> ws_user_id (mark_revocation 8 opaque_row) = ws_user_id opaque_row"
proof -
  have "session_steps (sample_ext JNull) session_key created_world queued_world"
    unfolding queued_world_def using st_logout by blast
  moreover have "find_by ''raw'' (sessions (tables created_world)) = Some opaque_row"
    by (simp add: created_world_def opaque_db_def)
  ultimately show ?thesis
    using sessions_only_advance [OF reach_created _ _ queued_row] by blast
qed

theorem lost_refreshes_write_nothing_witness:
  "finish_refresh_claim 20 \<lparr>rf_id_hash = ''raw'', rf_lease_id = 3, rf_user_id = 7,
      rf_supabase_session_id = None, rf_refresh_token = ''r''\<rparr> True (tables queued_world)
    = (False, tables queued_world)"
  using lost_refreshes_write_nothing [OF reach_queued, of "\<lparr>rf_id_hash = ''raw'', rf_lease_id = 3,
      rf_user_id = 7, rf_supabase_session_id = None, rf_refresh_token = ''r''\<rparr>"]
    queued_row by (simp add: mark_revocation_def opaque_row_def new_session_def terminal_def)

text \<open>The first attempt succeeds, and the revoker prunes the row seven days later.\<close>

definition confirmed_world :: session_world where
  "confirmed_world = queued_world\<lparr>rev_claims := [sample_claim 1],
     tables := confirm_revocation 10 (sample_claim 1) (save ''raw'' (pending_row 1 9) (tables queued_world))\<rparr>"

lemma reach_confirmed: "session_steps (sample_ext JNull) session_key start_world confirmed_world"
proof -
  let ?w1 = "queued_world\<lparr>tables := save ''raw'' (pending_row 1 9) (tables queued_world),
      rev_claims := [sample_claim 1]\<rparr>"
  have "claim_revocation (sample_ext JNull) session_key 9 ''raw'' (tables queued_world)
      = (Inr (Some (sample_claim 1)), save ''raw'' (pending_row 1 9) (tables queued_world))"
    using sample_claim_revocation [of "tables queued_world" 0 9] queued_row by simp
  from st_claim [OF this] have 1: "session_step (sample_ext JNull) session_key queued_world ?w1"
    by (simp add: queued_world_def created_world_def start_world_def)
  have "sample_claim 1 \<in> set (rev_claims ?w1)" by simp
  from st_confirm [OF this, of "sample_ext JNull" session_key 10]
  have 2: "session_step (sample_ext JNull) session_key ?w1 confirmed_world"
    by (simp add: confirmed_world_def)
  from reach_queued 1 2 show ?thesis by (meson rtranclp.rtrancl_into_rtrancl)
qed

lemma confirmed_row:
  "find_by ''raw'' (sessions (tables confirmed_world)) = Some (confirmed 10 (pending_row 1 9))"
  by (simp add: confirmed_world_def confirm_revocation_def finish_attempt_def sample_claim_def
        owns_attempt_def pending_row_def terminal_def mark_revocation_def opaque_row_def new_session_def)

theorem only_settled_rows_vanish_witness:
  "\<exists>now. phase_of (confirmed 10 (pending_row 1 9)) = Settled
    \<and> ws_access_expires_at (confirmed 10 (pending_row 1 9)) \<le> now
    \<and> (at_most (ws_upstream_revoked_at (confirmed 10 (pending_row 1 9))) (now - seconds (7 * 86400))
        \<or> at_most (ws_revocation_abandoned_at (confirmed 10 (pending_row 1 9))) (now - seconds (7 * 86400)))"
proof (rule only_settled_rows_vanish [OF st_scan [of _ _ confirmed_world "seconds (8 * 86400)"]
      reach_confirmed confirmed_row])
  have k: "keyed (sessions (tables confirmed_world))"
    using reachable_ok [OF reach_confirmed] by (simp add: world_ok_def)
  have "prunable (seconds (8 * 86400)) (confirmed 10 (pending_row 1 9))"
    by (simp add: prunable_def confirmed_def at_most_def REVOCATION_RETENTION_def seconds_def
          pending_row_def mark_revocation_def opaque_row_def new_session_def opaque_tokens_def terminal_def)
  moreover have "terminal (confirmed 10 (pending_row 1 9))"
    by (simp add: terminal_def confirmed_def)
  ultimately show "find_by ''raw'' (sessions (tables (confirmed_world\<lparr>tables :=
      snd (reconcile_scan (seconds (8 * 86400)) (tables confirmed_world))\<rparr>))) = None"
    by (simp add: find_scan [OF k] confirmed_row mark_revocation_def Let_def)
qed

end
