(* ===== verification/Http.thy ===== *)
theory Http
  imports Json
begin

text \<open>
  What the server sees of HTTP and of its surroundings: header maps, parsed URLs, the process
  environment, and the string operations the validators of several components share. URL
  parsing is third-party code; it is a parameter and what is relied on is a named law.
\<close>

section \<open>Headers\<close>

text \<open>
  A \<open>HeaderMap\<close> keeps its values in the order received; names are lower case. \<open>get\<close> is the
  first value of a name, \<open>get_all\<close> all of them, and \<open>insert\<close> replaces them by one.
\<close>

type_synonym headers = "(string \<times> string) list"

definition header_get :: "string \<Rightarrow> headers \<Rightarrow> string option" where
  "header_get name hs = map_of hs name"

definition header_all :: "string \<Rightarrow> headers \<Rightarrow> string list" where
  "header_all name hs = map snd (filter (\<lambda>(n, _). n = name) hs)"

definition header_has :: "string \<Rightarrow> headers \<Rightarrow> bool" where
  "header_has name hs \<longleftrightarrow> header_get name hs \<noteq> None"

definition header_insert :: "string \<Rightarrow> string \<Rightarrow> headers \<Rightarrow> headers" where
  "header_insert name v hs = filter (\<lambda>(n, _). n \<noteq> name) hs @ [(name, v)]"

definition header_str :: "string \<Rightarrow> headers \<Rightarrow> string option" where
  "header_str name hs = Option.bind (header_get name hs) to_str"

lemma map_of_filter_other:
  "map_of (filter (\<lambda>(n, _). n \<noteq> name) hs) name' = (if name' = name then None else map_of hs name')"
  by (induction hs) auto

lemma header_get_insert [simp]:
  "header_get name' (header_insert name v hs) = (if name' = name then Some v else header_get name' hs)"
  by (simp add: header_get_def header_insert_def map_add_def map_of_filter_other split: option.split)

text \<open>
  The headers of a provider-independent contract: what one has inserted last is what the
  receiver reads, and nothing else changes.
\<close>

locale header_map =
  fixes get :: "string \<Rightarrow> 'h \<Rightarrow> string option"
    and set :: "string \<Rightarrow> string \<Rightarrow> 'h \<Rightarrow> 'h"
  assumes get_set: "get name' (set name v h) = (if name' = name then Some v else get name' h)"
begin

fun set_all :: "(string \<times> string) list \<Rightarrow> 'h \<Rightarrow> 'h" where
  "set_all [] h = h"
| "set_all ((n, v) # rest) h = set_all rest (set n v h)"

lemma get_set_all_other: "name \<notin> fst ` List.set rest \<Longrightarrow> get name (set_all rest h) = get name h"
  by (induction rest h rule: set_all.induct) (auto simp: get_set)

lemma get_set_all:
  "distinct (map fst kvs) \<Longrightarrow> (name, v) \<in> List.set kvs \<Longrightarrow> get name (set_all kvs h) = Some v"
  by (induction kvs h rule: set_all.induct) (auto simp: get_set get_set_all_other image_iff)

end

interpretation headers: header_map header_get header_insert
  by unfold_locales simp

section \<open>URLs\<close>

text \<open>
  The parts of a \<open>Url\<close> the code reads: \<open>ur_host\<close> is \<open>host_str()\<close>, which has brackets around an
  IPv6 address, \<open>ur_origin\<close> is \<open>origin().ascii_serialization()\<close> and \<open>ur_text\<close> is \<open>as_str()\<close>. The
  error of a parse is its message.
\<close>

record url =
  ur_scheme :: string
  ur_username :: string
  ur_password :: "string option"
  ur_host :: "string option"
  ur_path :: string
  ur_query :: "string option"
  ur_fragment :: "string option"
  ur_origin :: string
  ur_text :: string

type_synonym url_parser = "string \<Rightarrow> string + url"

text \<open>
  The URL standard: the origin of an HTTP(S) URL is its scheme, \<open>://\<close>, host and port, and
  parses back to the same scheme and host with nothing else set.
\<close>

definition origin_law :: "url_parser \<Rightarrow> bool" where
  "origin_law parse \<longleftrightarrow>
     (\<forall>s u. parse s = Inr u \<and> ur_scheme u \<in> {''http'', ''https''} \<and> ur_host u \<noteq> None \<longrightarrow>
        (\<exists>rest. ur_origin u = ur_scheme u @ ''://'' @ rest)
        \<and> (\<exists>v. parse (ur_origin u) = Inr v \<and> ur_scheme v = ur_scheme u \<and> ur_host v = ur_host u))"

definition no_credentials :: "url \<Rightarrow> bool" where
  "no_credentials u \<longleftrightarrow> ur_username u = [] \<and> ur_password u = None"

text \<open>A concrete parser for the witnesses, which knows one URL.\<close>

definition sample_url :: "string \<Rightarrow> string \<Rightarrow> url" where
  "sample_url scheme host =
     \<lparr>ur_scheme = scheme, ur_username = [], ur_password = None, ur_host = Some host,
      ur_path = ''/'', ur_query = None, ur_fragment = None,
      ur_origin = scheme @ ''://'' @ host, ur_text = scheme @ ''://'' @ host @ ''/''\<rparr>"

definition sample_parse :: "string \<Rightarrow> string \<Rightarrow> url_parser" where
  "sample_parse scheme host s =
     (if s = scheme @ ''://'' @ host \<or> s = scheme @ ''://'' @ host @ ''/''
      then Inr (sample_url scheme host) else Inl ''relative URL without a base'')"

lemma sample_parse_law [simp]: "origin_law (sample_parse scheme host)"
  by (auto simp: origin_law_def sample_parse_def sample_url_def split: if_splits)

section \<open>Environment\<close>

text \<open>
  \<open>var_os\<close> is the raw value of a variable, \<open>env_var\<close> is \<open>env::var\<close>, which fails on a value that
  is not UTF-8 as on a missing one.
\<close>

type_synonym environment = "string \<Rightarrow> string option"

definition env_var :: "environment \<Rightarrow> string \<Rightarrow> string option" where
  "env_var env name = Option.bind (env name) from_utf8"

definition or_else :: "'a option \<Rightarrow> 'a \<Rightarrow> 'a" where
  "or_else v d = (case v of None \<Rightarrow> d | Some a \<Rightarrow> a)"

lemma or_else_simps [simp]: "or_else None d = d" "or_else (Some a) d = a"
  by (simp_all add: or_else_def)

section \<open>Strings\<close>

text \<open>\<open>trim_end_matches('/')\<close>\<close>

definition trim_slashes :: "string \<Rightarrow> string" where
  "trim_slashes s = rev (dropWhile (\<lambda>c. c = CHR ''/'') (rev s))"

lemma trim_slashes_end: "trim_slashes s = [] \<or> last (trim_slashes s) \<noteq> CHR ''/''"
proof -
  have "dropWhile (\<lambda>c. c = CHR ''/'') (rev s) = []
      \<or> hd (dropWhile (\<lambda>c. c = CHR ''/'') (rev s)) \<noteq> CHR ''/''"
    using hd_dropWhile by blast
  then show ?thesis by (auto simp: trim_slashes_def last_rev)
qed

lemma trim_slashes_prefix: "\<exists>n. s = trim_slashes s @ replicate n (CHR ''/'')"
proof -
  have "takeWhile (\<lambda>c. c = CHR ''/'') (rev s)
      = replicate (length (takeWhile (\<lambda>c. c = CHR ''/'') (rev s))) (CHR ''/'')"
    by (rule replicate_eqI [symmetric, THEN sym]) (auto dest: set_takeWhileD)
  then obtain n where "takeWhile (\<lambda>c. c = CHR ''/'') (rev s) = replicate n (CHR ''/'')" by blast
  then have "s = rev (replicate n (CHR ''/'') @ dropWhile (\<lambda>c. c = CHR ''/'') (rev s))"
    by (metis rev_rev_ident takeWhile_dropWhile_id)
  then show ?thesis by (metis rev_append rev_replicate trim_slashes_def)
qed

text \<open>The numeric \<open>parse()\<close> of an unsigned type with largest value \<open>m\<close>, errors included.\<close>

fun parse_uint_loop :: "nat \<Rightarrow> nat \<Rightarrow> string \<Rightarrow> string + nat" where
  "parse_uint_loop m acc [] = Inr acc"
| "parse_uint_loop m acc (c # s) =
     (if \<not> is_digit c then Inl ''invalid digit found in string''
      else if m < 10 * acc + (byte c - 48) then Inl ''number too large to fit in target type''
      else parse_uint_loop m (10 * acc + (byte c - 48)) s)"

definition parse_uint :: "nat \<Rightarrow> string \<Rightarrow> string + nat" where
  "parse_uint m s =
     (case s of
        [] \<Rightarrow> Inl ''cannot parse integer from empty string''
      | [c] \<Rightarrow> if c = CHR ''+'' \<or> c = CHR ''-'' then Inl ''invalid digit found in string''
               else parse_uint_loop m 0 [c]
      | c # r \<Rightarrow> if c = CHR ''+'' then parse_uint_loop m 0 r else parse_uint_loop m 0 s)"

lemma parse_uint_loop_digits:
  "acc \<le> m \<Longrightarrow> parse_uint_loop m acc s = Inr n \<longleftrightarrow> parse_digits acc s = Some n \<and> n \<le> m"
proof (induction m acc s rule: parse_uint_loop.induct)
  case (2 m acc c s)
  have grow: "parse_digits a t = Some n \<Longrightarrow> a \<le> n" for a t n
  proof (induction a t rule: parse_digits.induct)
    case (2 a c t)
    then show ?case by (auto split: if_splits)
  qed simp
  show ?case
    using 2 grow by (auto simp: not_le dest: le_trans less_le_trans split: if_splits)
qed auto

lemma parse_uint_le: "parse_uint m s = Inr n \<Longrightarrow> n \<le> m"
  by (auto simp: parse_uint_def parse_uint_loop_digits split: list.splits if_splits)

lemma parse_uint_show: "n \<le> m \<Longrightarrow> parse_uint m (show_nat n) = Inr n"
proof -
  assume n: "n \<le> m"
  obtain c s where s: "show_nat n = c # s" by (cases "show_nat n") auto
  then have "is_digit c" using show_nat_digits [of n] by simp
  then have "c \<noteq> CHR ''-''" "c \<noteq> CHR ''+''" by (auto simp: is_digit_def chr_in_def)
  then have "parse_uint m (show_nat n) = parse_uint_loop m 0 (show_nat n)"
    by (simp add: s parse_uint_def split: list.split)
  then show ?thesis using n by (simp add: parse_uint_loop_digits parse_digits_show)
qed

end
