(* ===== verification/Config.thy ===== *)
theory Config
  imports Http Auth_Core
begin

text \<open>
  \<open>crates/canonical-config/src/lib.rs\<close>: the loaders of the three processes, each a function of
  the environment, with the validators they share. A loader either returns a configuration or
  the first error in the order of the code.
\<close>

section \<open>Errors and settings\<close>

datatype config_error = Missing string | Invalid string string

record config =
  cf_port :: nat
  cf_static_dir :: string
  cf_app_asset_dir :: string
  cf_database_url :: string
  cf_database_max_connections :: nat
  cf_app_base_url :: string
  cf_allowed_origins :: "string list"
  cf_session_cookie :: string
  cf_cookie_secure :: bool
  cf_session_encryption_key :: string
  cf_session_ttl :: nat
  cf_login_rate_limit_attempts :: nat
  cf_login_rate_limit_global_attempts :: nat
  cf_login_rate_limit_window :: nat
  cf_login_rate_limit_max_keys :: nat
  cf_login_auth_max_concurrency :: nat
  cf_bearer_auth_max_concurrency :: nat
  cf_supabase_url :: string
  cf_supabase_publishable_key :: string

record migration_config =
  mc_database_url :: string
  mc_database_max_connections :: nat

record revoker_config =
  rc_database_url :: string
  rc_database_max_connections :: nat
  rc_session_encryption_key :: string
  rc_supabase_url :: string
  rc_supabase_publishable_key :: string

text \<open>Durations are in seconds; a \<open>usize\<close> has 64 bits.\<close>

definition u16_max :: nat where "u16_max = 2 ^ 16 - 1"

section \<open>Single variables\<close>

definition required :: "environment \<Rightarrow> string \<Rightarrow> config_error + string" where
  "required env name =
     try_then (ok_or (env_var env name) (Missing name)) (\<lambda>value.
     if trim value = [] then Inl (Missing name) else Inr value)"

definition optional_parse ::
    "environment \<Rightarrow> string \<Rightarrow> (string \<Rightarrow> string + 'a) \<Rightarrow> 'a \<Rightarrow> config_error + 'a" where
  "optional_parse env name parse fallback =
     (case env_var env name of
        Some value \<Rightarrow> map_err (Invalid name) (parse value)
      | None \<Rightarrow> Inr fallback)"

definition optional_bool :: "environment \<Rightarrow> string \<Rightarrow> bool \<Rightarrow> config_error + bool" where
  "optional_bool env name fallback =
     (case env_var env name of
        Some value \<Rightarrow>
          (let v = to_ascii_lowercase value
           in if v \<in> {''1'', ''true'', ''yes''} then Inr True
              else if v \<in> {''0'', ''false'', ''no''} then Inr False
              else Inl (Invalid name ''expected true or false''))
      | None \<Rightarrow> Inr fallback)"

text \<open>A number that must lie in a range, the most common setting.\<close>

definition in_range :: "string \<Rightarrow> nat \<Rightarrow> nat \<Rightarrow> string \<Rightarrow> nat \<Rightarrow> config_error + nat" where
  "in_range name lo hi message n =
     (if lo \<le> n \<and> n \<le> hi then Inr n else Inl (Invalid name message))"

definition bounded ::
    "environment \<Rightarrow> string \<Rightarrow> nat \<Rightarrow> nat \<Rightarrow> nat \<Rightarrow> nat \<Rightarrow> string \<Rightarrow> config_error + nat" where
  "bounded env name m fallback lo hi message =
     try_then (optional_parse env name (parse_uint m) fallback) (in_range name lo hi message)"

definition validated_login_auth_max_concurrency :: "nat \<Rightarrow> config_error + nat" where
  "validated_login_auth_max_concurrency value =
     (if 1 \<le> value \<and> value \<le> 256 then Inr value
      else Inl (Invalid ''LOGIN_AUTH_MAX_CONCURRENCY'' ''must be between 1 and 256''))"

definition checked_mul :: "nat \<Rightarrow> nat \<Rightarrow> nat option" where
  "checked_mul a b = (if a * b \<le> u64_max then Some (a * b) else None)"

definition session_ttl_from_days :: "nat \<Rightarrow> config_error + nat" where
  "session_ttl_from_days days =
     ok_or (Option.bind (checked_mul days 24) (\<lambda>hours.
            Option.bind (checked_mul hours 60) (\<lambda>minutes. checked_mul minutes 60)))
       (Invalid ''APP_SESSION_TTL_DAYS'' ''value is too large'')"

section \<open>URLs\<close>

definition loopback_host :: "string \<Rightarrow> bool" where
  "loopback_host host \<longleftrightarrow>
     eq_ignore_ascii_case host ''localhost'' \<or> host = ''127.0.0.1'' \<or> host = ''::1''"

definition is_loopback_origin :: "url_parser \<Rightarrow> string \<Rightarrow> bool" where
  "is_loopback_origin parse origin =
     (case parse origin of
        Inl _ \<Rightarrow> False
      | Inr u \<Rightarrow> (case ur_host u of None \<Rightarrow> False | Some host \<Rightarrow> loopback_host host))"

definition validated_origin :: "url_parser \<Rightarrow> string \<Rightarrow> string \<Rightarrow> config_error + string" where
  "validated_origin parse name value =
     try_then (map_err (\<lambda>error. Invalid name (''expected an absolute HTTP(S) origin: '' @ error))
                (parse value)) (\<lambda>parsed.
     if \<not> no_credentials parsed \<or> ur_query parsed \<noteq> None \<or> ur_fragment parsed \<noteq> None
        \<or> ur_path parsed \<noteq> ''/''
     then Inl (Invalid name ''expected an origin without credentials, path, query, or fragment'')
     else
       try_then (ok_or (ur_host parsed) (Invalid name ''a host is required'')) (\<lambda>host.
       if ur_scheme parsed = ''https'' \<or> (ur_scheme parsed = ''http'' \<and> loopback_host host)
       then Inr (ur_origin parsed)
       else Inl (Invalid name ''HTTPS is required except for exact loopback origins'')))"

definition validated_supabase_url :: "url_parser \<Rightarrow> string \<Rightarrow> config_error + string" where
  "validated_supabase_url parse value =
     (let invalid = Invalid ''SUPABASE_URL''
      in try_then (map_err (\<lambda>error. invalid (''expected an absolute URL: '' @ error)) (parse value))
           (\<lambda>parsed.
         if \<not> no_credentials parsed then Inl (invalid ''credentials are not allowed'')
         else if ur_fragment parsed \<noteq> None then Inl (invalid ''fragments are not allowed'')
         else if ur_query parsed \<noteq> None then Inl (invalid ''query strings are not allowed'')
         else
           try_then (ok_or (ur_host parsed) (invalid ''a host is required'')) (\<lambda>host.
           if ur_scheme parsed = ''https''
              \<or> (ur_scheme parsed = ''http'' \<and> (loopback_host host \<or> host = ''[::1]''))
           then Inr (trim_slashes (ur_text parsed))
           else Inl (invalid ''HTTPS is required except for localhost, 127.0.0.1, or ::1''))))"

section \<open>Keys\<close>

text \<open>\<open>std_decode\<close> is base64 with the standard alphabet.\<close>

definition session_encryption_key_from_env ::
    "(string \<Rightarrow> string option) \<Rightarrow> environment \<Rightarrow> config_error + string" where
  "session_encryption_key_from_env std_decode env =
     (let invalid = Invalid ''APP_SESSION_ENCRYPTION_KEY''
      in try_then (required env ''APP_SESSION_ENCRYPTION_KEY'') (\<lambda>key_text.
         try_then (ok_or (std_decode key_text) (invalid ''expected standard base64'')) (\<lambda>key.
         if length key \<noteq> 32 then Inl (invalid ''decoded key must be exactly 32 bytes'')
         else if list_all (\<lambda>c. byte c = 0) key
         then Inl (invalid ''replace the all-zero example with a random key'')
         else Inr key)))"

definition publishable_key_error :: config_error where
  "publishable_key_error = Invalid ''SUPABASE_PUBLISHABLE_KEY''
     ''expected an sb_publishable_ key or a legacy anon JWT; secret/service-role keys are forbidden''"

definition validated_supabase_publishable_key :: "ext \<Rightarrow> string \<Rightarrow> config_error + string" where
  "validated_supabase_publishable_key x raw =
     (let value = trim raw
      in if (case strip_prefix ''sb_publishable_'' value of
               Some suffix \<Rightarrow> suffix \<noteq> [] | None \<Rightarrow> False) then Inr value
         else if starts_with value ''sb_secret_'' then Inl publishable_key_error
         else
           (case split_on (CHR ''.'') value of
              [header, payload, signature] \<Rightarrow>
                if header = [] \<or> payload = [] \<or> signature = [] then Inl publishable_key_error
                else
                  try_then (ok_or (decode_payload x payload) publishable_key_error) (\<lambda>bytes.
                  try_then (ok_or (json_parse x bytes) publishable_key_error) (\<lambda>claims.
                  if Option.bind (json_get ''role'' claims) as_str \<noteq> Some ''anon''
                  then Inl publishable_key_error else Inr value))
            | _ \<Rightarrow> Inl publishable_key_error))"

section \<open>The loaders\<close>

definition allowed_origins_from ::
    "url_parser \<Rightarrow> string \<Rightarrow> string \<Rightarrow> config_error + string list" where
  "allowed_origins_from parse app_base_url origins =
     try_then (traverse (validated_origin parse ''APP_ALLOWED_ORIGINS'')
        (filter (\<lambda>origin. origin \<noteq> []) (map trim (split_on (CHR '','') origins)))) (\<lambda>validated.
     let allowed = remdups validated
     in if allowed = [] then
          Inl (Invalid ''APP_ALLOWED_ORIGINS'' ''at least one exact origin is required'')
        else if 16 < length allowed then
          Inl (Invalid ''APP_ALLOWED_ORIGINS'' ''at most 16 exact origins are allowed'')
        else if app_base_url \<notin> set allowed then
          Inl (Invalid ''APP_ALLOWED_ORIGINS'' ''must include APP_BASE_URL'')
        else Inr allowed)"

definition session_cookie_from ::
    "url_parser \<Rightarrow> environment \<Rightarrow> string \<Rightarrow> bool \<Rightarrow> config_error + string" where
  "session_cookie_from parse env app_base_url cookie_secure =
     (let default_cookie = (if cookie_secure then ''__Host-canonical_session'' else ''canonical_session'');
          session_cookie = or_else (env_var env ''APP_SESSION_COOKIE'') default_cookie
      in if starts_with session_cookie ''__Host-'' \<and> \<not> cookie_secure then
           Inl (Invalid ''APP_SESSION_COOKIE'' ''a __Host- cookie requires COOKIE_SECURE=true'')
         else if \<not> is_loopback_origin parse app_base_url \<and> \<not> cookie_secure then
           Inl (Invalid ''COOKIE_SECURE'' ''must be true for non-loopback application origins'')
         else if \<not> is_loopback_origin parse app_base_url \<and> \<not> starts_with session_cookie ''__Host-'' then
           Inl (Invalid ''APP_SESSION_COOKIE''
             ''must use a __Host- prefix for non-loopback application origins'')
         else Inr session_cookie)"

definition session_ttl_from :: "environment \<Rightarrow> config_error + nat" where
  "session_ttl_from env =
     try_then (bounded env ''APP_SESSION_TTL_DAYS'' u64_max 30 1 30 ''must be between 1 and 30 days'')
       session_ttl_from_days"

text \<open>\<open>Config::from_env\<close>; every \<open>?\<close> of the code is one \<open>try_then\<close>, in its order.\<close>

definition from_env ::
    "ext \<Rightarrow> (string \<Rightarrow> string option) \<Rightarrow> url_parser \<Rightarrow> environment \<Rightarrow> config_error + config" where
  "from_env x std_decode parse env =
     try_then (try_then (required env ''APP_BASE_URL'') (validated_origin parse ''APP_BASE_URL''))
       (\<lambda>app_base_url.
     try_then (optional_bool env ''COOKIE_SECURE'' (starts_with app_base_url ''https://'')) (\<lambda>cookie_secure.
     try_then (allowed_origins_from parse app_base_url
                 (or_else (env_var env ''APP_ALLOWED_ORIGINS'') app_base_url)) (\<lambda>allowed_origins.
     try_then (session_encryption_key_from_env std_decode env) (\<lambda>session_encryption_key.
     try_then (try_then (required env ''SUPABASE_URL'') (validated_supabase_url parse)) (\<lambda>supabase_url.
     try_then (session_ttl_from env) (\<lambda>session_ttl.
     try_then (session_cookie_from parse env app_base_url cookie_secure) (\<lambda>session_cookie.
     try_then (bounded env ''LOGIN_RATE_LIMIT_ATTEMPTS'' u32_max 5 1 20 ''must be between 1 and 20'')
       (\<lambda>attempts.
     try_then (bounded env ''LOGIN_RATE_LIMIT_WINDOW_SECONDS'' u64_max 600 1 3600
                 ''must be between 1 and 3600 seconds'') (\<lambda>window_seconds.
     try_then (bounded env ''LOGIN_RATE_LIMIT_MAX_KEYS'' u64_max 4096 128 65536
                 ''must be between 128 and 65536'') (\<lambda>max_keys.
     try_then (bounded env ''LOGIN_RATE_LIMIT_GLOBAL_ATTEMPTS'' u32_max 500 10 100000
                 ''must be between 10 and 100000'') (\<lambda>global_attempts.
     try_then (try_then (optional_parse env ''LOGIN_AUTH_MAX_CONCURRENCY'' (parse_uint u64_max) 16)
                 validated_login_auth_max_concurrency) (\<lambda>login_concurrency.
     try_then (bounded env ''BEARER_AUTH_MAX_CONCURRENCY'' u64_max 32 1 256 ''must be between 1 and 256'')
       (\<lambda>bearer_concurrency.
     try_then (bounded env ''DATABASE_MAX_CONNECTIONS'' u32_max 10 1 100 ''must be between 1 and 100'')
       (\<lambda>max_connections.
     try_then (optional_parse env ''PORT'' (parse_uint u16_max) 8081) (\<lambda>port.
     try_then (required env ''DATABASE_URL'') (\<lambda>database_url.
     try_then (try_then (required env ''SUPABASE_PUBLISHABLE_KEY'') (validated_supabase_publishable_key x))
       (\<lambda>publishable_key.
     Inr \<lparr>cf_port = port, cf_static_dir = or_else (env ''STATIC_DIR'') ''static'',
          cf_app_asset_dir = or_else (env ''APP_ASSET_DIR'') ''client/dist'',
          cf_database_url = database_url, cf_database_max_connections = max_connections,
          cf_app_base_url = app_base_url, cf_allowed_origins = allowed_origins,
          cf_session_cookie = session_cookie, cf_cookie_secure = cookie_secure,
          cf_session_encryption_key = session_encryption_key, cf_session_ttl = session_ttl,
          cf_login_rate_limit_attempts = attempts,
          cf_login_rate_limit_global_attempts = global_attempts,
          cf_login_rate_limit_window = window_seconds, cf_login_rate_limit_max_keys = max_keys,
          cf_login_auth_max_concurrency = login_concurrency,
          cf_bearer_auth_max_concurrency = bearer_concurrency,
          cf_supabase_url = supabase_url, cf_supabase_publishable_key = publishable_key\<rparr>)))))))))))))))))"

definition migration_from_env :: "environment \<Rightarrow> config_error + migration_config" where
  "migration_from_env env =
     try_then (bounded env ''MIGRATION_DATABASE_MAX_CONNECTIONS'' u32_max 2 1 16 ''must be between 1 and 16'')
       (\<lambda>max_connections.
     try_then (required env ''MIGRATION_DATABASE_URL'') (\<lambda>database_url.
     Inr \<lparr>mc_database_url = database_url, mc_database_max_connections = max_connections\<rparr>))"

definition revoker_from_env ::
    "ext \<Rightarrow> (string \<Rightarrow> string option) \<Rightarrow> url_parser \<Rightarrow> environment \<Rightarrow> config_error + revoker_config" where
  "revoker_from_env x std_decode parse env =
     try_then (bounded env ''SESSION_REVOCATION_DATABASE_MAX_CONNECTIONS'' u32_max 2 1 8
                 ''must be between 1 and 8'') (\<lambda>max_connections.
     try_then (required env ''SESSION_REVOCATION_DATABASE_URL'') (\<lambda>database_url.
     try_then (session_encryption_key_from_env std_decode env) (\<lambda>key.
     try_then (try_then (required env ''SUPABASE_URL'') (validated_supabase_url parse)) (\<lambda>supabase_url.
     try_then (try_then (required env ''SUPABASE_PUBLISHABLE_KEY'') (validated_supabase_publishable_key x))
       (\<lambda>publishable_key.
     Inr \<lparr>rc_database_url = database_url, rc_database_max_connections = max_connections,
          rc_session_encryption_key = key, rc_supabase_url = supabase_url,
          rc_supabase_publishable_key = publishable_key\<rparr>)))))"

section \<open>What a loaded configuration satisfies\<close>

text \<open>The parts of a loaded configuration, each as the validator accepted it.\<close>

lemma from_env_parts:
  assumes "from_env x std_decode parse env = Inr c"
  shows "(\<exists>raw. validated_origin parse ''APP_BASE_URL'' raw = Inr (cf_app_base_url c))
    \<and> (\<exists>raw. allowed_origins_from parse (cf_app_base_url c) raw = Inr (cf_allowed_origins c))
    \<and> session_encryption_key_from_env std_decode env = Inr (cf_session_encryption_key c)
    \<and> (\<exists>raw. validated_supabase_url parse raw = Inr (cf_supabase_url c))
    \<and> session_ttl_from env = Inr (cf_session_ttl c)
    \<and> session_cookie_from parse env (cf_app_base_url c) (cf_cookie_secure c) = Inr (cf_session_cookie c)
    \<and> (\<exists>raw. validated_supabase_publishable_key x raw = Inr (cf_supabase_publishable_key c))
    \<and> bounded env ''LOGIN_RATE_LIMIT_ATTEMPTS'' u32_max 5 1 20 ''must be between 1 and 20''
        = Inr (cf_login_rate_limit_attempts c)
    \<and> bounded env ''LOGIN_RATE_LIMIT_WINDOW_SECONDS'' u64_max 600 1 3600 ''must be between 1 and 3600 seconds''
        = Inr (cf_login_rate_limit_window c)
    \<and> bounded env ''LOGIN_RATE_LIMIT_MAX_KEYS'' u64_max 4096 128 65536 ''must be between 128 and 65536''
        = Inr (cf_login_rate_limit_max_keys c)
    \<and> bounded env ''LOGIN_RATE_LIMIT_GLOBAL_ATTEMPTS'' u32_max 500 10 100000 ''must be between 10 and 100000''
        = Inr (cf_login_rate_limit_global_attempts c)
    \<and> (\<exists>n. validated_login_auth_max_concurrency n = Inr (cf_login_auth_max_concurrency c))
    \<and> bounded env ''BEARER_AUTH_MAX_CONCURRENCY'' u64_max 32 1 256 ''must be between 1 and 256''
        = Inr (cf_bearer_auth_max_concurrency c)
    \<and> bounded env ''DATABASE_MAX_CONNECTIONS'' u32_max 10 1 100 ''must be between 1 and 100''
        = Inr (cf_database_max_connections c)"
  using assms unfolding from_env_def
  apply (elim try_then_InrE)
  apply (simp only: sum.inject)
  apply hypsubst
  apply (simp only: config.select_convs)
  apply (intro conjI exI)
               apply (assumption | rule refl)+
  done

lemma in_range_Inr [simp]: "in_range name lo hi message n = Inr k \<longleftrightarrow> k = n \<and> lo \<le> n \<and> n \<le> hi"
  by (auto simp: in_range_def)

lemma bounded_range: "bounded env name m d lo hi message = Inr n \<Longrightarrow> lo \<le> n \<and> n \<le> hi"
  by (auto simp: bounded_def try_then_Inr)

lemma login_concurrency_range:
  "validated_login_auth_max_concurrency n = Inr k \<Longrightarrow> 1 \<le> k \<and> k \<le> 256"
  by (auto simp: validated_login_auth_max_concurrency_def split: if_splits)

text \<open>An origin that is safe to serve: HTTPS, or HTTP on this machine only.\<close>

definition safe_origin :: "url_parser \<Rightarrow> string \<Rightarrow> bool" where
  "safe_origin parse origin \<longleftrightarrow>
     starts_with origin ''https://''
     \<or> (starts_with origin ''http://'' \<and> is_loopback_origin parse origin)"

lemma validated_origin_safe:
  assumes "origin_law parse" "validated_origin parse name raw = Inr origin"
  shows "safe_origin parse origin"
proof -
  obtain u host where u: "parse raw = Inr u" "ur_host u = Some host" "origin = ur_origin u"
    and scheme: "ur_scheme u = ''https'' \<or> (ur_scheme u = ''http'' \<and> loopback_host host)"
    using assms(2) by (auto simp: validated_origin_def try_then_Inr ok_or_Inr map_err_Inr split: if_splits)
  moreover have "ur_scheme u \<in> {''http'', ''https''}" using scheme by auto
  ultimately obtain rest v where "origin = ur_scheme u @ ''://'' @ rest" "parse origin = Inr v"
      "ur_host v = Some host"
    using assms(1) unfolding origin_law_def by (metis option.distinct(1))
  with scheme show ?thesis
    by (auto simp: safe_origin_def starts_with_iff is_loopback_origin_def)
qed

lemma allowed_origins_Inr:
  assumes "allowed_origins_from parse base raw = Inr origins"
  shows "distinct origins" "base \<in> set origins" "length origins \<le> 16"
    "\<forall>origin \<in> set origins. \<exists>raw. validated_origin parse ''APP_ALLOWED_ORIGINS'' raw = Inr origin"
proof -
  obtain validated where v: "traverse (validated_origin parse ''APP_ALLOWED_ORIGINS'')
      (filter (\<lambda>origin. origin \<noteq> []) (map trim (split_on (CHR '','') raw))) = Inr validated"
    "origins = remdups validated" "base \<in> set origins" "length origins \<le> 16"
    using assms by (auto simp: allowed_origins_from_def try_then_Inr Let_def split: if_splits)
  then show "distinct origins" "base \<in> set origins" "length origins \<le> 16" by simp_all
  show "\<forall>origin \<in> set origins. \<exists>raw. validated_origin parse ''APP_ALLOWED_ORIGINS'' raw = Inr origin"
    using v(1,2) traverse_result by fastforce
qed

lemma session_cookie_Inr:
  assumes "session_cookie_from parse env base secure = Inr name"
  shows "starts_with name ''__Host-'' \<Longrightarrow> secure"
    "\<not> is_loopback_origin parse base \<Longrightarrow> secure \<and> starts_with name ''__Host-''"
  using assms by (auto simp: session_cookie_from_def Let_def split: if_splits)

lemma encryption_key_Inr:
  "session_encryption_key_from_env std_decode env = Inr key \<Longrightarrow>
     length key = 32 \<and> (\<exists>c \<in> set key. byte c \<noteq> 0)"
  by (auto simp: session_encryption_key_from_env_def Let_def try_then_Inr list_all_iff split: if_splits)

lemma session_ttl_days:
  "days \<le> 30 \<Longrightarrow> session_ttl_from_days days = Inr (days * 86400)"
  by (simp add: session_ttl_from_days_def checked_mul_def u64_max_def)

lemma session_ttl_Inr:
  "session_ttl_from env = Inr ttl \<Longrightarrow> \<exists>days. ttl = days * 86400 \<and> 1 \<le> days \<and> days \<le> 30"
  using session_ttl_days by (fastforce simp: session_ttl_from_def try_then_Inr bounded_range)

text \<open>
  C19
  The web process never starts on an unsafe configuration: when the environment loads, every
  allowed origin is HTTPS or on this machine, the application's own origin is among them and
  there are at most sixteen; outside of this machine the session cookie is \<open>Secure\<close> and has the
  \<open>__Host-\<close> prefix, and no insecure cookie has that prefix anywhere; the encryption key has 32
  bytes that are not all zero; a session lives one to thirty days; and the login limits are in
  the ranges the limiter is meant for.
\<close>

theorem loaded_config_is_safe:
  assumes "from_env x std_decode parse env = Inr c" and "origin_law parse"
  shows "list_all (safe_origin parse) (cf_allowed_origins c)
    \<and> cf_app_base_url c \<in> set (cf_allowed_origins c) \<and> length (cf_allowed_origins c) \<le> 16
    \<and> distinct (cf_allowed_origins c)
    \<and> (if is_loopback_origin parse (cf_app_base_url c)
       then (if cf_cookie_secure c then True else \<not> starts_with (cf_session_cookie c) ''__Host-'')
       else starts_with (cf_app_base_url c) ''https://'' \<and> cf_cookie_secure c
          \<and> starts_with (cf_session_cookie c) ''__Host-'')
    \<and> length (cf_session_encryption_key c) = 32
    \<and> (\<exists>b \<in> set (cf_session_encryption_key c). byte b \<noteq> 0)
    \<and> 86400 \<le> cf_session_ttl c \<and> cf_session_ttl c \<le> 30 * 86400
    \<and> cf_login_rate_limit_attempts c \<in> {1..20} \<and> cf_login_rate_limit_window c \<in> {1..3600}
    \<and> cf_login_rate_limit_max_keys c \<in> {128..65536}
    \<and> cf_login_rate_limit_global_attempts c \<in> {10..100000}"
proof -
  have parts: "session_cookie_from parse env (cf_app_base_url c) (cf_cookie_secure c) = Inr (cf_session_cookie c)"
    "session_encryption_key_from_env std_decode env = Inr (cf_session_encryption_key c)"
    "session_ttl_from env = Inr (cf_session_ttl c)"
    using from_env_parts [OF assms(1)] by blast+
  have ranges: "1 \<le> cf_login_rate_limit_attempts c \<and> cf_login_rate_limit_attempts c \<le> 20"
    "1 \<le> cf_login_rate_limit_window c \<and> cf_login_rate_limit_window c \<le> 3600"
    "128 \<le> cf_login_rate_limit_max_keys c \<and> cf_login_rate_limit_max_keys c \<le> 65536"
    "10 \<le> cf_login_rate_limit_global_attempts c \<and> cf_login_rate_limit_global_attempts c \<le> 100000"
    using from_env_parts [OF assms(1)] bounded_range by blast+
  obtain raw raw' where base: "validated_origin parse ''APP_BASE_URL'' raw = Inr (cf_app_base_url c)"
    and origins: "allowed_origins_from parse (cf_app_base_url c) raw' = Inr (cf_allowed_origins c)"
    using from_env_parts [OF assms(1)] by blast
  have all: "list_all (safe_origin parse) (cf_allowed_origins c)"
    using allowed_origins_Inr(4) [OF origins] validated_origin_safe [OF assms(2)]
    by (fastforce simp: list_all_iff)
  have secure: "\<not> is_loopback_origin parse (cf_app_base_url c) \<Longrightarrow> starts_with (cf_app_base_url c) ''https://''"
    using validated_origin_safe [OF assms(2) base] by (simp add: safe_origin_def)
  obtain days where days: "cf_session_ttl c = days * 86400" "1 \<le> days" "days \<le> 30"
    using session_ttl_Inr [OF parts(3)] by blast
  show ?thesis
    using all allowed_origins_Inr(1-3) [OF origins] secure
      session_cookie_Inr [OF parts(1)]
      encryption_key_Inr [OF parts(2)] days ranges
    by (auto simp del: One_nat_def)
qed

text \<open>
  The two checks of the API key agree: the loader accepts exactly the keys the Supabase client
  accepts, returns them trimmed, and the client accepts what the loader returned, so a process
  that has loaded its configuration never fails on the key later.
\<close>

theorem publishable_key_checks_agree:
  "validated_supabase_publishable_key x raw =
     (if validate_publishable_key x raw then Inr (trim raw) else Inl publishable_key_error)
   \<and> validate_publishable_key x (trim raw) = validate_publishable_key x raw"
proof
  show "validated_supabase_publishable_key x raw =
     (if validate_publishable_key x raw then Inr (trim raw) else Inl publishable_key_error)"
    by (auto simp: validated_supabase_publishable_key_def validate_publishable_key_def
          anon_key_claims_def Let_def try_then_def ok_or_def split: list.splits option.splits bind_splits)
  show "validate_publishable_key x (trim raw) = validate_publishable_key x raw"
    by (simp add: validate_publishable_key_def)
qed

text \<open>An environment with nothing but the required variables.\<close>

definition sample_env :: environment where
  "sample_env = [''APP_BASE_URL'' \<mapsto> ''https://a'', ''APP_SESSION_ENCRYPTION_KEY'' \<mapsto> replicate 32 (CHR ''k''),
     ''SUPABASE_URL'' \<mapsto> ''https://a/'', ''DATABASE_URL'' \<mapsto> ''d'',
     ''SUPABASE_PUBLISHABLE_KEY'' \<mapsto> ''sb_publishable_x'']"

definition sample_config :: config where
  "sample_config =
     \<lparr>cf_port = 8081, cf_static_dir = ''static'', cf_app_asset_dir = ''client/dist'',
      cf_database_url = ''d'', cf_database_max_connections = 10, cf_app_base_url = ''https://a'',
      cf_allowed_origins = [''https://a''], cf_session_cookie = ''__Host-canonical_session'',
      cf_cookie_secure = True, cf_session_encryption_key = replicate 32 (CHR ''k''),
      cf_session_ttl = 2592000, cf_login_rate_limit_attempts = 5,
      cf_login_rate_limit_global_attempts = 500, cf_login_rate_limit_window = 600,
      cf_login_rate_limit_max_keys = 4096, cf_login_auth_max_concurrency = 16,
      cf_bearer_auth_max_concurrency = 32, cf_supabase_url = ''https://a'',
      cf_supabase_publishable_key = ''sb_publishable_x''\<rparr>"

lemma sample_trimmed:
  "trim ''https://a'' = ''https://a''" "trim ''https://a/'' = ''https://a/''" "trim ''d'' = ''d''"
  "trim ''sb_publishable_x'' = ''sb_publishable_x''"
  "trim (replicate 32 (CHR ''k'')) = replicate 32 (CHR ''k'')"
  by (rule trim_visible; simp add: chr_in_def)+

lemma sample_required:
  "required sample_env ''APP_BASE_URL'' = Inr ''https://a''"
  "required sample_env ''SUPABASE_URL'' = Inr ''https://a/''"
  "required sample_env ''DATABASE_URL'' = Inr ''d''"
  "required sample_env ''SUPABASE_PUBLISHABLE_KEY'' = Inr ''sb_publishable_x''"
  "required sample_env ''APP_SESSION_ENCRYPTION_KEY'' = Inr (replicate 32 (CHR ''k''))"
  by (simp_all add: required_def env_var_def sample_env_def from_utf8_def valid_utf8_ascii list_all_iff sample_trimmed)

lemma sample_unset:
  "n \<notin> {''APP_BASE_URL'', ''SUPABASE_URL'', ''DATABASE_URL'', ''SUPABASE_PUBLISHABLE_KEY'',
     ''APP_SESSION_ENCRYPTION_KEY''} \<Longrightarrow> env_var sample_env n = None \<and> sample_env n = None"
  by (simp add: env_var_def sample_env_def)

lemma sample_from_env:
  "from_env (sample_ext JNull) Some (sample_parse ''https'' ''a'') sample_env = Inr sample_config"
proof -
  have origin: "validated_origin (sample_parse ''https'' ''a'') name ''https://a'' = Inr ''https://a''" for name
    by (simp add: validated_origin_def sample_parse_def sample_url_def no_credentials_def)
  have origins: "allowed_origins_from (sample_parse ''https'' ''a'') ''https://a'' ''https://a'' = Inr [''https://a'']"
    by (simp add: allowed_origins_from_def sample_trimmed origin)
  have supabase: "validated_supabase_url (sample_parse ''https'' ''a'') ''https://a/'' = Inr ''https://a''"
    by (simp add: validated_supabase_url_def sample_parse_def sample_url_def no_credentials_def trim_slashes_def)
  have key: "session_encryption_key_from_env Some sample_env = Inr (replicate 32 (CHR ''k''))"
    by (simp add: session_encryption_key_from_env_def sample_required list_all_iff)
  have ttl: "session_ttl_from sample_env = Inr 2592000"
    by (simp add: session_ttl_from_def bounded_def optional_parse_def sample_unset session_ttl_days in_range_def)
  have cookie: "session_cookie_from (sample_parse ''https'' ''a'') sample_env ''https://a'' True
      = Inr ''__Host-canonical_session''"
    by (simp add: session_cookie_from_def sample_unset starts_with_def)
  have publishable: "validated_supabase_publishable_key (sample_ext JNull) ''sb_publishable_x''
      = Inr ''sb_publishable_x''"
    by (simp add: validated_supabase_publishable_key_def sample_trimmed)
  show ?thesis
    by (simp add: from_env_def sample_required origin origins supabase key ttl cookie publishable
          optional_bool_def optional_parse_def bounded_def sample_unset starts_with_def in_range_def
          validated_login_auth_max_concurrency_def sample_config_def)
qed

theorem loaded_config_is_safe_witness:
  "list_all (safe_origin (sample_parse ''https'' ''a'')) (cf_allowed_origins sample_config)
    \<and> length (cf_session_encryption_key sample_config) = 32
    \<and> cf_session_ttl sample_config \<le> 30 * 86400"
  using loaded_config_is_safe [OF sample_from_env sample_parse_law] by blast

end
