(* ===== verification/Access.thy ===== *)
theory Access
  imports Config Session
begin

text \<open>
  Who a request is from and whether a browser may make it: the extractors and checks of
  \<open>src/auth/extractor.rs\<close>, the origin-side verifier of Shared Auth tokens in
  \<open>src/auth/shared_auth.rs\<close> and the identity headers of the edge in \<open>src/auth/edge.rs\<close>. A request
  is its headers and cookies; what the session service, the providers and the bounded pool of
  verification permits answer during it is an \<open>access_world\<close>.
\<close>

section \<open>Requests\<close>

record request =
  rq_headers :: headers
  rq_cookie :: "string \<Rightarrow> string option"

record verify_answer =
  va_status :: nat
  va_headers :: headers

text \<open>
  \<open>aw_permits\<close> is the number of free permits of the bearer semaphore; a permit is returned when
  the handler's extractor ends, on every path. \<open>aw_refreshed\<close> is the outcome of
  \<open>refresh_fenced\<close> for a session whose access token needs it. All reads of the clock during one
  extraction are one instant.
\<close>

record access_world =
  aw_db :: session_db
  aw_wall :: timestamp
  aw_permits :: nat
  aw_user_for_token :: "string \<Rightarrow> auth_provider_error + supabase_user"
  aw_refreshed :: "string \<Rightarrow> session_error + auth_context"
  aw_verify :: "string \<Rightarrow> verify_answer option"
  aw_timestamp_opt :: "int \<Rightarrow> timestamp option"

section \<open>Bearer tokens\<close>

definition bearer_token :: "headers \<Rightarrow> app_error + string option" where
  "bearer_token hs =
     (case header_get ''authorization'' hs of
        None \<Rightarrow> Inr None
      | Some v \<Rightarrow>
          try_then (ok_or (to_str v) Unauthorized) (\<lambda>value.
          case strip_prefix ''Bearer '' value of
            Some token \<Rightarrow> if token = [] then Inl Unauthorized else Inr (Some token)
          | None \<Rightarrow> Inl Unauthorized))"

definition with_permit :: "nat \<Rightarrow> app_error + 'a \<Rightarrow> app_error + 'a" where
  "with_permit permits run = (if permits = 0 then Inl AuthBusy else run)"

text \<open>The answer of \<open>SessionService::authenticate\<close>, refresh included.\<close>

definition session_context ::
    "ext \<Rightarrow> access_world \<Rightarrow> string \<Rightarrow> session_error + auth_context" where
  "session_context x w raw_id =
     try_then (authenticate x (aw_wall w) raw_id (aw_db w)) (\<lambda>a.
     case a of Authenticated ctx \<Rightarrow> Inr ctx | NeedsRefresh i \<Rightarrow> aw_refreshed w i)"

text \<open>\<open>authenticate\<close> of the extractor module.\<close>

definition authenticate_request ::
    "ext \<Rightarrow> config \<Rightarrow> access_world \<Rightarrow> request \<Rightarrow> bool \<Rightarrow> app_error + auth_context" where
  "authenticate_request x cfg w rq allow_bearer =
     try_then (bearer_token (rq_headers rq)) (\<lambda>token.
     case token of
       Some t \<Rightarrow>
         if \<not> allow_bearer then Inl Unauthorized
         else with_permit (aw_permits w)
           (map_err from_session_error
              (authenticate_bearer x (aw_timestamp_opt w) (aw_wall w) t (aw_user_for_token w t) (aw_db w)))
     | None \<Rightarrow>
         try_then (ok_or (rq_cookie rq (cf_session_cookie cfg)) Unauthorized) (\<lambda>raw_id.
         map_err from_session_error (session_context x w raw_id)))"

text \<open>\<open>OptionalAuthenticated\<close>: no valid credentials is no actor, any other failure an error.\<close>

definition optional_authenticated ::
    "ext \<Rightarrow> config \<Rightarrow> access_world \<Rightarrow> request \<Rightarrow> app_error + auth_context option" where
  "optional_authenticated x cfg w rq =
     (case authenticate_request x cfg w rq True of
        Inr ctx \<Rightarrow> Inr (Some ctx)
      | Inl Unauthorized \<Rightarrow> Inr None
      | Inl e \<Rightarrow> Inl e)"

section \<open>Shared Auth\<close>

record shared_auth =
  sa_verify_url :: url
  sa_cookie_name :: string
  sa_csrf_key :: string

definition MAX_TOKEN_BYTES :: nat where "MAX_TOKEN_BYTES = 16 * 1024"
definition MAX_EMAIL_BYTES :: nat where "MAX_EMAIL_BYTES = 320"
definition DEFAULT_SECURE_COOKIE :: string where
  "DEFAULT_SECURE_COOKIE = ''__Host-canonical-customer-auth''"
definition DEFAULT_LOOPBACK_COOKIE :: string where
  "DEFAULT_LOOPBACK_COOKIE = ''canonical-customer-auth''"
definition VERIFY_PATH :: string where "VERIFY_PATH = ''/shared-auth/auth/verify''"

definition cookie_name_char :: "char \<Rightarrow> bool" where
  "cookie_name_char c \<longleftrightarrow> is_alphanumeric c \<or> byte c = 33 \<or> chr_in 35 43 c \<or> byte c = 45
     \<or> byte c = 46 \<or> chr_in 94 96 c \<or> byte c = 124 \<or> byte c = 126"

definition validate_cookie_name :: "string \<Rightarrow> bool \<Rightarrow> app_error + unit" where
  "validate_cookie_name value secure =
     (let valid = value \<noteq> [] \<and> length value \<le> 128 \<and> list_all cookie_name_char value
      in if \<not> valid \<or> (secure \<and> \<not> starts_with value ''__Host-'')
         then Inl (BadRequest ''SHARED_AUTH_BROWSER_COOKIE_NAME must be a valid host-only cookie name'')
         else Inr ())"

definition cluster_host :: "string \<Rightarrow> bool" where
  "cluster_host host \<longleftrightarrow> ends_with host ''.svc'' \<or> contains host ''.svc.''"

definition validate_verify_url :: "url \<Rightarrow> app_error + unit" where
  "validate_verify_url u =
     (if \<not> no_credentials u \<or> ur_query u \<noteq> None \<or> ur_fragment u \<noteq> None \<or> ur_host u = None
      then Inl (BadRequest
        ''SHARED_AUTH_VERIFY_URL must not contain credentials, query, or fragment'')
      else
        let host = or_else (ur_host u) [];
            loopback = loopback_host host \<or> cluster_host host
        in if ur_scheme u \<noteq> ''https'' \<and> \<not> (ur_scheme u = ''http'' \<and> loopback)
           then Inl (BadRequest
             ''SHARED_AUTH_VERIFY_URL requires HTTPS except on loopback or Kubernetes service DNS'')
           else Inr ())"

text \<open>\<open>SharedAuthVerifier::from_env\<close>; building the HTTP client is third-party code.\<close>

definition shared_auth_from_env ::
    "url_parser \<Rightarrow> environment \<Rightarrow> config \<Rightarrow> app_error + shared_auth" where
  "shared_auth_from_env parse env cfg =
     (let default_cookie = (if cf_cookie_secure cfg then DEFAULT_SECURE_COOKIE else DEFAULT_LOOPBACK_COOKIE);
          cookie_name = or_else (env_var env ''SHARED_AUTH_BROWSER_COOKIE_NAME'') default_cookie;
          default_verify_url = trim_slashes (cf_app_base_url cfg) @ VERIFY_PATH
      in try_then (validate_cookie_name cookie_name (cf_cookie_secure cfg)) (\<lambda>_.
         try_then (map_err (\<lambda>_. BadRequest ''SHARED_AUTH_VERIFY_URL must be an absolute URL'')
             (parse (or_else (env_var env ''SHARED_AUTH_VERIFY_URL'') default_verify_url))) (\<lambda>verify_url.
         try_then (validate_verify_url verify_url) (\<lambda>_.
         if length (cf_session_encryption_key cfg) \<noteq> 32 then Inl Crypto
         else Inr \<lparr>sa_verify_url = verify_url, sa_cookie_name = cookie_name,
                   sa_csrf_key = cf_session_encryption_key cfg\<rparr>))))"

text \<open>Bytes as the code's \<open>u8\<close>, and the big-endian bytes of a \<open>u64\<close>.\<close>

fun be_bytes :: "nat \<Rightarrow> nat \<Rightarrow> string" where
  "be_bytes 0 n = []"
| "be_bytes (Suc k) n = be_bytes k (n div 256) @ [char_of (n mod 256)]"

definition csrf_token :: "ext \<Rightarrow> shared_auth \<Rightarrow> string \<Rightarrow> string" where
  "csrf_token x sa token =
     b64_encode x (sha256 x (''canonical-plus/shared-auth-csrf/v1'' @ [char_of (0::nat)]
       @ sa_csrf_key sa @ be_bytes 8 (length token) @ token))"

definition csrf_token_for_source ::
    "ext \<Rightarrow> shared_auth \<Rightarrow> string \<Rightarrow> credential_source \<Rightarrow> string option" where
  "csrf_token_for_source x sa token source =
     (case source of SessionCookie \<Rightarrow> Some (csrf_token x sa token) | Bearer \<Rightarrow> None)"

definition shared_required_header :: "headers \<Rightarrow> string \<Rightarrow> app_error + string" where
  "shared_required_header hs name =
     (case map_option trim (header_str name hs) of
        None \<Rightarrow> Inl Unauthorized
      | Some value \<Rightarrow> if value = [] then Inl Unauthorized else Inr value)"

definition token_fingerprint :: "ext \<Rightarrow> string \<Rightarrow> string" where
  "token_fingerprint x token =
     b64_encode x (sha256 x (''canonical-plus/shared-auth-token/v1'' @ [char_of (0::nat)] @ token))"

definition verified_expiry ::
    "ext \<Rightarrow> (int \<Rightarrow> timestamp option) \<Rightarrow> timestamp \<Rightarrow> string \<Rightarrow> timestamp" where
  "verified_expiry x timestamp_opt wall token =
     (let fallback = wall + seconds (5 * 60)
      in case bearer_expiry x timestamp_opt token of
           Some expiry \<Rightarrow> if wall < expiry then expiry else fallback
         | None \<Rightarrow> fallback)"

definition authenticate_as ::
    "ext \<Rightarrow> shared_auth \<Rightarrow> access_world \<Rightarrow> string \<Rightarrow> credential_source \<Rightarrow> app_error + auth_context" where
  "authenticate_as x sa w token source =
     (if token = [] \<or> MAX_TOKEN_BYTES < length token then Inl Unauthorized
      else
        try_then (ok_or (aw_verify w token) AuthUpstream) (\<lambda>response.
        try_then (if va_status response = 200 then Inr ()
                  else if va_status response \<in> {401, 403} then Inl Unauthorized
                  else if va_status response = 429 then Inl AuthBusy
                  else Inl AuthUpstream) (\<lambda>_.
        try_then (shared_required_header (va_headers response) ''x-auth-user-id'') (\<lambda>raw_user.
        try_then (ok_or (uuid_parse x raw_user) Unauthorized) (\<lambda>user_id.
        try_then (shared_required_header (va_headers response) ''x-auth-email'') (\<lambda>email.
        if email = [] \<or> MAX_EMAIL_BYTES < length email \<or> has_control email then Inl Unauthorized
        else
          try_then (shared_required_header (va_headers response) ''x-auth-provider'') (\<lambda>_.
          try_then (shared_required_header (va_headers response) ''x-auth-provider-tenant'') (\<lambda>_.
          Inr \<lparr>ctx_user_id = user_id, ctx_email = email, ctx_source = source,
               ctx_supabase_session_id = None, ctx_session_hash = Some (token_fingerprint x token),
               ctx_csrf_token = csrf_token_for_source x sa token source,
               ctx_expires_at = verified_expiry x (aw_timestamp_opt w) (aw_wall w) token\<rparr>))))))))"

text \<open>
  \<open>authenticate_quote\<close>: a bearer token goes to Shared Auth, else a Canonical session cookie
  decides, else a Shared Auth cookie.
\<close>

definition authenticate_quote ::
    "ext \<Rightarrow> config \<Rightarrow> shared_auth \<Rightarrow> access_world \<Rightarrow> request \<Rightarrow> bool \<Rightarrow> app_error + auth_context" where
  "authenticate_quote x cfg sa w rq allow_bearer =
     try_then (bearer_token (rq_headers rq)) (\<lambda>token.
     case token of
       Some t \<Rightarrow>
         if \<not> allow_bearer then Inl Unauthorized
         else with_permit (aw_permits w) (authenticate_as x sa w t Bearer)
     | None \<Rightarrow>
         if rq_cookie rq (cf_session_cookie cfg) \<noteq> None then authenticate_request x cfg w rq False
         else
           try_then (ok_or (rq_cookie rq (sa_cookie_name sa)) Unauthorized) (\<lambda>t.
           with_permit (aw_permits w) (authenticate_as x sa w t SessionCookie)))"

text \<open>The extractors that the handlers name.\<close>

definition authenticated ::
    "ext \<Rightarrow> config \<Rightarrow> access_world \<Rightarrow> request \<Rightarrow> app_error + auth_context" where
  "authenticated x cfg w rq = authenticate_request x cfg w rq True"

definition session_authenticated ::
    "ext \<Rightarrow> config \<Rightarrow> access_world \<Rightarrow> request \<Rightarrow> app_error + auth_context" where
  "session_authenticated x cfg w rq = authenticate_request x cfg w rq False"

definition quote_authenticated ::
    "ext \<Rightarrow> config \<Rightarrow> shared_auth \<Rightarrow> access_world \<Rightarrow> request \<Rightarrow> app_error + auth_context" where
  "quote_authenticated x cfg sa w rq = authenticate_quote x cfg sa w rq True"

definition quote_session_authenticated ::
    "ext \<Rightarrow> config \<Rightarrow> shared_auth \<Rightarrow> access_world \<Rightarrow> request \<Rightarrow> app_error + auth_context" where
  "quote_session_authenticated x cfg sa w rq = authenticate_quote x cfg sa w rq False"

text \<open>A page never accepts a bearer token, not even a valid one.\<close>

lemma pages_refuse_bearer:
  "bearer_token (rq_headers rq) = Inr (Some t) \<Longrightarrow> session_authenticated x cfg w rq = Inl Unauthorized"
  "bearer_token (rq_headers rq) = Inr (Some t) \<Longrightarrow> quote_session_authenticated x cfg sa w rq = Inl Unauthorized"
  by (simp_all add: session_authenticated_def quote_session_authenticated_def authenticate_request_def
        authenticate_quote_def)

section \<open>Origin and CSRF\<close>

definition require_origin :: "config \<Rightarrow> headers \<Rightarrow> app_error + unit" where
  "require_origin cfg hs =
     try_then (ok_or (header_str ''origin'' hs) Forbidden) (\<lambda>origin.
     if origin \<in> set (cf_allowed_origins cfg) then Inr () else Inl Forbidden)"

definition require_csrf :: "auth_context \<Rightarrow> headers \<Rightarrow> string option \<Rightarrow> app_error + unit" where
  "require_csrf ctx hs form_token =
     (if ctx_source ctx = Bearer then Inr ()
      else
        try_then (ok_or (case header_str ''x-csrf-token'' hs of
                           Some t \<Rightarrow> Some t | None \<Rightarrow> form_token) Forbidden) (\<lambda>supplied.
        if ctx_csrf_token ctx = Some supplied then Inr () else Inl Forbidden))"

lemma require_origin_iff:
  "require_origin cfg hs = Inr u \<longleftrightarrow>
     (\<exists>origin. header_str ''origin'' hs = Some origin \<and> origin \<in> set (cf_allowed_origins cfg))"
  by (auto simp: require_origin_def try_then_Inr ok_or_Inr)

lemma require_origin_error: "require_origin cfg hs = Inl e \<Longrightarrow> e = Forbidden"
  by (auto simp: require_origin_def try_then_Inl ok_or_Inl split: if_splits)

lemma require_csrf_error: "require_csrf ctx hs form = Inl e \<Longrightarrow> e = Forbidden"
  by (auto simp: require_csrf_def try_then_Inl ok_or_Inl split: if_splits)

section \<open>Identity from the edge\<close>

unbundle bit_operations_syntax

record edge_identity =
  ei_subject :: string
  ei_email :: "string option"
  ei_provider :: string
  ei_provider_tenant :: string
  ei_project :: "string option"
  ei_roles :: "string list"

definition sound_secret :: "string \<Rightarrow> bool" where
  "sound_secret secret \<longleftrightarrow> 32 \<le> length secret \<and> length secret \<le> 512 \<and> \<not> has_control secret"

text \<open>The verifier is the hash it expects; without a secret there is none.\<close>

definition edge_from_env :: "ext \<Rightarrow> environment \<Rightarrow> app_error + string option" where
  "edge_from_env x env =
     (case env ''EDGE_AUTH_SHARED_SECRET'' of
        None \<Rightarrow> Inr None
      | Some raw \<Rightarrow>
          try_then (ok_or (from_utf8 raw) (BadRequest ''EDGE_AUTH_SHARED_SECRET must be UTF-8'')) (\<lambda>secret.
          if \<not> sound_secret secret
          then Inl (BadRequest ''EDGE_AUTH_SHARED_SECRET must contain 32 to 512 non-control characters'')
          else Inr (Some (sha256 x secret))))"

definition word_of_byte :: "char \<Rightarrow> 8 word" where
  "word_of_byte c = of_nat (byte c)"

definition constant_time_equal :: "string \<Rightarrow> string \<Rightarrow> bool" where
  "constant_time_equal expected actual \<longleftrightarrow>
     foldl (\<lambda>difference (left, right). difference OR (word_of_byte left XOR word_of_byte right)) 0
       (zip expected actual) = 0"

definition edge_verify :: "ext \<Rightarrow> string option \<Rightarrow> string \<Rightarrow> bool" where
  "edge_verify x expected_hash supplied =
     (case expected_hash of
        None \<Rightarrow> False
      | Some expected \<Rightarrow> sound_secret supplied \<and> constant_time_equal expected (sha256 x supplied))"

definition edge_required_header :: "headers \<Rightarrow> string \<Rightarrow> nat \<Rightarrow> app_error + string" where
  "edge_required_header hs name max_len =
     try_then (ok_or (header_str name hs) Unauthorized) (\<lambda>value.
     if value = [] \<or> max_len < length value \<or> has_control value then Inl Unauthorized else Inr value)"

definition validated_header :: "headers \<Rightarrow> string \<Rightarrow> nat \<Rightarrow> bool \<Rightarrow> app_error + string option" where
  "validated_header hs name max_len is_required =
     (case header_get name hs of
        None \<Rightarrow> if is_required then Inl Unauthorized else Inr None
      | Some raw \<Rightarrow>
          try_then (ok_or (map_option trim (to_str raw)) Unauthorized) (\<lambda>value.
          if value = [] \<or> max_len < length value \<or> has_control value then Inl Unauthorized
          else Inr (Some value)))"

definition role_char :: "char \<Rightarrow> bool" where
  "role_char c \<longleftrightarrow> is_alphanumeric c \<or> c = CHR ''-'' \<or> c = CHR ''_'' \<or> c = CHR '':'' \<or> c = CHR ''.''"

definition role_ok :: "string \<Rightarrow> bool" where
  "role_ok role \<longleftrightarrow> length role \<le> 64 \<and> list_all role_char role"

fun roles_loop :: "string list \<Rightarrow> string list \<Rightarrow> app_error + string list" where
  "roles_loop [] roles = Inr roles"
| "roles_loop (role # rest) roles =
     (if \<not> role_ok role then Inl Unauthorized
      else
        let roles' = (if role \<in> set roles then roles else roles @ [role])
        in if 32 < length roles' then Inl Unauthorized else roles_loop rest roles')"

definition role_pieces :: "string \<Rightarrow> string list" where
  "role_pieces raw = filter (\<lambda>role. role \<noteq> []) (map trim (split_on (CHR '','') raw))"

definition parse_roles :: "headers \<Rightarrow> app_error + string list" where
  "parse_roles hs =
     (case header_get ''x-auth-roles'' hs of
        None \<Rightarrow> Inr []
      | Some raw \<Rightarrow>
          try_then (ok_or (to_str raw) Unauthorized) (\<lambda>raw.
          if 2048 < length raw then Inl Unauthorized else roles_loop (role_pieces raw) []))"

definition edge_authenticated :: "ext \<Rightarrow> string option \<Rightarrow> headers \<Rightarrow> app_error + edge_identity" where
  "edge_authenticated x verifier hs =
     try_then (edge_required_header hs ''x-auth-edge-secret'' 512) (\<lambda>supplied.
     if \<not> edge_verify x verifier supplied then Inl Unauthorized
     else
       try_then (try_then (validated_header hs ''x-auth-user-id'' 512 True) (\<lambda>v. ok_or v Unauthorized)) (\<lambda>subject.
       try_then (try_then (validated_header hs ''x-auth-provider'' 128 True) (\<lambda>v. ok_or v Unauthorized)) (\<lambda>provider.
       try_then (try_then (validated_header hs ''x-auth-provider-tenant'' 255 True) (\<lambda>v. ok_or v Unauthorized)) (\<lambda>tenant.
       try_then (validated_header hs ''x-auth-email'' 320 False) (\<lambda>email.
       try_then (validated_header hs ''x-auth-project'' 255 False) (\<lambda>project.
       try_then (parse_roles hs) (\<lambda>roles.
       Inr \<lparr>ei_subject = subject, ei_email = email, ei_provider = provider,
            ei_provider_tenant = tenant, ei_project = project, ei_roles = roles\<rparr>)))))))"

section \<open>Comparing secrets\<close>

lemma word_of_byte_inj: "word_of_byte a = word_of_byte b \<longleftrightarrow> a = b"
proof
  assume "word_of_byte a = word_of_byte b"
  then have "unat (word_of_byte a) = unat (word_of_byte b)" by simp
  then show "a = b" by (simp add: word_of_byte_def unat_of_nat)
qed simp

lemma or_is_zero: "(a OR b = 0) = (a = 0 \<and> b = (0 :: 8 word))"
  by (auto simp: bit_eq_iff bit_simps)

lemma xor_is_zero: "(a XOR b = 0) = (a = (b :: 8 word))"
  by (auto simp: bit_eq_iff bit_simps)

lemma difference_zero:
  "foldl (\<lambda>difference (left, right). difference OR (word_of_byte left XOR word_of_byte right)) d ps = 0
     \<longleftrightarrow> d = 0 \<and> list_all (\<lambda>(left, right). left = right) ps"
proof (induction ps arbitrary: d)
  case (Cons p ps)
  obtain l r where p: "p = (l, r)" by (cases p)
  show ?case
    unfolding p foldl_Cons split list.pred_inject(2) Cons.IH or_is_zero xor_is_zero word_of_byte_inj
    by blast
qed simp

lemma zip_equal: "length a = length b \<Longrightarrow> list_all (\<lambda>(l, r). l = r) (zip a b) \<longleftrightarrow> a = b"
  by (induction a b rule: list_induct2) auto

text \<open>On digests, which all have the same length, the comparison is equality.\<close>

lemma constant_time_equal_iff:
  "length expected = length actual \<Longrightarrow> constant_time_equal expected actual \<longleftrightarrow> expected = actual"
  by (simp add: constant_time_equal_def difference_zero zip_equal)

section \<open>Roles\<close>

definition first_occurrences :: "'a list \<Rightarrow> 'a list" where
  "first_occurrences xs = rev (remdups (rev xs))"

lemma first_occurrences_snoc:
  "first_occurrences (xs @ [x]) = (if x \<in> set xs then first_occurrences xs else first_occurrences xs @ [x])"
  by (simp add: first_occurrences_def)

lemma set_first_occurrences [simp]: "set (first_occurrences xs) = set xs"
  by (simp add: first_occurrences_def)

lemma length_first_occurrences: "length (first_occurrences xs) = card (set xs)"
  by (simp add: first_occurrences_def length_remdups_card_conv)

lemma distinct_first_occurrences [simp]: "distinct (first_occurrences xs)"
  by (simp add: first_occurrences_def)

lemma roles_loop_spec:
  "card (set seen) \<le> 32 \<Longrightarrow> roles_loop rest (first_occurrences seen) =
     (if list_all role_ok rest \<and> card (set (seen @ rest)) \<le> 32
      then Inr (first_occurrences (seen @ rest)) else Inl Unauthorized)"
proof (induction rest arbitrary: seen)
  case (Cons role rest)
  have more: "card (set (seen @ [role])) \<le> card (set (seen @ role # rest))"
    by (rule card_mono) auto
  show ?case
  proof (cases "role_ok role \<and> card (set (seen @ [role])) \<le> 32")
    case True
    then show ?thesis
      using Cons.IH [of "seen @ [role]"] first_occurrences_snoc [of seen role]
        length_first_occurrences [of "seen @ [role]"] by (auto simp: Let_def)
  next
    case False
    then show ?thesis
      using more first_occurrences_snoc [of seen role] length_first_occurrences [of "seen @ [role]"]
      by (auto simp: Let_def split: if_splits)
  qed
qed simp

lemma roles_loop_start:
  "roles_loop rest [] = (if list_all role_ok rest \<and> card (set rest) \<le> 32
     then Inr (first_occurrences rest) else Inl Unauthorized)"
  using roles_loop_spec [of "[]" rest] by (simp add: first_occurrences_def)

lemma parse_roles_bounded: "parse_roles hs = Inr roles \<Longrightarrow> length roles \<le> 32 \<and> distinct roles"
  by (auto simp: parse_roles_def roles_loop_start try_then_Inr length_first_occurrences
        split: option.splits if_splits)

text \<open>
  The roles an edge request carries: without the header there are none; otherwise the request is
  refused unless the header is at most 2048 visible characters, every listed role has at most 64
  characters of the safe alphabet and there are at most 32 different ones, and then the roles
  are the listed ones, each once, in the order of their first mention.
\<close>

theorem edge_roles_exact:
  "parse_roles hs =
     (case header_get ''x-auth-roles'' hs of
        None \<Rightarrow> Inr []
      | Some raw \<Rightarrow>
          if to_str raw \<noteq> None \<and> length raw \<le> 2048 \<and> list_all role_ok (role_pieces raw)
             \<and> card (set (role_pieces raw)) \<le> 32
          then Inr (first_occurrences (role_pieces raw)) else Inl Unauthorized)"
  by (auto simp: parse_roles_def roles_loop_start to_str_def split: option.splits)

section \<open>Properties of access\<close>

text \<open>SHA-256 digests have 32 bytes.\<close>

definition digest_law :: "ext \<Rightarrow> bool" where
  "digest_law x \<longleftrightarrow> (\<forall>s. length (sha256 x s) = 32)"

lemma validated_header_Some:
  "validated_header hs name n b = Inr (Some v) \<Longrightarrow> v \<noteq> [] \<and> length v \<le> n \<and> \<not> has_control v"
  by (auto simp: validated_header_def try_then_Inr split: option.splits if_splits)


lemma bearer_token_error: "bearer_token hs = Inl e \<Longrightarrow> e = Unauthorized"
  by (auto simp: bearer_token_def try_then_Inl ok_or_Inl split: option.splits if_splits)

lemma bearer_token_None: "bearer_token hs = Inr None \<longleftrightarrow> header_get ''authorization'' hs = None"
  by (auto simp: bearer_token_def try_then_Inr ok_or_Inr split: option.splits if_splits)

lemma bearer_source:
  "authenticate_bearer x t wall token looked_up db = Inr ctx \<Longrightarrow>
     ctx_source ctx = Bearer \<and> ctx_csrf_token ctx = None \<and> ctx_session_hash ctx = None"
  by (auto simp: authenticate_bearer_def try_then_Inr)

lemma authenticate_as_source:
  "authenticate_as x sa w token source = Inr ctx \<Longrightarrow>
     ctx_source ctx = source \<and> ctx_csrf_token ctx = csrf_token_for_source x sa token source"
  by (auto simp: authenticate_as_def try_then_Inr split: if_splits)

text \<open>
  C20
  An \<open>Authorization\<close> header decides alone: if a request has one, the browser-only extractors
  refuse it and the others give the same answer whatever cookies come with it, so an invalid
  bearer token never falls back to a cookie, and every actor it yields is marked as a bearer
  without a CSRF token; if it has none, whether bearers are allowed makes no difference, and no
  actor is marked as a bearer unless a stored session says so.
\<close>

theorem authorization_header_decides:
  "if header_get ''authorization'' (rq_headers rq) \<noteq> None
   then authenticate_request x cfg w rq False = Inl Unauthorized
     \<and> authenticate_quote x cfg sa w rq False = Inl Unauthorized
     \<and> authenticate_request x cfg w (rq\<lparr>rq_cookie := cookies\<rparr>) b = authenticate_request x cfg w rq b
     \<and> authenticate_quote x cfg sa w (rq\<lparr>rq_cookie := cookies\<rparr>) b = authenticate_quote x cfg sa w rq b
     \<and> (case authenticate_request x cfg w rq b of
          Inl e \<Rightarrow> True | Inr ctx \<Rightarrow> ctx_source ctx = Bearer \<and> ctx_csrf_token ctx = None)
     \<and> (case authenticate_quote x cfg sa w rq b of
          Inl e \<Rightarrow> True | Inr ctx \<Rightarrow> ctx_source ctx = Bearer \<and> ctx_csrf_token ctx = None)
   else authenticate_request x cfg w rq True = authenticate_request x cfg w rq False
     \<and> authenticate_quote x cfg sa w rq True = authenticate_quote x cfg sa w rq False"
proof (cases "bearer_token (rq_headers rq)")
  case (Inl e)
  then have "header_get ''authorization'' (rq_headers rq) \<noteq> None"
    using bearer_token_None [of "rq_headers rq"] by auto
  with Inl bearer_token_error [OF Inl] show ?thesis
    by (simp add: authenticate_request_def authenticate_quote_def)
next
  case (Inr token)
  show ?thesis
  proof (cases token)
    case None
    with Inr bearer_token_None [of "rq_headers rq"] show ?thesis
      by (simp add: authenticate_request_def authenticate_quote_def)
  next
    case (Some t)
    with Inr bearer_token_None [of "rq_headers rq"]
    have "header_get ''authorization'' (rq_headers rq) \<noteq> None" by auto
    with Inr Some show ?thesis
      by (auto simp: authenticate_request_def authenticate_quote_def with_permit_def map_err_Inr
            csrf_token_for_source_def dest!: bearer_source authenticate_as_source
            split: sum.splits if_splits)
  qed
qed

text \<open>The inputs that are hashed for CSRF tokens and fingerprints are never the same.\<close>

lemma length_be_bytes [simp]: "length (be_bytes k n) = k"
  by (induction k arbitrary: n) simp_all

text \<open>
  A CSRF token of Shared Auth is bound to the very session token it was issued for: under one
  key, two different session tokens with the same CSRF token, or a CSRF token that equals the
  public fingerprint of some token, exhibit a collision of SHA-256; and the check of a form
  accepts exactly that token for a cookie session.
\<close>

theorem shared_csrf_is_bound:
  assumes "b64_law x"
  shows "(if csrf_token x sa token = csrf_token x sa other \<and> token \<noteq> other
          then \<exists>a b. a \<noteq> b \<and> sha256 x a = sha256 x b else True)
    \<and> (if csrf_token x sa token = token_fingerprint x other
       then \<exists>a b. a \<noteq> b \<and> sha256 x a = sha256 x b else True)
    \<and> (case authenticate_as x sa w token SessionCookie of
         Inl e \<Rightarrow> e \<in> {Unauthorized, AuthBusy, AuthUpstream}
       | Inr ctx \<Rightarrow> require_csrf ctx [] (Some supplied)
           = (if supplied = csrf_token x sa token then Inr () else Inl Forbidden))"
proof -
  have inj: "b64_encode x a = b64_encode x b \<Longrightarrow> a = b" for a b
    using assms unfolding b64_law_def by (metis option.inject)
  let ?p = "''canonical-plus/shared-auth-csrf/v1'' @ [char_of (0::nat)]"
  let ?in = "\<lambda>t. ?p @ sa_csrf_key sa @ be_bytes 8 (length t) @ t"
  let ?fp = "''canonical-plus/shared-auth-token/v1'' @ [char_of (0::nat)] @ other"
  have 1: "\<exists>a b. a \<noteq> b \<and> sha256 x a = sha256 x b"
    if "csrf_token x sa token = csrf_token x sa other" "token \<noteq> other"
  proof (intro exI conjI)
    show "?in token \<noteq> ?in other" using that(2) by simp
    show "sha256 x (?in token) = sha256 x (?in other)"
      using that(1) by (auto simp: csrf_token_def dest!: inj)
  qed
  have 2: "\<exists>a b. a \<noteq> b \<and> sha256 x a = sha256 x b" if "csrf_token x sa token = token_fingerprint x other"
  proof (intro exI conjI)
    show "?in token \<noteq> ?fp" by simp
    show "sha256 x (?in token) = sha256 x ?fp"
      using that by (auto simp: csrf_token_def token_fingerprint_def dest!: inj)
  qed
  have 3: "case authenticate_as x sa w token SessionCookie of
         Inl e \<Rightarrow> e \<in> {Unauthorized, AuthBusy, AuthUpstream}
       | Inr ctx \<Rightarrow> require_csrf ctx [] (Some supplied)
           = (if supplied = csrf_token x sa token then Inr () else Inl Forbidden)"
  proof (cases "authenticate_as x sa w token SessionCookie")
    case (Inl e)
    then show ?thesis
      by (auto simp: authenticate_as_def try_then_Inl ok_or_Inl shared_required_header_def
            split: if_splits option.splits)
  next
    case (Inr ctx)
    with authenticate_as_source [OF Inr] show ?thesis
      by (simp add: require_csrf_def csrf_token_for_source_def header_str_def header_get_def)
  qed
  show ?thesis using 1 2 3 by auto
qed

section \<open>Samples\<close>

definition digest_ext :: ext where
  "digest_ext = (sample_ext JNull)\<lparr>sha256 := (\<lambda>s. take 32 (s @ replicate 32 (CHR '' '')))\<rparr>"

lemma digest_ext_law [simp]: "digest_law digest_ext" "b64_law digest_ext"
  by (auto simp: digest_law_def digest_ext_def b64_law_def sample_ext_def)

definition edge_secret :: string where "edge_secret = replicate 40 (CHR ''k'')"

definition edge_headers :: headers where
  "edge_headers = [(''x-auth-edge-secret'', edge_secret), (''x-auth-user-id'', ''u''),
     (''x-auth-provider'', ''p''), (''x-auth-provider-tenant'', ''t'')]"

definition sample_identity :: edge_identity where
  "sample_identity = \<lparr>ei_subject = ''u'', ei_email = None, ei_provider = ''p'',
     ei_provider_tenant = ''t'', ei_project = None, ei_roles = []\<rparr>"

lemma sound_edge_secret: "sound_secret edge_secret"
proof -
  have "\<not> has_control (replicate n (CHR ''k''))" for n
    by (induction n) (simp_all add: chr_in_def)
  then show ?thesis by (simp add: sound_secret_def edge_secret_def)
qed

lemma sample_edge:
  "edge_from_env digest_ext [''EDGE_AUTH_SHARED_SECRET'' \<mapsto> edge_secret]
     = Inr (Some (sha256 digest_ext edge_secret))"
  "edge_authenticated digest_ext (Some (sha256 digest_ext edge_secret)) edge_headers = Inr sample_identity"
proof -
  have utf8: "from_utf8 edge_secret = Some edge_secret"
    by (simp add: from_utf8_def valid_utf8_ascii edge_secret_def list_all_iff)
  then show "edge_from_env digest_ext [''EDGE_AUTH_SHARED_SECRET'' \<mapsto> edge_secret]
      = Inr (Some (sha256 digest_ext edge_secret))"
    by (simp add: edge_from_env_def sound_edge_secret)
  have str: "to_str edge_secret = Some edge_secret" "edge_secret \<noteq> []" "\<not> 512 < length edge_secret"
    by (simp_all add: to_str_def edge_secret_def list_all_iff chr_in_def)
  have verified: "edge_verify digest_ext (Some (sha256 digest_ext edge_secret)) edge_secret"
    by (simp add: edge_verify_def sound_edge_secret constant_time_equal_iff)
  have control: "\<not> has_control edge_secret"
    using sound_edge_secret by (simp add: sound_secret_def)
  have trims: "trim ''u'' = ''u''" "trim ''p'' = ''p''" "trim ''t'' = ''t''"
    by (rule trim_visible; simp add: chr_in_def)+
  show "edge_authenticated digest_ext (Some (sha256 digest_ext edge_secret)) edge_headers = Inr sample_identity"
    by (simp add: edge_authenticated_def edge_required_header_def validated_header_def parse_roles_def
          edge_headers_def header_str_def header_get_def str verified control trims to_str_def [of "[_]"]
          chr_in_def sample_identity_def)
qed


definition sample_shared_auth :: shared_auth where
  "sample_shared_auth = \<lparr>sa_verify_url = sample_url ''https'' ''a'',
     sa_cookie_name = DEFAULT_SECURE_COOKIE, sa_csrf_key = replicate 32 (CHR ''k'')\<rparr>"

text \<open>The sample digest has a collision, and the theorem finds it.\<close>

theorem shared_csrf_is_bound_witness:
  "\<exists>a b. a \<noteq> b \<and> sha256 digest_ext a = sha256 digest_ext b"
proof -
  have "csrf_token digest_ext sample_shared_auth ''t'' = csrf_token digest_ext sample_shared_auth ''u''"
    by (simp add: csrf_token_def digest_ext_def sample_ext_def)
  then show ?thesis
    using shared_csrf_is_bound [OF digest_ext_law(2), of sample_shared_auth "''t''" "''u''"] by simp
qed

text \<open>
  The plain-text exception of the two URL checks is wider than their messages say: any host with
  a label \<open>svc\<close> that is not the last one passes, in whatever domain it is.
\<close>

lemma verify_url_trusts_svc_labels:
  "validate_verify_url (sample_url ''http'' ''a.svc.evil.test'') = Inr ()"
  by (simp add: validate_verify_url_def sample_url_def no_credentials_def cluster_host_def
        loopback_host_def starts_with_def)

end
