(* ===== verification/Response.thy ===== *)
theory Response
  imports App_Error Http
begin

text \<open>
  Responses of the handlers. A body is the view with the data it is given; the views
  themselves are in \<open>Views\<close> and \<open>Quote_Views\<close>. \<open>error_answer\<close> is
  \<open>IntoResponse\<close> of an error and \<open>redirect_to\<close> is \<open>Redirect::to\<close>.
\<close>

datatype 'v body = EmptyBody | ErrorBody error_response | View 'v

record 'v response =
  rs_status :: nat
  rs_headers :: headers
  rs_body :: "'v body"

definition answer :: "nat \<Rightarrow> 'v body \<Rightarrow> 'v response" where
  "answer status b = \<lparr>rs_status = status, rs_headers = [], rs_body = b\<rparr>"

definition with_header :: "string \<Rightarrow> string \<Rightarrow> 'v response \<Rightarrow> 'v response" where
  "with_header name v r = r\<lparr>rs_headers := header_insert name v (rs_headers r)\<rparr>"

definition error_answer :: "app_error \<Rightarrow> 'v response" where
  "error_answer e =
     (let er = into_response e
      in \<lparr>rs_status = er_status er,
          rs_headers = (case er_retry_after er of None \<Rightarrow> [] | Some v \<Rightarrow> [(''retry-after'', v)]),
          rs_body = ErrorBody er\<rparr>)"

definition redirect_to :: "string \<Rightarrow> 'v response" where
  "redirect_to location =
     \<lparr>rs_status = 303, rs_headers = [(''location'', location)], rs_body = EmptyBody\<rparr>"

lemma answer_simps [simp]:
  "rs_status (answer status b) = status" "rs_headers (answer status b) = []"
  "rs_body (answer status b) = b"
  by (simp_all add: answer_def)

lemma with_header_simps [simp]:
  "rs_status (with_header name v r) = rs_status r" "rs_body (with_header name v r) = rs_body r"
  "rs_headers (with_header name v r) = header_insert name v (rs_headers r)"
  by (simp_all add: with_header_def)

lemma redirect_simps [simp]:
  "rs_status (redirect_to location) = 303" "rs_body (redirect_to location) = EmptyBody"
  "rs_headers (redirect_to location) = [(''location'', location)]"
  by (simp_all add: redirect_to_def)

lemma error_answer_status [simp]:
  "rs_status (error_answer Forbidden) = 403" "rs_status (error_answer Unauthorized) = 401"
  "rs_status (error_answer NotFound) = 404"
  by (simp_all add: error_answer_def into_response_def Let_def)

lemma error_answer_body [simp]: "rs_body (error_answer e) = ErrorBody (into_response e)"
  by (simp add: error_answer_def Let_def)

end
