(* ===== verification/Engagements.thy ===== *)
theory Engagements
  imports Access Response
begin

text \<open>
  The audit engagements of \<open>src/routes/pages.rs\<close> over the tables of
  \<open>entity/audit_engagement.rs\<close> and \<open>entity/engagement_note.rs\<close>: listing, creating, showing,
  changing the status and adding notes. Each handler takes the outcome of the extractor
  (\<open>auth\<close>), the headers, the parsed form and the tables, and returns its response and the
  tables; a transaction is atomic and errors of the database are not part of the model except a
  repeated primary key.
\<close>

section \<open>Tables\<close>

definition FRAMEWORKS :: "string list" where
  "FRAMEWORKS = [''soc2'', ''fedramp'', ''hipaa'', ''iso_27001'', ''pci_dss'', ''gdpr'']"

definition STATUSES :: "string list" where
  "STATUSES = [''scoping'', ''remediation'', ''in_audit'', ''complete'']"

definition COMPANY_MAX_CHARS :: nat where "COMPANY_MAX_CHARS = 200"
definition NOTE_MAX_CHARS :: nat where "NOTE_MAX_CHARS = 4000"

record audit_engagement =
  ae_owner_id :: uuid
  ae_company :: string
  ae_framework :: string
  ae_status :: string
  ae_opened_at :: timestamp
  ae_target_report_date :: "int option"
  ae_updated_at :: timestamp

record engagement_note =
  en_engagement_id :: uuid
  en_owner_id :: uuid
  en_body :: string
  en_created_at :: timestamp

record engagement_db =
  engagements :: "(uuid, audit_engagement) store"
  note_table :: "(uuid, engagement_note) store"

definition no_engagements :: engagement_db where
  "no_engagements = \<lparr>engagements = [], note_table = []\<rparr>"

text \<open>The views of these pages, with the rows they are given.\<close>

type_synonym engagement_rows = "(uuid \<times> audit_engagement) list"
type_synonym note_rows = "(uuid \<times> engagement_note) list"

datatype page =
    Dashboard auth_context
  | SessionFragment auth_context
  | EngagementsPage auth_context engagement_rows
  | EngagementList engagement_rows
  | EngagementDetail auth_context uuid audit_engagement note_rows
  | EngagementStatus uuid audit_engagement string
  | EngagementNotes note_rows
  | FormError string
  | HtmlNotFound

section \<open>Queries\<close>

text \<open>A malformed identifier and the engagement of someone else are both \<open>NotFound\<close>.\<close>

definition owned_engagement ::
    "ext \<Rightarrow> uuid \<Rightarrow> string \<Rightarrow> engagement_db \<Rightarrow> app_error + uuid \<times> audit_engagement" where
  "owned_engagement x owner_id raw_id db =
     try_then (ok_or (uuid_parse x raw_id) NotFound) (\<lambda>i.
     case find_by i (engagements db) of
       None \<Rightarrow> Inl NotFound
     | Some e \<Rightarrow> if ae_owner_id e = owner_id then Inr (i, e) else Inl NotFound)"

definition list_engagements :: "uuid \<Rightarrow> engagement_db \<Rightarrow> engagement_rows" where
  "list_engagements owner_id db =
     sort_key (\<lambda>(_, e). - ae_opened_at e) (filter (\<lambda>(_, e). ae_owner_id e = owner_id) (engagements db))"

definition list_notes :: "uuid \<Rightarrow> uuid \<Rightarrow> engagement_db \<Rightarrow> note_rows" where
  "list_notes engagement owner_id db =
     sort_key (\<lambda>(_, n). - en_created_at n)
       (filter (\<lambda>(_, n). en_engagement_id n = engagement \<and> en_owner_id n = owner_id) (note_table db))"

section \<open>Handlers\<close>

definition not_found :: "page response" where
  "not_found = answer 404 (View HtmlNotFound)"

definition form_error :: "headers \<Rightarrow> string \<Rightarrow> string \<Rightarrow> page response" where
  "form_error hs slot message =
     (if header_has ''hx-request'' hs
      then with_header ''hx-retarget'' slot (answer 200 (View (FormError message)))
      else answer 422 (View (FormError message)))"

text \<open>A page for a signed-in user; others are sent to the login page.\<close>

definition signed_in :: "app_error + auth_context \<Rightarrow> (auth_context \<Rightarrow> page response) \<Rightarrow> page response" where
  "signed_in auth render =
     (case auth of
        Inr actor \<Rightarrow> render actor
      | Inl Unauthorized \<Rightarrow> redirect_to ''/login''
      | Inl e \<Rightarrow> error_answer e)"

definition dashboard :: "app_error + auth_context \<Rightarrow> page response" where
  "dashboard auth = signed_in auth (\<lambda>actor. answer 200 (View (Dashboard actor)))"

definition session_fragment :: "app_error + auth_context \<Rightarrow> page response" where
  "session_fragment auth =
     (case auth of
        Inr actor \<Rightarrow> answer 200 (View (SessionFragment actor))
      | Inl Unauthorized \<Rightarrow> with_header ''hx-redirect'' ''/login'' (answer 401 EmptyBody)
      | Inl e \<Rightarrow> error_answer e)"

definition engagements_page :: "app_error + auth_context \<Rightarrow> engagement_db \<Rightarrow> page response" where
  "engagements_page auth db =
     signed_in auth (\<lambda>actor.
       answer 200 (View (EngagementsPage actor (list_engagements (ctx_user_id actor) db))))"

definition engagement_detail ::
    "ext \<Rightarrow> app_error + auth_context \<Rightarrow> string \<Rightarrow> engagement_db \<Rightarrow> page response" where
  "engagement_detail x auth raw_id db =
     signed_in auth (\<lambda>actor.
       case owned_engagement x (ctx_user_id actor) raw_id db of
         Inr (i, e) \<Rightarrow>
           answer 200 (View (EngagementDetail actor i e (list_notes i (ctx_user_id actor) db)))
       | Inl NotFound \<Rightarrow> not_found
       | Inl e \<Rightarrow> error_answer e)"

text \<open>The checks that every form handler of this module starts with.\<close>

definition form_actor ::
    "config \<Rightarrow> app_error + auth_context \<Rightarrow> headers \<Rightarrow> string \<Rightarrow> app_error + auth_context" where
  "form_actor cfg auth hs csrf =
     try_then auth (\<lambda>actor.
     try_then (require_origin cfg hs) (\<lambda>_.
     try_then (require_csrf actor hs (Some csrf)) (\<lambda>_. Inr actor)))"

record create_form =
  cf_csrf :: string
  cf_company :: string
  cf_framework :: string
  cf_target_report_date :: string

definition valid_company :: "string \<Rightarrow> bool" where
  "valid_company company \<longleftrightarrow> company \<noteq> [] \<and> chars_count company \<le> COMPANY_MAX_CHARS"

definition engagement_form_problem ::
    "(string \<Rightarrow> int option) \<Rightarrow> create_form \<Rightarrow> string + int option" where
  "engagement_form_problem parse_date form =
     (if \<not> valid_company (trim (cf_company form))
      then Inl ''Company is required and must be at most 200 characters.''
      else if cf_framework form \<notin> set FRAMEWORKS
      then Inl ''Choose a supported compliance framework.''
      else if trim (cf_target_report_date form) = [] then Inr None
      else case parse_date (trim (cf_target_report_date form)) of
             Some date \<Rightarrow> Inr (Some date)
           | None \<Rightarrow> Inl ''Target report date must be a valid YYYY-MM-DD date.'')"

text \<open>\<open>new_id\<close> is the random identifier; \<open>parse_date\<close> is chrono's \<open>%Y-%m-%d\<close> parser.\<close>

definition create_engagement ::
    "config \<Rightarrow> (string \<Rightarrow> int option) \<Rightarrow> timestamp \<Rightarrow> uuid \<Rightarrow> app_error + auth_context \<Rightarrow> headers
       \<Rightarrow> create_form \<Rightarrow> engagement_db \<Rightarrow> page response \<times> engagement_db" where
  "create_engagement cfg parse_date now new_id auth hs form db =
     (case form_actor cfg auth hs (cf_csrf form) of
        Inl e \<Rightarrow> (error_answer e, db)
      | Inr actor \<Rightarrow>
          (case engagement_form_problem parse_date form of
             Inl message \<Rightarrow> (form_error hs ''#engagement-form-error'' message, db)
           | Inr target_report_date \<Rightarrow>
               if find_by new_id (engagements db) \<noteq> None then (error_answer Database, db)
               else
                 let e = \<lparr>ae_owner_id = ctx_user_id actor, ae_company = trim (cf_company form),
                          ae_framework = cf_framework form, ae_status = ''scoping'',
                          ae_opened_at = now, ae_target_report_date = target_report_date,
                          ae_updated_at = now\<rparr>;
                     db' = db\<lparr>engagements := put new_id e (engagements db)\<rparr>
                 in (if header_has ''hx-request'' hs
                     then answer 200 (View (EngagementList (list_engagements (ctx_user_id actor) db')))
                     else redirect_to ''/app/engagements'', db')))"

definition update_engagement_status ::
    "ext \<Rightarrow> config \<Rightarrow> timestamp \<Rightarrow> app_error + auth_context \<Rightarrow> headers \<Rightarrow> string \<Rightarrow> string \<Rightarrow> string
       \<Rightarrow> engagement_db \<Rightarrow> page response \<times> engagement_db" where
  "update_engagement_status x cfg now auth hs raw_id csrf status db =
     (case try_then (form_actor cfg auth hs csrf) (\<lambda>actor.
           try_then (owned_engagement x (ctx_user_id actor) raw_id db) (\<lambda>(i, e). Inr (actor, i, e))) of
        Inl e \<Rightarrow> (error_answer e, db)
      | Inr (actor, i, e) \<Rightarrow>
          if status \<notin> set STATUSES
          then (form_error hs ''#engagement-status'' ''Choose a supported engagement status.'', db)
          else
            let e' = e\<lparr>ae_status := status, ae_updated_at := now\<rparr>
            in (if header_has ''hx-request'' hs
                then answer 200 (View (EngagementStatus i e' (or_else (ctx_csrf_token actor) [])))
                else redirect_to (''/app/engagements/'' @ uuid_text x i),
                db\<lparr>engagements := put i e' (engagements db)\<rparr>))"

definition add_engagement_note ::
    "ext \<Rightarrow> config \<Rightarrow> timestamp \<Rightarrow> uuid \<Rightarrow> app_error + auth_context \<Rightarrow> headers \<Rightarrow> string \<Rightarrow> string \<Rightarrow> string
       \<Rightarrow> engagement_db \<Rightarrow> page response \<times> engagement_db" where
  "add_engagement_note x cfg now new_id auth hs raw_id csrf raw_body db =
     (case try_then (form_actor cfg auth hs csrf) (\<lambda>actor.
           try_then (owned_engagement x (ctx_user_id actor) raw_id db) (\<lambda>(i, e). Inr (actor, i, e))) of
        Inl e \<Rightarrow> (error_answer e, db)
      | Inr (actor, i, e) \<Rightarrow>
          let note_body = trim raw_body
          in if note_body = [] \<or> NOTE_MAX_CHARS < chars_count note_body
             then (form_error hs ''#note-form-error''
                     ''A note is required and must be at most 4000 characters.'', db)
             else if find_by new_id (note_table db) \<noteq> None then (error_answer Database, db)
             else
               let n = \<lparr>en_engagement_id = i, en_owner_id = ctx_user_id actor, en_body = note_body,
                        en_created_at = now\<rparr>;
                   db' = db\<lparr>note_table := put new_id n (note_table db)\<rparr>
               in (if header_has ''hx-request'' hs
                   then answer 200 (View (EngagementNotes (list_notes i (ctx_user_id actor) db')))
                   else redirect_to (''/app/engagements/'' @ uuid_text x i), db'))"

section \<open>Runs\<close>

text \<open>The requests that can write, in the order in which their transactions commit.\<close>

datatype engagement_request =
    Create timestamp uuid "app_error + auth_context" headers create_form
  | SetStatus timestamp "app_error + auth_context" headers string string string
  | AddNote timestamp uuid "app_error + auth_context" headers string string string

primrec request_auth :: "engagement_request \<Rightarrow> app_error + auth_context" where
  "request_auth (Create now new_id auth hs form) = auth"
| "request_auth (SetStatus now auth hs raw_id csrf status) = auth"
| "request_auth (AddNote now new_id auth hs raw_id csrf note) = auth"

primrec handle ::
    "ext \<Rightarrow> config \<Rightarrow> (string \<Rightarrow> int option) \<Rightarrow> engagement_request \<Rightarrow> engagement_db
       \<Rightarrow> page response \<times> engagement_db" where
  "handle x cfg parse_date (Create now new_id auth hs form) db =
     create_engagement cfg parse_date now new_id auth hs form db"
| "handle x cfg parse_date (SetStatus now auth hs raw_id csrf status) db =
     update_engagement_status x cfg now auth hs raw_id csrf status db"
| "handle x cfg parse_date (AddNote now new_id auth hs raw_id csrf note) db =
     add_engagement_note x cfg now new_id auth hs raw_id csrf note db"

definition run_requests ::
    "ext \<Rightarrow> config \<Rightarrow> (string \<Rightarrow> int option) \<Rightarrow> engagement_request list \<Rightarrow> engagement_db
       \<Rightarrow> engagement_db" where
  "run_requests x cfg parse_date reqs db = foldl (\<lambda>db req. snd (handle x cfg parse_date req db)) db reqs"

section \<open>What each write does\<close>

text \<open>A request changes nothing, or it writes one row of its own actor.\<close>

definition writes_engagement :: "uuid \<Rightarrow> engagement_db \<Rightarrow> engagement_db \<Rightarrow> bool" where
  "writes_engagement owner db db' \<longleftrightarrow>
     (\<exists>i e. db' = db\<lparr>engagements := put i e (engagements db)\<rparr> \<and> ae_owner_id e = owner
        \<and> valid_company (ae_company e) \<and> trim (ae_company e) = ae_company e
        \<and> ae_framework e \<in> set FRAMEWORKS \<and> ae_status e \<in> set STATUSES
        \<and> (case find_by i (engagements db) of None \<Rightarrow> True | Some e' \<Rightarrow> ae_owner_id e' = owner))"

definition writes_note :: "uuid \<Rightarrow> engagement_db \<Rightarrow> engagement_db \<Rightarrow> bool" where
  "writes_note owner db db' \<longleftrightarrow>
     (\<exists>i n e. db' = db\<lparr>note_table := put i n (note_table db)\<rparr> \<and> find_by i (note_table db) = None
        \<and> en_owner_id n = owner \<and> en_body n \<noteq> [] \<and> trim (en_body n) = en_body n
        \<and> chars_count (en_body n) \<le> NOTE_MAX_CHARS
        \<and> find_by (en_engagement_id n) (engagements db) = Some e \<and> ae_owner_id e = owner)"

definition engagement_row_ok :: "audit_engagement \<Rightarrow> bool" where
  "engagement_row_ok e \<longleftrightarrow>
     valid_company (ae_company e) \<and> trim (ae_company e) = ae_company e
     \<and> ae_framework e \<in> set FRAMEWORKS \<and> ae_status e \<in> set STATUSES"

definition note_row_ok :: "engagement_db \<Rightarrow> engagement_note \<Rightarrow> bool" where
  "note_row_ok db n \<longleftrightarrow>
     en_body n \<noteq> [] \<and> trim (en_body n) = en_body n \<and> chars_count (en_body n) \<le> NOTE_MAX_CHARS
     \<and> (case find_by (en_engagement_id n) (engagements db) of
          None \<Rightarrow> False | Some e \<Rightarrow> ae_owner_id e = en_owner_id n)"

definition engagements_ok :: "engagement_db \<Rightarrow> bool" where
  "engagements_ok db \<longleftrightarrow> keyed (engagements db) \<and> keyed (note_table db)
     \<and> list_all (\<lambda>(_, e). engagement_row_ok e) (engagements db)
     \<and> list_all (\<lambda>(_, n). note_row_ok db n) (note_table db)"

lemma owned_Inr:
  "owned_engagement x owner raw db = Inr (i, e) \<longleftrightarrow>
     uuid_parse x raw = Some i \<and> find_by i (engagements db) = Some e \<and> ae_owner_id e = owner"
  by (auto simp: owned_engagement_def try_then_Inr ok_or_Inr split: option.splits if_splits)

lemma writes_engagementI:
  "\<lbrakk> ae_owner_id e = owner; engagement_row_ok e;
     case find_by i (engagements db) of None \<Rightarrow> True | Some e' \<Rightarrow> ae_owner_id e' = owner \<rbrakk>
   \<Longrightarrow> writes_engagement owner db (db\<lparr>engagements := put i e (engagements db)\<rparr>)"
  unfolding writes_engagement_def engagement_row_ok_def by blast

lemma writes_noteI:
  "\<lbrakk> find_by i (note_table db) = None; en_owner_id n = owner; en_body n \<noteq> [];
     trim (en_body n) = en_body n; chars_count (en_body n) \<le> NOTE_MAX_CHARS;
     find_by (en_engagement_id n) (engagements db) = Some e; ae_owner_id e = owner \<rbrakk>
   \<Longrightarrow> writes_note owner db (db\<lparr>note_table := put i n (note_table db)\<rparr>)"
  unfolding writes_note_def by blast

lemma form_actor_Inr: "form_actor cfg auth hs csrf = Inr actor \<Longrightarrow> auth = Inr actor"
  by (auto simp: form_actor_def try_then_Inr)

lemma handle_writes:
  assumes ok: "list_all (\<lambda>(_, e). engagement_row_ok e) (engagements db)"
  shows "snd (handle x cfg parse_date req db) = db
    \<or> (\<exists>actor. request_auth req = Inr actor
        \<and> (writes_engagement (ctx_user_id actor) db (snd (handle x cfg parse_date req db))
           \<or> writes_note (ctx_user_id actor) db (snd (handle x cfg parse_date req db))))"
proof (cases req)
  case (Create now new_id auth hs form)
  show ?thesis
  proof (cases "form_actor cfg auth hs (cf_csrf form)")
    case (Inr actor)
    show ?thesis
    proof (cases "engagement_form_problem parse_date form")
      case (Inr date)
      then have "valid_company (trim (cf_company form))" "cf_framework form \<in> set FRAMEWORKS"
        by (auto simp: engagement_form_problem_def split: if_splits option.splits)
      then show ?thesis
        using Create Inr \<open>form_actor cfg auth hs (cf_csrf form) = Inr actor\<close>
          form_actor_Inr [OF \<open>form_actor cfg auth hs (cf_csrf form) = Inr actor\<close>]
        by (cases "find_by new_id (engagements db)")
           (simp_all add: create_engagement_def writes_engagementI engagement_row_ok_def Let_def STATUSES_def)
    qed (simp add: Create create_engagement_def Inr)
  qed (simp add: Create create_engagement_def)
next
  case (SetStatus now auth hs raw_id csrf status)
  let ?found = "try_then (form_actor cfg auth hs csrf) (\<lambda>actor.
      try_then (owned_engagement x (ctx_user_id actor) raw_id db) (\<lambda>(i, e). Inr (actor, i, e)))"
  show ?thesis
  proof (cases ?found)
    case (Inr found)
    then obtain actor i e where f: "found = (actor, i, e)" "form_actor cfg auth hs csrf = Inr actor"
        "find_by i (engagements db) = Some e" "ae_owner_id e = ctx_user_id actor"
      by (auto simp: try_then_Inr owned_Inr)
    moreover have "engagement_row_ok e"
      using ok find_by_in_set [OF f(3)] by (auto simp: list_all_iff)
    ultimately show ?thesis
      using SetStatus Inr form_actor_Inr [OF f(2)]
      by (cases "status \<in> set STATUSES")
         (simp_all add: update_engagement_status_def writes_engagementI engagement_row_ok_def Let_def)
  qed (simp add: SetStatus update_engagement_status_def)
next
  case (AddNote now new_id auth hs raw_id csrf raw_body)
  let ?found = "try_then (form_actor cfg auth hs csrf) (\<lambda>actor.
      try_then (owned_engagement x (ctx_user_id actor) raw_id db) (\<lambda>(i, e). Inr (actor, i, e)))"
  show ?thesis
  proof (cases ?found)
    case (Inr found)
    then obtain actor i e where f: "found = (actor, i, e)" "form_actor cfg auth hs csrf = Inr actor"
        "find_by i (engagements db) = Some e" "ae_owner_id e = ctx_user_id actor"
      by (auto simp: try_then_Inr owned_Inr)
    then show ?thesis
      using AddNote Inr form_actor_Inr [OF f(2)]
      by (cases "trim raw_body = [] \<or> NOTE_MAX_CHARS < chars_count (trim raw_body)
          \<or> find_by new_id (note_table db) \<noteq> None")
         (auto simp: add_engagement_note_def Let_def writes_noteI)
  qed (simp add: AddNote add_engagement_note_def)
qed

section \<open>Properties\<close>

lemma engagement_write_ok:
  assumes "engagements_ok db" "writes_engagement owner db db'"
  shows "engagements_ok db'"
proof -
  obtain i e where w: "db' = db\<lparr>engagements := put i e (engagements db)\<rparr>" "ae_owner_id e = owner"
      "engagement_row_ok e"
      "case find_by i (engagements db) of None \<Rightarrow> True | Some e' \<Rightarrow> ae_owner_id e' = owner"
    using assms(2) unfolding writes_engagement_def engagement_row_ok_def by blast
  have "note_row_ok db n \<Longrightarrow> note_row_ok db' n" for n
    using w by (auto simp: note_row_ok_def store.look_ins split: option.splits)
  then have "list_all (\<lambda>(_, n). note_row_ok db' n) (note_table db)"
    using assms(1) by (auto simp: engagements_ok_def list_all_iff)
  then show ?thesis
    using assms(1) w(1,3) by (simp add: engagements_ok_def store.ok_ins list_all_put)
qed

lemma note_write_ok:
  assumes "engagements_ok db" "writes_note owner db db'"
  shows "engagements_ok db'"
proof -
  obtain i n e where w: "db' = db\<lparr>note_table := put i n (note_table db)\<rparr>" "en_owner_id n = owner"
      "en_body n \<noteq> []" "trim (en_body n) = en_body n" "chars_count (en_body n) \<le> NOTE_MAX_CHARS"
      "find_by (en_engagement_id n) (engagements db) = Some e" "ae_owner_id e = owner"
    using assms(2) unfolding writes_note_def by blast
  have same: "note_row_ok (db\<lparr>note_table := t\<rparr>) = note_row_ok db" for t
    by (simp add: note_row_ok_def fun_eq_iff)
  have "note_row_ok db n" using w(2-) by (simp add: note_row_ok_def)
  then show ?thesis
    using assms(1) by (simp add: engagements_ok_def same store.ok_ins list_all_put w(1))
qed

lemma handle_ok:
  assumes "engagements_ok db"
  shows "engagements_ok (snd (handle x cfg parse_date req db))"
proof -
  have "list_all (\<lambda>(_, e). engagement_row_ok e) (engagements db)"
    using assms by (simp add: engagements_ok_def)
  from handle_writes [OF this, of x cfg parse_date req] show ?thesis
    using assms engagement_write_ok note_write_ok by metis
qed

text \<open>
  Whatever requests come in, in whatever order, from whatever users and with whatever fields:
  every stored engagement has a trimmed company of 1 to 200 characters, a framework and a status
  that the constraints of the table allow, every stored note has a trimmed body of 1 to 4000
  characters and belongs to an existing engagement of the same owner, and keys are unique.
\<close>

theorem engagement_tables_well_formed:
  "engagements_ok (run_requests x cfg parse_date reqs no_engagements)"
proof (induction reqs rule: rev_induct)
  case Nil
  show ?case by (simp add: run_requests_def no_engagements_def engagements_ok_def)
next
  case (snoc req reqs)
  then show ?case by (simp add: run_requests_def handle_ok)
qed

text \<open>What another user can see does not change with a write of someone else.\<close>

lemma filter_put_other:
  "\<not> P v \<Longrightarrow> (case find_by k s of None \<Rightarrow> True | Some w \<Rightarrow> \<not> P w) \<Longrightarrow>
     filter (\<lambda>(_, v). P v) (put k v s) = filter (\<lambda>(_, v). P v) s"
  by (induction s) (auto simp: put_def find_by_def split: if_splits)

lemma engagement_write_other:
  assumes "writes_engagement owner db db'" "other \<noteq> owner"
  shows "list_engagements other db' = list_engagements other db \<and> list_notes i other db' = list_notes i other db"
proof -
  obtain j e where w: "db' = db\<lparr>engagements := put j e (engagements db)\<rparr>" "ae_owner_id e = owner"
      "case find_by j (engagements db) of None \<Rightarrow> True | Some e' \<Rightarrow> ae_owner_id e' = owner"
    using assms(1) unfolding writes_engagement_def by blast
  have "filter (\<lambda>(_, e). ae_owner_id e = other) (put j e (engagements db))
      = filter (\<lambda>(_, e). ae_owner_id e = other) (engagements db)"
    using w(2,3) assms(2) by (intro filter_put_other) (auto split: option.splits)
  then show ?thesis by (simp add: list_engagements_def list_notes_def w(1))
qed

lemma note_write_other:
  assumes "writes_note owner db db'" "other \<noteq> owner"
  shows "list_engagements other db' = list_engagements other db \<and> list_notes i other db' = list_notes i other db"
proof -
  obtain j n where w: "db' = db\<lparr>note_table := put j n (note_table db)\<rparr>" "en_owner_id n = owner"
      "find_by j (note_table db) = None"
    using assms(1) unfolding writes_note_def by blast
  have "filter (\<lambda>(_, n). en_engagement_id n = i \<and> en_owner_id n = other) (put j n (note_table db))
      = filter (\<lambda>(_, n). en_engagement_id n = i \<and> en_owner_id n = other) (note_table db)"
    using w(2,3) assms(2) by (intro filter_put_other [where P = "\<lambda>n. en_engagement_id n = i \<and> en_owner_id n = other"]) auto
  then show ?thesis by (simp add: list_engagements_def list_notes_def w(1))
qed

text \<open>A response shows rows of one owner only.\<close>

primrec page_owned :: "uuid \<Rightarrow> page \<Rightarrow> bool" where
  "page_owned owner (Dashboard actor) = (ctx_user_id actor = owner)"
| "page_owned owner (SessionFragment actor) = (ctx_user_id actor = owner)"
| "page_owned owner (EngagementsPage actor rows) =
     (ctx_user_id actor = owner \<and> list_all (\<lambda>(_, e). ae_owner_id e = owner) rows)"
| "page_owned owner (EngagementList rows) = list_all (\<lambda>(_, e). ae_owner_id e = owner) rows"
| "page_owned owner (EngagementDetail actor i e ns) =
     (ctx_user_id actor = owner \<and> ae_owner_id e = owner
        \<and> list_all (\<lambda>(_, n). en_owner_id n = owner \<and> en_engagement_id n = i) ns)"
| "page_owned owner (EngagementStatus i e csrf) = (ae_owner_id e = owner)"
| "page_owned owner (EngagementNotes ns) = list_all (\<lambda>(_, n). en_owner_id n = owner) ns"
| "page_owned owner (FormError message) = True"
| "page_owned owner HtmlNotFound = True"

fun body_owned :: "uuid \<Rightarrow> page body \<Rightarrow> bool" where
  "body_owned owner (View page) = page_owned owner page"
| "body_owned owner EmptyBody = True"
| "body_owned owner (ErrorBody e) = True"

lemma lists_owned:
  "list_all (\<lambda>(_, e). ae_owner_id e = owner) (list_engagements owner db)"
  "list_all (\<lambda>(_, n). en_owner_id n = owner \<and> en_engagement_id n = i) (list_notes i owner db)"
  "list_all (\<lambda>(_, n). en_owner_id n = owner) (list_notes i owner db)"
  by (auto simp: list_engagements_def list_notes_def list_all_iff)

lemma form_error_owned [simp]: "body_owned owner (rs_body (form_error hs slot message))"
  by (simp add: form_error_def)

lemma form_then_owned:
  "try_then (form_actor cfg auth hs csrf) (\<lambda>actor.
     try_then (owned_engagement x (ctx_user_id actor) raw_id db) (\<lambda>(i, e). Inr (actor, i, e)))
   = Inr (actor, i, e) \<Longrightarrow> auth = Inr actor \<and> ae_owner_id e = ctx_user_id actor"
  by (auto simp: try_then_Inr owned_Inr dest: form_actor_Inr)

lemma handle_shows:
  assumes "request_auth req = Inr actor"
  shows "body_owned (ctx_user_id actor) (rs_body (fst (handle x cfg parse_date req db)))"
proof (cases req)
  case (Create now new_id auth hs form)
  show ?thesis
  proof (cases "form_actor cfg auth hs (cf_csrf form)")
    case (Inr actor')
    then have "actor' = actor"
      using form_actor_Inr [OF Inr] assms Create by simp
    with Create Inr show ?thesis
      by (cases "engagement_form_problem parse_date form")
         (simp_all add: create_engagement_def Let_def lists_owned)
  qed (simp add: Create create_engagement_def)
next
  case (SetStatus now auth hs raw_id csrf status)
  let ?found = "try_then (form_actor cfg auth hs csrf) (\<lambda>actor.
      try_then (owned_engagement x (ctx_user_id actor) raw_id db) (\<lambda>(i, e). Inr (actor, i, e)))"
  show ?thesis
  proof (cases ?found)
    case (Inr found)
    obtain actor' i e where f: "found = (actor', i, e)" by (cases found)
    with form_then_owned [OF Inr [unfolded f]] assms SetStatus
    have "actor' = actor" "ae_owner_id e = ctx_user_id actor" by simp_all
    with SetStatus Inr f show ?thesis
      by (simp add: update_engagement_status_def Let_def)
  qed (simp add: SetStatus update_engagement_status_def)
next
  case (AddNote now new_id auth hs raw_id csrf raw_body)
  let ?found = "try_then (form_actor cfg auth hs csrf) (\<lambda>actor.
      try_then (owned_engagement x (ctx_user_id actor) raw_id db) (\<lambda>(i, e). Inr (actor, i, e)))"
  show ?thesis
  proof (cases ?found)
    case (Inr found)
    obtain actor' i e where f: "found = (actor', i, e)" by (cases found)
    with form_then_owned [OF Inr [unfolded f]] assms AddNote
    have "actor' = actor" by simp
    with AddNote Inr f show ?thesis
      by (simp add: add_engagement_note_def Let_def lists_owned)
  qed (simp add: AddNote add_engagement_note_def)
qed

lemma pages_owned:
  "body_owned (ctx_user_id actor) (rs_body (engagements_page (Inr actor) db))"
  "body_owned (ctx_user_id actor) (rs_body (engagement_detail x (Inr actor) raw_id db))"
proof -
  show "body_owned (ctx_user_id actor) (rs_body (engagements_page (Inr actor) db))"
    by (simp add: engagements_page_def signed_in_def lists_owned)
  show "body_owned (ctx_user_id actor) (rs_body (engagement_detail x (Inr actor) raw_id db))"
  proof (cases "owned_engagement x (ctx_user_id actor) raw_id db")
    case (Inl e)
    then show ?thesis
      by (cases e) (simp_all add: engagement_detail_def signed_in_def not_found_def)
  next
    case (Inr found)
    obtain i e where f: "found = (i, e)" by (cases found)
    with Inr have "ae_owner_id e = ctx_user_id actor" by (simp add: owned_Inr)
    with Inr f show ?thesis
      by (simp add: engagement_detail_def signed_in_def lists_owned)
  qed
qed

text \<open>
  C22
  Engagements are private: a request of one user leaves the lists of engagements and notes of
  every other user exactly as they were, and every page it is answered with, the read-only pages
  included, shows rows of that user only; a request without an actor changes nothing.
\<close>

theorem engagements_are_private:
  assumes "engagements_ok db"
  shows "case request_auth req of
      Inl _ \<Rightarrow> snd (handle x cfg parse_date req db) = db
    | Inr actor \<Rightarrow>
        (if other = ctx_user_id actor then True
         else list_engagements other (snd (handle x cfg parse_date req db)) = list_engagements other db
           \<and> list_notes i other (snd (handle x cfg parse_date req db)) = list_notes i other db)
        \<and> body_owned (ctx_user_id actor) (rs_body (fst (handle x cfg parse_date req db)))
        \<and> body_owned (ctx_user_id actor) (rs_body (engagements_page (Inr actor) db))
        \<and> body_owned (ctx_user_id actor) (rs_body (engagement_detail x (Inr actor) raw_id db))"
proof -
  have rows: "list_all (\<lambda>(_, e). engagement_row_ok e) (engagements db)"
    using assms by (simp add: engagements_ok_def)
  note w = handle_writes [OF rows, of x cfg parse_date req]
  show ?thesis
  proof (cases "request_auth req")
    case (Inl e)
    with w have "snd (handle x cfg parse_date req db) = db" by (metis sum.distinct(1))
    with Inl show ?thesis by simp
  next
    case (Inr actor)
    have w': "snd (handle x cfg parse_date req db) = db
        \<or> writes_engagement (ctx_user_id actor) db (snd (handle x cfg parse_date req db))
        \<or> writes_note (ctx_user_id actor) db (snd (handle x cfg parse_date req db))"
      using w unfolding Inr by blast
    have "list_engagements other (snd (handle x cfg parse_date req db)) = list_engagements other db
        \<and> list_notes i other (snd (handle x cfg parse_date req db)) = list_notes i other db"
      if "other \<noteq> ctx_user_id actor"
      using w'
    proof (elim disjE)
      assume "snd (handle x cfg parse_date req db) = db"
      then show ?thesis by simp
    qed (rule engagement_write_other [OF _ that] note_write_other [OF _ that], assumption)+
    then show ?thesis using pages_owned handle_shows [OF Inr] Inr by simp
  qed
qed

text \<open>A run of two users, for the hypotheses of the property above.\<close>

definition sample_actor :: "uuid \<Rightarrow> auth_context" where
  "sample_actor user =
     \<lparr>ctx_user_id = user, ctx_email = ''a'', ctx_source = Bearer, ctx_supabase_session_id = None,
      ctx_session_hash = None, ctx_csrf_token = None, ctx_expires_at = 1\<rparr>"

definition sample_create :: engagement_request where
  "sample_create = Create 5 1 (Inr (sample_actor 7)) [(''origin'', ''https://a'')]
     \<lparr>cf_csrf = [], cf_company = ''Acme'', cf_framework = ''soc2'', cf_target_report_date = []\<rparr>"

definition sample_engagements :: engagement_db where
  "sample_engagements = \<lparr>engagements = [(1, \<lparr>ae_owner_id = 7, ae_company = ''Acme'',
     ae_framework = ''soc2'', ae_status = ''scoping'', ae_opened_at = 5,
     ae_target_report_date = None, ae_updated_at = 5\<rparr>)], note_table = []\<rparr>"

lemma trim_samples: "trim ''Acme'' = ''Acme''" "trim [] = []"
proof -
  show "trim ''Acme'' = ''Acme''" by (rule trim_visible; simp add: chr_in_def)
  show "trim [] = []" using length_trim [of "[]"] by simp
qed

lemma sample_run:
  "snd (handle x sample_config p sample_create no_engagements) = sample_engagements"
  by (simp add: sample_create_def create_engagement_def form_actor_def sample_actor_def
        require_origin_def require_csrf_def header_str_def header_get_def to_str_def chr_in_def
        sample_config_def engagement_form_problem_def trim_samples valid_company_def
        chars_count_def COMPANY_MAX_CHARS_def FRAMEWORKS_def no_engagements_def Let_def put_def
        find_by_def sample_engagements_def)

lemma sample_engagements_ok: "engagements_ok sample_engagements"
  by (simp add: sample_engagements_def engagements_ok_def keyed_def engagement_row_ok_def
        valid_company_def trim_samples chars_count_def COMPANY_MAX_CHARS_def chr_in_def
        FRAMEWORKS_def STATUSES_def)

theorem engagements_are_private_witness:
  "list_engagements 7 (snd (handle (sample_ext JNull) sample_config (\<lambda>_. None)
      (SetStatus 9 (Inr (sample_actor 8)) [] [] [] []) sample_engagements))
     = list_engagements 7 sample_engagements"
  using engagements_are_private [OF sample_engagements_ok,
      where req = "SetStatus 9 (Inr (sample_actor 8)) [] [] [] []" and other = 7
        and x = "sample_ext JNull" and cfg = sample_config and parse_date = "\<lambda>_. None"]
  by (simp add: sample_actor_def)

end
