(* ===== verification/Login.thy ===== *)
theory Login
  imports Access Response Rate_Limit Revocation
begin

text \<open>
  The login page, the password login and the logout of \<open>src/routes/auth.rs\<close>, with the attempt
  limiter, the bounded pool of login permits and the session tables they share. A handler
  returns its answer, the cookies it sets and the state after it; a login also returns the call
  it made to the authentication provider, if it made one.
\<close>

section \<open>Cookies\<close>

record set_cookie =
  sc_name :: string
  sc_value :: string
  sc_path :: string
  sc_secure :: bool
  sc_http_only :: bool
  sc_same_site_lax :: bool
  sc_max_age :: "int option"

definition LOGIN_CSRF_COOKIE :: string where "LOGIN_CSRF_COOKIE = ''canonical_login_csrf''"

definition login_csrf_cookie :: "config \<Rightarrow> string \<Rightarrow> set_cookie" where
  "login_csrf_cookie cfg csrf =
     \<lparr>sc_name = LOGIN_CSRF_COOKIE, sc_value = csrf, sc_path = ''/'', sc_secure = cf_cookie_secure cfg,
      sc_http_only = True, sc_same_site_lax = True, sc_max_age = None\<rparr>"

definition removal_cookie :: "string \<Rightarrow> bool \<Rightarrow> set_cookie" where
  "removal_cookie name secure =
     \<lparr>sc_name = name, sc_value = [], sc_path = ''/'', sc_secure = secure,
      sc_http_only = True, sc_same_site_lax = True, sc_max_age = Some 0\<rparr>"

text \<open>\<open>as_secs().try_into().unwrap_or(i64::MAX)\<close>\<close>

definition session_max_age :: "config \<Rightarrow> int" where
  "session_max_age cfg = (if int (cf_session_ttl cfg) \<le> i64_max then int (cf_session_ttl cfg) else i64_max)"

definition session_cookie :: "config \<Rightarrow> string \<Rightarrow> set_cookie" where
  "session_cookie cfg raw_id =
     \<lparr>sc_name = cf_session_cookie cfg, sc_value = raw_id, sc_path = ''/'',
      sc_secure = cf_cookie_secure cfg, sc_http_only = True, sc_same_site_lax = True,
      sc_max_age = Some (session_max_age cfg)\<rparr>"

section \<open>Login\<close>

datatype login_view =
    LoginPage string "string option"
  | LoginError string
  | AuthNotFound

record login_form =
  lf_email :: string
  lf_password :: string
  lf_csrf :: string

record login_world =
  lw_limiter :: rl_state
  lw_permits :: nat
  lw_db :: session_db

text \<open>
  \<open>lo_asked\<close> is the list of \<open>password_sign_in\<close> calls. The permit is held from \<open>try_acquire\<close> to
  the end of the session insert or an earlier return and is free again when the handler ends.
\<close>

record login_outcome =
  lo_answer :: "app_error + login_view response"
  lo_cookies :: "set_cookie list"
  lo_asked :: "(string \<times> string) list"
  lo_world :: login_world

definition limiter_policy :: "config \<Rightarrow> rate_limit_policy" where
  "limiter_policy cfg =
     \<lparr>max_attempts = cf_login_rate_limit_attempts cfg,
      global_max_attempts = cf_login_rate_limit_global_attempts cfg,
      window = cf_login_rate_limit_window cfg * nanos, max_keys = cf_login_rate_limit_max_keys cfg\<rparr>"

definition email_digest :: "ext \<Rightarrow> string \<Rightarrow> string" where
  "email_digest x s = b64_encode x (sha256 x s)"

definition login_page ::
    "ext \<Rightarrow> config \<Rightarrow> string \<Rightarrow> auth_context option \<Rightarrow> login_view response \<times> set_cookie list" where
  "login_page x cfg random existing =
     (if existing \<noteq> None then (redirect_to ''/app'', [])
      else
        let csrf = random_token x random
        in (answer 200 (View (LoginPage csrf None)), [login_csrf_cookie cfg csrf]))"

text \<open>\<open>now\<close> is the monotonic instant of the limiter, \<open>wall\<close> the time of the insert.\<close>

definition login_signed_in ::
    "ext \<Rightarrow> config \<Rightarrow> create_random \<Rightarrow> timestamp \<Rightarrow> headers \<Rightarrow> auth_tokens \<Rightarrow> session_db
       \<Rightarrow> (app_error + login_view response) \<times> set_cookie list \<times> session_db" where
  "login_signed_in x cfg rnd wall hs tokens db =
     (case create x (cf_session_encryption_key cfg) (cf_session_ttl cfg) rnd wall tokens db of
        (Inl e, db') \<Rightarrow> (Inl (from_session_error e), [], db')
      | (Inr created, db') \<Rightarrow>
          (Inr (if header_has ''hx-request'' hs
                then with_header ''hx-redirect'' ''/app'' (answer 200 EmptyBody)
                else redirect_to ''/app''),
           [removal_cookie LOGIN_CSRF_COOKIE (cf_cookie_secure cfg), session_cookie cfg (cs_raw_id created)],
           db'))"

definition login_refused :: "headers \<Rightarrow> login_form \<Rightarrow> auth_provider_error \<Rightarrow> app_error + login_view response" where
  "login_refused hs form e =
     (case e of
        InvalidCredentials \<Rightarrow>
          Inr (let message = ''Email or password was not accepted.''
               in if header_has ''hx-request'' hs
                  then with_header ''hx-retarget'' ''#login-result'' (answer 200 (View (LoginError message)))
                  else answer 401 (View (LoginPage (lf_csrf form) (Some message))))
      | _ \<Rightarrow> Inl AuthUpstream)"

definition login ::
    "ext \<Rightarrow> config \<Rightarrow> (string \<Rightarrow> string \<Rightarrow> auth_provider_error + auth_tokens) \<Rightarrow> create_random
       \<Rightarrow> instant \<Rightarrow> timestamp \<Rightarrow> request \<Rightarrow> login_form \<Rightarrow> login_world \<Rightarrow> login_outcome" where
  "login x cfg sign_in rnd now wall rq form w =
     (let hs = rq_headers rq;
          stop = \<lambda>e w. \<lparr>lo_answer = Inl e, lo_cookies = [], lo_asked = [], lo_world = w\<rparr>
      in case require_origin cfg hs of
           Inl e \<Rightarrow> stop e w
         | Inr _ \<Rightarrow>
             if (case rq_cookie rq LOGIN_CSRF_COOKIE of None \<Rightarrow> True | Some v \<Rightarrow> v \<noteq> lf_csrf form)
             then stop Forbidden w
             else
               (case check (email_digest x) (limiter_policy cfg) now (lf_email form) (lw_limiter w) of
                  (Inl retry, limiter) \<Rightarrow> stop (RateLimited retry) (w\<lparr>lw_limiter := limiter\<rparr>)
                | (Inr _, limiter) \<Rightarrow>
                    let w = w\<lparr>lw_limiter := limiter\<rparr>
                    in if lw_permits w = 0 then stop LoginAuthBusy w
                       else
                         let asked = [(lf_email form, lf_password form)]
                         in case sign_in (lf_email form) (lf_password form) of
                              Inl e \<Rightarrow>
                                \<lparr>lo_answer = login_refused hs form e, lo_cookies = [],
                                 lo_asked = asked, lo_world = w\<rparr>
                            | Inr tokens \<Rightarrow>
                                (case login_signed_in x cfg rnd wall hs tokens (lw_db w) of
                                   (ans, cookies, db) \<Rightarrow>
                                     \<lparr>lo_answer = ans, lo_cookies = cookies, lo_asked = asked,
                                      lo_world = w\<lparr>lw_db := db\<rparr>\<rparr>)))"

definition auth_not_found :: "login_view response" where
  "auth_not_found = answer 404 (View AuthNotFound)"

section \<open>Logout\<close>

text \<open>
  \<open>auth\<close> is the outcome of the browser-only extractor, which may have refreshed the session;
  \<open>db\<close> are the tables after it.
\<close>

definition logout ::
    "ext \<Rightarrow> config \<Rightarrow> string \<times> string \<Rightarrow> provider \<Rightarrow> timestamp \<Rightarrow> attempt_clock
       \<Rightarrow> app_error + auth_context \<Rightarrow> request \<Rightarrow> string \<Rightarrow> session_db
       \<Rightarrow> (app_error + login_view response) \<times> set_cookie list \<times> session_db" where
  "logout x cfg nonces p now t auth rq csrf db =
     (case try_then auth (\<lambda>actor.
           try_then (require_origin cfg (rq_headers rq)) (\<lambda>_.
           require_csrf actor (rq_headers rq) (Some csrf))) of
        Inl e \<Rightarrow> (Inl e, [], db)
      | Inr _ \<Rightarrow>
          (Inr (with_header ''clear-site-data'' (CHR 0x22 # ''cache'' @ [CHR 0x22] @ '', ''
                  @ [CHR 0x22] @ ''cookies'' @ [CHR 0x22] @ '', '' @ [CHR 0x22] @ ''storage'' @ [CHR 0x22])
                (redirect_to ''/login'')),
           [removal_cookie (cf_session_cookie cfg) (cf_cookie_secure cfg)],
           case rq_cookie rq (cf_session_cookie cfg) of
             None \<Rightarrow> db
           | Some raw_id \<Rightarrow> revoke x (cf_session_encryption_key cfg) nonces p now t raw_id db))"

section \<open>What a login does\<close>

definition login_passes :: "config \<Rightarrow> request \<Rightarrow> login_form \<Rightarrow> bool" where
  "login_passes cfg rq form \<longleftrightarrow>
     (case header_str ''origin'' (rq_headers rq) of
        None \<Rightarrow> False | Some origin \<Rightarrow> origin \<in> set (cf_allowed_origins cfg))
     \<and> rq_cookie rq LOGIN_CSRF_COOKIE = Some (lf_csrf form)"

lemma require_origin_passes:
  "require_origin cfg hs =
     (if (case header_str ''origin'' hs of None \<Rightarrow> False | Some origin \<Rightarrow> origin \<in> set (cf_allowed_origins cfg))
      then Inr () else Inl Forbidden)"
  by (auto simp: require_origin_def ok_or_def split: option.split)

lemma signed_in_Inl:
  "login_signed_in x cfg rnd wall hs tokens db = (Inl e, cookies, db') \<Longrightarrow> cookies = [] \<and> db' = db"
  by (auto simp: login_signed_in_def create_def Let_def split: sum.splits prod.splits)

text \<open>The outcome in each of the five ways a login can go.\<close>

lemma login_not_passing:
  "\<not> login_passes cfg rq form \<Longrightarrow> login x cfg sign_in rnd now wall rq form w =
     \<lparr>lo_answer = Inl Forbidden, lo_cookies = [], lo_asked = [], lo_world = w\<rparr>"
  by (auto simp: login_def Let_def require_origin_passes login_passes_def split: option.splits)

lemma login_passing:
  assumes "login_passes cfg rq form"
  shows "login x cfg sign_in rnd now wall rq form w =
    (case check (email_digest x) (limiter_policy cfg) now (lf_email form) (lw_limiter w) of
       (Inl retry, limiter) \<Rightarrow>
         \<lparr>lo_answer = Inl (RateLimited retry), lo_cookies = [], lo_asked = [],
          lo_world = w\<lparr>lw_limiter := limiter\<rparr>\<rparr>
     | (Inr _, limiter) \<Rightarrow>
         if lw_permits w = 0
         then \<lparr>lo_answer = Inl LoginAuthBusy, lo_cookies = [], lo_asked = [],
               lo_world = w\<lparr>lw_limiter := limiter\<rparr>\<rparr>
         else (case sign_in (lf_email form) (lf_password form) of
                 Inl e \<Rightarrow>
                   \<lparr>lo_answer = login_refused (rq_headers rq) form e, lo_cookies = [],
                    lo_asked = [(lf_email form, lf_password form)], lo_world = w\<lparr>lw_limiter := limiter\<rparr>\<rparr>
               | Inr tokens \<Rightarrow>
                   (case login_signed_in x cfg rnd wall (rq_headers rq) tokens (lw_db w) of
                      (ans, cookies, db) \<Rightarrow>
                        \<lparr>lo_answer = ans, lo_cookies = cookies,
                         lo_asked = [(lf_email form, lf_password form)],
                         lo_world = w\<lparr>lw_limiter := limiter, lw_db := db\<rparr>\<rparr>)))"
proof -
  have "require_origin cfg (rq_headers rq) = Inr ()" "rq_cookie rq LOGIN_CSRF_COOKIE = Some (lf_csrf form)"
    using assms by (auto simp: require_origin_passes login_passes_def)
  then show ?thesis by (simp add: login_def Let_def split: prod.split sum.split)
qed

text \<open>
  C9
  A login reaches the authentication provider exactly when it comes from an allowed origin, its
  form carries the value of the login cookie, the attempt limiter lets it through and a permit is
  free, and then with the submitted email and password once; otherwise the answer is 403, 429 with
  the limiter's advice, or 429 busy, no cookie is set and no session table changes. Forged
  requests do not use up the budget, all others do, whatever happens to them later; the permit is
  free again at the end; and sessions and cookies change only when the provider gave tokens and
  the session was stored.
\<close>

theorem login_is_gated:
  "case check (email_digest x) (limiter_policy cfg) now (lf_email form) (lw_limiter w) of (verdict, limiter) \<Rightarrow>
   case login x cfg sign_in rnd now wall rq form w of o' \<Rightarrow>
     lo_asked o' =
       (if login_passes cfg rq form \<and> verdict = Inr () \<and> lw_permits w \<noteq> 0
        then [(lf_email form, lf_password form)] else [])
     \<and> lw_limiter (lo_world o') = (if login_passes cfg rq form then limiter else lw_limiter w)
     \<and> lw_permits (lo_world o') = lw_permits w
     \<and> (if lo_asked o' = []
        then lo_answer o' = Inl (if login_passes cfg rq form
               then (case verdict of Inl retry \<Rightarrow> RateLimited retry | Inr _ \<Rightarrow> LoginAuthBusy) else Forbidden)
        else True)
     \<and> (case (lo_asked o', sign_in (lf_email form) (lf_password form), lo_answer o') of
          (_ # _, Inr tokens, Inr _) \<Rightarrow>
            lo_cookies o' = [removal_cookie LOGIN_CSRF_COOKIE (cf_cookie_secure cfg),
                             session_cookie cfg (random_token x (cr_raw rnd))]
        | _ \<Rightarrow> lo_cookies o' = [] \<and> lw_db (lo_world o') = lw_db w)"
proof (cases "login_passes cfg rq form")
  case False
  then show ?thesis by (simp add: login_not_passing split: prod.split)
next
  case True
  obtain verdict limiter where c:
    "check (email_digest x) (limiter_policy cfg) now (lf_email form) (lw_limiter w) = (verdict, limiter)"
    by force
  show ?thesis
  proof (cases verdict)
    case (Inl retry)
    with True c show ?thesis by (simp add: login_passing)
  next
    case (Inr u)
    show ?thesis
    proof (cases "lw_permits w = 0")
      case busy: True
      with True c Inr show ?thesis by (simp add: login_passing)
    next
      case False
      show ?thesis
      proof (cases "sign_in (lf_email form) (lf_password form)")
        case refused: (Inl e)
        with True c Inr False show ?thesis by (simp add: login_passing)
      next
        case tokens: (Inr tokens)
        obtain ans cookies db where s:
          "login_signed_in x cfg rnd wall (rq_headers rq) tokens (lw_db w) = (ans, cookies, db)"
          by (cases "login_signed_in x cfg rnd wall (rq_headers rq) tokens (lw_db w)")
        show ?thesis
        proof (cases ans)
          case err: (Inl e)
          with signed_in_Inl s have "cookies = []" "db = lw_db w" by blast+
          with err True c Inr False tokens s show ?thesis by (simp add: login_passing)
        next
          case ok: (Inr r)
          with s have "cookies = [removal_cookie LOGIN_CSRF_COOKIE (cf_cookie_secure cfg),
              session_cookie cfg (random_token x (cr_raw rnd))]"
            by (auto simp: login_signed_in_def dest: create_Inr split: sum.splits prod.splits)
          with ok True c Inr False tokens s show ?thesis by (simp add: login_passing)
        qed
      qed
    qed
  qed
qed

section \<open>The session of a login\<close>

text \<open>
  C23
  Login and authentication fit together: after a login that succeeded, a request with the cookie
  it set, and without an \<open>Authorization\<close> header, is authenticated as the very user the provider
  vouched for, by the session cookie and with a CSRF token, at both the application and the quote
  routes, until the session or its access token comes to its end. That cookie is \<open>HttpOnly\<close>, for
  the whole site and \<open>Secure\<close> whenever the configuration says so.
\<close>

theorem login_session_authenticates:
  assumes "sign_in (lf_email form) (lf_password form) = Inr tokens"
    and "lo_asked (login x cfg sign_in rnd now wall rq form w) \<noteq> []"
    and "lo_answer (login x cfg sign_in rnd now wall rq form w) = Inr r"
    and "c \<in> set (lo_cookies (login x cfg sign_in rnd now wall rq form w))"
    and "sc_name c = cf_session_cookie cfg" "sc_value c \<noteq> []"
    and "header_get ''authorization'' (rq_headers rq') = None"
    and "rq_cookie rq' (sc_name c) = Some (sc_value c)"
    and "aw_db aw = lw_db (lo_world (login x cfg sign_in rnd now wall rq form w))"
    and "aw_wall aw < wall + seconds (int (cf_session_ttl cfg))"
    and "aw_wall aw + seconds 60 < at_expires_at tokens"
  shows "\<exists>ctx. authenticate_request x cfg aw rq' b = Inr ctx \<and> authenticate_quote x cfg sa aw rq' b = Inr ctx
    \<and> ctx_user_id ctx = su_id (at_user tokens) \<and> ctx_source ctx = SessionCookie
    \<and> ctx_csrf_token ctx = Some (random_token x (cr_csrf rnd))
    \<and> sc_http_only c \<and> sc_secure c = cf_cookie_secure cfg \<and> sc_path c = ''/''"
proof -
  have passes: "login_passes cfg rq form"
    using assms(2) login_not_passing by fastforce
  obtain u limiter where chk: "check (email_digest x) (limiter_policy cfg) now (lf_email form) (lw_limiter w)
      = (Inr u, limiter)" and permits: "lw_permits w \<noteq> 0"
    using assms(2) by (auto simp: login_passing [OF passes] split: prod.splits sum.splits if_splits)
  obtain ans cookies db where s:
    "login_signed_in x cfg rnd wall (rq_headers rq) tokens (lw_db w) = (ans, cookies, db)"
    by (cases "login_signed_in x cfg rnd wall (rq_headers rq) tokens (lw_db w)")
  have o': "login x cfg sign_in rnd now wall rq form w =
      \<lparr>lo_answer = ans, lo_cookies = cookies, lo_asked = [(lf_email form, lf_password form)],
       lo_world = w\<lparr>lw_limiter := limiter, lw_db := db\<rparr>\<rparr>"
    by (simp add: login_passing [OF passes] chk permits assms(1) s)
  then have "ans = Inr r" using assms(3) by simp
  with s obtain cs where cs: "create x (cf_session_encryption_key cfg) (cf_session_ttl cfg) rnd wall tokens
      (lw_db w) = (Inr cs, db)"
    and cookies: "cookies = [removal_cookie LOGIN_CSRF_COOKIE (cf_cookie_secure cfg),
        session_cookie cfg (cs_raw_id cs)]"
    by (auto simp: login_signed_in_def split: sum.splits prod.splits)
  have c: "c = session_cookie cfg (cs_raw_id cs)"
    using assms(4,6) by (auto simp: o' cookies removal_cookie_def)
  obtain d sid a r' m where new: "from_std (cf_session_ttl cfg) = Some d"
    "m = new_session wall (wall + d) tokens sid a r' (random_token x (cr_csrf rnd))"
    "db = upsert_profile wall (ws_user_id m) (ws_email m) (save (hash_token x (cs_raw_id cs)) m (lw_db w))"
    using create_Inr [OF cs] by blast
  have row: "find_by (hash_token x (cs_raw_id cs)) (sessions (aw_db aw)) = Some m"
    using assms(9) by (simp add: o' new(3))
  have "d = seconds (int (cf_session_ttl cfg))" using new(1) by (auto simp: from_std_def split: if_splits)
  then have "authenticate x (aw_wall aw) (cs_raw_id cs) (aw_db aw)
      = Inr (Authenticated (context_from_model (hash_token x (cs_raw_id cs)) m))"
    using row assms(10,11) by (simp add: authenticate_def authenticate_hash_def validate_model_def new(2) new_session_def)
  moreover have "rq_cookie rq' (cf_session_cookie cfg) = Some (cs_raw_id cs)"
    using assms(5,8) by (simp add: c session_cookie_def)
  ultimately have "authenticate_request x cfg aw rq' b = Inr (context_from_model (hash_token x (cs_raw_id cs)) m)"
    "authenticate_quote x cfg sa aw rq' b = Inr (context_from_model (hash_token x (cs_raw_id cs)) m)"
    using assms(7) by (simp_all add: authenticate_request_def authenticate_quote_def bearer_token_def session_context_def)
  then show ?thesis
    by (simp add: c session_cookie_def context_from_model_def new(2) new_session_def)
qed

section \<open>Budgets of whole runs\<close>

text \<open>
  A run of logins of one process in the order of their limiter checks: each with its own times,
  the answer of the provider and the number of permits that other handlers left free.
\<close>

record login_try =
  lt_request :: request
  lt_form :: login_form
  lt_random :: create_random
  lt_now :: instant
  lt_wall :: timestamp
  lt_provider :: "auth_provider_error + auth_tokens"
  lt_permits :: nat

definition try_login :: "ext \<Rightarrow> config \<Rightarrow> login_try \<Rightarrow> login_world \<Rightarrow> login_outcome" where
  "try_login x cfg t w =
     login x cfg (\<lambda>_ _. lt_provider t) (lt_random t) (lt_now t) (lt_wall t) (lt_request t) (lt_form t)
       (w\<lparr>lw_permits := lt_permits t\<rparr>)"

fun run_logins :: "ext \<Rightarrow> config \<Rightarrow> login_try list \<Rightarrow> login_world \<Rightarrow> (string \<times> string) list \<times> login_world" where
  "run_logins x cfg [] w = ([], w)"
| "run_logins x cfg (t # ts) w =
     (let o' = try_login x cfg t w;
          (rest, w') = run_logins x cfg ts (lo_world o')
      in (lo_asked o' @ rest, w'))"

definition asked_for :: "ext \<Rightarrow> string \<Rightarrow> (string \<times> string) list \<Rightarrow> nat" where
  "asked_for x key asked = length (filter (\<lambda>(email, _). account_key (email_digest x) email = key) asked)"

definition attempt_of :: "ext \<Rightarrow> login_try \<Rightarrow> rate_limit_attempt" where
  "attempt_of x t = \<lparr>account_key_of = account_key (email_digest x) (lf_email (lt_form t)), observed_at = lt_now t\<rparr>"

definition counted :: "ext \<Rightarrow> config \<Rightarrow> login_try list \<Rightarrow> rate_limit_attempt list" where
  "counted x cfg ts = map (attempt_of x) (filter (\<lambda>t. login_passes cfg (lt_request t) (lt_form t)) ts)"

lemma try_login_steps:
  "lw_limiter (lo_world (try_login x cfg t w)) =
     (if login_passes cfg (lt_request t) (lt_form t)
      then next_state (reduce_rate_limit (lw_limiter w) (attempt_of x t) (limiter_policy cfg))
      else lw_limiter w)"
  "lo_asked (try_login x cfg t w) \<noteq> [] \<Longrightarrow>
     login_passes cfg (lt_request t) (lt_form t)
     \<and> outcome (reduce_rate_limit (lw_limiter w) (attempt_of x t) (limiter_policy cfg)) = Allowed
     \<and> lo_asked (try_login x cfg t w) = [(lf_email (lt_form t), lf_password (lt_form t))]"
proof -
  let ?p = "login_passes cfg (lt_request t) (lt_form t)"
  let ?t = "reduce_rate_limit (lw_limiter w) (attempt_of x t) (limiter_policy cfg)"
  have chk: "check (email_digest x) (limiter_policy cfg) (lt_now t) (lf_email (lt_form t)) (lw_limiter w)
      = (into_result (outcome ?t), next_state ?t)"
    by (simp add: check_def attempt_of_def Let_def)
  show "lw_limiter (lo_world (try_login x cfg t w)) = (if ?p then next_state ?t else lw_limiter w)"
    by (cases ?p) (auto simp: try_login_def login_not_passing login_passing chk split: sum.split prod.split)
  assume asked: "lo_asked (try_login x cfg t w) \<noteq> []"
  then have p: ?p using login_not_passing by (fastforce simp: try_login_def)
  moreover from asked p obtain u where "into_result (outcome ?t) = Inr u"
    by (auto simp: try_login_def login_passing chk split: sum.splits)
  moreover then have "outcome ?t = Allowed" by (cases "outcome ?t") auto
  ultimately show "?p \<and> outcome ?t = Allowed
      \<and> lo_asked (try_login x cfg t w) = [(lf_email (lt_form t), lf_password (lt_form t))]"
    using asked by (auto simp: try_login_def login_passing chk split: sum.splits prod.splits if_splits)
qed

lemma run_asked:
  "asked_for x key (fst (run_logins x cfg ts w))
     \<le> allowed_for key (fst (rl_run (limiter_policy cfg) (lw_limiter w) (counted x cfg ts)))
   \<and> length (fst (run_logins x cfg ts w))
     \<le> allowed_total (fst (rl_run (limiter_policy cfg) (lw_limiter w) (counted x cfg ts)))"
proof (induction ts arbitrary: w)
  case Nil
  show ?case by (simp add: asked_for_def)
next
  case (Cons t ts)
  let ?w = "lo_world (try_login x cfg t w)"
  let ?t = "reduce_rate_limit (lw_limiter w) (attempt_of x t) (limiter_policy cfg)"
  have run: "fst (run_logins x cfg (t # ts) w) = lo_asked (try_login x cfg t w) @ fst (run_logins x cfg ts ?w)"
    by (simp add: Let_def split_beta)
  show ?case
  proof (cases "login_passes cfg (lt_request t) (lt_form t)")
    case False
    then have "lo_asked (try_login x cfg t w) = []" using try_login_steps(2) by blast
    with False show ?thesis
      using Cons.IH [of ?w] try_login_steps(1) [of x cfg t w]
      by (simp only: run append_Nil) (simp add: counted_def)
  next
    case True
    then have lim: "lw_limiter ?w = next_state ?t" using try_login_steps(1) [of x cfg t w] by simp
    have split: "allowed_for key (fst (rl_run (limiter_policy cfg) (lw_limiter w) (counted x cfg (t # ts))))
        = (if outcome ?t = Allowed \<and> account_key_of (attempt_of x t) = key then 1 else 0)
          + allowed_for key (fst (rl_run (limiter_policy cfg) (next_state ?t) (counted x cfg ts)))"
      "allowed_total (fst (rl_run (limiter_policy cfg) (lw_limiter w) (counted x cfg (t # ts))))
        = (if outcome ?t = Allowed then 1 else 0)
          + allowed_total (fst (rl_run (limiter_policy cfg) (next_state ?t) (counted x cfg ts)))"
      using True by (simp_all add: counted_def allowed_for_def allowed_total_def Let_def split_beta)
    show ?thesis
    proof (cases "lo_asked (try_login x cfg t w) = []")
      case True
      then show ?thesis using Cons.IH [of ?w] by (simp only: run split lim append_Nil) linarith
    next
      case False
      from try_login_steps(2) [OF this] have a: "outcome ?t = Allowed"
        "lo_asked (try_login x cfg t w) = [(lf_email (lt_form t), lf_password (lt_form t))]" by blast+
      have "asked_for x key (lo_asked (try_login x cfg t w) @ fst (run_logins x cfg ts ?w))
          = (if account_key_of (attempt_of x t) = key then 1 else 0) + asked_for x key (fst (run_logins x cfg ts ?w))"
        by (simp add: a(2) asked_for_def attempt_of_def)
      then show ?thesis using Cons.IH [of ?w] a(1)
        by (simp only: run split lim) (simp add: a(2))
    qed
  qed
qed


section \<open>The end of a session\<close>

lemma revoke_unauthorized:
  assumes "session_steps x key start_world w"
  shows "authenticate x wall raw (revoke x key nonces p now t raw (tables w)) = Inl SUnauthorized"
proof -
  let ?i = "hash_token x raw"
  let ?w = "w\<lparr>tables := queue_revocation now ?i (tables w)\<rparr>"
  show ?thesis
  proof (cases "find_by ?i (sessions (tables w))")
    case None
    then have "revoke x key nonces p now t raw (tables w) = tables w"
      by (simp add: revoke_def queue_revocation_def attempt_revocation_def claim_revocation_def)
    with None show ?thesis by (intro revoked_unauthorized) simp
  next
    case (Some m)
    have ok: "world_ok ?w" using world_step [OF st_logout] reachable_ok [OF assms] by blast
    have row: "find_by ?i (sessions (tables ?w)) = Some (mark_revocation now m)"
      using Some by (simp add: queue_revocation_def)
    have revoked: "ws_revoked_at (mark_revocation now m) \<noteq> None"
      using reachable_row [OF assms Some] by (auto simp: mark_revocation_def row_ok_def)
    obtain w' where w': "session_steps x key ?w w'" "tables w' = revoke x key nonces p now t raw (tables w)"
      using attempt_runs [of x key ?w nonces p t ?i] by (auto simp: runs_to_def revoke_def)
    from later_row [OF ok w'(1) row] revoked show ?thesis
      unfolding w'(2) [symmetric]
      by (intro revoked_unauthorized) (auto simp: life_def row_step_def split: option.splits)
  qed
qed

lemma revoke_runs:
  "\<exists>w'. session_steps x key w w' \<and> tables w' = revoke x key nonces p now t raw (tables w)"
proof -
  let ?w = "w\<lparr>tables := queue_revocation now (hash_token x raw) (tables w)\<rparr>"
  have "runs_to x key ?w (revoke x key nonces p now t raw (tables w))"
    using attempt_runs [of x key ?w nonces p t "hash_token x raw"] by (simp add: revoke_def)
  then show ?thesis using runs_to_step [OF st_logout] by (fastforce simp: runs_to_def)
qed

text \<open>
  A logout that is answered has ended the session, whatever the provider does: from every
  reachable state of the tables the cookie of the request no longer authenticates, at any time, and
  the tables are again reachable, so that everything proved of them goes on to hold; the browser is
  told to drop the cookie and what it stored. A logout from another origin or without the CSRF
  token of the session changes nothing.
\<close>

theorem logout_ends_session:
  assumes "session_steps x (cf_session_encryption_key cfg) start_world w"
  shows "case logout x cfg nonces p now t auth rq csrf (tables w) of
      (Inl e, cookies, db) \<Rightarrow> cookies = [] \<and> db = tables w
        \<and> (case auth of Inl e' \<Rightarrow> e = e' | Inr _ \<Rightarrow> e = Forbidden)
    | (Inr r, cookies, db) \<Rightarrow>
        (\<exists>actor. auth = Inr actor \<and> require_origin cfg (rq_headers rq) = Inr ()
           \<and> require_csrf actor (rq_headers rq) (Some csrf) = Inr ())
        \<and> (case rq_cookie rq (cf_session_cookie cfg) of None \<Rightarrow> True
           | Some raw \<Rightarrow> authenticate x wall raw db = Inl SUnauthorized)
        \<and> (\<exists>w'. session_steps x (cf_session_encryption_key cfg) w w' \<and> tables w' = db)
        \<and> cookies = [removal_cookie (cf_session_cookie cfg) (cf_cookie_secure cfg)]
        \<and> rs_status r = 303 \<and> header_has ''clear-site-data'' (rs_headers r)"
proof (cases "try_then auth (\<lambda>actor. try_then (require_origin cfg (rq_headers rq)) (\<lambda>_.
    require_csrf actor (rq_headers rq) (Some csrf)))")
  case (Inl e)
  then have "case auth of Inl e' \<Rightarrow> e = e' | Inr _ \<Rightarrow> e = Forbidden"
    using require_origin_error require_csrf_error by (auto simp: try_then_Inl split: sum.split)
  with Inl show ?thesis by (simp add: logout_def)
next
  case (Inr u)
  then obtain actor where "auth = Inr actor" "require_origin cfg (rq_headers rq) = Inr ()"
    "require_csrf actor (rq_headers rq) (Some csrf) = Inr ()"
    by (auto simp: try_then_Inr)
  moreover have "session_steps x (cf_session_encryption_key cfg) w w" by simp
  ultimately show ?thesis
    using revoke_unauthorized [OF assms] revoke_runs [of x "cf_session_encryption_key cfg" w]
    by (auto simp: logout_def header_has_def split: option.split)
qed

section \<open>Samples\<close>

definition sample_login_form :: login_form where
  "sample_login_form = \<lparr>lf_email = ''a@b'', lf_password = ''p'', lf_csrf = ''c''\<rparr>"

definition sample_login_request :: request where
  "sample_login_request =
     \<lparr>rq_headers = [(''origin'', ''https://a'')], rq_cookie = [LOGIN_CSRF_COOKIE \<mapsto> ''c'']\<rparr>"

definition sample_login_world :: login_world where
  "sample_login_world = \<lparr>lw_limiter = empty_state 0, lw_permits = 1, lw_db = no_sessions\<rparr>"

lemma sample_login_passes: "login_passes sample_config sample_login_request sample_login_form"
  by (simp add: login_passes_def sample_login_request_def sample_login_form_def sample_config_def
        header_str_def header_get_def to_str_def chr_in_def)

lemma sample_check: "\<exists>limiter. check d (limiter_policy sample_config) 0 email (empty_state 0) = (Inr (), limiter)"
  by (simp add: check_def reduce_rate_limit_def limiter_policy_def sample_config_def empty_state_def
        charge_def roll_global_def rejected_transition_def sat_add_def u32_max_def Let_def entry_or_def
        find_by_def count_def retain_def)

lemma sample_signed_in:
  "\<exists>db. login_signed_in (sample_ext JNull) sample_config session_random 0 hs opaque_tokens no_sessions
     = (Inr (if header_has ''hx-request'' hs
             then with_header ''hx-redirect'' ''/app'' (answer 200 EmptyBody) else redirect_to ''/app''),
        [removal_cookie LOGIN_CSRF_COOKIE True, session_cookie sample_config ''raw''], db)"
  by (simp add: login_signed_in_def create_def Let_def sample_ext_def random_token_def hash_token_def
        encrypt_def session_random_def opaque_tokens_def validated_session_id_def no_sessions_def
        from_std_def i64_max_def sample_config_def)

lemma sample_login:
  obtains limiter db where
  "login (sample_ext JNull) sample_config (\<lambda>_ _. Inr opaque_tokens) session_random 0 0
      sample_login_request sample_login_form sample_login_world
     = \<lparr>lo_answer = Inr (redirect_to ''/app''),
        lo_cookies = [removal_cookie LOGIN_CSRF_COOKIE True, session_cookie sample_config ''raw''],
        lo_asked = [(''a@b'', ''p'')],
        lo_world = sample_login_world\<lparr>lw_limiter := limiter, lw_db := db\<rparr>\<rparr>"
proof -
  obtain limiter where chk: "check (email_digest (sample_ext JNull)) (limiter_policy sample_config) 0
      ''a@b'' (empty_state 0) = (Inr (), limiter)"
    using sample_check by blast
  obtain db where db: "login_signed_in (sample_ext JNull) sample_config session_random 0
      (rq_headers sample_login_request) opaque_tokens no_sessions
     = (Inr (redirect_to ''/app''),
        [removal_cookie LOGIN_CSRF_COOKIE True, session_cookie sample_config ''raw''], db)"
    using sample_signed_in [of "rq_headers sample_login_request"]
    by (auto simp: sample_login_request_def header_has_def header_get_def)
  have w: "lw_limiter sample_login_world = empty_state 0" "lw_permits sample_login_world = 1"
    "lw_db sample_login_world = no_sessions"
    by (simp_all add: sample_login_world_def)
  have f: "lf_password sample_login_form = ''p''" "lf_email sample_login_form = ''a@b''"
    by (simp_all add: sample_login_form_def)
  show thesis
    by (rule that) (simp add: login_passing [OF sample_login_passes] w chk db f)
qed

lemma sample_session_cookie [simp]:
  "sc_name (session_cookie cfg raw) = cf_session_cookie cfg" "sc_value (session_cookie cfg raw) = raw"
  by (simp_all add: session_cookie_def)

lemma sample_times:
  "cf_session_ttl sample_config = 2592000" "at_expires_at opaque_tokens = seconds 3600"
  by (simp_all add: sample_config_def opaque_tokens_def)

theorem login_session_authenticates_witness:
  "\<exists>aw ctx. authenticate_request (sample_ext JNull) sample_config aw
        \<lparr>rq_headers = [], rq_cookie = [cf_session_cookie sample_config \<mapsto> ''raw'']\<rparr> True = Inr ctx
      \<and> ctx_user_id ctx = su_id (at_user opaque_tokens)"
proof -
  obtain limiter db where l: "login (sample_ext JNull) sample_config (\<lambda>_ _. Inr opaque_tokens) session_random 0 0
      sample_login_request sample_login_form sample_login_world
     = \<lparr>lo_answer = Inr (redirect_to ''/app''),
        lo_cookies = [removal_cookie LOGIN_CSRF_COOKIE True, session_cookie sample_config ''raw''],
        lo_asked = [(''a@b'', ''p'')],
        lo_world = sample_login_world\<lparr>lw_limiter := limiter, lw_db := db\<rparr>\<rparr>"
    by (rule sample_login)
  let ?aw = "\<lparr>aw_db = db, aw_wall = 5, aw_permits = 0, aw_user_for_token = (\<lambda>_. Inl Unavailable),
    aw_refreshed = (\<lambda>_. Inl SUnauthorized), aw_verify = (\<lambda>_. None), aw_timestamp_opt = Some\<rparr>"
  have "\<exists>ctx. authenticate_request (sample_ext JNull) sample_config ?aw
        \<lparr>rq_headers = [], rq_cookie = [cf_session_cookie sample_config \<mapsto> ''raw'']\<rparr> True = Inr ctx
      \<and> authenticate_quote (sample_ext JNull) sample_config sample_shared_auth ?aw
        \<lparr>rq_headers = [], rq_cookie = [cf_session_cookie sample_config \<mapsto> ''raw'']\<rparr> True = Inr ctx
      \<and> ctx_user_id ctx = su_id (at_user opaque_tokens) \<and> ctx_source ctx = SessionCookie
      \<and> ctx_csrf_token ctx = Some (random_token (sample_ext JNull) (cr_csrf session_random))
      \<and> sc_http_only (session_cookie sample_config ''raw'')
      \<and> sc_secure (session_cookie sample_config ''raw'') = cf_cookie_secure sample_config
      \<and> sc_path (session_cookie sample_config ''raw'') = ''/''"
    by (rule login_session_authenticates [where sign_in = "\<lambda>_ _. Inr opaque_tokens" and form = sample_login_form
          and rq = sample_login_request and w = sample_login_world and now = 0 and wall = 0,
          of opaque_tokens])
       (simp_all add: l sample_session_cookie header_get_def sample_times seconds_def)
  then show ?thesis by blast
qed

definition charged_world :: login_world where
  "charged_world = \<lparr>lw_limiter = blocked_state, lw_permits = 1, lw_db = no_sessions\<rparr>"


text \<open>A logout with a session whose provider is down.\<close>

definition down :: provider where
  "down = \<lparr>pv_refresh = (\<lambda>_. Inl Unavailable), pv_sign_out = (\<lambda>_ _. Inl Unavailable)\<rparr>"

definition sample_logout_request :: request where
  "sample_logout_request = \<lparr>rq_headers = [(''origin'', ''https://a'')],
     rq_cookie = [cf_session_cookie sample_config \<mapsto> ''raw'']\<rparr>"

lemma reach_created_config:
  "session_steps (sample_ext JNull) (cf_session_encryption_key sample_config) start_world created_world"
  using reach_created by (simp add: sample_config_def session_key_def)

theorem logout_ends_session_witness:
  "case logout (sample_ext JNull) sample_config (''abcdefghijkl'', ''mnopqrstuvwx'') down 8
      \<lparr>ac_claim = 9, ac_wall = 9, ac_rotate = 9, ac_finish = 9\<rparr> (Inr (context_from_model ''raw'' opaque_row))
      sample_logout_request ''csrf'' (tables created_world) of
      (Inl e, cookies, db) \<Rightarrow> False
    | (Inr r, cookies, db) \<Rightarrow>
        authenticate (sample_ext JNull) 10 ''raw'' db = Inl SUnauthorized"
proof -
  have ok: "require_origin sample_config (rq_headers sample_logout_request) = Inr ()"
    "require_csrf (context_from_model ''raw'' opaque_row) (rq_headers sample_logout_request) (Some ''csrf'') = Inr ()"
    and cookie: "rq_cookie sample_logout_request (cf_session_cookie sample_config) = Some ''raw''"
    by (simp_all add: sample_logout_request_def require_origin_def require_csrf_def header_str_def
          header_get_def to_str_def chr_in_def sample_config_def context_from_model_def opaque_row_def new_session_def)
  show ?thesis
    using logout_ends_session [OF reach_created_config, where nonces = "(''abcdefghijkl'', ''mnopqrstuvwx'')"
        and p = down and now = 8 and t = "\<lparr>ac_claim = 9, ac_wall = 9, ac_rotate = 9, ac_finish = 9\<rparr>"
        and auth = "Inr (context_from_model ''raw'' opaque_row)" and rq = sample_logout_request
        and csrf = "''csrf''" and wall = 10]
    by (simp add: logout_def ok cookie)
qed

end
