(* ===== verification/Quote_Api.thy ===== *)
theory Quote_Api
  imports Access Response
begin

text \<open>
  The client of the quote service in \<open>src/quote_api.rs\<close>. The service and the generated types of
  its messages are third-party code: a message is the record of the parts this code reads, its
  deserializer is a parameter, and so is what the service answers to a call. Every operation
  returns its result and the calls it made, in order.
\<close>

section \<open>Messages\<close>

datatype quote_state = Queued | Analyzing | Ready | Failed

record quote_request =
  qr_organization_name :: string
  qr_contact_name :: string
  qr_contact_email :: string
  qr_website :: "string option"
  qr_employee_count :: int
  qr_annual_revenue_band :: "string option"
  qr_frameworks :: "string list"
  qr_current_stage :: string
  qr_infrastructure :: "string list"
  qr_data_sensitivity :: "string list"
  qr_target_date :: "string option"
  qr_has_security_program :: bool
  qr_has_policies :: bool
  qr_has_risk_assessment :: bool
  qr_has_incident_response_plan :: bool
  qr_has_vendor_management :: bool
  qr_notes :: "string option"
  qr_context_key :: "string option"
  qr_answers_version :: int

record quote_submission =
  qs_quote_id :: string
  qs_status :: quote_state
  qs_stream_url :: string
  qs_created_at :: string

record upstream_estimate =
  ue_lower_bound_cents :: int
  ue_upper_bound_cents :: int
  ue_currency :: string
  ue_summary :: string

record quote_detail =
  qd_quote_id :: string
  qd_status :: quote_state
  qd_organization_name :: string
  qd_frameworks :: "string list"
  qd_estimate :: "upstream_estimate option"
  qd_problem_code :: "string option"

record quote_summary =
  qy_quote_id :: string
  qy_status :: quote_state
  qy_organization_name :: string
  qy_frameworks :: "string list"
  qy_estimate :: "upstream_estimate option"

text \<open>The deserializers of the three messages this client reads.\<close>

record quote_wire =
  qw_submission :: "string \<Rightarrow> quote_submission option"
  qw_detail :: "string \<Rightarrow> quote_detail option"
  qw_list :: "string \<Rightarrow> quote_summary list option"

text \<open>What the rest of the server sees of a quote.\<close>

record quote_estimate =
  qe_low :: nat
  qe_high :: nat
  qe_currency :: string

record quote_response =
  qp_id :: uuid
  qp_status :: string
  qp_company_name :: string
  qp_frameworks :: "string list"
  qp_estimate :: "quote_estimate option"
  qp_analysis_summary :: "string option"
  qp_error_code :: "string option"

section \<open>The client\<close>

definition MAX_RESPONSE_BYTES :: nat where "MAX_RESPONSE_BYTES = 512 * 1024"

record quote_client =
  qc_base_url :: string
  qc_internal_auth_token :: string

definition internal_origin :: "url \<Rightarrow> bool" where
  "internal_origin u \<longleftrightarrow>
     (case ur_host u of
        None \<Rightarrow> False
      | Some host \<Rightarrow> host \<in> {''localhost'', ''127.0.0.1'', ''::1''} \<or> cluster_host host)"

definition quote_client_from_env :: "url_parser \<Rightarrow> environment \<Rightarrow> app_error + quote_client" where
  "quote_client_from_env parse env =
     try_then (ok_or (env_var env ''CANONICAL_API_URL'') (BadRequest ''CANONICAL_API_URL is required'')) (\<lambda>raw_url.
     try_then (map_err (\<lambda>_. BadRequest ''CANONICAL_API_URL must be absolute'') (parse raw_url)) (\<lambda>parsed.
     if ur_host parsed = None \<or> \<not> no_credentials parsed \<or> ur_query parsed \<noteq> None
        \<or> ur_fragment parsed \<noteq> None \<or> ur_path parsed \<noteq> ''/''
        \<or> (ur_scheme parsed \<noteq> ''https'' \<and> \<not> (ur_scheme parsed = ''http'' \<and> internal_origin parsed))
     then Inl (BadRequest
       ''CANONICAL_API_URL must be an HTTPS origin, except for loopback or Kubernetes service DNS'')
     else
       try_then (ok_or (env_var env ''CANONICAL_INTERNAL_AUTH_TOKEN'')
                   (BadRequest ''CANONICAL_INTERNAL_AUTH_TOKEN is required'')) (\<lambda>token.
       if trim token \<noteq> token \<or> length token < 32
       then Inl (BadRequest ''CANONICAL_INTERNAL_AUTH_TOKEN must contain at least 32 bytes'')
       else Inr \<lparr>qc_base_url = ur_origin parsed, qc_internal_auth_token = token\<rparr>)))"

text \<open>\<open>HeaderValue::from_str\<close>: no control character but tab.\<close>

definition header_value :: "string \<Rightarrow> string option" where
  "header_value s = (if list_all (\<lambda>c. (32 \<le> byte c \<and> byte c \<noteq> 127) \<or> byte c = 9) s then Some s else None)"

definition client_headers :: "ext \<Rightarrow> quote_client \<Rightarrow> auth_context \<Rightarrow> app_error + headers" where
  "client_headers x qc actor =
     try_then (ok_or (header_value (qc_internal_auth_token qc)) Crypto) (\<lambda>token.
     try_then (ok_or (header_value (uuid_text x (ctx_user_id actor))) Crypto) (\<lambda>subject.
     Inr (header_insert ''x-canonical-subject'' subject
            (header_insert ''x-canonical-internal-token'' token []))))"

record quote_call =
  qk_method :: string
  qk_url :: string
  qk_headers :: headers
  qk_body :: "quote_request option"

text \<open>
  An answer is its status and the chunks of its body as they arrive, each of which may be a
  transport error; no answer at all is a transport error of the call.
\<close>

record quote_answer =
  qa_status :: nat
  qa_chunks :: "string option list"

type_synonym quote_service = "quote_call \<Rightarrow> quote_answer option"

fun read_body :: "string \<Rightarrow> string option list \<Rightarrow> app_error + string" where
  "read_body bytes [] = Inr bytes"
| "read_body bytes (None # rest) = Inl HttpClient"
| "read_body bytes (Some chunk # rest) =
     (if MAX_RESPONSE_BYTES < sat_add u64_max (length bytes) (length chunk) then Inl ServiceUpstream
      else read_body (bytes @ chunk) rest)"

definition decode :: "(string \<Rightarrow> 'a option) \<Rightarrow> nat \<Rightarrow> quote_answer \<Rightarrow> app_error + 'a" where
  "decode parse expected ans =
     (let status = qa_status ans
      in if status = 404 then Inl NotFound
         else if status \<in> {400, 409, 422} then Inl (BadRequest ''review the quote fields and try again'')
         else if status \<noteq> expected \<or> \<not> is_success status then Inl ServiceUpstream
         else try_then (read_body [] (qa_chunks ans)) (\<lambda>bytes. ok_or (parse bytes) Serialization))"

text \<open>\<open>u64::try_from(cents.max(0)).unwrap_or_default() / 100\<close>; the cents are an \<open>i64\<close>.\<close>

definition dollars :: "int \<Rightarrow> nat" where
  "dollars cents = nat (max cents 0) div 100"

definition quote_estimate_of :: "upstream_estimate \<Rightarrow> quote_estimate" where
  "quote_estimate_of e =
     \<lparr>qe_low = dollars (ue_lower_bound_cents e), qe_high = dollars (ue_upper_bound_cents e),
      qe_currency = ue_currency e\<rparr>"

fun quote_status_name :: "quote_state \<Rightarrow> string" where
  "quote_status_name Queued = ''queued''"
| "quote_status_name Analyzing = ''analyzing''"
| "quote_status_name Ready = ''ready''"
| "quote_status_name Failed = ''failed''"

definition quote_from_detail :: "ext \<Rightarrow> quote_detail \<Rightarrow> app_error + quote_response" where
  "quote_from_detail x d =
     try_then (ok_or (uuid_parse x (qd_quote_id d)) ServiceUpstream) (\<lambda>i.
     Inr \<lparr>qp_id = i, qp_status = quote_status_name (qd_status d), qp_company_name = qd_organization_name d,
          qp_frameworks = qd_frameworks d, qp_estimate = map_option quote_estimate_of (qd_estimate d),
          qp_analysis_summary = map_option ue_summary (qd_estimate d), qp_error_code = qd_problem_code d\<rparr>)"

definition quote_from_summary :: "ext \<Rightarrow> quote_summary \<Rightarrow> app_error + quote_response" where
  "quote_from_summary x s =
     try_then (ok_or (uuid_parse x (qy_quote_id s)) ServiceUpstream) (\<lambda>i.
     Inr \<lparr>qp_id = i, qp_status = quote_status_name (qy_status s), qp_company_name = qy_organization_name s,
          qp_frameworks = qy_frameworks s, qp_estimate = map_option quote_estimate_of (qy_estimate s),
          qp_analysis_summary = map_option ue_summary (qy_estimate s), qp_error_code = None\<rparr>)"

text \<open>\<open>send\<close> is one call; it is made only when its headers could be built.\<close>

definition send :: "quote_service \<Rightarrow> quote_call \<Rightarrow> (string \<Rightarrow> 'a option) \<Rightarrow> nat \<Rightarrow> app_error + 'a" where
  "send service call parse expected = try_then (ok_or (service call) HttpClient) (decode parse expected)"

definition get_call :: "quote_client \<Rightarrow> string \<Rightarrow> headers \<Rightarrow> quote_call" where
  "get_call qc path hs = \<lparr>qk_method = ''GET'', qk_url = qc_base_url qc @ path, qk_headers = hs, qk_body = None\<rparr>"

definition quote_get ::
    "ext \<Rightarrow> quote_wire \<Rightarrow> quote_service \<Rightarrow> quote_client \<Rightarrow> auth_context \<Rightarrow> uuid
       \<Rightarrow> (app_error + quote_response) \<times> quote_call list" where
  "quote_get x wire service qc actor quote_id =
     (case client_headers x qc actor of
        Inl e \<Rightarrow> (Inl e, [])
      | Inr hs \<Rightarrow>
          let call = get_call qc (''/api/v1/quotes/'' @ uuid_text x quote_id) hs
          in (try_then (send service call (qw_detail wire) 200) (quote_from_detail x), [call]))"

definition quote_list ::
    "ext \<Rightarrow> quote_wire \<Rightarrow> quote_service \<Rightarrow> quote_client \<Rightarrow> auth_context
       \<Rightarrow> (app_error + quote_response list) \<times> quote_call list" where
  "quote_list x wire service qc actor =
     (case client_headers x qc actor of
        Inl e \<Rightarrow> (Inl e, [])
      | Inr hs \<Rightarrow>
          let call = get_call qc ''/api/v1/quotes'' hs
          in (try_then (send service call (qw_list wire) 200) (traverse (quote_from_summary x)), [call]))"

definition accepted_ok :: "ext \<Rightarrow> uuid \<Rightarrow> uuid \<Rightarrow> quote_submission \<Rightarrow> bool" where
  "accepted_ok x idempotency_key accepted_id accepted \<longleftrightarrow>
     accepted_id = idempotency_key
     \<and> qs_stream_url accepted = ''/api/v1/quotes/'' @ uuid_text x accepted_id @ ''/events''
     \<and> qs_created_at accepted \<noteq> []
     \<and> qs_status accepted \<in> {Queued, Analyzing, Ready, Failed}"

definition quote_create ::
    "ext \<Rightarrow> quote_wire \<Rightarrow> quote_service \<Rightarrow> quote_client \<Rightarrow> auth_context \<Rightarrow> quote_request \<Rightarrow> uuid
       \<Rightarrow> (app_error + quote_response) \<times> quote_call list" where
  "quote_create x wire service qc actor request idempotency_key =
     (case try_then (client_headers x qc actor) (\<lambda>hs.
           try_then (ok_or (header_value (uuid_text x idempotency_key)) Crypto) (\<lambda>key.
           Inr (header_insert ''idempotency-key'' key hs))) of
        Inl e \<Rightarrow> (Inl e, [])
      | Inr hs \<Rightarrow>
          let call = \<lparr>qk_method = ''POST'', qk_url = qc_base_url qc @ ''/api/v1/quotes'',
                      qk_headers = hs, qk_body = Some request\<rparr>
          in case try_then (send service call (qw_submission wire) 202) (\<lambda>accepted.
                  try_then (ok_or (uuid_parse x (qs_quote_id accepted)) ServiceUpstream) (\<lambda>accepted_id.
                  if accepted_ok x idempotency_key accepted_id accepted then Inr accepted_id
                  else Inl ServiceUpstream)) of
               Inl e \<Rightarrow> (Inl e, [call])
             | Inr accepted_id \<Rightarrow>
                 (case quote_get x wire service qc actor accepted_id of
                    (r, calls) \<Rightarrow> (r, call # calls)))"

section \<open>The status fragment\<close>

text \<open>What the fragment of a quote shows; its markup is in \<open>Quote_Views\<close>.\<close>

datatype quote_fragment =
    RunningQuote uuid string
  | ReadyQuote uuid string "quote_estimate option" string
  | UnfinishedQuote uuid string "string option"

definition quote_status_fragment :: "quote_response \<Rightarrow> quote_fragment" where
  "quote_status_fragment q =
     (if qp_status q \<in> {''queued'', ''analyzing''} then RunningQuote (qp_id q) (qp_company_name q)
      else if qp_status q = ''ready'' then
        ReadyQuote (qp_id q) (qp_company_name q) (qp_estimate q)
          (or_else (qp_analysis_summary q) ''Your preliminary quote is ready.'')
      else UnfinishedQuote (qp_id q) (qp_company_name q) (qp_error_code q))"

section \<open>Properties\<close>

lemma read_body_Inr:
  "length bytes \<le> MAX_RESPONSE_BYTES \<Longrightarrow> read_body bytes chunks = Inr body \<longleftrightarrow>
     None \<notin> set chunks \<and> body = bytes @ concat (map the chunks)
     \<and> length body \<le> MAX_RESPONSE_BYTES"
proof (induction bytes chunks arbitrary: body rule: read_body.induct)
  case (3 bytes chunk rest)
  have exact: "(MAX_RESPONSE_BYTES < sat_add u64_max (length bytes) (length chunk))
      = (MAX_RESPONSE_BYTES < length bytes + length chunk)"
    by (auto simp: sat_add_def MAX_RESPONSE_BYTES_def u64_max_def)
  show ?case
  proof (cases "MAX_RESPONSE_BYTES < length bytes + length chunk")
    case True
    then show ?thesis using exact by auto
  next
    case False
    with "3.IH" exact show ?thesis by auto
  qed
qed auto

text \<open>
  The body of an answer is bounded and whole: a message is read from an answer exactly when its
  status is the expected success, no chunk is lost, all chunks together have at most 512 KiB and
  their concatenation, in order, parses; however the body is cut into chunks makes no difference,
  and a larger body is never handed to the parser.
\<close>

theorem decoding_is_bounded:
  "decode parse expected ans = Inr v \<longleftrightarrow>
     qa_status ans = expected \<and> is_success expected \<and> None \<notin> set (qa_chunks ans)
     \<and> length (concat (map the (qa_chunks ans))) \<le> MAX_RESPONSE_BYTES
     \<and> parse (concat (map the (qa_chunks ans))) = Some v"
proof -
  have "is_success expected \<Longrightarrow> expected \<noteq> 404 \<and> expected \<notin> {400, 409, 422}"
    by (auto simp: is_success_def)
  then show ?thesis
    using read_body_Inr [of "[]" "qa_chunks ans"]
    by (auto simp: decode_def Let_def try_then_Inr ok_or_Inr)
qed

definition carries_owner :: "ext \<Rightarrow> quote_client \<Rightarrow> auth_context \<Rightarrow> quote_call \<Rightarrow> bool" where
  "carries_owner x qc actor call \<longleftrightarrow>
     header_all ''x-canonical-subject'' (qk_headers call) = [uuid_text x (ctx_user_id actor)]
     \<and> header_all ''x-canonical-internal-token'' (qk_headers call) = [qc_internal_auth_token qc]
     \<and> starts_with (qk_url call) (qc_base_url qc @ ''/api/v1/quotes'')"

lemma client_headers_Inr:
  "client_headers x qc actor = Inr hs \<Longrightarrow>
     hs = [(''x-canonical-internal-token'', qc_internal_auth_token qc),
           (''x-canonical-subject'', uuid_text x (ctx_user_id actor))]"
  by (auto simp: client_headers_def try_then_Inr ok_or_Inr header_value_def header_insert_def split: if_splits)

lemma starts_with_path: "starts_with (base @ ''/api/v1/quotes'' @ rest) (base @ ''/api/v1/quotes'')"
  unfolding starts_with_iff by (rule exI [of _ rest]) simp

lemma get_call_owner:
  "client_headers x qc actor = Inr hs \<Longrightarrow>
     carries_owner x qc actor (get_call qc (''/api/v1/quotes'' @ rest) hs)"
  using starts_with_path [of "qc_base_url qc" rest]
  by (auto simp: carries_owner_def get_call_def header_all_def dest: client_headers_Inr)

lemma quote_get_calls:
  "\<exists>calls. snd (quote_get x wire service qc actor i) = calls
     \<and> list_all (carries_owner x qc actor) calls \<and> list_all (\<lambda>c. qk_method c = ''GET'') calls
     \<and> length calls \<le> 1"
  using get_call_owner [of x qc actor _ "''/'' @ uuid_text x i"]
  by (cases "client_headers x qc actor") (auto simp: quote_get_def Let_def get_call_def)

lemma quote_list_calls:
  "list_all (carries_owner x qc actor) (snd (quote_list x wire service qc actor))"
  using get_call_owner [of x qc actor _ "[]"]
  by (cases "client_headers x qc actor") (auto simp: quote_list_def Let_def)

text \<open>The calls of a creation: nothing, or the one POST and then at most one GET.\<close>

lemma quote_create_calls:
  "case quote_create x wire service qc actor request key of (r, calls) \<Rightarrow>
     (case calls of
        [] \<Rightarrow> r = Inl Crypto
      | call # rest \<Rightarrow>
          qk_method call = ''POST'' \<and> qk_body call = Some request \<and> carries_owner x qc actor call
          \<and> header_all ''idempotency-key'' (qk_headers call) = [uuid_text x key]
          \<and> (rest = [] \<or> rest = snd (quote_get x wire service qc actor key)))
     \<and> (case r of Inl e \<Rightarrow> True
        | Inr q \<Rightarrow> fst (quote_get x wire service qc actor key) = Inr q \<and> calls \<noteq> [])"
proof (cases "try_then (client_headers x qc actor) (\<lambda>hs.
           try_then (ok_or (header_value (uuid_text x key)) Crypto) (\<lambda>key.
           Inr (header_insert ''idempotency-key'' key hs)))")
  case (Inl e)
  then have "e = Crypto"
    by (auto simp: client_headers_def try_then_Inl ok_or_Inl)
  with Inl show ?thesis by (simp add: quote_create_def)
next
  case (Inr hs)
  then have hs: "hs = [(''x-canonical-internal-token'', qc_internal_auth_token qc),
      (''x-canonical-subject'', uuid_text x (ctx_user_id actor)), (''idempotency-key'', uuid_text x key)]"
    by (auto simp: try_then_Inr ok_or_Inr header_value_def header_insert_def split: if_splits
          dest!: client_headers_Inr)
  let ?call = "\<lparr>qk_method = ''POST'', qk_url = qc_base_url qc @ ''/api/v1/quotes'',
                qk_headers = hs, qk_body = Some request\<rparr>"
  have owner: "carries_owner x qc actor ?call" "header_all ''idempotency-key'' (qk_headers ?call) = [uuid_text x key]"
    using starts_with_path [of "qc_base_url qc" "[]"] by (simp_all add: carries_owner_def header_all_def hs)
  show ?thesis
  proof (cases "try_then (send service ?call (qw_submission wire) 202) (\<lambda>accepted.
                  try_then (ok_or (uuid_parse x (qs_quote_id accepted)) ServiceUpstream) (\<lambda>accepted_id.
                  if accepted_ok x key accepted_id accepted then Inr accepted_id
                  else Inl ServiceUpstream))")
    case refused: (Inl e)
    show ?thesis using owner by (simp add: quote_create_def Inr Let_def refused)
  next
    case accepted: (Inr accepted_id)
    then have "accepted_id = key" by (auto simp: try_then_Inr accepted_ok_def split: if_splits)
    with accepted show ?thesis using owner
      by (cases "quote_get x wire service qc actor key")
         (auto simp: quote_create_def Inr Let_def split: sum.split)
  qed
qed

end
