(* ===== verification/Quote.thy ===== *)
theory Quote
  imports Quote_Api
begin

text \<open>
  The quote workflow of \<open>src/routes/quote.rs\<close>: the validation of the form, the three handlers
  over the quote client, and the answers to a visitor who is not signed in. A handler returns its
  response and the calls that were made to the quote service.
\<close>

section \<open>The form\<close>

text \<open>
  \<open>qf_option name\<close> is the field \<open>name\<close> of the type \<open>Option<String>\<close>: the check boxes, present
  when they are ticked.
\<close>

record quote_form =
  qf_csrf :: string
  qf_client_request_id :: uuid
  qf_organization_name :: string
  qf_contact_name :: string
  qf_website :: string
  qf_employee_count :: nat
  qf_annual_revenue_band :: string
  qf_current_stage :: string
  qf_target_date :: string
  qf_notes :: string
  qf_option :: "string \<Rightarrow> string option"

definition bounded_required :: "string \<Rightarrow> nat \<Rightarrow> string \<Rightarrow> app_error + string" where
  "bounded_required value maximum label =
     (let v = trim value
      in if v = [] \<or> maximum < chars_count v
         then Inl (BadRequest (label @ '' is required and must be at most '' @ show_nat maximum @ '' characters''))
         else Inr v)"

definition selected_values :: "(string \<times> string option) list \<Rightarrow> string list" where
  "selected_values values = List.map_filter (\<lambda>(value, selected). map_option (\<lambda>_. value) selected) values"

definition required_enum :: "string \<Rightarrow> string list \<Rightarrow> string \<Rightarrow> app_error + string" where
  "required_enum value allowed label =
     (let v = trim value
      in if v \<in> set allowed then Inr v else Inl (BadRequest (''choose a supported '' @ label)))"

text \<open>\<open>optional\<close>\<close>

definition nonblank :: "string \<Rightarrow> string option" where
  "nonblank value = (if trim value = [] then None else Some (trim value))"

definition optional_enum :: "string \<Rightarrow> string list \<Rightarrow> string \<Rightarrow> app_error + string option" where
  "optional_enum value allowed label =
     (case nonblank value of
        None \<Rightarrow> Inr None
      | Some v \<Rightarrow> if v \<in> set allowed then Inr (Some v)
                  else Inl (BadRequest (''choose a supported '' @ label)))"

definition website_url_ok :: "url \<Rightarrow> bool" where
  "website_url_ok u \<longleftrightarrow> ur_scheme u \<in> {''http'', ''https''} \<and> ur_host u \<noteq> None \<and> no_credentials u"

definition validated_website :: "url_parser \<Rightarrow> string \<Rightarrow> app_error + string option" where
  "validated_website parse value =
     (case nonblank value of
        None \<Rightarrow> Inr None
      | Some v \<Rightarrow>
          if 2048 < chars_count v then Inl (BadRequest ''website must be at most 2048 characters'')
          else
            try_then (map_err (\<lambda>_. BadRequest ''website must be an absolute HTTP(S) URL'') (parse v)) (\<lambda>u.
            if website_url_ok u then Inr (Some v)
            else Inl (BadRequest ''website must be an absolute HTTP(S) URL without credentials'')))"

definition REVENUE_BANDS :: "string list" where
  "REVENUE_BANDS = [''pre_revenue'', ''under_1m'', ''1m_10m'', ''10m_50m'', ''50m_250m'', ''over_250m'',
     ''prefer_not_to_say'']"

definition STAGES :: "string list" where
  "STAGES = [''exploring'', ''readiness'', ''remediation'', ''audit_ready'', ''renewal'']"

definition framework_fields :: "(string \<times> string) list" where
  "framework_fields = map (\<lambda>n. (n, n)) [''soc2_type_1'', ''soc2_type_2'', ''nist_csf_2'', ''nist_800_53'',
     ''hipaa'', ''iso_27001'', ''pci_dss_4'', ''fedramp'', ''gdpr'', ''custom'']"

definition infrastructure_fields :: "(string \<times> string) list" where
  "infrastructure_fields = map (\<lambda>n. (n, ''infra_'' @ n)) [''aws'', ''azure'', ''gcp'', ''supabase'',
     ''on_prem'', ''colocation'', ''saas_only'', ''multi_cloud'', ''other'']"

definition data_fields :: "(string \<times> string) list" where
  "data_fields = map (\<lambda>n. (n, ''data_'' @ n)) [''public'', ''internal'', ''confidential'', ''pii'', ''phi'',
     ''pci'', ''government_cui'', ''customer_secrets'', ''other'']"

definition ticked :: "quote_form \<Rightarrow> (string \<times> string) list \<Rightarrow> string list" where
  "ticked form options = selected_values (map (\<lambda>(value, field). (value, qf_option form field)) options)"

definition some_ticked :: "quote_form \<Rightarrow> (string \<times> string) list \<Rightarrow> string \<Rightarrow> app_error + string list" where
  "some_ticked form options message =
     (if ticked form options = [] then Inl (BadRequest message) else Inr (ticked form options))"

definition verified_contact :: "string \<Rightarrow> app_error + string" where
  "verified_contact verified_email =
     (let contact_email = trim verified_email
      in if contact_email = [] \<or> 320 < chars_count contact_email \<or> CHR ''@'' \<notin> set contact_email
         then Inl (BadRequest ''the signed-in account does not have a valid contact email'')
         else Inr contact_email)"

definition into_request ::
    "url_parser \<Rightarrow> (string \<Rightarrow> int option) \<Rightarrow> quote_form \<Rightarrow> string \<Rightarrow> app_error + quote_request" where
  "into_request parse parse_date form verified_email =
     try_then (bounded_required (qf_organization_name form) 200 ''organization name'') (\<lambda>organization_name.
     try_then (bounded_required (qf_contact_name form) 160 ''contact name'') (\<lambda>contact_name.
     try_then (verified_contact verified_email) (\<lambda>contact_email.
     try_then (ensure (1 \<le> qf_employee_count form \<and> qf_employee_count form \<le> 1000000)
                 (BadRequest ''employee count must be between 1 and 1000000'')) (\<lambda>_.
     try_then (validated_website parse (qf_website form)) (\<lambda>website.
     try_then (optional_enum (qf_annual_revenue_band form) REVENUE_BANDS ''annual revenue band'') (\<lambda>band.
     try_then (some_ticked form framework_fields ''choose at least one supported framework'') (\<lambda>frameworks.
     try_then (required_enum (qf_current_stage form) STAGES ''current stage'') (\<lambda>current_stage.
     try_then (some_ticked form infrastructure_fields ''choose at least one infrastructure category'')
       (\<lambda>infrastructure.
     try_then (some_ticked form data_fields ''choose at least one data-sensitivity category'')
       (\<lambda>data_sensitivity.
     let target_date = nonblank (qf_target_date form) in
     try_then (ensure (case target_date of None \<Rightarrow> True | Some v \<Rightarrow> parse_date v \<noteq> None)
                 (BadRequest ''target date must be a valid YYYY-MM-DD date'')) (\<lambda>_.
     let form_notes = nonblank (qf_notes form) in
     try_then (ensure (case form_notes of None \<Rightarrow> True | Some v \<Rightarrow> chars_count v \<le> 5000)
                 (BadRequest ''notes must be at most 5000 characters'')) (\<lambda>_.
     Inr \<lparr>qr_organization_name = organization_name, qr_contact_name = contact_name,
          qr_contact_email = contact_email, qr_website = website,
          qr_employee_count = int (qf_employee_count form), qr_annual_revenue_band = band,
          qr_frameworks = frameworks, qr_current_stage = current_stage,
          qr_infrastructure = infrastructure, qr_data_sensitivity = data_sensitivity,
          qr_target_date = target_date,
          qr_has_security_program = (qf_option form ''has_security_program'' \<noteq> None),
          qr_has_policies = (qf_option form ''has_policies'' \<noteq> None),
          qr_has_risk_assessment = (qf_option form ''has_risk_assessment'' \<noteq> None),
          qr_has_incident_response_plan = (qf_option form ''has_incident_response_plan'' \<noteq> None),
          qr_has_vendor_management = (qf_option form ''has_vendor_management'' \<noteq> None),
          qr_notes = form_notes, qr_context_key = Some ''quote-analysis'', qr_answers_version = 1\<rparr>))))))))))))"

section \<open>Answers without a session\<close>

definition QUOTE_RETURN_PATH :: string where "QUOTE_RETURN_PATH = ''/u/quote''"

definition SHARED_AUTH_BROWSER_SIGN_IN_PATH :: string where
  "SHARED_AUTH_BROWSER_SIGN_IN_PATH = ''/shared-auth/auth/browser/sign-in''"

text \<open>
  \<open>build base path pairs\<close> is the text of the parsed \<open>base\<close> with that path, no fragment and exactly
  those query pairs.
\<close>

type_synonym url_builder = "string \<Rightarrow> string \<Rightarrow> (string \<times> string) list \<Rightarrow> string"

definition shared_auth_sign_in_url :: "url_builder \<Rightarrow> string \<Rightarrow> string" where
  "shared_auth_sign_in_url build app_base_url =
     build app_base_url SHARED_AUTH_BROWSER_SIGN_IN_PATH
       [(''client_id'', ''canonical-web''), (''return'', QUOTE_RETURN_PATH)]"

definition is_htmx_request :: "headers \<Rightarrow> bool" where
  "is_htmx_request hs \<longleftrightarrow>
     (case header_all ''hx-request'' hs of [] \<Rightarrow> False | v # rest \<Rightarrow> v = ''true'' \<and> rest = [])"

datatype quote_view =
    QuotePage auth_context "quote_fragment list"
  | QuoteDetailPage auth_context quote_fragment
  | QuoteFragment quote_fragment
  | QuoteFormError string

definition auth_redirect_response :: "url_builder \<Rightarrow> headers \<Rightarrow> string \<Rightarrow> quote_view response" where
  "auth_redirect_response build hs app_base_url =
     (let destination = shared_auth_sign_in_url build app_base_url
      in with_header ''cache-control'' ''no-store''
           (if is_htmx_request hs
            then with_header ''hx-reswap'' ''none''
                   (case header_value destination of
                      Some v \<Rightarrow> with_header ''hx-redirect'' v (answer 401 EmptyBody)
                    | None \<Rightarrow> answer 401 EmptyBody)
            else redirect_to destination))"

definition quote_form_error :: "headers \<Rightarrow> string \<Rightarrow> quote_view response" where
  "quote_form_error hs message =
     (let r = answer 422 (View (QuoteFormError message))
      in if is_htmx_request hs
         then with_header ''hx-reswap'' ''afterbegin'' (with_header ''hx-retarget'' ''#quote-results'' r)
         else r)"

section \<open>Handlers\<close>

text \<open>
  What a handler is given: the configuration, the quote client if there is one, the service it
  talks to and the parameters of third-party code.
\<close>

record quote_env =
  qv_ext :: ext
  qv_wire :: quote_wire
  qv_service :: quote_service
  qv_client :: "quote_client option"
  qv_config :: config
  qv_parse :: url_parser
  qv_build :: url_builder
  qv_parse_date :: "string \<Rightarrow> int option"

type_synonym quote_result = "quote_view response \<times> quote_call list"

definition quote_signed_in ::
    "quote_env \<Rightarrow> headers \<Rightarrow> app_error + auth_context \<Rightarrow> (auth_context \<Rightarrow> quote_result) \<Rightarrow> quote_result" where
  "quote_signed_in v hs auth run =
     (case auth of
        Inr actor \<Rightarrow> run actor
      | Inl Unauthorized \<Rightarrow> (auth_redirect_response (qv_build v) hs (cf_app_base_url (qv_config v)), [])
      | Inl e \<Rightarrow> (error_answer e, []))"

definition with_client :: "quote_env \<Rightarrow> (quote_client \<Rightarrow> quote_result) \<Rightarrow> quote_result" where
  "with_client v run =
     (case qv_client v of None \<Rightarrow> (error_answer ServiceUpstream, []) | Some qc \<Rightarrow> run qc)"

definition quote_page_handler :: "quote_env \<Rightarrow> headers \<Rightarrow> app_error + auth_context \<Rightarrow> quote_result" where
  "quote_page_handler v hs auth =
     quote_signed_in v hs auth (\<lambda>actor. with_client v (\<lambda>qc.
       case quote_list (qv_ext v) (qv_wire v) (qv_service v) qc actor of
         (Inr records, calls) \<Rightarrow>
           (answer 200 (View (QuotePage actor (map quote_status_fragment records))), calls)
       | (Inl e, calls) \<Rightarrow> (error_answer e, calls)))"

definition quote_detail_handler ::
    "quote_env \<Rightarrow> headers \<Rightarrow> app_error + auth_context \<Rightarrow> string \<Rightarrow> quote_result" where
  "quote_detail_handler v hs auth raw_id =
     quote_signed_in v hs auth (\<lambda>actor.
       case uuid_parse (qv_ext v) raw_id of
         None \<Rightarrow> (error_answer NotFound, [])
       | Some quote_id \<Rightarrow>
           with_client v (\<lambda>qc.
             case quote_get (qv_ext v) (qv_wire v) (qv_service v) qc actor quote_id of
               (Inr rec, calls) \<Rightarrow>
                 (answer 200 (View (if is_htmx_request hs then QuoteFragment (quote_status_fragment rec)
                                    else QuoteDetailPage actor (quote_status_fragment rec))), calls)
             | (Inl e, calls) \<Rightarrow> (error_answer e, calls)))"

definition quote_submit_handler ::
    "quote_env \<Rightarrow> headers \<Rightarrow> app_error + auth_context \<Rightarrow> quote_form \<Rightarrow> quote_result" where
  "quote_submit_handler v hs auth form =
     quote_signed_in v hs auth (\<lambda>actor.
       case require_origin (qv_config v) hs of
         Inl e \<Rightarrow> (error_answer e, [])
       | Inr _ \<Rightarrow>
           (case require_csrf actor hs (Some (qf_csrf form)) of
              Inl e \<Rightarrow> (error_answer e, [])
            | Inr _ \<Rightarrow>
                (case into_request (qv_parse v) (qv_parse_date v) form (ctx_email actor) of
                   Inl (BadRequest message) \<Rightarrow> (quote_form_error hs message, [])
                 | Inl e \<Rightarrow> (error_answer e, [])
                 | Inr request \<Rightarrow>
                     with_client v (\<lambda>qc.
                       case quote_create (qv_ext v) (qv_wire v) (qv_service v) qc actor request
                              (qf_client_request_id form) of
                         (Inr rec, calls) \<Rightarrow>
                           (if is_htmx_request hs then answer 200 (View (QuoteFragment (quote_status_fragment rec)))
                            else redirect_to (''/u/quote/'' @ uuid_text (qv_ext v) (qp_id rec)), calls)
                       | (Inl (BadRequest message), calls) \<Rightarrow> (quote_form_error hs message, calls)
                       | (Inl e, calls) \<Rightarrow> (error_answer e, calls)))))"

section \<open>What is sent to the service\<close>

lemma ticked_eq: "ticked form options = map fst (filter (\<lambda>(value, field). qf_option form field \<noteq> None) options)"
  by (induction options)
     (auto simp: ticked_def selected_values_def map_filter_def split: option.splits)

definition bounded_text :: "nat \<Rightarrow> string \<Rightarrow> bool" where
  "bounded_text n s \<longleftrightarrow> s \<noteq> [] \<and> trim s = s \<and> chars_count s \<le> n"

definition choice_of :: "(string \<times> string) list \<Rightarrow> string list \<Rightarrow> bool" where
  "choice_of options values \<longleftrightarrow> values \<noteq> [] \<and> distinct values \<and> set values \<subseteq> fst ` set options"

text \<open>What the service may rely on.\<close>

definition valid_request :: "url_parser \<Rightarrow> (string \<Rightarrow> int option) \<Rightarrow> quote_request \<Rightarrow> bool" where
  "valid_request parse parse_date r \<longleftrightarrow>
     bounded_text 200 (qr_organization_name r) \<and> bounded_text 160 (qr_contact_name r)
     \<and> bounded_text 320 (qr_contact_email r) \<and> CHR ''@'' \<in> set (qr_contact_email r)
     \<and> (case qr_website r of None \<Rightarrow> True
        | Some s \<Rightarrow> bounded_text 2048 s \<and> (\<exists>u. parse s = Inr u \<and> website_url_ok u))
     \<and> 1 \<le> qr_employee_count r \<and> qr_employee_count r \<le> 1000000
     \<and> (case qr_annual_revenue_band r of None \<Rightarrow> True | Some s \<Rightarrow> s \<in> set REVENUE_BANDS)
     \<and> choice_of framework_fields (qr_frameworks r) \<and> qr_current_stage r \<in> set STAGES
     \<and> choice_of infrastructure_fields (qr_infrastructure r)
     \<and> choice_of data_fields (qr_data_sensitivity r)
     \<and> (case qr_target_date r of None \<Rightarrow> True | Some s \<Rightarrow> parse_date s \<noteq> None)
     \<and> (case qr_notes r of None \<Rightarrow> True | Some s \<Rightarrow> bounded_text 5000 s)
     \<and> qr_context_key r = Some ''quote-analysis'' \<and> qr_answers_version r = 1"

lemma bounded_required_Inr:
  "bounded_required value n label = Inr v \<longleftrightarrow> v = trim value \<and> bounded_text n v"
  by (auto simp: bounded_required_def Let_def bounded_text_def split: if_splits)

lemma verified_contact_Inr:
  "verified_contact email = Inr v \<longleftrightarrow> v = trim email \<and> bounded_text 320 v \<and> CHR ''@'' \<in> set v"
  by (auto simp: verified_contact_def Let_def bounded_text_def split: if_splits)

lemma nonblank_Some: "nonblank value = Some v \<longleftrightarrow> v = trim value \<and> v \<noteq> []"
  by (auto simp: nonblank_def)

lemma validated_website_Inr:
  "validated_website parse value = Inr w \<Longrightarrow> w = nonblank value
     \<and> (case w of None \<Rightarrow> True | Some s \<Rightarrow> bounded_text 2048 s \<and> (\<exists>u. parse s = Inr u \<and> website_url_ok u))"
proof (cases "nonblank value")
  case (Some v)
  note nb = this
  from nb have v: "trim v = v" "v \<noteq> []" by (auto simp: nonblank_Some)
  assume "validated_website parse value = Inr w"
  then show ?thesis
    by (auto simp: validated_website_def nb v bounded_text_def try_then_Inr map_err_Inr split: if_splits)
qed (simp add: validated_website_def)

lemma optional_enum_Inr:
  "optional_enum value allowed label = Inr w \<Longrightarrow> w = nonblank value
     \<and> (case w of None \<Rightarrow> True | Some s \<Rightarrow> s \<in> set allowed)"
proof (cases "nonblank value")
  case (Some v)
  note nb = this
  assume "optional_enum value allowed label = Inr w"
  then show ?thesis by (auto simp: optional_enum_def nb split: if_splits)
qed (simp add: optional_enum_def)

lemma required_enum_Inr:
  "required_enum value allowed label = Inr w \<longleftrightarrow> w = trim value \<and> w \<in> set allowed"
  by (auto simp: required_enum_def Let_def)

lemma distinct_map_fst_filter: "distinct (map fst xs) \<Longrightarrow> distinct (map fst (filter P xs))"
  by (induction xs) auto

lemma some_ticked_Inr:
  "some_ticked form options message = Inr vs \<Longrightarrow> distinct (map fst options) \<Longrightarrow> choice_of options vs"
  by (auto simp: some_ticked_def choice_of_def ticked_eq distinct_map_fst_filter split: if_splits)

lemma fields_distinct:
  "distinct (map fst framework_fields)" "distinct (map fst infrastructure_fields)" "distinct (map fst data_fields)"
  by (simp_all add: framework_fields_def infrastructure_fields_def data_fields_def)

lemma into_request_error: "into_request parse parse_date form email = Inl e \<Longrightarrow> \<exists>m. e = BadRequest m"
  by (auto simp: into_request_def try_then_Inl ensure_Inl bounded_required_def verified_contact_def
        validated_website_def optional_enum_def required_enum_def some_ticked_def Let_def map_err_def
        split: if_splits option.splits sum.splits)

lemma into_request_parts:
  assumes "into_request parse parse_date form email = Inr r"
  shows "bounded_required (qf_organization_name form) 200 ''organization name'' = Inr (qr_organization_name r)
    \<and> bounded_required (qf_contact_name form) 160 ''contact name'' = Inr (qr_contact_name r)
    \<and> verified_contact email = Inr (qr_contact_email r)
    \<and> ensure (1 \<le> qf_employee_count form \<and> qf_employee_count form \<le> 1000000)
        (BadRequest ''employee count must be between 1 and 1000000'') = Inr ()
    \<and> qr_employee_count r = int (qf_employee_count form)
    \<and> validated_website parse (qf_website form) = Inr (qr_website r)
    \<and> optional_enum (qf_annual_revenue_band form) REVENUE_BANDS ''annual revenue band''
        = Inr (qr_annual_revenue_band r)
    \<and> some_ticked form framework_fields ''choose at least one supported framework'' = Inr (qr_frameworks r)
    \<and> required_enum (qf_current_stage form) STAGES ''current stage'' = Inr (qr_current_stage r)
    \<and> some_ticked form infrastructure_fields ''choose at least one infrastructure category''
        = Inr (qr_infrastructure r)
    \<and> some_ticked form data_fields ''choose at least one data-sensitivity category''
        = Inr (qr_data_sensitivity r)
    \<and> ensure (case qr_target_date r of None \<Rightarrow> True | Some v \<Rightarrow> parse_date v \<noteq> None)
        (BadRequest ''target date must be a valid YYYY-MM-DD date'') = Inr ()
    \<and> qr_notes r = nonblank (qf_notes form)
    \<and> ensure (case qr_notes r of None \<Rightarrow> True | Some v \<Rightarrow> chars_count v \<le> 5000)
        (BadRequest ''notes must be at most 5000 characters'') = Inr ()
    \<and> qr_context_key r = Some ''quote-analysis'' \<and> qr_answers_version r = 1"
  using assms unfolding into_request_def Let_def
  apply (elim try_then_InrE)
  apply (simp only: sum.inject)
  apply hypsubst
  apply (simp only: quote_request.select_convs ensure_Inr)
  apply (intro conjI)
                 apply (assumption | rule refl | simp)+
  done

lemma into_request_valid:
  "case into_request parse parse_date form email of
     Inl e \<Rightarrow> \<exists>m. e = BadRequest m
   | Inr r \<Rightarrow> valid_request parse parse_date r \<and> qr_contact_email r = trim email
       \<and> qr_frameworks r = ticked form framework_fields
       \<and> qr_infrastructure r = ticked form infrastructure_fields
       \<and> qr_data_sensitivity r = ticked form data_fields"
proof (cases "into_request parse parse_date form email")
  case (Inl e)
  then show ?thesis using into_request_error by simp
next
  case (Inr r)
  note p = into_request_parts [OF Inr]
  have website: "case qr_website r of None \<Rightarrow> True
      | Some s \<Rightarrow> bounded_text 2048 s \<and> (\<exists>u. parse s = Inr u \<and> website_url_ok u)"
    using p validated_website_Inr by blast
  have band: "case qr_annual_revenue_band r of None \<Rightarrow> True | Some s \<Rightarrow> s \<in> set REVENUE_BANDS"
    using p optional_enum_Inr by blast
  have choices: "choice_of framework_fields (qr_frameworks r)"
    "choice_of infrastructure_fields (qr_infrastructure r)" "choice_of data_fields (qr_data_sensitivity r)"
    using p some_ticked_Inr fields_distinct by blast+
  have same: "qr_frameworks r = ticked form framework_fields"
    "qr_infrastructure r = ticked form infrastructure_fields"
    "qr_data_sensitivity r = ticked form data_fields"
    using p by (auto simp: some_ticked_def split: if_splits)
  have form_notes: "case qr_notes r of None \<Rightarrow> True | Some s \<Rightarrow> bounded_text 5000 s"
  proof (cases "qr_notes r")
    case (Some v)
    then have "nonblank (qf_notes form) = Some v" using p by simp
    then have "trim v = v" "v \<noteq> []" by (auto simp: nonblank_Some)
    moreover have "case qr_notes r of None \<Rightarrow> True | Some v \<Rightarrow> chars_count v \<le> 5000"
      using p unfolding ensure_Inr by blast
    ultimately show ?thesis using Some by (simp add: bounded_text_def)
  qed simp
  have "bounded_text 200 (qr_organization_name r)" "bounded_text 160 (qr_contact_name r)"
    "bounded_text 320 (qr_contact_email r)" "CHR ''@'' \<in> set (qr_contact_email r)"
    "qr_current_stage r \<in> set STAGES" "qr_contact_email r = trim email"
    using p by (auto simp: bounded_required_Inr verified_contact_Inr required_enum_Inr)
  moreover have "1 \<le> qr_employee_count r" "qr_employee_count r \<le> 1000000"
    "case qr_target_date r of None \<Rightarrow> True | Some s \<Rightarrow> parse_date s \<noteq> None"
    using p by (auto simp: ensure_Inr)
  ultimately have "valid_request parse parse_date r \<and> qr_contact_email r = trim email"
    using website band choices form_notes p by (simp add: valid_request_def)
  with same have "valid_request parse parse_date r \<and> qr_contact_email r = trim email
       \<and> qr_frameworks r = ticked form framework_fields
       \<and> qr_infrastructure r = ticked form infrastructure_fields
       \<and> qr_data_sensitivity r = ticked form data_fields" by simp
  with Inr show ?thesis by simp
qed

text \<open>
  C26
  What is sent to the quote service is valid, whatever the browser submitted: a form is either
  refused as a bad request or becomes a request whose texts are trimmed and in their bounds, whose
  choices are nonempty, distinct and of the offered ones, whose website is an HTTP(S) URL without
  credentials, and whose date parses; the contact is the verified email of the account, never a
  field of the form, and the context and version are fixed.
\<close>

theorem quote_requests_are_valid:
  "case into_request parse parse_date form email of
     Inl e \<Rightarrow> \<exists>m. e = BadRequest m
   | Inr r \<Rightarrow> valid_request parse parse_date r \<and> qr_contact_email r = trim email
       \<and> qr_frameworks r = ticked form framework_fields
       \<and> qr_infrastructure r = ticked form infrastructure_fields
       \<and> qr_data_sensitivity r = ticked form data_fields"
  by (rule into_request_valid)

section \<open>What is asked of the service\<close>

definition submit_passes :: "quote_env \<Rightarrow> headers \<Rightarrow> auth_context \<Rightarrow> quote_form \<Rightarrow> bool" where
  "submit_passes v hs actor form \<longleftrightarrow>
     require_origin (qv_config v) hs = Inr () \<and> require_csrf actor hs (Some (qf_csrf form)) = Inr ()"

lemma refused_submits_ask_nothing:
  assumes "\<nexists>actor. auth = Inr actor \<and> submit_passes v hs actor form"
  shows "snd (quote_submit_handler v hs auth form) = []"
proof (cases auth)
  case (Inl e)
  then show ?thesis by (cases e) (simp_all add: quote_submit_handler_def quote_signed_in_def)
next
  case (Inr actor)
  with assms show ?thesis
    by (auto simp: quote_submit_handler_def quote_signed_in_def submit_passes_def split: sum.split)
qed

lemma submit_calls:
  assumes "submit_passes v hs actor form" "snd (quote_submit_handler v hs (Inr actor) form) = calls" "calls \<noteq> []"
  obtains qc request where "qv_client v = Some qc"
    "into_request (qv_parse v) (qv_parse_date v) form (ctx_email actor) = Inr request"
    "snd (quote_create (qv_ext v) (qv_wire v) (qv_service v) qc actor request (qf_client_request_id form)) = calls"
  using assms
  by (auto simp: quote_submit_handler_def quote_signed_in_def submit_passes_def with_client_def
      split: sum.splits option.splits prod.splits app_error.splits if_splits dest: into_request_error)

lemma create_asks_for_owner:
  assumes "snd (quote_create x wire service qc actor request key) = call # rest"
  shows "qk_method call = ''POST''" "qk_body call = Some request"
    "header_all ''idempotency-key'' (qk_headers call) = [uuid_text x key]"
    "list_all (\<lambda>c. qk_method c = ''GET'') rest" "list_all (carries_owner x qc actor) (call # rest)"
  using assms quote_create_calls [where x = x and wire = wire and service = service and qc = qc
      and actor = actor and request = request and key = key] quote_get_calls [of x wire service qc actor key]
  by (cases "quote_create x wire service qc actor request key"; auto)+

text \<open>
  C27
  A quote is submitted for its owner only, and once: the service is called only for a signed-in
  actor whose request is from an allowed origin, carries the CSRF token and has a valid form; the
  first call is then the one POST, with that valid request and the form's own identifier as its
  idempotency key, all other calls are reads, and every call has the actor as its subject, the
  internal token, and a quote URL of the configured service. Nothing the browser sends can choose
  them, and a form that is sent again asks for the same quote.
\<close>

theorem quote_submit_is_gated:
  "case quote_submit_handler v hs auth form of (r, calls) \<Rightarrow>
     (case calls of
        [] \<Rightarrow> True
      | call # rest \<Rightarrow>
          (\<exists>actor qc request. auth = Inr actor \<and> submit_passes v hs actor form \<and> qv_client v = Some qc
             \<and> into_request (qv_parse v) (qv_parse_date v) form (ctx_email actor) = Inr request
             \<and> valid_request (qv_parse v) (qv_parse_date v) request
             \<and> qr_contact_email request = trim (ctx_email actor)
             \<and> qk_method call = ''POST'' \<and> qk_body call = Some request
             \<and> header_all ''idempotency-key'' (qk_headers call)
                 = [uuid_text (qv_ext v) (qf_client_request_id form)]
             \<and> list_all (\<lambda>c. qk_method c = ''GET'') rest
             \<and> list_all (carries_owner (qv_ext v) qc actor) calls))"
proof (cases "snd (quote_submit_handler v hs auth form)")
  case Nil
  then show ?thesis by (cases "quote_submit_handler v hs auth form") simp
next
  case (Cons call rest)
  then obtain actor where auth: "auth = Inr actor" and passes: "submit_passes v hs actor form"
    by (metis refused_submits_ask_nothing list.distinct(1))
  from submit_calls [OF passes Cons [unfolded auth]] obtain qc request where
    client: "qv_client v = Some qc"
    and request: "into_request (qv_parse v) (qv_parse_date v) form (ctx_email actor) = Inr request"
    and create: "snd (quote_create (qv_ext v) (qv_wire v) (qv_service v) qc actor request
      (qf_client_request_id form)) = call # rest"
    by blast
  have "valid_request (qv_parse v) (qv_parse_date v) request" "qr_contact_email request = trim (ctx_email actor)"
    using into_request_valid [where form = form and parse = "qv_parse v" and parse_date = "qv_parse_date v"
          and email = "ctx_email actor"] request by simp_all
  with auth passes client request create_asks_for_owner [OF create] Cons show ?thesis
    by (cases "quote_submit_handler v hs auth form") auto
qed

lemma htmx_exact: "is_htmx_request hs \<longleftrightarrow> header_all ''hx-request'' hs = [''true'']"
  by (auto simp: is_htmx_request_def split: list.splits)

text \<open>
  A visitor without a session learns nothing and starts nothing: all three handlers answer the
  same, without a call to the service, with an empty body that no cache may keep; a browser is
  sent to the sign-in page with 303, so that a form is not posted again, and an HTMX request,
  which is one with the single exact header \<open>true\<close>, gets 401 with the same destination in
  \<open>hx-redirect\<close> and nothing to swap in. The destination depends on the configured origin alone. Any
  other failure of authentication is its error, again without a call.
\<close>

theorem quote_denials:
  "case (quote_page_handler v hs (Inl e), quote_detail_handler v hs (Inl e) raw_id,
         quote_submit_handler v hs (Inl e) form) of
     ((r, calls), shown, submitted) \<Rightarrow>
       shown = (r, calls) \<and> submitted = (r, calls) \<and> calls = []
       \<and> (if e = Unauthorized then
            rs_body r = EmptyBody
            \<and> header_get ''cache-control'' (rs_headers r) = Some ''no-store''
            \<and> (if header_all ''hx-request'' hs = [''true'']
               then rs_status r = 401 \<and> header_get ''location'' (rs_headers r) = None
                 \<and> header_get ''hx-reswap'' (rs_headers r) = Some ''none''
                 \<and> header_get ''hx-redirect'' (rs_headers r)
                     = header_value (shared_auth_sign_in_url (qv_build v) (cf_app_base_url (qv_config v)))
               else rs_status r = 303 \<and> header_get ''hx-redirect'' (rs_headers r) = None
                 \<and> header_get ''location'' (rs_headers r)
                     = Some (shared_auth_sign_in_url (qv_build v) (cf_app_base_url (qv_config v))))
          else r = error_answer e)"
proof (cases "e = Unauthorized")
  case True
  then show ?thesis
    by (auto simp: quote_page_handler_def quote_detail_handler_def quote_submit_handler_def quote_signed_in_def
          auth_redirect_response_def Let_def htmx_exact header_get_def header_insert_def header_value_def
          split: option.split)
next
  case False
  then have "quote_signed_in v hs (Inl e) run = (error_answer e, [])" for run
    by (cases e) (simp_all add: quote_signed_in_def)
  with False show ?thesis
    by (simp add: quote_page_handler_def quote_detail_handler_def quote_submit_handler_def)
qed

end
