(* ===== verification/Store.thy ===== *)
theory Store
  imports Http
begin

text \<open>
  The database boundary of \<open>crates/canonical-store/src/lib.rs\<close>: the catalogue query that a process
  makes about its own login before it works, and the four kinds of transaction with the settings
  they install. A connection is its backend, its login and current role, the catalogues, and the
  settings of its session; a transaction adds settings of its own, which end with it.
\<close>

section \<open>Catalogues\<close>

record pg_role =
  ro_oid :: nat
  ro_name :: string
  ro_can_login :: bool
  ro_superuser :: bool
  ro_create_db :: bool
  ro_create_role :: bool
  ro_inherit :: bool
  ro_replication :: bool
  ro_bypass_rls :: bool

text \<open>
  Memberships are pairs of the role and its member; databases pairs of name and owner; schemas
  have a name and an owner, relations and functions the name of their schema and an owner.
\<close>

record catalogue =
  ca_roles :: "pg_role list"
  ca_members :: "(nat \<times> nat) list"
  ca_databases :: "(string \<times> nat) list"
  ca_schemas :: "(string \<times> nat) list"
  ca_relations :: "(string \<times> nat) list"
  ca_functions :: "(string \<times> nat) list"

datatype backend = Postgres | Sqlite

type_synonym settings = "string \<Rightarrow> string option"

record connection =
  cn_backend :: backend
  cn_current_user :: string
  cn_session_user :: string
  cn_database :: string
  cn_catalogue :: catalogue
  cn_settings :: settings

definition SESSION_REVOKER_ROLE :: string where "SESSION_REVOKER_ROLE = ''canonical_session_revoker''"
definition RUNTIME_SERVER_ROLE :: string where "RUNTIME_SERVER_ROLE = ''canonical_web_server''"
definition ADMIN_SERVER_ROLE :: string where "ADMIN_SERVER_ROLE = ''canonical_admin_server''"

text \<open>\<open>SELECT ... FROM pg_roles r WHERE r.rolname = current_user\<close>: its only row.\<close>

definition current_role :: "connection \<Rightarrow> pg_role option" where
  "current_role cn = find (\<lambda>r. ro_name r = cn_current_user cn) (ca_roles (cn_catalogue cn))"

definition application_schema :: "string \<Rightarrow> bool" where
  "application_schema s \<longleftrightarrow> s = ''public'' \<or> s = ''auth''"

definition has_memberships_or_members :: "connection \<Rightarrow> pg_role \<Rightarrow> bool" where
  "has_memberships_or_members cn r \<longleftrightarrow>
     list_ex (\<lambda>(role, member). member = ro_oid r \<or> role = ro_oid r) (ca_members (cn_catalogue cn))"

definition owns_current_database :: "connection \<Rightarrow> pg_role \<Rightarrow> bool" where
  "owns_current_database cn r \<longleftrightarrow>
     list_ex (\<lambda>(name, owner). name = cn_database cn \<and> owner = ro_oid r) (ca_databases (cn_catalogue cn))"

definition owns_in :: "(string \<times> nat) list \<Rightarrow> pg_role \<Rightarrow> bool" where
  "owns_in objects r \<longleftrightarrow> list_ex (\<lambda>(s, owner). application_schema s \<and> owner = ro_oid r) objects"

text \<open>The properties the query reports, in the order the code checks them.\<close>

definition unsafe_properties :: "connection \<Rightarrow> pg_role \<Rightarrow> string list" where
  "unsafe_properties cn r =
     (if ro_can_login r then [] else [''NOLOGIN'']) @
     map snd (filter fst
       [(ro_superuser r, ''SUPERUSER''), (ro_create_db r, ''CREATEDB''),
        (ro_create_role r, ''CREATEROLE''), (ro_inherit r, ''INHERIT''),
        (ro_replication r, ''REPLICATION''), (ro_bypass_rls r, ''BYPASSRLS''),
        (has_memberships_or_members cn r, ''role membership/member''),
        (owns_current_database cn r, ''current database ownership''),
        (owns_in (ca_schemas (cn_catalogue cn)) r, ''public/auth schema ownership''),
        (owns_in (ca_relations (cn_catalogue cn)) r, ''public/auth relation ownership''),
        (owns_in (ca_functions (cn_catalogue cn)) r, ''public/auth function ownership'')])"

text \<open>\<open>join(", ")\<close>\<close>

fun join_comma :: "string list \<Rightarrow> string" where
  "join_comma [] = []"
| "join_comma [s] = s"
| "join_comma (s # t # rest) = s @ '', '' @ join_comma (t # rest)"

definition verify_isolated_database_role ::
    "connection \<Rightarrow> string \<Rightarrow> string \<Rightarrow> string + unit" where
  "verify_isolated_database_role cn expected_role process_name =
     (if cn_backend cn \<noteq> Postgres then Inr ()
      else
        try_then (ok_or (current_role cn) ''database role query returned no row'') (\<lambda>r.
        if ro_name r \<noteq> expected_role \<or> cn_session_user cn \<noteq> expected_role
        then Inl (process_name @ '' requires database login and current role '' @ expected_role
               @ ''; connected as login '' @ cn_session_user cn @ '' with current role '' @ ro_name r)
        else
          let bad = unsafe_properties cn r
          in if bad \<noteq> []
             then Inl (process_name @ '' database role '' @ expected_role
                    @ '' violates its least-privilege boundary: '' @ join_comma bad)
             else Inr ()))"

definition verify_runtime_database_role :: "connection \<Rightarrow> string + unit" where
  "verify_runtime_database_role cn = verify_isolated_database_role cn RUNTIME_SERVER_ROLE ''web runtime''"

definition verify_session_revoker_database_role :: "connection \<Rightarrow> string + unit" where
  "verify_session_revoker_database_role cn =
     verify_isolated_database_role cn SESSION_REVOKER_ROLE ''session revoker''"

definition verify_admin_database_role :: "connection \<Rightarrow> string + unit" where
  "verify_admin_database_role cn = verify_isolated_database_role cn ADMIN_SERVER_ROLE ''admin runtime''"

section \<open>Transactions\<close>

record transaction =
  tx_connection :: connection
  tx_local :: settings

text \<open>\<open>current_setting(name, true)\<close>\<close>

definition current_setting :: "transaction \<Rightarrow> string \<Rightarrow> string option" where
  "current_setting tx name =
     (case tx_local tx name of Some v \<Rightarrow> Some v | None \<Rightarrow> cn_settings (tx_connection tx) name)"

definition begin_transaction :: "connection \<Rightarrow> settings \<Rightarrow> transaction" where
  "begin_transaction cn local =
     \<lparr>tx_connection = cn, tx_local = (if cn_backend cn = Postgres then local else (\<lambda>_. None))\<rparr>"

text \<open>The connection goes back to its pool without what was set for the transaction only.\<close>

definition end_transaction :: "transaction \<Rightarrow> connection" where
  "end_transaction tx = tx_connection tx"

text \<open>The object has the keys in the order of \<open>serde_json\<close>'s map.\<close>

definition user_claims :: "ext \<Rightarrow> uuid \<Rightarrow> (string \<times> json) list \<Rightarrow> json" where
  "user_claims x user_id extra =
     JObj (extra @ [(''role'', JStr ''authenticated''), (''sub'', JStr (uuid_text x user_id))])"

definition begin_user_transaction :: "ext \<Rightarrow> connection \<Rightarrow> uuid \<Rightarrow> transaction" where
  "begin_user_transaction x cn user_id =
     begin_transaction cn
       [''request.jwt.claims'' \<mapsto> json_text x (user_claims x user_id []),
        ''request.jwt.claim.sub'' \<mapsto> uuid_text x user_id,
        ''request.jwt.claim.role'' \<mapsto> ''authenticated'']"

definition begin_shared_auth_transaction :: "connection \<Rightarrow> string \<Rightarrow> string + transaction" where
  "begin_shared_auth_transaction cn subject =
     (if subject = [] \<or> 512 < length subject \<or> trim subject \<noteq> subject \<or> has_control subject
      then Inl ''invalid Shared Auth subject''
      else Inr (begin_transaction cn
        [''canonical.shared_auth_sub'' \<mapsto> subject, ''request.jwt.claims'' \<mapsto> ''{}'',
         ''request.jwt.claim.sub'' \<mapsto> [], ''request.jwt.claim.role'' \<mapsto> ''authenticated'']))"

definition begin_session_revocation_transaction :: "connection \<Rightarrow> string + transaction" where
  "begin_session_revocation_transaction cn =
     try_then (verify_session_revoker_database_role cn) (\<lambda>_.
     Inr (begin_transaction cn
       [''canonical.system_task'' \<mapsto> ''session_revocation'', ''request.jwt.claims'' \<mapsto> ''{}'',
        ''request.jwt.claim.sub'' \<mapsto> [], ''request.jwt.claim.role'' \<mapsto> ''system'']))"

datatype assurance_level = Aal1 | Aal2

definition begin_admin_transaction ::
    "ext \<Rightarrow> connection \<Rightarrow> uuid \<Rightarrow> assurance_level \<Rightarrow> string + transaction" where
  "begin_admin_transaction x cn user_id level =
     (if level \<noteq> Aal2 then Inl ''administrative transactions require Supabase AAL2''
      else
        try_then (verify_admin_database_role cn) (\<lambda>_.
        Inr (begin_transaction cn
          [''request.jwt.claims'' \<mapsto> json_text x (user_claims x user_id [(''aal'', JStr ''aal2'')]),
           ''request.jwt.claim.sub'' \<mapsto> uuid_text x user_id,
           ''request.jwt.claim.role'' \<mapsto> ''authenticated'',
           ''request.jwt.claim.aal'' \<mapsto> ''aal2''])))"

text \<open>
  \<open>database_now\<close>: one clock for all replicas on PostgreSQL, the process clock otherwise; a clock
  query without a row is an error.
\<close>

definition database_now :: "backend \<Rightarrow> timestamp \<Rightarrow> timestamp option \<Rightarrow> string + timestamp" where
  "database_now b process_clock answered =
     (if b \<noteq> Postgres then Inr process_clock
      else ok_or answered ''database clock query returned no row'')"

section \<open>Properties\<close>

text \<open>A login with nothing but the right to log in.\<close>

definition isolated_login :: "connection \<Rightarrow> pg_role \<Rightarrow> bool" where
  "isolated_login cn r \<longleftrightarrow> ro_can_login r
     \<and> \<not> ro_superuser r \<and> \<not> ro_create_db r \<and> \<not> ro_create_role r \<and> \<not> ro_inherit r
     \<and> \<not> ro_replication r \<and> \<not> ro_bypass_rls r
     \<and> (ro_oid r \<notin> fst ` set (ca_members (cn_catalogue cn)))
     \<and> (ro_oid r \<notin> snd ` set (ca_members (cn_catalogue cn)))
     \<and> (cn_database cn, ro_oid r) \<notin> set (ca_databases (cn_catalogue cn))
     \<and> set (ca_schemas (cn_catalogue cn) @ ca_relations (cn_catalogue cn) @ ca_functions (cn_catalogue cn))
         \<inter> {(''public'', ro_oid r), (''auth'', ro_oid r)} = {}"

lemma owns_in_iff: "owns_in objects r \<longleftrightarrow> set objects \<inter> {(''public'', ro_oid r), (''auth'', ro_oid r)} \<noteq> {}"
  by (auto simp: owns_in_def list_ex_iff application_schema_def)

lemma unsafe_properties_empty: "unsafe_properties cn r = [] \<longleftrightarrow> isolated_login cn r"
proof -
  have members: "has_memberships_or_members cn r \<longleftrightarrow>
      ro_oid r \<in> fst ` set (ca_members (cn_catalogue cn)) \<or> ro_oid r \<in> snd ` set (ca_members (cn_catalogue cn))"
    by (force simp: has_memberships_or_members_def list_ex_iff)
  have database: "owns_current_database cn r \<longleftrightarrow> (cn_database cn, ro_oid r) \<in> set (ca_databases (cn_catalogue cn))"
    by (auto simp: owns_current_database_def list_ex_iff)
  show ?thesis
    by (auto simp: unsafe_properties_def isolated_login_def members database owns_in_iff)
qed

text \<open>
  C24
  A process works on PostgreSQL only under exactly its own login: the check succeeds if and only if
  the current role exists, is the expected one and the one that logged in, may log in, has none of
  the dangerous attributes, is in no membership on either side, and owns neither the database nor
  any schema, relation or function of the application. No other backend is checked.
\<close>

theorem verified_role_is_isolated:
  "(verify_isolated_database_role cn expected_role process_name = Inr ()) =
     (cn_backend cn = Sqlite
      \<or> (case current_role cn of
           None \<Rightarrow> False
         | Some r \<Rightarrow> cn_current_user cn = expected_role \<and> cn_session_user cn = expected_role
             \<and> isolated_login cn r))"
proof (cases "current_role cn")
  case None
  then show ?thesis by (cases "cn_backend cn") (simp_all add: verify_isolated_database_role_def)
next
  case (Some r)
  then have "ro_name r = cn_current_user cn"
    by (auto simp: current_role_def find_Some_iff)
  with Some show ?thesis
    by (cases "cn_backend cn")
       (auto simp: verify_isolated_database_role_def Let_def unsafe_properties_empty)
qed

end
