(* ===== verification/Schema.thy ===== *)
theory Schema
  imports Store Engagements
begin

text \<open>
  The schema migrations of \<open>crates/canonical-store/src/migration.rs\<close>: the statements each migration
  executes on each backend, up and down, over a model of the catalogue. \<open>Sqlite\<close> is used for tests
  and gets no policies; CockroachDB speaks the PostgreSQL protocol and is told apart by its version
  text. The statements of the last migration that repair rows before the constraints are added do
  not change the catalogue; they are modelled in the theory \<open>Repair\<close>.
\<close>

section \<open>Catalogue\<close>

text \<open>The identifiers of tables and columns, the \<open>DeriveIden\<close> enumerations; \<open>auth.users\<close> is Supabase's.\<close>

datatype table_name =
    UserProfile | WebSession | SyncRecord | SyncClock | SyncChange | SyncReceipt
  | AuditEngagement | EngagementNote | AdminRoleAssignment | AdminAuditEvent | AuthUsers

datatype column_name =
    UserId | Email | DisplayName | CreatedAt | UpdatedAt | IdHash | SupabaseSessionId
  | EncryptedAccessToken | EncryptedRefreshToken | AccessExpiresAt | RefreshLeaseId
  | RefreshLeaseExpiresAt | CsrfToken | ExpiresAt | RevokedAt | RevocationPendingAt
  | RevocationNextAttemptAt | RevocationAttempts | UpstreamRevokedAt | RevocationAbandonedAt
  | RevocationFailureKind | OwnerId | Collection | RecordId | Version | Payload | DeletedAt
  | Cursor | Operation | ChangedAt | ClientId | MutationId | RequestHash | Result | RowId
  | Company | Framework | Status | OpenedAt | TargetReportDate | EngagementId | Body | Role
  | GrantedBy | GrantedAt | ActorId | Capability | TargetType | TargetId | RequestId
  | OccurredAt | Outcome | Metadata

datatype sql_type = UuidT | VarcharT | TextT | TimestampTzT | BigIntegerT | JsonBinaryT | IntegerT | DateT

datatype check = IsIn "string list" | NonNegative | Positive

datatype policy = OwnerIsUser column_name | ProcessBoundary

datatype on_delete = Cascade | Restrict

record column =
  co_type :: sql_type
  co_not_null :: bool
  co_default :: "int option"

record foreign_key =
  fk_column :: column_name
  fk_target :: "table_name \<times> column_name"
  fk_on_delete :: on_delete

text \<open>Checks, keys and policies have names; the database names the checks of a column definition itself
  (here they have none).\<close>

record table_def =
  td_columns :: "(column_name \<times> column) list"
  td_primary_key :: "column_name list"
  td_checks :: "(string \<times> column_name \<times> check) list"
  td_foreign_keys :: "(string \<times> foreign_key) list"
  td_indexes :: "(string \<times> column_name list) list"
  td_rls :: bool
  td_forced :: bool
  td_policies :: "(string \<times> policy) list"
  td_public_revoked :: bool

record schema =
  sc_tables :: "(table_name \<times> table_def) list"
  sc_functions :: "string list"

definition empty_schema :: schema where
  "empty_schema = \<lparr>sc_tables = [], sc_functions = []\<rparr>"

section \<open>Statements\<close>

datatype stmt =
    CreateTable table_name "(column_name \<times> column \<times> check option) list" "column_name list"
      "(string \<times> foreign_key) list"
  | DropTable table_name
  | CreateIndex string table_name "column_name list"
  | DropIndex string table_name
  | AddColumn table_name column_name column
  | DropColumn table_name column_name
  | EnableRls table_name
  | DisableRls table_name
  | ForceRls table_name
  | NoForceRls table_name
  | CreatePolicy string table_name policy
  | DropPolicy string table_name
  | AddForeignKey table_name string foreign_key
  | AddCheck table_name string column_name check
  | DropConstraint table_name string
  | SetDefault table_name column_name int
  | DropDefault table_name column_name
  | AlterType table_name column_name sql_type
  | RevokeAllOn table_name
  | CreateFunction string
  | DropFunction string

definition on_table :: "table_name \<Rightarrow> (table_def \<Rightarrow> table_def option) \<Rightarrow> schema \<Rightarrow> schema option" where
  "on_table t f s =
     Option.bind (find_by t (sc_tables s)) (\<lambda>td.
     map_option (\<lambda>td'. s\<lparr>sc_tables := put t td' (sc_tables s)\<rparr>) (f td))"

definition has_column :: "column_name \<Rightarrow> table_def \<Rightarrow> bool" where
  "has_column c td \<longleftrightarrow> find_by c (td_columns td) \<noteq> None"

definition new_table ::
    "(column_name \<times> column \<times> check option) list \<Rightarrow> column_name list \<Rightarrow> (string \<times> foreign_key) list
       \<Rightarrow> table_def" where
  "new_table cols pk fks =
     \<lparr>td_columns = map (\<lambda>(n, c, _). (n, c)) cols, td_primary_key = pk,
      td_checks = List.map_filter (\<lambda>(n, _, ck). map_option (\<lambda>k. ([], n, k)) ck) cols,
      td_foreign_keys = fks, td_indexes = [], td_rls = False, td_forced = False, td_policies = [],
      td_public_revoked = False\<rparr>"

definition on_column :: "column_name \<Rightarrow> (column \<Rightarrow> column) \<Rightarrow> table_def \<Rightarrow> table_def option" where
  "on_column c f td =
     map_option (\<lambda>col. td\<lparr>td_columns := put c (f col) (td_columns td)\<rparr>) (find_by c (td_columns td))"

text \<open>
  Whether something of a table rests on one of its columns, and whether a foreign key of another
  table refers to a table. The target of a foreign key is a column of a table, or Supabase's.
\<close>

definition column_in_use :: "column_name \<Rightarrow> table_def \<Rightarrow> bool" where
  "column_in_use c td \<longleftrightarrow> List.member (td_primary_key td) c
     \<or> list_ex (\<lambda>(_, c', _). c' = c) (td_checks td)
     \<or> list_ex (\<lambda>(_, fk). fk_column fk = c) (td_foreign_keys td)
     \<or> list_ex (\<lambda>(_, cols). List.member cols c) (td_indexes td)
     \<or> list_ex (\<lambda>(_, p). p = OwnerIsUser c) (td_policies td)"

definition referenced :: "table_name \<Rightarrow> schema \<Rightarrow> bool" where
  "referenced t s \<longleftrightarrow>
     list_ex (\<lambda>(t', td). t' \<noteq> t \<and> list_ex (\<lambda>(_, fk). fst (fk_target fk) = t) (td_foreign_keys td)) (sc_tables s)"

definition target_exists :: "foreign_key \<Rightarrow> schema \<Rightarrow> bool" where
  "target_exists fk s \<longleftrightarrow>
     (case fk_target fk of (t, c) \<Rightarrow>
        (t = AuthUsers \<and> c = RowId)
        \<or> (case find_by t (sc_tables s) of None \<Rightarrow> False | Some td \<Rightarrow> has_column c td))"

text \<open>
  \<open>None\<close> is an error of the database: a missing object, one that exists already where the
  statement does not say \<open>IF [NOT] EXISTS\<close>, a table that another one refers to, or a column that
  is in use. (PostgreSQL would drop the indexes and constraints of such a column with it; that no
  migration relies on this is part of what is shown.)
\<close>

fun exec_stmt :: "stmt \<Rightarrow> schema \<Rightarrow> schema option" where
  "exec_stmt (CreateTable t cols pk fks) s =
     (if find_by t (sc_tables s) \<noteq> None then Some s
      else if \<not> list_all (\<lambda>(_, fk). target_exists fk s) fks then None
      else Some (s\<lparr>sc_tables := sc_tables s @ [(t, new_table cols pk fks)]\<rparr>))"
| "exec_stmt (DropTable t) s =
     (if referenced t s then None else Some (s\<lparr>sc_tables := drop_key t (sc_tables s)\<rparr>))"
| "exec_stmt (CreateIndex i t cols) s = on_table t (\<lambda>td.
     if find_by i (td_indexes td) \<noteq> None \<or> \<not> list_all (\<lambda>c. has_column c td) cols then None
     else Some (td\<lparr>td_indexes := td_indexes td @ [(i, cols)]\<rparr>)) s"
| "exec_stmt (DropIndex i t) s = on_table t (\<lambda>td.
     if find_by i (td_indexes td) = None then None
     else Some (td\<lparr>td_indexes := drop_key i (td_indexes td)\<rparr>)) s"
| "exec_stmt (AddColumn t c col) s = on_table t (\<lambda>td.
     if has_column c td then None else Some (td\<lparr>td_columns := td_columns td @ [(c, col)]\<rparr>)) s"
| "exec_stmt (DropColumn t c) s = on_table t (\<lambda>td.
     if \<not> has_column c td \<or> column_in_use c td then None
     else Some (td\<lparr>td_columns := drop_key c (td_columns td)\<rparr>)) s"
| "exec_stmt (EnableRls t) s = on_table t (\<lambda>td. Some (td\<lparr>td_rls := True\<rparr>)) s"
| "exec_stmt (DisableRls t) s = on_table t (\<lambda>td. Some (td\<lparr>td_rls := False\<rparr>)) s"
| "exec_stmt (ForceRls t) s = on_table t (\<lambda>td. Some (td\<lparr>td_forced := True\<rparr>)) s"
| "exec_stmt (NoForceRls t) s = on_table t (\<lambda>td. Some (td\<lparr>td_forced := False\<rparr>)) s"
| "exec_stmt (CreatePolicy p t pol) s = on_table t (\<lambda>td.
     if find_by p (td_policies td) \<noteq> None then None
     else Some (td\<lparr>td_policies := td_policies td @ [(p, pol)]\<rparr>)) s"
| "exec_stmt (DropPolicy p t) s = on_table t (\<lambda>td. Some (td\<lparr>td_policies := drop_key p (td_policies td)\<rparr>)) s"
| "exec_stmt (AddForeignKey t k fk) s = on_table t (\<lambda>td.
     if find_by k (td_foreign_keys td) \<noteq> None \<or> \<not> has_column (fk_column fk) td
       \<or> \<not> target_exists fk s then None
     else Some (td\<lparr>td_foreign_keys := td_foreign_keys td @ [(k, fk)]\<rparr>)) s"
| "exec_stmt (AddCheck t k c ck) s = on_table t (\<lambda>td.
     if find_by k (td_checks td) \<noteq> None \<or> \<not> has_column c td then None
     else Some (td\<lparr>td_checks := td_checks td @ [(k, c, ck)]\<rparr>)) s"
| "exec_stmt (DropConstraint t k) s = on_table t (\<lambda>td.
     if find_by k (td_checks td) = None then None
     else Some (td\<lparr>td_checks := drop_key k (td_checks td)\<rparr>)) s"
| "exec_stmt (SetDefault t c v) s = on_table t (on_column c (\<lambda>col. col\<lparr>co_default := Some v\<rparr>)) s"
| "exec_stmt (DropDefault t c) s = on_table t (on_column c (\<lambda>col. col\<lparr>co_default := None\<rparr>)) s"
| "exec_stmt (AlterType t c ty) s = on_table t (on_column c (\<lambda>col. col\<lparr>co_type := ty\<rparr>)) s"
| "exec_stmt (RevokeAllOn t) s = on_table t (\<lambda>td. Some (td\<lparr>td_public_revoked := True\<rparr>)) s"
| "exec_stmt (CreateFunction f) s =
     (if f \<in> set (sc_functions s) then None else Some (s\<lparr>sc_functions := sc_functions s @ [f]\<rparr>))"
| "exec_stmt (DropFunction f) s = Some (s\<lparr>sc_functions := filter (\<lambda>g. g \<noteq> f) (sc_functions s)\<rparr>)"

fun exec_all :: "stmt list \<Rightarrow> schema \<Rightarrow> schema option" where
  "exec_all [] s = Some s"
| "exec_all (st # rest) s = Option.bind (exec_stmt st s) (exec_all rest)"

section \<open>Migrations\<close>

text \<open>What a migration asks of its connection: the backend and the version text.\<close>

record server =
  sv_backend :: backend
  sv_version :: string

definition is_cockroachdb :: "server \<Rightarrow> bool" where
  "is_cockroachdb sv \<longleftrightarrow> sv_backend sv = Postgres
     \<and> contains (to_ascii_lowercase (sv_version sv)) ''cockroachdb''"

datatype flavour = PostgresDb | CockroachDb | SqliteDb

definition flavour_of :: "server \<Rightarrow> flavour" where
  "flavour_of sv =
     (if is_cockroachdb sv then CockroachDb
      else if sv_backend sv = Postgres then PostgresDb else SqliteDb)"

definition on_postgres :: "flavour \<Rightarrow> bool" where
  "on_postgres fl \<longleftrightarrow> fl \<noteq> SqliteDb"

abbreviation required_col :: "sql_type \<Rightarrow> column \<times> check option" where
  "required_col ty \<equiv> (\<lparr>co_type = ty, co_not_null = True, co_default = None\<rparr>, None)"

abbreviation nullable_col :: "sql_type \<Rightarrow> column \<times> check option" where
  "nullable_col ty \<equiv> (\<lparr>co_type = ty, co_not_null = False, co_default = None\<rparr>, None)"

abbreviation checked_col :: "sql_type \<Rightarrow> string list \<Rightarrow> column \<times> check option" where
  "checked_col ty values \<equiv> (\<lparr>co_type = ty, co_not_null = True, co_default = None\<rparr>, Some (IsIn values))"

definition protect :: "table_name \<Rightarrow> stmt list" where
  "protect t = [EnableRls t, ForceRls t]"

definition auth_user_fk :: "table_name \<Rightarrow> string \<Rightarrow> column_name \<Rightarrow> on_delete \<Rightarrow> stmt" where
  "auth_user_fk t k c del =
     AddForeignKey t k \<lparr>fk_column = c, fk_target = (AuthUsers, RowId), fk_on_delete = del\<rparr>"

definition user_profile_table :: stmt where
  "user_profile_table = CreateTable UserProfile
     [(UserId, required_col UuidT), (Email, required_col VarcharT),
      (DisplayName, nullable_col VarcharT), (CreatedAt, required_col TimestampTzT),
      (UpdatedAt, required_col TimestampTzT)] [UserId] []"

definition web_session_table :: stmt where
  "web_session_table = CreateTable WebSession
     [(IdHash, required_col VarcharT), (UserId, required_col UuidT),
      (Email, required_col VarcharT), (SupabaseSessionId, nullable_col UuidT),
      (EncryptedAccessToken, required_col TextT), (EncryptedRefreshToken, required_col TextT),
      (AccessExpiresAt, required_col TimestampTzT), (CsrfToken, required_col VarcharT),
      (CreatedAt, required_col TimestampTzT), (UpdatedAt, required_col TimestampTzT),
      (ExpiresAt, required_col TimestampTzT), (RevokedAt, nullable_col TimestampTzT)]
     [IdHash] []"

definition sync_record_table :: stmt where
  "sync_record_table = CreateTable SyncRecord
     [(OwnerId, required_col UuidT), (Collection, required_col VarcharT),
      (RecordId, required_col UuidT), (Version, required_col BigIntegerT),
      (Payload, required_col JsonBinaryT), (DeletedAt, nullable_col TimestampTzT),
      (UpdatedAt, required_col TimestampTzT)] [OwnerId, Collection, RecordId] []"

definition sync_clock_table :: stmt where
  "sync_clock_table = CreateTable SyncClock
     [(OwnerId, required_col UuidT), (Cursor, required_col BigIntegerT)] [OwnerId] []"

definition sync_change_table :: stmt where
  "sync_change_table = CreateTable SyncChange
     [(OwnerId, required_col UuidT), (Cursor, required_col BigIntegerT),
      (Collection, required_col VarcharT), (RecordId, required_col UuidT),
      (Version, required_col BigIntegerT), (Operation, required_col VarcharT),
      (Payload, required_col JsonBinaryT), (ChangedAt, required_col TimestampTzT)]
     [OwnerId, Cursor] []"

definition sync_receipt_table :: stmt where
  "sync_receipt_table = CreateTable SyncReceipt
     [(OwnerId, required_col UuidT), (ClientId, required_col UuidT),
      (MutationId, required_col UuidT), (RequestHash, required_col VarcharT),
      (Result, required_col JsonBinaryT), (CreatedAt, required_col TimestampTzT)]
     [OwnerId, ClientId, MutationId] []"

definition initial_up :: "flavour \<Rightarrow> stmt list" where
  "initial_up fl =
     [user_profile_table, web_session_table,
      CreateIndex ''web_session_user_id_idx'' WebSession [UserId],
      sync_record_table, sync_clock_table, sync_change_table,
      CreateIndex ''sync_change_owner_cursor_idx'' SyncChange [OwnerId, Cursor],
      sync_receipt_table] @
     (if on_postgres fl then
        concat (map protect [UserProfile, SyncRecord, SyncClock, SyncChange, SyncReceipt]) @
        [auth_user_fk UserProfile ''user_profile_auth_user_fk'' UserId Cascade,
         CreatePolicy ''user_profile_owner'' UserProfile (OwnerIsUser UserId),
         CreatePolicy ''sync_record_owner'' SyncRecord (OwnerIsUser OwnerId),
         CreatePolicy ''sync_clock_owner'' SyncClock (OwnerIsUser OwnerId),
         CreatePolicy ''sync_change_owner'' SyncChange (OwnerIsUser OwnerId),
         CreatePolicy ''sync_receipt_owner'' SyncReceipt (OwnerIsUser OwnerId),
         RevokeAllOn WebSession]
      else [])"

definition initial_down :: "stmt list" where
  "initial_down = map DropTable [SyncReceipt, SyncChange, SyncClock, SyncRecord,
     WebSession, UserProfile]"

definition audit_engagement_table :: stmt where
  "audit_engagement_table = CreateTable AuditEngagement
     [(RowId, required_col UuidT), (OwnerId, required_col UuidT), (Company, required_col VarcharT),
      (Framework, checked_col TextT
         [''soc2'', ''fedramp'', ''hipaa'', ''iso_27001'', ''pci_dss'', ''gdpr'']),
      (Status, checked_col TextT [''scoping'', ''remediation'', ''in_audit'', ''complete'']),
      (OpenedAt, required_col TimestampTzT), (TargetReportDate, nullable_col DateT),
      (UpdatedAt, required_col TimestampTzT)] [RowId] []"

definition engagement_note_table :: stmt where
  "engagement_note_table = CreateTable EngagementNote
     [(RowId, required_col UuidT), (EngagementId, required_col UuidT), (OwnerId, required_col UuidT),
      (Body, required_col VarcharT), (CreatedAt, required_col TimestampTzT)] [RowId]
     [(''engagement_note_engagement_fk'',
       \<lparr>fk_column = EngagementId, fk_target = (AuditEngagement, RowId), fk_on_delete = Cascade\<rparr>)]"

definition engagements_up :: "flavour \<Rightarrow> stmt list" where
  "engagements_up fl =
     [audit_engagement_table,
      CreateIndex ''audit_engagement_owner_idx'' AuditEngagement [OwnerId],
      CreateIndex ''audit_engagement_owner_status_idx'' AuditEngagement [OwnerId, Status],
      engagement_note_table,
      CreateIndex ''engagement_note_engagement_created_idx'' EngagementNote [EngagementId, CreatedAt],
      CreateIndex ''engagement_note_owner_idx'' EngagementNote [OwnerId]] @
     (if on_postgres fl then
        concat (map protect [AuditEngagement, EngagementNote]) @
        [auth_user_fk AuditEngagement ''audit_engagement_auth_user_fk'' OwnerId Cascade,
         auth_user_fk EngagementNote ''engagement_note_auth_user_fk'' OwnerId Cascade,
         CreatePolicy ''audit_engagement_owner'' AuditEngagement (OwnerIsUser OwnerId),
         CreatePolicy ''engagement_note_owner'' EngagementNote (OwnerIsUser OwnerId)]
      else [])"

definition engagements_down :: "stmt list" where
  "engagements_down = map DropTable [EngagementNote, AuditEngagement]"

definition harden_sessions_up :: "stmt list" where
  "harden_sessions_up =
     [AddColumn WebSession RevocationPendingAt (fst (nullable_col TimestampTzT)),
      AddColumn WebSession RevocationNextAttemptAt (fst (nullable_col TimestampTzT)),
      AddColumn WebSession RevocationAttempts
        \<lparr>co_type = IntegerT, co_not_null = True, co_default = Some 0\<rparr>,
      AddColumn WebSession UpstreamRevokedAt (fst (nullable_col TimestampTzT)),
      CreateIndex ''web_session_revocation_retry_idx'' WebSession [RevocationNextAttemptAt]]"

definition harden_sessions_down :: "stmt list" where
  "harden_sessions_down =
     DropIndex ''web_session_revocation_retry_idx'' WebSession
     # map (DropColumn WebSession)
         [UpstreamRevokedAt, RevocationAttempts, RevocationNextAttemptAt, RevocationPendingAt]"

definition ADMIN_ROLES :: "string list" where
  "ADMIN_ROLES = [''support'', ''user_admin'', ''compliance_admin'', ''security_admin'']"

definition CAPABILITIES :: "string list" where
  "CAPABILITIES = [''user.read'', ''user.invite'', ''user.disable'', ''engagement.read'',
     ''engagement.write'', ''role.manage'', ''audit.read'', ''audit.write'']"

definition OUTCOMES :: "string list" where
  "OUTCOMES = [''succeeded'', ''denied'', ''failed'']"

definition admin_role_table :: stmt where
  "admin_role_table = CreateTable AdminRoleAssignment
     [(UserId, required_col UuidT), (Role, checked_col TextT ADMIN_ROLES),
      (GrantedBy, required_col UuidT), (GrantedAt, required_col TimestampTzT),
      (RevokedAt, nullable_col TimestampTzT)] [UserId, Role] []"

definition admin_audit_table :: stmt where
  "admin_audit_table = CreateTable AdminAuditEvent
     [(RowId, required_col UuidT), (ActorId, required_col UuidT),
      (Capability, checked_col TextT CAPABILITIES), (TargetType, required_col VarcharT),
      (TargetId, nullable_col VarcharT), (RequestId, required_col UuidT),
      (OccurredAt, required_col TimestampTzT), (Outcome, checked_col TextT OUTCOMES),
      (Metadata, required_col JsonBinaryT)] [RowId] []"

definition admin_up :: "flavour \<Rightarrow> stmt list" where
  "admin_up fl =
     [admin_role_table,
      CreateIndex ''admin_role_assignment_active_idx'' AdminRoleAssignment [UserId, RevokedAt],
      admin_audit_table,
      CreateIndex ''admin_audit_event_actor_occurred_idx'' AdminAuditEvent [ActorId, OccurredAt],
      CreateIndex ''admin_audit_event_request_idx'' AdminAuditEvent [RequestId]] @
     (if on_postgres fl then
        concat (map protect [AdminRoleAssignment, AdminAuditEvent]) @
        [auth_user_fk AdminRoleAssignment ''admin_role_assignment_user_fk'' UserId Cascade,
         auth_user_fk AdminRoleAssignment ''admin_role_assignment_granted_by_fk'' GrantedBy Restrict,
         auth_user_fk AdminAuditEvent ''admin_audit_event_actor_fk'' ActorId Restrict,
         RevokeAllOn AdminRoleAssignment, RevokeAllOn AdminAuditEvent] @
        (if fl = CockroachDb then []
         else [CreateFunction ''canonical_admin_has_capability'', CreateFunction ''canonical_admin_append_audit''])
      else [])"

definition admin_down :: "flavour \<Rightarrow> stmt list" where
  "admin_down fl =
     (if on_postgres fl \<and> fl \<noteq> CockroachDb
      then [DropFunction ''canonical_admin_append_audit'', DropFunction ''canonical_admin_has_capability'']
      else []) @
     [DropTable AdminAuditEvent, DropTable AdminRoleAssignment]"

definition revocation_identity_up :: "flavour \<Rightarrow> stmt list" where
  "revocation_identity_up fl =
     [AddColumn WebSession RevocationAbandonedAt (fst (nullable_col TimestampTzT)),
      AddColumn WebSession RevocationFailureKind (fst (nullable_col VarcharT)),
      CreateIndex ''web_session_supabase_revocation_idx'' WebSession [SupabaseSessionId, RevokedAt]] @
     (if on_postgres fl then
        protect WebSession @ [CreatePolicy ''web_session_process_boundary'' WebSession ProcessBoundary]
      else [])"

definition revocation_identity_down :: "flavour \<Rightarrow> stmt list" where
  "revocation_identity_down fl =
     (if on_postgres fl then
        [DropPolicy ''web_session_process_boundary'' WebSession, NoForceRls WebSession,
         DisableRls WebSession]
      else []) @
     [DropIndex ''web_session_supabase_revocation_idx'' WebSession,
      DropColumn WebSession RevocationFailureKind, DropColumn WebSession RevocationAbandonedAt]"

definition refresh_lease_up :: "stmt list" where
  "refresh_lease_up =
     [AddColumn WebSession RefreshLeaseId (fst (nullable_col UuidT)),
      AddColumn WebSession RefreshLeaseExpiresAt (fst (nullable_col TimestampTzT))]"

definition refresh_lease_down :: "stmt list" where
  "refresh_lease_down =
     [DropColumn WebSession RefreshLeaseExpiresAt, DropColumn WebSession RefreshLeaseId]"

definition sync_invariants_up :: "flavour \<Rightarrow> stmt list" where
  "sync_invariants_up fl =
     (if \<not> on_postgres fl then []
      else
        (if fl = CockroachDb then [] else [AlterType SyncChange Operation TextT]) @
        [SetDefault SyncClock Cursor 0,
         AddCheck SyncClock ''sync_clock_cursor_check'' Cursor NonNegative,
         AddCheck SyncRecord ''sync_record_version_check'' Version Positive,
         AddCheck SyncChange ''sync_change_cursor_check'' Cursor Positive,
         AddCheck SyncChange ''sync_change_version_check'' Version Positive,
         AddCheck SyncChange ''sync_change_operation_check'' Operation (IsIn [''put'', ''delete''])])"

definition sync_invariants_down :: "flavour \<Rightarrow> stmt list" where
  "sync_invariants_down fl =
     (if \<not> on_postgres fl then []
      else
        [DropConstraint SyncChange ''sync_change_operation_check'',
         DropConstraint SyncChange ''sync_change_version_check'',
         DropConstraint SyncChange ''sync_change_cursor_check'',
         DropConstraint SyncRecord ''sync_record_version_check'',
         DropConstraint SyncClock ''sync_clock_cursor_check'',
         DropDefault SyncClock Cursor] @
        (if fl = CockroachDb then [] else [AlterType SyncChange Operation VarcharT]))"

text \<open>The migrations in the order of the migrator, as pairs of up and down.\<close>

definition migrations :: "flavour \<Rightarrow> (stmt list \<times> stmt list) list" where
  "migrations fl =
     [(initial_up fl, initial_down), (engagements_up fl, engagements_down),
      (harden_sessions_up, harden_sessions_down), (admin_up fl, admin_down fl),
      (revocation_identity_up fl, revocation_identity_down fl), (refresh_lease_up, refresh_lease_down),
      (sync_invariants_up fl, sync_invariants_down fl)]"

text \<open>
  The names under which they are recorded; the first is derived from the name of its module, which
  is why the others have names of their own.
\<close>

definition migration_names :: "string \<Rightarrow> string list" where
  "migration_names module_name =
     [module_name, ''m20260713_000001_add_engagements'', ''m20260718_000002_harden_sessions'',
      ''m20260718_000003_add_admin_boundary'', ''m20260718_000004_harden_session_revocation_identity'',
      ''m20260718_000005_add_session_refresh_lease'', ''m20260718_000006_harden_sync_invariants'']"

lemma migration_names_distinct:
  "length (migration_names module_name) = length (migrations fl)"
  "distinct (migration_names ''migration'')"
  by (simp_all add: migration_names_def migrations_def)

text \<open>\<open>up\<close> of the first \<open>n\<close>, and \<open>down\<close> of the last \<open>n\<close>, latest first.\<close>

definition migrate_up :: "flavour \<Rightarrow> nat \<Rightarrow> schema \<Rightarrow> schema option" where
  "migrate_up fl n s = exec_all (concat (map fst (take n (migrations fl)))) s"

definition migrate_down :: "flavour \<Rightarrow> nat \<Rightarrow> schema \<Rightarrow> schema option" where
  "migrate_down fl n s = exec_all (concat (map snd (take n (rev (migrations fl))))) s"

definition current_schema :: "flavour \<Rightarrow> schema option" where
  "current_schema fl = migrate_up fl 7 empty_schema"

section \<open>Properties\<close>

definition undoes :: "flavour \<Rightarrow> nat \<Rightarrow> bool" where
  "undoes fl k \<longleftrightarrow>
     (case migrate_up fl (Suc k) empty_schema of
        None \<Rightarrow> False
      | Some s \<Rightarrow> exec_all (snd (migrations fl ! k)) s = migrate_up fl k empty_schema)"

lemma undoes_postgres:
  "undoes PostgresDb 0" "undoes PostgresDb 1" "undoes PostgresDb 2" "undoes PostgresDb 3"
  "undoes PostgresDb 4" "undoes PostgresDb 5" "undoes PostgresDb 6"
  by code_simp+

lemma undoes_cockroach:
  "undoes CockroachDb 0" "undoes CockroachDb 1" "undoes CockroachDb 2" "undoes CockroachDb 3"
  "undoes CockroachDb 4" "undoes CockroachDb 5" "undoes CockroachDb 6"
  by code_simp+

lemma undoes_sqlite:
  "undoes SqliteDb 0" "undoes SqliteDb 1" "undoes SqliteDb 2" "undoes SqliteDb 3"
  "undoes SqliteDb 4" "undoes SqliteDb 5" "undoes SqliteDb 6"
  by code_simp+

lemmas undoes_all = undoes_postgres undoes_cockroach undoes_sqlite

text \<open>
  C25
  The migrations run and can be undone: on an empty database of PostgreSQL, CockroachDB or SQLite
  every statement of every migration succeeds in the order of the migrator, and after each of them
  its down migration succeeds too and gives back exactly the catalogue from before, with all
  columns, keys, checks, indexes, defaults, policies, protections and functions.
\<close>

theorem migrations_are_reversible:
  "list_all (\<lambda>k. case migrate_up fl (Suc k) empty_schema of
       None \<Rightarrow> False
     | Some s \<Rightarrow> exec_all (snd (migrations fl ! k)) s = migrate_up fl k empty_schema) [0, 1, 2, 3, 4, 5, 6]"
proof -
  have "list_all (undoes fl) [0, 1, 2, 3, 4, 5, 6]"
    using undoes_all by (cases fl) simp_all
  then show ?thesis by (simp add: undoes_def)
qed

section \<open>What the finished schema protects\<close>

definition owner_column :: "table_name \<Rightarrow> column_name option" where
  "owner_column t =
     (if t = UserProfile then Some UserId
      else if t \<in> {SyncRecord, SyncClock, SyncChange, SyncReceipt, AuditEngagement, EngagementNote}
      then Some OwnerId else None)"

definition expected_policies :: "table_name \<Rightarrow> policy list" where
  "expected_policies t =
     (case owner_column t of
        Some c \<Rightarrow> [OwnerIsUser c]
      | None \<Rightarrow> if t = WebSession then [ProcessBoundary] else [])"

definition protected_table :: "table_name \<times> table_def \<Rightarrow> bool" where
  "protected_table = (\<lambda>(t, td). td_rls td \<and> td_forced td \<and> map snd (td_policies td) = expected_policies t
     \<and> (case owner_column t of
          None \<Rightarrow> True
        | Some c \<Rightarrow> find_by c (td_columns td)
            = Some \<lparr>co_type = UuidT, co_not_null = True, co_default = None\<rparr>))"

definition all_tables :: "table_name list" where
  "all_tables = [UserProfile, WebSession, SyncRecord, SyncClock, SyncChange, SyncReceipt,
     AuditEngagement, EngagementNote, AdminRoleAssignment, AdminAuditEvent]"

definition schema_protected :: "schema option \<Rightarrow> bool" where
  "schema_protected so \<longleftrightarrow>
     (case so of None \<Rightarrow> False
      | Some s \<Rightarrow> map fst (sc_tables s) = all_tables \<and> list_all protected_table (sc_tables s))"

lemma protected_flavours:
  "schema_protected (current_schema PostgresDb)" "schema_protected (current_schema CockroachDb)"
  by code_simp+

lemma schema_protected:
  "on_postgres fl \<Longrightarrow> schema_protected (current_schema fl)"
  using protected_flavours by (cases fl) (simp_all add: on_postgres_def)

definition check_of :: "table_name \<Rightarrow> column_name \<Rightarrow> schema \<Rightarrow> check list" where
  "check_of t c s =
     (case find_by t (sc_tables s) of
        None \<Rightarrow> []
      | Some td \<Rightarrow> List.map_filter (\<lambda>(_, c', k). if c' = c then Some k else None) (td_checks td))"

definition engagement_checks :: "schema option \<Rightarrow> bool" where
  "engagement_checks so \<longleftrightarrow>
     (case so of None \<Rightarrow> False
      | Some s \<Rightarrow> check_of AuditEngagement Framework s = [IsIn FRAMEWORKS]
          \<and> check_of AuditEngagement Status s = [IsIn STATUSES])"

lemma engagement_checks_flavours: "engagement_checks (current_schema fl)"
proof -
  have "engagement_checks (current_schema PostgresDb)" "engagement_checks (current_schema CockroachDb)"
    "engagement_checks (current_schema SqliteDb)"
    by code_simp+
  then show ?thesis by (cases fl) simp_all
qed

text \<open>
  The handlers and the schema agree: on every backend the finished schema checks the framework and
  the status of an engagement against exactly the values that the handlers of the engagement pages
  accept, so no row that a handler writes violates a check, and on PostgreSQL every table of the
  application has row security enabled and forced, the owner policy over a \<open>NOT NULL\<close> owner column
  for customer tables, the process boundary for sessions, and no policy at all for the two
  administrative tables.
\<close>

theorem finished_schema:
  "(case current_schema fl of
      None \<Rightarrow> False
    | Some s \<Rightarrow>
        check_of AuditEngagement Framework s = [IsIn FRAMEWORKS]
        \<and> check_of AuditEngagement Status s = [IsIn STATUSES]
        \<and> (if on_postgres fl
           then map fst (sc_tables s) = all_tables \<and> list_all protected_table (sc_tables s) else True))"
proof -
  have "engagement_checks (current_schema fl)"
    by (rule engagement_checks_flavours)
  moreover have "on_postgres fl \<Longrightarrow> schema_protected (current_schema fl)"
    by (rule schema_protected)
  ultimately show ?thesis
    by (auto simp: engagement_checks_def schema_protected_def split: option.splits)
qed

end
