(* ===== verification/Boundary.thy ===== *)
theory Boundary
  imports Schema
begin

text \<open>
  What the row security of the finished schema lets each process do: the policies evaluated in the
  transactions of the store. \<open>auth.uid()\<close> is Supabase's; it is a parameter over the settings it
  reads.
\<close>

section \<open>Row security\<close>

type_synonym auth_uid = "(string \<Rightarrow> string option) \<Rightarrow> uuid option"

text \<open>
  \<open>auth.uid()\<close> is the subject of the transaction, and nobody when the subject is empty and the
  claims are an empty object.
\<close>

definition auth_uid_law :: "ext \<Rightarrow> auth_uid \<Rightarrow> bool" where
  "auth_uid_law x uid \<longleftrightarrow>
     (\<forall>get u. get ''request.jwt.claim.sub'' = Some (uuid_text x u) \<longrightarrow> uid get = Some u)
     \<and> (\<forall>get. get ''request.jwt.claim.sub'' = Some [] \<and> get ''request.jwt.claims'' = Some ''{}'' \<longrightarrow> uid get = None)"

text \<open>The part of a row that policies read: its identifiers, \<open>None\<close> for \<open>NULL\<close>.\<close>

type_synonym row_ids = "column_name \<Rightarrow> uuid option"

definition policy_allows :: "auth_uid \<Rightarrow> transaction \<Rightarrow> row_ids \<Rightarrow> policy \<Rightarrow> bool" where
  "policy_allows uid tx row p =
     (case p of
        OwnerIsUser c \<Rightarrow>
          (case (row c, uid (current_setting tx)) of (Some owner, Some user) \<Rightarrow> owner = user | _ \<Rightarrow> False)
      | ProcessBoundary \<Rightarrow>
          cn_current_user (tx_connection tx) = RUNTIME_SERVER_ROLE
          \<or> (cn_current_user (tx_connection tx) = SESSION_REVOKER_ROLE
             \<and> current_setting tx ''canonical.system_task'' = Some ''session_revocation''))"

text \<open>
  PostgreSQL's rule: superusers and roles that bypass row security see everything, so does the
  owner of a table whose security is not forced; otherwise some policy must allow the row. The
  policies of this schema have the same condition for reading and for writing. \<open>owner_oid\<close> is the
  owner of the table.
\<close>

definition row_allowed :: "auth_uid \<Rightarrow> transaction \<Rightarrow> table_def \<Rightarrow> nat \<Rightarrow> row_ids \<Rightarrow> bool" where
  "row_allowed uid tx td owner_oid row =
     (case current_role (tx_connection tx) of
        None \<Rightarrow> False
      | Some r \<Rightarrow>
          ro_superuser r \<or> ro_bypass_rls r \<or> \<not> td_rls td \<or> (owner_oid = ro_oid r \<and> \<not> td_forced td)
          \<or> list_ex (\<lambda>(_, p). policy_allows uid tx row p) (td_policies td))"

lemma verified_current_role:
  assumes "cn_backend cn = Postgres" "verify_isolated_database_role cn expected name = Inr ()"
  obtains r where "current_role cn = Some r" "cn_current_user cn = expected" "isolated_login cn r"
proof -
  have "verify_isolated_database_role cn expected name = Inr () \<longrightarrow>
      (\<exists>r. current_role cn = Some r \<and> cn_current_user cn = expected \<and> isolated_login cn r)"
    using assms(1)
    by (auto simp: verify_isolated_database_role_def try_then_Inr ok_or_Inr Let_def unsafe_properties_empty
          current_role_def find_Some_iff split: if_splits)
  with assms(2) that show thesis by blast
qed

lemma policies_decide:
  assumes "protected_table (t, td)" "current_role (tx_connection tx) = Some r" "isolated_login (tx_connection tx) r"
  shows "row_allowed uid tx td owner_oid row = list_ex (policy_allows uid tx row) (expected_policies t)"
proof -
  have "td_rls td" "td_forced td" "map snd (td_policies td) = expected_policies t"
    using assms(1) by (simp_all add: protected_table_def)
  moreover have "list_ex (\<lambda>(_, p). policy_allows uid tx row p) (td_policies td)
      = list_ex (policy_allows uid tx row) (map snd (td_policies td))"
    by (force simp: list_ex_iff)
  ultimately show ?thesis using assms(2,3) by (simp add: row_allowed_def isolated_login_def)
qed

lemma protected_in:
  "on_postgres fl \<Longrightarrow> current_schema fl = Some s \<Longrightarrow> (t, td) \<in> set (sc_tables s) \<Longrightarrow> protected_table (t, td)"
  using schema_protected [of fl] by (auto simp: schema_protected_def list_all_iff)

text \<open>What a transaction of a user is allowed on a table of the finished schema.\<close>

definition user_may :: "string \<Rightarrow> uuid option \<Rightarrow> table_name \<Rightarrow> row_ids \<Rightarrow> bool" where
  "user_may role user t row =
     (case owner_column t of
        Some c \<Rightarrow> user \<noteq> None \<and> row c = user
      | None \<Rightarrow> t = WebSession \<and> role = RUNTIME_SERVER_ROLE)"

lemma policies_of_user:
  assumes "uid (current_setting tx) = user" "cn_current_user (tx_connection tx) = role"
    and "role \<noteq> SESSION_REVOKER_ROLE"
  shows "list_ex (policy_allows uid tx row) (expected_policies t) = user_may role user t row"
  using assms
  by (cases user; cases "owner_column t")
     (auto simp: expected_policies_def user_may_def policy_allows_def split: option.splits)

lemma web_session_owner [simp]: "owner_column WebSession = None"
  by (simp add: owner_column_def)

lemma policies_of_revoker:
  assumes "uid (current_setting tx) = None" "cn_current_user (tx_connection tx) = SESSION_REVOKER_ROLE"
    and "current_setting tx ''canonical.system_task'' = Some ''session_revocation''"
  shows "list_ex (policy_allows uid tx row) (expected_policies t) = (t = WebSession)"
proof (cases "owner_column t")
  case (Some c)
  then have "t \<noteq> WebSession" by auto
  with Some assms(1) show ?thesis
    by (simp add: expected_policies_def policy_allows_def split: option.split)
next
  case None
  with assms(2,3) show ?thesis by (simp add: expected_policies_def policy_allows_def)
qed

lemma transaction_uid:
  assumes "auth_uid_law x uid" "cn_backend cn = Postgres"
  shows "uid (current_setting (begin_user_transaction x cn u)) = Some u"
    and "begin_shared_auth_transaction cn subject = Inr tx \<Longrightarrow> uid (current_setting tx) = None"
    and "begin_session_revocation_transaction cn = Inr tx \<Longrightarrow> uid (current_setting tx) = None
           \<and> current_setting tx ''canonical.system_task'' = Some ''session_revocation''"
    and "begin_admin_transaction x cn u level = Inr tx \<Longrightarrow> uid (current_setting tx) = Some u"
  using assms
  by (auto simp: auth_uid_law_def begin_user_transaction_def begin_shared_auth_transaction_def
        begin_session_revocation_transaction_def begin_admin_transaction_def begin_transaction_def
        current_setting_def try_then_Inr split: if_splits)

lemma revocation_verified:
  "begin_session_revocation_transaction cn = Inr tx
    \<Longrightarrow> verify_isolated_database_role cn SESSION_REVOKER_ROLE ''session revoker'' = Inr ()"
  by (cases "verify_isolated_database_role cn SESSION_REVOKER_ROLE ''session revoker''")
     (simp_all add: begin_session_revocation_transaction_def verify_session_revoker_database_role_def)

lemma admin_verified:
  assumes "begin_admin_transaction x cn user level = Inr tx"
  shows "level = Aal2" "verify_isolated_database_role cn ADMIN_SERVER_ROLE ''admin runtime'' = Inr ()"
  using assms
  by (cases level; cases "verify_isolated_database_role cn ADMIN_SERVER_ROLE ''admin runtime''";
      simp add: begin_admin_transaction_def verify_admin_database_role_def)+

lemma transaction_connection [simp]:
  "tx_connection (begin_user_transaction x cn u) = cn"
  "begin_shared_auth_transaction cn subject = Inr tx \<Longrightarrow> tx_connection tx = cn"
  "begin_session_revocation_transaction cn = Inr tx \<Longrightarrow> tx_connection tx = cn"
  "begin_admin_transaction x cn u level = Inr tx \<Longrightarrow> tx_connection tx = cn"
  by (auto simp: begin_user_transaction_def begin_shared_auth_transaction_def
        begin_session_revocation_transaction_def begin_admin_transaction_def begin_transaction_def
        try_then_Inr split: if_splits)

lemma role_names: "RUNTIME_SERVER_ROLE \<noteq> SESSION_REVOKER_ROLE" "ADMIN_SERVER_ROLE \<noteq> SESSION_REVOKER_ROLE"
    "ADMIN_SERVER_ROLE \<noteq> RUNTIME_SERVER_ROLE"
  by (simp_all add: RUNTIME_SERVER_ROLE_def SESSION_REVOKER_ROLE_def ADMIN_SERVER_ROLE_def)

section \<open>A concrete connection\<close>

text \<open>For the witnesses: an isolated login beside the owner of everything, and the identifier read back.\<close>

definition sample_connection :: "string \<Rightarrow> connection" where
  "sample_connection name =
     \<lparr>cn_backend = Postgres, cn_current_user = name, cn_session_user = name, cn_database = ''canonical'',
      cn_catalogue =
        \<lparr>ca_roles =
           [\<lparr>ro_oid = 1, ro_name = ''postgres'', ro_can_login = True, ro_superuser = True, ro_create_db = True,
             ro_create_role = True, ro_inherit = True, ro_replication = True, ro_bypass_rls = True\<rparr>,
            \<lparr>ro_oid = 10, ro_name = name, ro_can_login = True, ro_superuser = False, ro_create_db = False,
             ro_create_role = False, ro_inherit = False, ro_replication = False, ro_bypass_rls = False\<rparr>],
         ca_members = [(2, 1)], ca_databases = [(''canonical'', 1)], ca_schemas = [(''public'', 1)],
         ca_relations = [(''public'', 1)], ca_functions = [(''auth'', 1)]\<rparr>,
      cn_settings = (\<lambda>_. None)\<rparr>"

definition sample_uid :: "ext \<Rightarrow> auth_uid" where
  "sample_uid x get = Option.bind (get ''request.jwt.claim.sub'') (uuid_parse x)"

lemma sample_uid_law_of: "uuid_law x \<Longrightarrow> uuid_parse x [] = None \<Longrightarrow> auth_uid_law x (sample_uid x)"
  by (auto simp: auth_uid_law_def sample_uid_def uuid_law_def)

lemma empty_uuid: "uuid_parse (sample_ext j) [] = None"
  by (simp add: sample_ext_def parse_decimal_uuid_def parse_nat_def)

lemma sample_uid_law: "auth_uid_law (sample_ext j) (sample_uid (sample_ext j))"
  by (rule sample_uid_law_of [OF sample_ext_laws(2) empty_uuid])

lemma sample_connection_verified:
  "name \<noteq> ''postgres'' \<Longrightarrow> verify_isolated_database_role (sample_connection name) name process = Inr ()"
  by (simp add: sample_connection_def verify_isolated_database_role_def current_role_def Let_def
        unsafe_properties_def has_memberships_or_members_def owns_current_database_def owns_in_def)

lemma sample_backend: "cn_backend (sample_connection name) = Postgres"
  by (simp add: sample_connection_def)

lemma current_table:
  assumes "t \<in> set all_tables"
  obtains s td where "current_schema PostgresDb = Some s" "(t, td) \<in> set (sc_tables s)"
proof (cases "current_schema PostgresDb")
  case None
  with protected_flavours(1) show ?thesis by (simp add: schema_protected_def)
next
  case (Some s)
  with protected_flavours(1) have "map fst (sc_tables s) = all_tables" by (simp add: schema_protected_def)
  then have "t \<in> fst ` set (sc_tables s)" using assms by (metis list.set_map)
  then obtain td where "(t, td) \<in> set (sc_tables s)" by auto
  with Some that show ?thesis by blast
qed

lemma shared_auth_subject_ok:
  "s \<noteq> [] \<Longrightarrow> length s \<le> 512 \<Longrightarrow> trim s = s \<Longrightarrow> \<not> has_control s
    \<Longrightarrow> \<exists>tx. begin_shared_auth_transaction cn s = Inr tx"
  unfolding begin_shared_auth_transaction_def by simp

section \<open>Properties\<close>



text \<open>
  The revoker reaches sessions and nothing else: a revocation transaction begins on PostgreSQL only
  under the revoker's own isolated login, and is then allowed every row of the session table and no
  row of any other table; outside of such a transaction the same login is allowed no session row
  either, unless its connection itself was given the task name. An administrative transaction needs AAL2 and
  the administrator's isolated login, and reaches no session and no customer row but its own user's.
\<close>

theorem privileged_processes_are_confined:
  assumes "cn_backend cn = Postgres"
    and "on_postgres fl" "current_schema fl = Some s" "(t, td) \<in> set (sc_tables s)"
    and "auth_uid_law x uid"
  shows "(case begin_session_revocation_transaction cn of
        Inl _ \<Rightarrow> True
      | Inr tx \<Rightarrow> cn_current_user cn = SESSION_REVOKER_ROLE
          \<and> row_allowed uid tx td owner_oid row = (t = WebSession)
          \<and> (if cn_settings cn ''canonical.system_task'' = None \<and> t = WebSession
             then \<not> row_allowed uid (begin_transaction cn (\<lambda>_. None)) td owner_oid row else True))
    \<and> (case begin_admin_transaction x cn user level of
        Inl _ \<Rightarrow> True
      | Inr tx \<Rightarrow> level = Aal2 \<and> cn_current_user cn = ADMIN_SERVER_ROLE
          \<and> row_allowed uid tx td owner_oid row
            = (case owner_column t of Some c \<Rightarrow> row c = Some user | None \<Rightarrow> False))"
proof
  have p: "protected_table (t, td)" by (rule protected_in [OF assms(2-4)])
  show "case begin_session_revocation_transaction cn of
        Inl _ \<Rightarrow> True
      | Inr tx \<Rightarrow> cn_current_user cn = SESSION_REVOKER_ROLE
          \<and> row_allowed uid tx td owner_oid row = (t = WebSession)
          \<and> (if cn_settings cn ''canonical.system_task'' = None \<and> t = WebSession
             then \<not> row_allowed uid (begin_transaction cn (\<lambda>_. None)) td owner_oid row else True)"
  proof (cases "begin_session_revocation_transaction cn")
    case (Inr tx)
    then have "verify_isolated_database_role cn SESSION_REVOKER_ROLE ''session revoker'' = Inr ()"
      using revocation_verified by simp
    then obtain r where r: "current_role cn = Some r" "cn_current_user cn = SESSION_REVOKER_ROLE" "isolated_login cn r"
      using verified_current_role [OF assms(1)] by blast
    note u = transaction_uid(3) [OF assms(5,1) Inr] and c = transaction_connection(3) [OF Inr]
    have "row_allowed uid tx td owner_oid row = (t = WebSession)"
      using policies_decide [OF p, of tx r] r c
        policies_of_revoker [of uid tx, OF conjunct1 [OF u] _ conjunct2 [OF u]] by simp
    moreover have "\<not> row_allowed uid (begin_transaction cn (\<lambda>_. None)) td owner_oid row"
      if "cn_settings cn ''canonical.system_task'' = None" "t = WebSession"
      using policies_decide [OF p, of "begin_transaction cn (\<lambda>_. None)" r] r that role_names(1)
      by (simp add: expected_policies_def policy_allows_def begin_transaction_def current_setting_def)
    ultimately show ?thesis using Inr r(2) by simp
  qed simp
  show "case begin_admin_transaction x cn user level of
        Inl _ \<Rightarrow> True
      | Inr tx \<Rightarrow> level = Aal2 \<and> cn_current_user cn = ADMIN_SERVER_ROLE
          \<and> row_allowed uid tx td owner_oid row
            = (case owner_column t of Some c \<Rightarrow> row c = Some user | None \<Rightarrow> False)"
  proof (cases "begin_admin_transaction x cn user level")
    case (Inr tx)
    then have v: "level = Aal2" "verify_isolated_database_role cn ADMIN_SERVER_ROLE ''admin runtime'' = Inr ()"
      using admin_verified by simp_all
    obtain r where r: "current_role cn = Some r" "cn_current_user cn = ADMIN_SERVER_ROLE" "isolated_login cn r"
      using verified_current_role [OF assms(1) v(2)] by blast
    note u = transaction_uid(4) [OF assms(5,1) Inr] and c = transaction_connection(4) [OF Inr]
    have "row_allowed uid tx td owner_oid row = user_may ADMIN_SERVER_ROLE (Some user) t row"
      using policies_decide [OF p, of tx r] r c policies_of_user [of uid tx "Some user", OF u] role_names by simp
    then show ?thesis using Inr v(1) r(2) role_names by (auto simp: user_may_def split: option.split)
  qed simp
qed

text \<open>The administrator's own profile row is allowed, the profile of user 8 is not.\<close>

theorem privileged_processes_are_confined_witness:
  "\<exists>s td tx. current_schema PostgresDb = Some s \<and> (UserProfile, td) \<in> set (sc_tables s)
     \<and> begin_admin_transaction (sample_ext JNull) (sample_connection ADMIN_SERVER_ROLE) 7 Aal2 = Inr tx
     \<and> row_allowed (sample_uid (sample_ext JNull)) tx td 1 [UserId \<mapsto> 7]
     \<and> \<not> row_allowed (sample_uid (sample_ext JNull)) tx td 1 [UserId \<mapsto> 8]"
proof -
  obtain s td where st: "current_schema PostgresDb = Some s" "(UserProfile, td) \<in> set (sc_tables s)"
    using current_table [of UserProfile] by (auto simp: all_tables_def)
  have pg: "on_postgres PostgresDb" by (simp add: on_postgres_def)
  have "verify_admin_database_role (sample_connection ADMIN_SERVER_ROLE) = Inr ()"
    by (simp add: verify_admin_database_role_def sample_connection_verified ADMIN_SERVER_ROLE_def)
  then obtain tx where
    tx: "begin_admin_transaction (sample_ext JNull) (sample_connection ADMIN_SERVER_ROLE) 7 Aal2 = Inr tx"
    by (auto simp: begin_admin_transaction_def)
  have "owner_column UserProfile = Some UserId" by (simp add: owner_column_def)
  moreover have "case begin_admin_transaction (sample_ext JNull) (sample_connection ADMIN_SERVER_ROLE) 7 Aal2 of
        Inl _ \<Rightarrow> True
      | Inr tx \<Rightarrow> Aal2 = Aal2 \<and> cn_current_user (sample_connection ADMIN_SERVER_ROLE) = ADMIN_SERVER_ROLE
          \<and> row_allowed (sample_uid (sample_ext JNull)) tx td 1 row
            = (case owner_column UserProfile of Some c \<Rightarrow> row c = Some 7 | None \<Rightarrow> False)" for row
    using privileged_processes_are_confined [OF sample_backend pg st sample_uid_law] by (rule conjunct2)
  ultimately have
    "row_allowed (sample_uid (sample_ext JNull)) tx td 1 [UserId \<mapsto> 7]"
    "\<not> row_allowed (sample_uid (sample_ext JNull)) tx td 1 [UserId \<mapsto> 8]"
    using tx by simp_all
  with st tx show ?thesis by blast
qed

end
