(* ===== verification/Repair.thy ===== *)
theory Repair
  imports Sync Schema
begin

text \<open>
  The row repair of the migration \<open>HardenSyncInvariants\<close> in
  \<open>crates/canonical-store/src/migration.rs\<close>: what its \<open>UPDATE\<close> and \<open>INSERT\<close> statements make of the sync
  tables before the checks on cursors, versions and operations are added. The tables are those of
  the sync service.
\<close>

section \<open>Statements\<close>

definition nonnegative_clocks :: "sync_db \<Rightarrow> sync_db" where
  "nonnegative_clocks db = db\<lparr>clocks := map (\<lambda>(owner, c). (owner, if c < 0 then 0 else c)) (clocks db)\<rparr>"

definition positive_versions :: "sync_db \<Rightarrow> sync_db" where
  "positive_versions db = db\<lparr>
     records := map (\<lambda>(k, r). (k, if rr_version r \<le> 0 then r\<lparr>rr_version := 1\<rparr> else r)) (records db),
     changes := map (\<lambda>(k, r). (k, if ch_version r \<le> 0 then r\<lparr>ch_version := 1\<rparr> else r)) (changes db)\<rparr>"

text \<open>The operator \<open>->>\<close> of \<open>jsonb\<close>: the text of a member, without quotes for a string; \<open>NULL\<close> for JSON's.\<close>

definition member_text :: "ext \<Rightarrow> json \<Rightarrow> string \<Rightarrow> string option" where
  "member_text x j key =
     (case j of
        JObj fs \<Rightarrow>
          (case map_of (rev fs) key of
             None \<Rightarrow> None
           | Some JNull \<Rightarrow> None
           | Some (JStr s) \<Rightarrow> Some s
           | Some (JBool b) \<Rightarrow> Some (if b then ''true'' else ''false'')
           | Some v \<Rightarrow> Some (json_text x v))
      | _ \<Rightarrow> None)"

definition repaired_operation :: "ext \<Rightarrow> change_row \<Rightarrow> change_row" where
  "repaired_operation x r =
     (if ch_operation r \<in> {''put'', ''delete''} then r
      else r\<lparr>ch_operation :=
        if to_ascii_lowercase (or_else (member_text x (ch_payload r) ''deleted'') ''false'') = ''true''
        then ''delete'' else ''put''\<rparr>)"

definition known_operations :: "ext \<Rightarrow> sync_db \<Rightarrow> sync_db" where
  "known_operations x db = db\<lparr>changes := map (\<lambda>(k, r). (k, repaired_operation x r)) (changes db)\<rparr>"

type_synonym change_log = "(uuid \<times> int, change_row) store"

text \<open>
  \<open>positive_max\<close> with its \<open>COALESCE\<close>, and \<open>row_number()\<close> in the order of time, cursor and record, which
  is total because owner and cursor are the primary key.
\<close>

definition positive_max :: "uuid \<Rightarrow> change_log \<Rightarrow> int" where
  "positive_max owner chs =
     (let cs = map (snd \<circ> fst) (filter (\<lambda>((o', c), _). o' = owner \<and> 0 < c) chs)
      in if cs = [] then 0 else Max (set cs))"

definition earlier :: "int \<times> change_row \<Rightarrow> int \<times> change_row \<Rightarrow> bool" where
  "earlier a b \<longleftrightarrow>
     ch_changed_at (snd a) < ch_changed_at (snd b)
     \<or> (ch_changed_at (snd a) = ch_changed_at (snd b)
        \<and> (fst a < fst b \<or> (fst a = fst b \<and> ch_record_id (snd a) < ch_record_id (snd b))))"

definition row_number :: "uuid \<Rightarrow> int \<times> change_row \<Rightarrow> change_log \<Rightarrow> nat" where
  "row_number owner a chs =
     Suc (length (filter (\<lambda>((o', c), r). o' = owner \<and> c \<le> 0 \<and> earlier (c, r) a) chs))"

definition replacement_cursor :: "change_log \<Rightarrow> uuid \<Rightarrow> int \<Rightarrow> change_row \<Rightarrow> int" where
  "replacement_cursor chs owner c r =
     (if c \<le> 0 then positive_max owner chs + int (row_number owner (c, r) chs) else c)"

text \<open>A sum beyond \<open>bigint\<close> is an error of the statement.\<close>

definition positive_cursors :: "sync_db \<Rightarrow> sync_db option" where
  "positive_cursors db =
     (let chs = map (\<lambda>((owner, c), r). ((owner, replacement_cursor (changes db) owner c r), r)) (changes db)
      in if list_all (\<lambda>((_, c), _). c \<le> i64_max) chs then Some (db\<lparr>changes := chs\<rparr>) else None)"

text \<open>\<open>SELECT owner_id, max(cursor) ... GROUP BY owner_id\<close>, inserted or taken as a lower bound.\<close>

definition max_cursor :: "uuid \<Rightarrow> change_log \<Rightarrow> int" where
  "max_cursor owner chs = Max (set (map (snd \<circ> fst) (filter (\<lambda>((o', _), _). o' = owner) chs)))"

definition raise_clock :: "change_log \<Rightarrow> uuid \<Rightarrow> (uuid, int) store \<Rightarrow> (uuid, int) store" where
  "raise_clock chs owner cs =
     put owner (case find_by owner cs of None \<Rightarrow> max_cursor owner chs
                | Some c \<Rightarrow> max c (max_cursor owner chs)) cs"

definition raised_clocks :: "sync_db \<Rightarrow> sync_db" where
  "raised_clocks db =
     db\<lparr>clocks := fold (raise_clock (changes db)) (remdups (map (fst \<circ> fst) (changes db))) (clocks db)\<rparr>"

definition repair_sync :: "ext \<Rightarrow> sync_db \<Rightarrow> sync_db option" where
  "repair_sync x db =
     map_option raised_clocks (positive_cursors (known_operations x (positive_versions (nonnegative_clocks db))))"

section \<open>Order\<close>

lemma earlier_trans: "earlier a b \<Longrightarrow> earlier b c \<Longrightarrow> earlier a c"
  by (auto simp: earlier_def)

lemma earlier_irrefl [simp]: "\<not> earlier a a"
  by (simp add: earlier_def)

lemma earlier_total: "fst a \<noteq> fst b \<Longrightarrow> earlier a b \<or> earlier b a"
  by (auto simp: earlier_def)

lemma filter_fewer:
  assumes "\<And>y. y \<in> set xs \<Longrightarrow> P y \<Longrightarrow> Q y" "x \<in> set xs" "Q x" "\<not> P x"
  shows "length (filter P xs) < length (filter Q xs)"
proof -
  have "length (filter P xs) \<le> length (filter Q xs)" if "\<And>y. y \<in> set xs \<Longrightarrow> P y \<Longrightarrow> Q y" for xs
    using that by (induction xs) (auto simp: le_Suc_eq)
  note le = this
  from assms show ?thesis
  proof (induction xs)
    case (Cons y ys)
    show ?case
    proof (cases "x = y")
      case True
      with Cons.prems le [of ys] show ?thesis by (auto simp: less_Suc_eq_le)
    next
      case False
      with Cons.prems have "length (filter P ys) < length (filter Q ys)" by (intro Cons.IH) auto
      with Cons.prems(1) [of y] show ?thesis by auto
    qed
  qed simp
qed

lemma row_number_less:
  assumes "((owner, c), r) \<in> set chs" "c \<le> 0" "earlier (c, r) a"
  shows "row_number owner (c, r) chs < row_number owner a chs"
proof -
  have "length (filter (\<lambda>((o', c'), r'). o' = owner \<and> c' \<le> 0 \<and> earlier (c', r') (c, r)) chs)
      < length (filter (\<lambda>((o', c'), r'). o' = owner \<and> c' \<le> 0 \<and> earlier (c', r') a) chs)"
    by (rule filter_fewer [OF _ assms(1)]) (use assms(2,3) in \<open>auto intro: earlier_trans\<close>)
  then show ?thesis by (simp add: row_number_def)
qed

lemma positive_max_bound:
  "((owner, c), r) \<in> set chs \<Longrightarrow> 0 < c \<Longrightarrow> c \<le> positive_max owner chs"
proof -
  assume a: "((owner, c), r) \<in> set chs" "0 < c"
  let ?cs = "map (snd \<circ> fst) (filter (\<lambda>((o', c), _). o' = owner \<and> 0 < c) chs)"
  from a have c: "c \<in> set ?cs" by force
  then have "?cs \<noteq> []" by (metis empty_iff list.set(1))
  then have "positive_max owner chs = Max (set ?cs)" by (simp only: positive_max_def Let_def if_False)
  with c show ?thesis by (simp only: Max_ge finite_set)
qed

lemma positive_max_nonneg: "0 \<le> positive_max owner chs"
proof (cases "filter (\<lambda>((o', c), _). o' = owner \<and> 0 < c) chs")
  case Nil
  then show ?thesis by (simp add: positive_max_def)
next
  case (Cons e rest)
  obtain o' c r where e: "e = ((o', c), r)" by (metis prod.collapse)
  have "e \<in> set (filter (\<lambda>((o', c), _). o' = owner \<and> 0 < c) chs)" using Cons by simp
  then have "((owner, c), r) \<in> set chs" "0 < c" using e by auto
  from positive_max_bound [OF this] this(2) show ?thesis by simp
qed

text \<open>A repaired cursor is positive and above every valid one, and keeps the order of two rows.\<close>

lemma replacement_positive: "0 < replacement_cursor chs owner c r"
  using positive_max_nonneg [of owner chs] by (simp add: replacement_cursor_def row_number_def)

lemma replacement_mono:
  assumes "((owner, c), r) \<in> set chs" "c' \<le> 0" "0 < c \<or> earlier (c, r) (c', r')"
  shows "replacement_cursor chs owner c r < replacement_cursor chs owner c' r'"
proof (cases "0 < c")
  case True
  then show ?thesis
    using positive_max_bound [OF assms(1)] assms(2) by (simp add: replacement_cursor_def row_number_def)
next
  case False
  with assms have "row_number owner (c, r) chs < row_number owner (c', r') chs"
    by (intro row_number_less) auto
  with False assms(2) show ?thesis by (simp add: replacement_cursor_def)
qed

lemma replacement_injective:
  assumes "((owner, c), r) \<in> set chs" "((owner, c'), r') \<in> set chs"
    and "replacement_cursor chs owner c r = replacement_cursor chs owner c' r'"
  shows "c = c'"
proof (rule ccontr)
  assume "c \<noteq> c'"
  then have total: "earlier (c, r) (c', r') \<or> earlier (c', r') (c, r)" using earlier_total by simp
  show False
  proof (cases "0 < c \<and> 0 < c'")
    case True
    with assms(3) \<open>c \<noteq> c'\<close> show False by (simp add: replacement_cursor_def)
  next
    case False
    then show False
      using total assms replacement_mono [OF assms(1), of c' r'] replacement_mono [OF assms(2), of c r]
      by (cases "0 < c"; cases "0 < c'") auto
  qed
qed

section \<open>Clocks\<close>

lemma max_cursor_bound: "((owner, c), r) \<in> set chs \<Longrightarrow> c \<le> max_cursor owner chs"
proof -
  assume a: "((owner, c), r) \<in> set chs"
  then have "c \<in> set (map (snd \<circ> fst) (filter (\<lambda>((o', _), _). o' = owner) chs))" by force
  then show ?thesis by (auto simp: max_cursor_def intro!: Max_ge)
qed

lemma raise_clocks_keyed: "keyed cs \<Longrightarrow> keyed (fold (raise_clock chs) os cs)"
  by (induction os arbitrary: cs) (auto simp: raise_clock_def store.ok_ins)

text \<open>Every clock of the list of users is at least the largest cursor, and none goes back.\<close>

lemma raise_clocks_find:
  "distinct os \<Longrightarrow> find_by owner (fold (raise_clock chs) os cs) =
     (if owner \<in> set os
      then Some (case find_by owner cs of None \<Rightarrow> max_cursor owner chs | Some c \<Rightarrow> max c (max_cursor owner chs))
      else find_by owner cs)"
  by (induction os arbitrary: cs) (auto simp: raise_clock_def store.look_ins)

section \<open>The repaired tables\<close>

definition repaired_row :: "ext \<Rightarrow> change_row \<Rightarrow> change_row" where
  "repaired_row x r = repaired_operation x (if ch_version r \<le> 0 then r\<lparr>ch_version := 1\<rparr> else r)"

definition repaired_log :: "ext \<Rightarrow> sync_db \<Rightarrow> change_log" where
  "repaired_log x db = map (\<lambda>(k, r). (k, repaired_row x r)) (changes db)"

lemma repaired_row_simps [simp]:
  "ch_changed_at (repaired_row x r) = ch_changed_at r" "ch_record_id (repaired_row x r) = ch_record_id r"
  "ch_collection (repaired_row x r) = ch_collection r" "ch_payload (repaired_row x r) = ch_payload r"
  by (simp_all add: repaired_row_def repaired_operation_def)

lemma repaired_row_ok:
  "0 < ch_version (repaired_row x r)" "ch_operation (repaired_row x r) \<in> {''put'', ''delete''}"
  by (simp_all add: repaired_row_def repaired_operation_def)

lemma repaired_row_same:
  "0 < ch_version r \<Longrightarrow> ch_operation r \<in> {''put'', ''delete''} \<Longrightarrow> repaired_row x r = r"
  by (simp add: repaired_row_def repaired_operation_def)

lemma repair_sync_Some:
  assumes "repair_sync x db = Some db'"
  shows "changes db' = map (\<lambda>((owner, c), r). ((owner, replacement_cursor (repaired_log x db) owner c r), r))
           (repaired_log x db)"
    and "records db' = map (\<lambda>(k, r). (k, if rr_version r \<le> 0 then r\<lparr>rr_version := 1\<rparr> else r)) (records db)"
    and "clocks db' = fold (raise_clock (changes db')) (remdups (map (fst \<circ> fst) (changes db')))
           (map (\<lambda>(owner, c). (owner, if c < 0 then 0 else c)) (clocks db))"
proof -
  have log: "changes (known_operations x (positive_versions (nonnegative_clocks db))) = repaired_log x db"
    by (simp add: known_operations_def positive_versions_def nonnegative_clocks_def repaired_log_def
          repaired_row_def case_prod_unfold)
  obtain d where "positive_cursors (known_operations x (positive_versions (nonnegative_clocks db))) = Some d"
    "db' = raised_clocks d"
    using assms by (auto simp: repair_sync_def)
  then show "changes db' = map (\<lambda>((owner, c), r). ((owner, replacement_cursor (repaired_log x db) owner c r), r))
           (repaired_log x db)"
    and "records db' = map (\<lambda>(k, r). (k, if rr_version r \<le> 0 then r\<lparr>rr_version := 1\<rparr> else r)) (records db)"
    and "clocks db' = fold (raise_clock (changes db')) (remdups (map (fst \<circ> fst) (changes db')))
           (map (\<lambda>(owner, c). (owner, if c < 0 then 0 else c)) (clocks db))"
    by (auto simp: positive_cursors_def Let_def log raised_clocks_def split: if_splits)
       (auto simp: known_operations_def positive_versions_def nonnegative_clocks_def)
qed

lemma keyed_map_snd: "keyed (map (\<lambda>(k, v). (k, f k v)) s) = keyed s"
  by (simp add: keyed_def case_prod_unfold comp_def)

lemma find_by_map_snd: "find_by k (map (\<lambda>(k, v). (k, f k v)) s) = map_option (f k) (find_by k s)"
  by (induction s) (auto simp: find_by_def)

lemma repaired_log_keyed: "keyed (repaired_log x db) = keyed (changes db)"
  by (simp add: repaired_log_def keyed_map_snd)

lemma repaired_changes_keyed:
  assumes "repair_sync x db = Some db'" "keyed (changes db)"
  shows "keyed (changes db')"
proof -
  let ?l = "repaired_log x db"
  let ?f = "\<lambda>((owner, c), r). (owner, replacement_cursor ?l owner c r)"
  have "inj_on ?f (set ?l)"
  proof (rule inj_onI)
    fix a b
    assume ab: "a \<in> set ?l" "b \<in> set ?l" and eq: "?f a = ?f b"
    obtain owner c r c' r' where f: "a = ((owner, c), r)" "b = ((owner, c'), r')"
      using eq by (cases a; cases b) auto
    have "c = c'" using ab eq f replacement_injective [of owner c r ?l c' r'] by simp
    moreover have "keyed ?l" using assms(2) by (simp add: repaired_log_keyed)
    ultimately show "a = b"
      using ab f in_set_find_by [of ?l "(owner, c)" r] in_set_find_by [of ?l "(owner, c)" r'] by simp
  qed
  moreover have "keyed ?l" using assms(2) by (simp add: repaired_log_keyed)
  then have "distinct ?l" by (simp add: keyed_def distinct_map)
  ultimately show ?thesis
    by (simp add: repair_sync_Some(1) [OF assms(1)] keyed_def distinct_map comp_def case_prod_unfold)
qed

lemma repaired_entry:
  assumes "repair_sync x db = Some db'" "((owner, c'), r') \<in> set (changes db')"
  obtains c r where "((owner, c), r) \<in> set (changes db)" "r' = repaired_row x r"
    "((owner, c), r') \<in> set (repaired_log x db)" "c' = replacement_cursor (repaired_log x db) owner c r'"
proof -
  have "\<exists>c. ((owner, c), r') \<in> set (repaired_log x db) \<and> c' = replacement_cursor (repaired_log x db) owner c r'"
    using assms(2) by (auto simp: repair_sync_Some(1) [OF assms(1)])
  moreover have "\<exists>r. ((owner, c), r) \<in> set (changes db) \<and> r' = repaired_row x r"
    if "((owner, c), r') \<in> set (repaired_log x db)" for c
    using that by (auto simp: repaired_log_def)
  ultimately show thesis using that by blast
qed

text \<open>What a repaired entry keeps of the entry it was: all but an illegal version, operation or cursor.\<close>

definition same_change :: "(uuid \<times> int) \<times> change_row \<Rightarrow> (uuid \<times> int) \<times> change_row \<Rightarrow> bool" where
  "same_change a b \<longleftrightarrow>
     (case (a, b) of (((o1, c1), r1), ((o2, c2), r2)) \<Rightarrow>
        o2 = o1 \<and> ch_collection r2 = ch_collection r1 \<and> ch_record_id r2 = ch_record_id r1
        \<and> ch_payload r2 = ch_payload r1 \<and> ch_changed_at r2 = ch_changed_at r1
        \<and> (c2 = c1 \<or> c1 \<le> 0)
        \<and> (ch_version r2 = (if 0 < ch_version r1 then ch_version r1 else 1))
        \<and> (ch_operation r2 = ch_operation r1 \<or> ch_operation r1 \<notin> {''put'', ''delete''}))"

lemma repaired_same_changes:
  assumes "repair_sync x db = Some db'"
  shows "list_all2 same_change (changes db) (changes db')"
  by (auto simp: repair_sync_Some(1) [OF assms] repaired_log_def list_all2_conv_all_nth same_change_def
        replacement_cursor_def repaired_row_def repaired_operation_def split: prod.splits)

text \<open>The order of the entries of a user after the repair: valid cursors first, then the others by age.\<close>

definition before :: "(uuid \<times> int) \<times> change_row \<Rightarrow> (uuid \<times> int) \<times> change_row \<Rightarrow> bool" where
  "before a b \<longleftrightarrow>
     (case (a, b) of (((o1, c1), r1), ((o2, c2), r2)) \<Rightarrow>
        o1 = o2 \<and> (if 0 < c1 then c1 < c2 \<or> c2 \<le> 0 else c2 \<le> 0 \<and> earlier (c1, r1) (c2, r2)))"

lemma repaired_order:
  assumes "repair_sync x db = Some db'" "i < length (changes db)" "j < length (changes db)"
    and "before (changes db ! i) (changes db ! j)"
  shows "snd (fst (changes db' ! i)) < snd (fst (changes db' ! j))"
proof -
  obtain owner c1 r1 c2 r2 where e: "changes db ! i = ((owner, c1), r1)" "changes db ! j = ((owner, c2), r2)"
    using assms(4) by (cases "changes db ! i"; cases "changes db ! j") (auto simp: before_def)
  let ?l = "repaired_log x db"
  have l: "?l ! i = ((owner, c1), repaired_row x r1)" "?l ! j = ((owner, c2), repaired_row x r2)"
    "length ?l = length (changes db)"
    using assms(2,3) e by (simp_all add: repaired_log_def)
  have new: "snd (fst (changes db' ! i)) = replacement_cursor ?l owner c1 (repaired_row x r1)"
    "snd (fst (changes db' ! j)) = replacement_cursor ?l owner c2 (repaired_row x r2)"
    using l assms(2,3) by (simp_all add: repair_sync_Some(1) [OF assms(1)])
  have m: "((owner, c1), repaired_row x r1) \<in> set ?l"
    using l assms(2) nth_mem [of i ?l] by simp
  show ?thesis
  proof (cases "0 < c1 \<and> 0 < c2")
    case True
    then show ?thesis using assms(4) e new by (simp add: before_def replacement_cursor_def)
  next
    case False
    then have "c2 \<le> 0" "0 < c1 \<or> earlier (c1, repaired_row x r1) (c2, repaired_row x r2)"
      using assms(4) e by (auto simp: before_def earlier_def split: if_splits)
    then show ?thesis using new replacement_mono [OF m] by simp
  qed
qed

lemma repaired_cursor_positive:
  "repair_sync x db = Some db' \<Longrightarrow> ((owner, c), r) \<in> set (changes db') \<Longrightarrow> 0 < c"
  by (erule (1) repaired_entry) (simp add: replacement_positive)

lemma repaired_clock:
  assumes "repair_sync x db = Some db'"
  shows "find_by owner (clocks db') =
    (if owner \<in> fst ` fst ` set (changes db')
     then Some (case find_by owner (clocks db) of
            None \<Rightarrow> max_cursor owner (changes db') | Some c \<Rightarrow> max (max c 0) (max_cursor owner (changes db')))
     else map_option (\<lambda>c. max c 0) (find_by owner (clocks db)))"
  by (cases "find_by owner (clocks db)")
     (auto simp: repair_sync_Some(3) [OF assms] raise_clocks_find find_by_map_snd image_comp)

lemma repaired_clock_bounds:
  assumes "repair_sync x db = Some db'"
  shows "clock_of owner db \<le> clock_of owner db'"
    and "((owner, c), r) \<in> set (changes db') \<Longrightarrow> c \<le> clock_of owner db'"
    and "find_by owner (clocks db') = Some k \<Longrightarrow> 0 \<le> k"
proof -
  have pos: "0 < max_cursor owner (changes db')" if e: "((owner, c), r) \<in> set (changes db')" for c r
    using repaired_cursor_positive [OF assms e] max_cursor_bound [OF e] by simp
  show "clock_of owner db \<le> clock_of owner db'" and "find_by owner (clocks db') = Some k \<Longrightarrow> 0 \<le> k"
    by (auto simp: clock_of_def repaired_clock [OF assms] dest!: pos split: option.splits if_splits)
  show "c \<le> clock_of owner db'" if e: "((owner, c), r) \<in> set (changes db')"
  proof -
    have "owner \<in> fst ` fst ` set (changes db')" using e by force
    with max_cursor_bound [OF e] show ?thesis
      by (auto simp: clock_of_def repaired_clock [OF assms] split: option.splits)
  qed
qed

text \<open>
  C28
  After the repair the new constraints hold, on whatever rows there were: every clock, version and
  cursor is legal, every operation is known, the primary keys are still unique, and the clock of
  every user is at least each of the user's cursors and not below its old value. No change is lost,
  added or moved to another user; only illegal versions, operations and cursors are replaced, and
  the entries of a user stay in order, with those that had no legal cursor last, oldest first.
\<close>

theorem repair_establishes_the_checks:
  assumes "repair_sync x db = Some db'" "keyed (changes db)" "keyed (clocks db)"
  shows "list_all (\<lambda>(_, c). clock_check c) (clocks db') \<and> list_all (\<lambda>(_, r). record_check r) (records db')
    \<and> list_all (\<lambda>((_, c), r). change_check c r) (changes db')
    \<and> keyed (changes db') \<and> keyed (clocks db')
    \<and> list_all (\<lambda>((owner, c), _). c \<le> clock_of owner db') (changes db')
    \<and> clock_of owner db \<le> clock_of owner db'
    \<and> list_all2 same_change (changes db) (changes db')
    \<and> (if i < length (changes db) \<and> j < length (changes db) \<and> before (changes db ! i) (changes db ! j)
       then snd (fst (changes db' ! i)) < snd (fst (changes db' ! j)) else True)"
proof (intro conjI)
  have k: "keyed (map (\<lambda>(owner, c). (owner, if c < 0 then 0 else c)) (clocks db))"
    using keyed_map_snd [of "\<lambda>(_ :: uuid) c :: int. if c < 0 then 0 else c"] assms(3) by simp
  then show kc: "keyed (clocks db')"
    by (simp add: repair_sync_Some(3) [OF assms(1)] raise_clocks_keyed)
  show "list_all (\<lambda>(_, c). clock_check c) (clocks db')"
    using in_set_find_by [OF kc] repaired_clock_bounds(3) [OF assms(1)]
    by (auto simp: list_all_iff clock_check_def)
  show "list_all (\<lambda>(_, r). record_check r) (records db')"
    by (auto simp: repair_sync_Some(2) [OF assms(1)] list_all_iff record_check_def)
  show "list_all (\<lambda>((_, c), r). change_check c r) (changes db')"
    using repaired_row_ok
    by (auto simp: list_all_iff change_check_def replacement_positive elim!: repaired_entry [OF assms(1)])
  show "keyed (changes db')" by (rule repaired_changes_keyed [OF assms(1,2)])
  show "list_all (\<lambda>((owner, c), _). c \<le> clock_of owner db') (changes db')"
    using repaired_clock_bounds(2) [OF assms(1)] by (auto simp: list_all_iff)
  show "clock_of owner db \<le> clock_of owner db'" by (rule repaired_clock_bounds(1) [OF assms(1)])
  show "list_all2 same_change (changes db) (changes db')" by (rule repaired_same_changes [OF assms(1)])
  show "if i < length (changes db) \<and> j < length (changes db) \<and> before (changes db ! i) (changes db ! j)
       then snd (fst (changes db' ! i)) < snd (fst (changes db' ! j)) else True"
    using repaired_order [OF assms(1)] by simp
qed

text \<open>A log of user 1 with a legal entry and two that have no legal cursor, the younger one first.\<close>

definition broken_change :: "timestamp \<Rightarrow> string \<Rightarrow> change_row" where
  "broken_change t op =
     \<lparr>ch_collection = DRAFT_NOTE_KIND, ch_record_id = 9, ch_version = 0, ch_operation = op,
      ch_payload = JObj [(''deleted'', JBool True)], ch_changed_at = t\<rparr>"

definition broken_db :: sync_db where
  "broken_db = empty_db\<lparr>clocks := [(1, -5), (2, 8)],
     changes := [((1, 0), broken_change 20 ''remove''), ((1, -3), broken_change 10 ''put''),
                 ((1, 4), broken_change 30 ''put'')]\<rparr>"

lemma broken_repaired:
  "case repair_sync (sample_ext JNull) broken_db of
     None \<Rightarrow> False
   | Some db \<Rightarrow> changes db =
       [((1, 6), (broken_change 20 ''delete'')\<lparr>ch_version := 1\<rparr>),
        ((1, 5), (broken_change 10 ''put'')\<lparr>ch_version := 1\<rparr>),
        ((1, 4), (broken_change 30 ''put'')\<lparr>ch_version := 1\<rparr>)]
     \<and> clock_of 1 db = 6 \<and> clock_of 2 db = 8"
  by code_simp

theorem repair_establishes_the_checks_witness:
  "\<exists>db'. repair_sync (sample_ext JNull) broken_db = Some db'
     \<and> list_all (\<lambda>((_, c), r). change_check c r) (changes db')
     \<and> snd (fst (changes db' ! 1)) < snd (fst (changes db' ! 0))"
proof -
  obtain db' where r: "repair_sync (sample_ext JNull) broken_db = Some db'"
    using broken_repaired by (cases "repair_sync (sample_ext JNull) broken_db") simp_all
  have k: "keyed (changes broken_db)" "keyed (clocks broken_db)"
    by (simp_all add: broken_db_def empty_db_def keyed_def)
  have b: "1 < length (changes broken_db) \<and> 0 < length (changes broken_db)
      \<and> before (changes broken_db ! 1) (changes broken_db ! 0)"
    by (simp add: broken_db_def empty_db_def before_def earlier_def broken_change_def)
  note t = repair_establishes_the_checks [OF r k, where i = 1 and j = 0]
  have "list_all (\<lambda>((_, c), r). change_check c r) (changes db')" using t by blast
  moreover have "snd (fst (changes db' ! 1)) < snd (fst (changes db' ! 0))"
    using t b by (simp only: if_True simp_thms)
  ultimately show ?thesis using r by blast
qed

section \<open>Data of the service\<close>

text \<open>
  On tables that the sync service itself wrote the repair changes nothing: their rows already
  satisfy the checks, and no clock is behind its log.
\<close>

lemma fold_raise_id:
  assumes "\<And>owner. owner \<in> set os \<Longrightarrow> \<exists>c. find_by owner cs = Some c \<and> max_cursor owner chs \<le> c"
    and "keyed cs"
  shows "fold (raise_clock chs) os cs = cs"
  using assms
proof (induction os)
  case (Cons o' os)
  then obtain c where c: "find_by o' cs = Some c" "max_cursor o' chs \<le> c" by auto
  then have "raise_clock chs o' cs = put o' c cs" by (simp add: raise_clock_def max_absorb1)
  also have "\<dots> = cs" using c(1) by (simp add: put_def find_by_def update_triv)
  finally show ?case using Cons by simp
qed simp

definition lawful :: "sync_db \<Rightarrow> bool" where
  "lawful db \<longleftrightarrow> keyed (clocks db) \<and> keyed (records db) \<and> keyed (changes db)
     \<and> (\<forall>owner k. find_by owner (clocks db) = Some k \<longrightarrow> 0 \<le> k \<and> k \<le> i64_max)
     \<and> (\<forall>rid r. find_by rid (records db) = Some r \<longrightarrow> record_check r)
     \<and> (\<forall>owner c r. find_by (owner, c) (changes db) = Some r \<longrightarrow>
          change_check c r \<and> (\<exists>k. find_by owner (clocks db) = Some k \<and> c \<le> k))"

lemma lawful_with_clock: "lawful db \<Longrightarrow> lawful (with_clock owner db)"
  by (auto simp: lawful_def with_clock_def store.ok_ins store.look_ins i64_max_def) fastforce

lemma lawful_cong:
  "clocks db' = clocks db \<Longrightarrow> records db' = records db \<Longrightarrow> changes db' = changes db \<Longrightarrow> lawful db' = lawful db"
  by (simp add: lawful_def)

lemma lawful_applied:
  assumes a: "applied_to x now owner m cursor row snap db db'" and l: "lawful db"
  shows "lawful db'"
proof -
  have range: "0 \<le> clock_of owner db" "clock_of owner db \<le> i64_max"
    using l by (auto simp: lawful_def clock_of_def i64_max_def split: option.splits)
  have c: "cursor = i64_wrap (clock_of owner db + 1)" "0 < cursor" using a by (simp_all add: applied_to_def)
  have "clock_of owner db \<noteq> i64_max"
    using c by (auto simp: i64_wrap_def i64_max_def)
  with range c have nxt: "cursor = clock_of owner db + 1" "cursor \<le> i64_max"
    by (simp_all add: i64_wrap_id in_i64_def i64_min_def)
  have old: "c \<le> clock_of owner db" if "find_by (owner, c) (changes db) = Some r" for c r
    using l that by (fastforce simp: lawful_def clock_of_def)
  have new: "change_check cursor (change_of x now (rid_of owner m) row snap)" "record_check row"
    using a by (simp_all add: applied_to_def change_check_def change_of_def record_check_def)
  have r: "clocks db' = put owner cursor (clocks (with_clock owner db))"
    "records db' = put (rid_of owner m) row (records db)"
    "changes db' = put (owner, cursor) (change_of x now (rid_of owner m) row snap) (changes db)"
    using a by (simp_all add: applied_to_def)
  have w: "lawful (with_clock owner db)" by (rule lawful_with_clock [OF l])
  have keyed: "keyed (clocks db')" "keyed (records db')" "keyed (changes db')"
    using w l unfolding r lawful_def by (simp_all add: store.ok_ins)
  have look: "find_by o' (clocks db') = (if o' = owner then Some cursor else find_by o' (clocks db))" for o'
    unfolding r by (simp add: store.look_ins with_clock_def)
  show ?thesis
    unfolding lawful_def
  proof (intro conjI keyed allI impI)
    fix o' k
    assume "find_by o' (clocks db') = Some k"
    then show "0 \<le> k" "k \<le> i64_max"
      using l c(2) nxt(2) by (auto simp: look lawful_def split: if_splits)
  next
    fix rid r'
    assume "find_by rid (records db') = Some r'"
    then show "record_check r'" using l new(2) by (cases rid) (auto simp: r store.look_ins lawful_def split: if_splits)
  next
    fix o' c' r'
    assume f: "find_by (o', c') (changes db') = Some r'"
    show "change_check c' r'"
      using f l new(1) by (auto simp: r store.look_ins lawful_def split: if_splits)
    show "\<exists>k. find_by o' (clocks db') = Some k \<and> c' \<le> k"
    proof (cases "o' = owner")
      case True
      then have "c' \<le> cursor" using f old nxt(1) by (fastforce simp: r store.look_ins split: if_splits)
      with True show ?thesis by (simp add: look)
    next
      case False
      then have "find_by (o', c') (changes db) = Some r'" using f by (simp add: r store.look_ins)
      with l False show ?thesis by (simp add: look lawful_def)
    qed
  qed
qed

lemma lawful_step: "lawful db \<Longrightarrow> lawful (run_op x p db)"
  using run_op_cases [of x p db]
proof (elim disjE conjE exE)
  assume "lawful db" "unapplied_to (op_owner p) db (run_op x p db)"
  then show ?thesis
    using lawful_with_clock [of db "op_owner p"] lawful_cong [of "run_op x p db" "with_clock (op_owner p) db"]
    by (simp add: unapplied_to_def with_clock_def)
qed (auto intro: lawful_with_clock lawful_applied)

lemma lawful_history: "lawful (history x ops empty_db)"
proof (rule history_invariant [where P = lawful])
  show "lawful empty_db" by (simp add: lawful_def empty_db_def)
qed (rule lawful_step)

lemma repair_lawful:
  assumes "lawful db"
  shows "repair_sync x db = Some db"
proof -
  have k: "keyed (clocks db)" "keyed (records db)" "keyed (changes db)" using assms by (simp_all add: lawful_def)
  have cs: "map (\<lambda>(owner, c). (owner, if c < 0 then 0 else c)) (clocks db) = clocks db"
    using assms in_set_find_by [OF k(1)] by (intro map_idI) (fastforce simp: lawful_def)
  have rs: "map (\<lambda>(k, r). (k, if rr_version r \<le> 0 then r\<lparr>rr_version := 1\<rparr> else r)) (records db) = records db"
    using assms in_set_find_by [OF k(2)] by (intro map_idI) (fastforce simp: lawful_def record_check_def)
  have chk: "change_check c r \<and> (\<exists>k. find_by owner (clocks db) = Some k \<and> c \<le> k \<and> k \<le> i64_max)"
    if "((owner, c), r) \<in> set (changes db)" for owner c r
    using assms in_set_find_by [OF k(3) that] by (fastforce simp: lawful_def)
  have log: "repaired_log x db = changes db"
    unfolding repaired_log_def
    using chk by (intro map_idI) (fastforce simp: change_check_def repaired_row_same)
  have same: "map (\<lambda>((owner, c), r). ((owner, replacement_cursor (changes db) owner c r), r)) (changes db)
      = changes db"
    using chk by (intro map_idI) (fastforce simp: change_check_def replacement_cursor_def)
  have "known_operations x (positive_versions (nonnegative_clocks db)) = db"
    using log cs rs
    by (simp add: known_operations_def positive_versions_def nonnegative_clocks_def repaired_log_def
          repaired_row_def case_prod_unfold comp_def)
  moreover have "positive_cursors db = Some db"
    using chk by (fastforce simp: positive_cursors_def Let_def same list_all_iff)
  moreover have "fold (raise_clock (changes db)) (remdups (map (fst \<circ> fst) (changes db))) (clocks db) = clocks db"
  proof (rule fold_raise_id [OF _ k(1)])
    fix owner
    assume "owner \<in> set (remdups (map (fst \<circ> fst) (changes db)))"
    then obtain c r where e: "((owner, c), r) \<in> set (changes db)" by auto
    then obtain m where m: "find_by owner (clocks db) = Some m" using chk by blast
    let ?own = "set (map (snd \<circ> fst) (filter (\<lambda>((o', _), _). o' = owner) (changes db)))"
    have "c \<in> ?own" using e by force
    then have "?own \<noteq> {}" by (metis empty_iff)
    moreover have "\<forall>a \<in> ?own. a \<le> m" using chk m by fastforce
    ultimately have "max_cursor owner (changes db) \<le> m"
      unfolding max_cursor_def by (intro Max.boundedI finite_set) blast+
    with m show "\<exists>c. find_by owner (clocks db) = Some c \<and> max_cursor owner (changes db) \<le> c" by blast
  qed
  ultimately show ?thesis by (simp add: repair_sync_def raised_clocks_def)
qed

text \<open>
  The repair is invisible to users: on the tables that any transactions of the sync service leave,
  it succeeds and changes nothing, neither a clock nor a record nor a change, so that no cursor a
  client holds loses its meaning by the upgrade.
\<close>

theorem repair_keeps_the_data_of_the_service:
  "repair_sync y (history x ops empty_db) = Some (history x ops empty_db)"
  by (rule repair_lawful [OF lawful_history])

end
