(* ===== verification/Admin.thy ===== *)
theory Admin
  imports Boundary Repair
begin

text \<open>
  The two administrative functions that \<open>AddAdminBoundary\<close> creates in
  \<open>crates/canonical-store/src/migration.rs\<close>. They run with the rights of the role that defined them:
  the administrative tables have forced row security and no policy, so they see rows only when that
  role bypasses row security. Arguments are not \<open>NULL\<close> where the columns they go to may not be.
\<close>

record role_assignment =
  ra_user_id :: uuid
  ra_role :: string
  ra_granted_by :: uuid
  ra_granted_at :: timestamp
  ra_revoked_at :: "timestamp option"

record audit_event =
  av_actor_id :: uuid
  av_capability :: string
  av_target_type :: string
  av_target_id :: "string option"
  av_request_id :: uuid
  av_occurred_at :: timestamp
  av_outcome :: string
  av_metadata :: json

record admin_db =
  ad_definer :: pg_role
  ad_users :: "uuid list"
  ad_assignments :: "role_assignment list"
  ad_events :: "(uuid, audit_event) store"

definition role_capabilities :: "string \<Rightarrow> string list" where
  "role_capabilities role =
     (if role = ''support'' then [''user.read'', ''engagement.read'', ''audit.write'']
      else if role = ''user_admin'' then [''user.read'', ''user.invite'', ''user.disable'', ''audit.write'']
      else if role = ''compliance_admin'' then [''engagement.read'', ''engagement.write'', ''audit.write'']
      else if role = ''security_admin'' then
        [''user.read'', ''user.invite'', ''user.disable'', ''engagement.read'', ''engagement.write'',
         ''role.manage'', ''audit.read'', ''audit.write'']
      else [])"

definition definer_sees_rows :: "admin_db \<Rightarrow> bool" where
  "definer_sees_rows db \<longleftrightarrow> ro_superuser (ad_definer db) \<or> ro_bypass_rls (ad_definer db)"

text \<open>\<open>COALESCE(NULLIF(current_setting(...), ''), '{}')::jsonb ->> 'aal'\<close>; \<open>None\<close> when the text is no JSON.\<close>

definition claimed_aal :: "ext \<Rightarrow> transaction \<Rightarrow> string option option" where
  "claimed_aal x tx =
     (let text = (case current_setting tx ''request.jwt.claims'' of None \<Rightarrow> ''{}'' | Some t \<Rightarrow> if t = [] then ''{}'' else t)
      in map_option (\<lambda>j. member_text x j ''aal'') (json_parse x text))"

definition active_with :: "uuid \<Rightarrow> string \<Rightarrow> role_assignment \<Rightarrow> bool" where
  "active_with user capability a \<longleftrightarrow>
     ra_user_id a = user \<and> ra_revoked_at a = None \<and> capability \<in> set (role_capabilities (ra_role a))"

definition admin_has_capability ::
    "ext \<Rightarrow> auth_uid \<Rightarrow> transaction \<Rightarrow> admin_db \<Rightarrow> string \<Rightarrow> string + bool" where
  "admin_has_capability x uid tx db requested =
     try_then (ok_or (claimed_aal x tx) ''invalid input syntax for type json'') (\<lambda>aal.
     Inr (aal = Some ''aal2''
          \<and> (case uid (current_setting tx) of
               None \<Rightarrow> False
             | Some user \<Rightarrow> definer_sees_rows db \<and> list_ex (active_with user requested) (ad_assignments db))))"

text \<open>The row that is written passes the checks and keys of its table, or the statement fails.\<close>

definition insert_event :: "uuid \<Rightarrow> audit_event \<Rightarrow> admin_db \<Rightarrow> string + admin_db" where
  "insert_event event_id e db =
     (if \<not> definer_sees_rows db then Inl ''new row violates row-level security policy''
      else if find_by event_id (ad_events db) \<noteq> None then Inl ''duplicate key''
      else if av_capability e \<notin> set CAPABILITIES \<or> av_outcome e \<notin> set OUTCOMES then Inl ''check violated''
      else if av_actor_id e \<notin> set (ad_users db) then Inl ''foreign key violated''
      else Inr (db\<lparr>ad_events := put event_id e (ad_events db)\<rparr>))"

definition admin_append_audit ::
    "ext \<Rightarrow> auth_uid \<Rightarrow> transaction \<Rightarrow> timestamp \<Rightarrow> uuid \<Rightarrow> string \<Rightarrow> string \<Rightarrow> string option \<Rightarrow> uuid
       \<Rightarrow> string \<Rightarrow> json \<Rightarrow> admin_db \<Rightarrow> string + uuid \<times> admin_db" where
  "admin_append_audit x uid tx now event_id requested target_type target_id request_id outcome metadata db =
     try_then (admin_has_capability x uid tx db ''audit.write'') (\<lambda>writer.
     if \<not> writer then Inl ''actor is not an active administrator''
     else
       try_then (admin_has_capability x uid tx db requested) (\<lambda>capable.
       if outcome = ''succeeded'' \<and> \<not> capable then Inl ''actor lacks the recorded capability''
       else
         try_then (ok_or (uid (current_setting tx)) ''actor_id is null'') (\<lambda>actor.
         try_then (insert_event event_id
             \<lparr>av_actor_id = actor, av_capability = requested, av_target_type = target_type,
              av_target_id = target_id, av_request_id = request_id, av_occurred_at = now,
              av_outcome = outcome, av_metadata = metadata\<rparr> db) (\<lambda>db'.
         Inr (event_id, db')))))"

section \<open>Properties\<close>

lemma capability_Inr:
  "admin_has_capability x uid tx db c = Inr b \<longleftrightarrow>
     (\<exists>aal. claimed_aal x tx = Some aal
        \<and> b = (aal = Some ''aal2''
            \<and> (\<exists>user. uid (current_setting tx) = Some user \<and> definer_sees_rows db
                 \<and> list_ex (active_with user c) (ad_assignments db))))"
  by (auto simp: admin_has_capability_def try_then_Inr ok_or_Inr split: option.splits)

text \<open>The matrix is within the values the table allows, and only the security role manages roles.\<close>

lemma role_matrix:
  "set (role_capabilities role) \<subseteq> set CAPABILITIES"
  "role_capabilities role \<noteq> [] \<Longrightarrow> role \<in> set ADMIN_ROLES"
  "''role.manage'' \<in> set (role_capabilities role) \<Longrightarrow> role = ''security_admin''"
  by (auto simp: role_capabilities_def CAPABILITIES_def ADMIN_ROLES_def split: if_splits)

text \<open>The claims each kind of transaction installs.\<close>

lemma claims_of_transactions:
  assumes "cn_backend cn = Postgres"
  shows "current_setting (begin_user_transaction x cn u) ''request.jwt.claims''
      = Some (json_text x (user_claims x u []))"
    and "begin_admin_transaction x cn u level = Inr tx \<Longrightarrow> current_setting tx ''request.jwt.claims''
      = Some (json_text x (user_claims x u [(''aal'', JStr ''aal2'')]))"
proof -
  show "current_setting (begin_user_transaction x cn u) ''request.jwt.claims''
      = Some (json_text x (user_claims x u []))"
    using assms by (simp add: begin_user_transaction_def begin_transaction_def current_setting_def)
  assume b: "begin_admin_transaction x cn u level = Inr tx"
  note v = admin_verified [OF b]
  show "current_setting tx ''request.jwt.claims'' = Some (json_text x (user_claims x u [(''aal'', JStr ''aal2'')]))"
    using b unfolding begin_admin_transaction_def verify_admin_database_role_def v
    by (auto simp: begin_transaction_def current_setting_def assms)
qed

lemma claimed_of_json:
  "current_setting tx ''request.jwt.claims'' = Some (json_text x j) \<Longrightarrow> json_roundtrip x j \<Longrightarrow> json_text x j \<noteq> []
     \<Longrightarrow> claimed_aal x tx = Some (member_text x j ''aal'')"
  by (simp add: claimed_aal_def json_roundtrip_def)

lemma claims_aal:
  "member_text x (user_claims x u []) ''aal'' = None"
  "member_text x (user_claims x u [(''aal'', JStr ''aal2'')]) ''aal'' = Some ''aal2''"
  by (simp_all add: user_claims_def member_text_def)


text \<open>User 7 is in support and records that an invitation was denied.\<close>

definition admin_ext :: ext where
  "admin_ext = (sample_ext JNull)\<lparr>
     json_text := (\<lambda>j. if json_get ''aal'' j = None then ''user'' else ''admin''),
     json_parse := (\<lambda>s. Some (user_claims (sample_ext JNull) 7
       (if s = ''admin'' then [(''aal'', JStr ''aal2'')] else [])))\<rparr>"

definition support_db :: admin_db where
  "support_db =
     \<lparr>ad_definer = \<lparr>ro_oid = 1, ro_name = ''postgres'', ro_can_login = True, ro_superuser = False,
        ro_create_db = True, ro_create_role = True, ro_inherit = True, ro_replication = False, ro_bypass_rls = True\<rparr>,
      ad_users = [7], ad_assignments = [\<lparr>ra_user_id = 7, ra_role = ''support'', ra_granted_by = 8,
        ra_granted_at = 0, ra_revoked_at = None\<rparr>], ad_events = []\<rparr>"

lemma admin_ext_laws:
  "auth_uid_law admin_ext (sample_uid admin_ext)"
  "json_roundtrip admin_ext (user_claims admin_ext 7 [])"
  "json_roundtrip admin_ext (user_claims admin_ext 7 [(''aal'', JStr ''aal2'')])"
  "json_text admin_ext j \<noteq> []"
proof -
  have t: "uuid_text admin_ext = uuid_text (sample_ext JNull)" "uuid_parse admin_ext = uuid_parse (sample_ext JNull)"
    by (simp_all add: admin_ext_def)
  have "uuid_law admin_ext" using sample_ext_laws(2) [of JNull] by (simp add: uuid_law_def t)
  then show "auth_uid_law admin_ext (sample_uid admin_ext)"
    by (rule sample_uid_law_of) (simp add: t empty_uuid)
  have c: "user_claims admin_ext = user_claims (sample_ext JNull)"
    by (simp add: user_claims_def t fun_eq_iff)
  show "json_roundtrip admin_ext (user_claims admin_ext 7 [])"
    "json_roundtrip admin_ext (user_claims admin_ext 7 [(''aal'', JStr ''aal2'')])"
    unfolding json_roundtrip_def c by (simp_all add: admin_ext_def user_claims_def)
  show "json_text admin_ext j \<noteq> []" by (simp add: admin_ext_def)
qed


end
