(* ===== verification/Site.thy ===== *)
theory Site
  imports Quote_Api "HOL-Library.List_Lexorder" "HOL-Library.Char_ord" "HOL-Library.Multiset"
begin

text \<open>
  The routers of \<open>src/routes/mod.rs\<close> and the layers of \<open>src/app.rs\<close> around them: which headers every
  response leaves with. With them the handlers that only serve fixed documents: the readiness
  worksheets of \<open>src/routes/readiness.rs\<close>, the public training page and the health endpoints.
  A handler is what it answers; the router that picks it by path is third-party code.
\<close>

section \<open>Content security policy\<close>

text \<open>A keyword source in its quotes, and \<open>join(" ")\<close>.\<close>

definition quoted :: "string \<Rightarrow> string" where
  "quoted s = CHR 0x27 # s @ [CHR 0x27]"

fun join_space :: "string list \<Rightarrow> string" where
  "join_space [] = []"
| "join_space [s] = s"
| "join_space (s # t # rest) = s @ '' '' @ join_space (t # rest)"

definition MARKETING_CONTENT_SECURITY_POLICY :: string where
  "MARKETING_CONTENT_SECURITY_POLICY =
     ''default-src 'self'; script-src 'self'; style-src 'self' 'unsafe-inline'; img-src 'self' data:; base-uri 'self'; form-action 'self'; frame-ancestors 'none'; object-src ''
       @ quoted ''none''"

definition websocket_source :: "string \<Rightarrow> string option" where
  "websocket_source origin =
     (case strip_prefix ''https://'' origin of
        Some rest \<Rightarrow> Some (''wss://'' @ rest)
      | None \<Rightarrow> map_option (\<lambda>rest. ''ws://'' @ rest) (strip_prefix ''http://'' origin))"

text \<open>The text of the policy for given websocket sources.\<close>

definition csp_text :: "string list \<Rightarrow> bool \<Rightarrow> string" where
  "csp_text sources allow_webassembly =
     ''default-src 'self'; script-src '' @ quoted ''self''
     @ (if allow_webassembly then '' '' @ quoted ''wasm-unsafe-eval'' else [])
     @ ''; style-src 'self' 'unsafe-inline'; img-src 'self' data:; connect-src 'self' ''
     @ join_space (sort sources)
     @ ''; object-src 'none'; frame-ancestors 'none'; base-uri 'self'; form-action '' @ quoted ''self''"

text \<open>
  The origins come from a hash set, in any order. \<open>None\<close> is a panic of one of the two \<open>expect\<close>s,
  which would happen before the server listens.
\<close>

definition application_content_security_policy :: "string list \<Rightarrow> bool \<Rightarrow> string option" where
  "application_content_security_policy origins allow_webassembly =
     Option.bind (those (map websocket_source origins)) (\<lambda>sources.
     header_value (csp_text sources allow_webassembly))"

section \<open>Layers\<close>

datatype endpoint =
    Healthz | Readyz | Metrics_Page | Training | Login_Page | Websocket | Quote_Form | Quote_Item
  | Api | Auth | App_Pages | Readiness | Admin_Reserved | App_Assets | Marketing

text \<open>The paths of the two routers, with the prefixes of nested routers; the last entry is the fallback.\<close>

definition web_routes :: "(string \<times> endpoint) list" where
  "web_routes =
     [(''/healthz'', Healthz), (''/readyz'', Readyz), (''/metrics'', Metrics_Page), (''/training'', Training),
      (''/training/'', Training), (''/login'', Login_Page), (''/ws'', Websocket), (''/u/quote/{id}'', Quote_Item),
      (''/u/quote'', Quote_Form), (''/api'', Api), (''/auth'', Auth), (''/app'', App_Pages),
      (''/app/readiness'', Readiness), (''/admin'', Admin_Reserved), (''/admin/{*path}'', Admin_Reserved),
      (''/app-assets'', App_Assets), ([], Marketing)]"

definition api_routes :: "(string \<times> endpoint) list" where
  "api_routes =
     [(''/healthz'', Healthz), (''/readyz'', Readyz), (''/metrics'', Metrics_Page), (''/ws'', Websocket),
      (''/api'', Api)]"

definition private_endpoint :: "endpoint \<Rightarrow> bool" where
  "private_endpoint ep \<longleftrightarrow>
     ep \<in> {Login_Page, Websocket, Quote_Form, Quote_Item, Api, Auth, App_Pages, Readiness}"

definition if_not_present :: "string \<Rightarrow> string \<Rightarrow> 'v response \<Rightarrow> 'v response" where
  "if_not_present name v r = (if header_has name (rs_headers r) then r else with_header name v r)"

definition private_layer :: "endpoint \<Rightarrow> 'v response \<Rightarrow> 'v response" where
  "private_layer ep r = (if private_endpoint ep then with_header ''cache-control'' ''no-store'' r else r)"

definition DEFAULT_HEADERS :: "(string \<times> string) list" where
  "DEFAULT_HEADERS =
     [(''x-content-type-options'', ''nosniff''), (''referrer-policy'', ''strict-origin-when-cross-origin''),
      (''x-frame-options'', ''DENY''),
      (''permissions-policy'', ''camera=(), geolocation=(), microphone=(), payment=(), usb=()''),
      (''cross-origin-opener-policy'', ''same-origin''),
      (''strict-transport-security'', ''max-age=31536000'')]"

definition decorate_http :: "'v response \<Rightarrow> 'v response" where
  "decorate_http r = foldl (\<lambda>r (n, v). if_not_present n v r) r DEFAULT_HEADERS"

definition web_response :: "config \<Rightarrow> endpoint \<Rightarrow> 'v response \<Rightarrow> 'v response option" where
  "web_response cfg ep r =
     Option.bind (application_content_security_policy (cf_allowed_origins cfg) False) (\<lambda>csp.
     Option.bind (application_content_security_policy (cf_allowed_origins cfg) True) (\<lambda>quote_csp.
     let r = (if ep = Quote_Form then with_header ''content-security-policy'' quote_csp r else r);
         r = private_layer ep r;
         r = (if ep = Marketing
              then if_not_present ''content-security-policy'' MARKETING_CONTENT_SECURITY_POLICY r
              else if_not_present ''content-security-policy'' csp r)
     in Some (decorate_http r)))"

definition api_only_response :: "config \<Rightarrow> endpoint \<Rightarrow> 'v response \<Rightarrow> 'v response option" where
  "api_only_response cfg ep r =
     Option.bind (application_content_security_policy (cf_allowed_origins cfg) False) (\<lambda>csp.
     Some (decorate_http (if_not_present ''content-security-policy'' csp (private_layer ep r))))"

section \<open>Fixed documents\<close>

definition READINESS_CSP :: string where
  "READINESS_CSP =
     ''default-src 'none'; script-src 'self'; style-src 'self'; connect-src 'self'; base-uri 'none'; form-action 'none'; frame-ancestors 'none'; object-src ''
       @ quoted ''none''"

definition READINESS_FRAMEWORKS :: "string list" where
  "READINESS_FRAMEWORKS =
     [''soc2'', ''nist-csf2'', ''iso27001'', ''gdpr'', ''hipaa'', ''pci-dss'', ''cis-controls'', ''csa-ccm'',
      ''iso27701'', ''iso42001'', ''nist-80053'', ''nist-800171'', ''nis2'', ''dora'', ''fedramp-rev5'']"

text \<open>The embedded files of the vendored worksheet.\<close>

record worksheet_files =
  wf_html :: string
  wf_catalog :: string
  wf_contract :: string
  wf_browser :: string
  wf_css :: string

definition with_session :: "app_error + auth_context \<Rightarrow> string response \<Rightarrow> string response" where
  "with_session auth rendered =
     (case auth of
        Inr _ \<Rightarrow> rendered
      | Inl Unauthorized \<Rightarrow> redirect_to ''/login''
      | Inl e \<Rightarrow> error_answer e)"

definition set_headers :: "(string \<times> string) list \<Rightarrow> 'v response \<Rightarrow> 'v response" where
  "set_headers kvs r = foldl (\<lambda>r (n, v). with_header n v r) r kvs"

definition document :: "string \<Rightarrow> string \<Rightarrow> string response" where
  "document content_type contents = set_headers
     [(''content-type'', content_type), (''content-security-policy'', READINESS_CSP),
      (''cache-control'', ''no-store''), (''x-content-type-options'', ''nosniff''),
      (''referrer-policy'', ''no-referrer'')]
     (with_header ''content-type'' ''text/plain; charset=utf-8'' (answer 200 (View contents)))"

definition readiness_index :: "worksheet_files \<Rightarrow> app_error + auth_context \<Rightarrow> string response" where
  "readiness_index fs auth = with_session auth (document ''text/html; charset=utf-8'' (wf_html fs))"

definition worksheet :: "worksheet_files \<Rightarrow> app_error + auth_context \<Rightarrow> string \<Rightarrow> string response" where
  "worksheet fs auth framework = with_session auth
     (if framework \<in> set READINESS_FRAMEWORKS then document ''text/html; charset=utf-8'' (wf_html fs)
      else answer 404 EmptyBody)"

definition asset_document :: "worksheet_files \<Rightarrow> string \<Rightarrow> string response option" where
  "asset_document fs name =
     map_option (\<lambda>(content_type, contents). document content_type contents)
       (if name = ''catalog.json'' then Some (''application/json'', wf_catalog fs)
        else if name = ''readiness.mjs'' then Some (''text/javascript; charset=utf-8'', wf_contract fs)
        else if name = ''browser.mjs'' then Some (''text/javascript; charset=utf-8'', wf_browser fs)
        else if name = ''readiness.css'' then Some (''text/css; charset=utf-8'', wf_css fs)
        else None)"

definition asset :: "worksheet_files \<Rightarrow> app_error + auth_context \<Rightarrow> string \<Rightarrow> string response" where
  "asset fs auth name = with_session auth (or_else (asset_document fs name) (answer 404 EmptyBody))"

definition TRAINING_CSP :: string where
  "TRAINING_CSP =
     ''default-src 'none'; style-src 'unsafe-inline'; img-src 'self' data:; base-uri 'none'; form-action 'self'; frame-ancestors 'none'; object-src ''
       @ quoted ''none''"

definition TRAINING_CACHE_CONTROL :: string where
  "TRAINING_CACHE_CONTROL = ''public, max-age=300, stale-while-revalidate=86400''"

text \<open>The page is markup without parameters; \<open>page\<close> stands for it.\<close>

definition training_document :: "string \<Rightarrow> string response" where
  "training_document page = set_headers
     [(''content-security-policy'', TRAINING_CSP), (''cache-control'', TRAINING_CACHE_CONTROL),
      (''x-content-type-options'', ''nosniff''), (''referrer-policy'', ''no-referrer'')]
     (with_header ''content-type'' ''text/html; charset=utf-8'' (answer 200 (View page)))"

definition readyz :: "bool \<Rightarrow> nat" where
  "readyz database_pings = (if database_pings then 200 else 503)"

definition SERVICE :: string where "SERVICE = ''canonical-web-server''"

definition health :: json where
  "health = JObj [(''status'', JStr ''ok''), (''service'', JStr SERVICE)]"

definition healthz :: nat where "healthz = 200"

text \<open>\<open>version\<close> is the version the package is built with.\<close>

definition info :: "string \<Rightarrow> json" where
  "info version =
     JObj [(''service'', JStr SERVICE), (''version'', JStr version), (''domain'', JStr ''canonical.cloud''),
       (''stack'', JArr (map JStr [''supabase'', ''maud'', ''axum'', ''seaorm'', ''htmx'']))]"

section \<open>What a response leaves with\<close>

lemma header_all_insert [simp]:
  "header_all n (header_insert m v hs) = (if n = m then [v] else header_all n hs)"
  by (auto simp: header_all_def header_insert_def filter_empty_conv intro!: arg_cong [where f = "map snd"] filter_cong)

lemma if_not_present_simps [simp]:
  "rs_status (if_not_present n v r) = rs_status r" "rs_body (if_not_present n v r) = rs_body r"
  "header_get m (rs_headers (if_not_present n v r))
     = (case header_get m (rs_headers r) of Some u \<Rightarrow> Some u | None \<Rightarrow> if m = n then Some v else None)"
  "m \<noteq> n \<Longrightarrow> header_all m (rs_headers (if_not_present n v r)) = header_all m (rs_headers r)"
  by (auto simp: if_not_present_def header_has_def split: option.split)

lemma defaults_fold:
  "rs_status (foldl (\<lambda>r (n, v). if_not_present n v r) r kvs) = rs_status r"
  "rs_body (foldl (\<lambda>r (n, v). if_not_present n v r) r kvs) = rs_body r"
  "header_get m (rs_headers (foldl (\<lambda>r (n, v). if_not_present n v r) r kvs))
     = (case header_get m (rs_headers r) of Some u \<Rightarrow> Some u | None \<Rightarrow> map_of kvs m)"
  "m \<notin> fst ` set kvs \<Longrightarrow>
     header_all m (rs_headers (foldl (\<lambda>r (n, v). if_not_present n v r) r kvs)) = header_all m (rs_headers r)"
  by (induction kvs arbitrary: r) (auto split: option.splits)

lemma decorate_simps [simp]:
  "rs_status (decorate_http r) = rs_status r" "rs_body (decorate_http r) = rs_body r"
  "header_get m (rs_headers (decorate_http r))
     = (case header_get m (rs_headers r) of Some u \<Rightarrow> Some u | None \<Rightarrow> map_of DEFAULT_HEADERS m)"
  by (simp_all add: decorate_http_def defaults_fold)

lemma decorate_all:
  "m \<notin> fst ` set DEFAULT_HEADERS \<Longrightarrow> header_all m (rs_headers (decorate_http r)) = header_all m (rs_headers r)"
  by (simp add: decorate_http_def defaults_fold)

section \<open>The policy of a loaded configuration\<close>

text \<open>The serialization of an origin is visible ASCII, as the URL standard has it.\<close>

definition ascii_origins :: "url_parser \<Rightarrow> bool" where
  "ascii_origins parse \<longleftrightarrow>
     (\<forall>s u. parse s = Inr u \<and> ur_scheme u \<in> {''http'', ''https''} \<and> ur_host u \<noteq> None \<longrightarrow>
        list_all (chr_in 33 126) (ur_origin u))"

definition plain_origin :: "string \<Rightarrow> bool" where
  "plain_origin origin \<longleftrightarrow> list_all (chr_in 33 126) origin
     \<and> (starts_with origin ''https://'' \<or> starts_with origin ''http://'')"

lemma validated_origin_plain:
  assumes "origin_law parse" "ascii_origins parse" "validated_origin parse name raw = Inr origin"
  shows "plain_origin origin"
proof -
  obtain u host where u: "parse raw = Inr u" "ur_host u = Some host" "origin = ur_origin u"
    and scheme: "ur_scheme u = ''https'' \<or> (ur_scheme u = ''http'' \<and> loopback_host host)"
    using assms(3) by (auto simp: validated_origin_def try_then_Inr ok_or_Inr map_err_Inr split: if_splits)
  then have s: "ur_scheme u \<in> {''http'', ''https''}" "ur_host u \<noteq> None" by auto
  with u(1) assms(2) have "list_all (chr_in 33 126) (ur_origin u)" unfolding ascii_origins_def by blast
  moreover obtain rest where "ur_origin u = ur_scheme u @ ''://'' @ rest"
    using u(1) s assms(1) unfolding origin_law_def by blast
  ultimately show ?thesis using s(1) u(3) by (auto simp: plain_origin_def starts_with_iff)
qed

lemma loaded_origins_plain:
  assumes "from_env x std_decode parse env = Inr cfg" "origin_law parse" "ascii_origins parse"
  shows "list_all plain_origin (cf_allowed_origins cfg)"
proof -
  obtain raw where "allowed_origins_from parse (cf_app_base_url cfg) raw = Inr (cf_allowed_origins cfg)"
    using from_env_parts [OF assms(1)] by blast
  then show ?thesis
    using allowed_origins_Inr(4) validated_origin_plain [OF assms(2,3)] by (fastforce simp: list_all_iff)
qed

lemma join_space_chars: "set (join_space ss) \<subseteq> insert (CHR '' '') (\<Union> (set ` set ss))"
  by (induction ss rule: join_space.induct) auto

lemma websocket_source_plain:
  assumes "plain_origin origin"
  obtains s where "websocket_source origin = Some s" "list_all (chr_in 33 126) s"
proof -
  have pre: "list_all (chr_in 33 126) ''wss://''" "list_all (chr_in 33 126) ''ws://''"
    by (simp_all add: chr_in_def)
  have "\<exists>s. websocket_source origin = Some s \<and> list_all (chr_in 33 126) s"
    using assms pre
    by (auto simp: plain_origin_def starts_with_iff websocket_source_def list_all_iff split: if_splits)
  with that show thesis by blast
qed

definition header_char :: "char \<Rightarrow> bool" where
  "header_char c \<longleftrightarrow> (32 \<le> byte c \<and> byte c \<noteq> 127) \<or> byte c = 9"

lemma header_value_plain: "list_all header_char s \<Longrightarrow> header_value s = Some s"
  by (simp add: header_value_def header_char_def [abs_def])

lemma visible_header_char: "chr_in 33 126 c \<Longrightarrow> header_char c"
  by (auto simp: chr_in_def header_char_def)

lemma sources_of_plain:
  assumes "list_all plain_origin origins"
  obtains sources where "those (map websocket_source origins) = Some sources"
    "map websocket_source origins = map Some sources" "list_all (list_all (chr_in 33 126)) sources"
proof -
  have "\<exists>sources. those (map websocket_source origins) = Some sources
      \<and> map websocket_source origins = map Some sources \<and> list_all (list_all (chr_in 33 126)) sources"
    using assms
  proof (induction origins)
    case (Cons origin rest)
    then obtain sources where "those (map websocket_source rest) = Some sources"
      "map websocket_source rest = map Some sources" "list_all (list_all (chr_in 33 126)) sources" by auto
    moreover obtain s where "websocket_source origin = Some s" "list_all (chr_in 33 126) s"
      using Cons.prems websocket_source_plain by auto
    ultimately show ?case by auto
  qed simp
  with that show thesis by blast
qed

lemma fixed_parts:
  "list_all header_char (''default-src 'self'; script-src '' @ quoted ''self'')"
  "list_all header_char ('' '' @ quoted ''wasm-unsafe-eval'')"
  "list_all header_char (''; style-src 'self' 'unsafe-inline'; img-src 'self' data:; connect-src 'self' '')"
  "list_all header_char (''; object-src 'none'; frame-ancestors 'none'; base-uri 'self'; form-action '' @ quoted ''self'')"
  by code_simp+

lemma policy_text:
  assumes "those (map websocket_source origins) = Some sources" "list_all (list_all (chr_in 33 126)) sources"
  shows "application_content_security_policy origins wasm = Some (csp_text sources wasm)"
proof -
  have "header_char (CHR '' '')" by (simp add: header_char_def)
  then have "list_all header_char (join_space (sort sources))"
    using assms(2) join_space_chars [of "sort sources"] visible_header_char
    by (fastforce simp: list_all_iff)
  then have "list_all header_char (csp_text sources wasm)"
    using fixed_parts by (simp add: csp_text_def)
  with assms(1) show ?thesis
    by (simp add: application_content_security_policy_def header_value_plain)
qed

lemma policy_of_set:
  assumes "list_all plain_origin origins" "distinct origins" "distinct origins'" "set origins' = set origins"
  obtains policy where "application_content_security_policy origins wasm = Some policy"
    "application_content_security_policy origins' wasm = Some policy"
proof -
  have "list_all plain_origin origins'" using assms(1,4) by (simp add: list_all_iff)
  then obtain ss ss' where ss: "those (map websocket_source origins) = Some ss"
      "map websocket_source origins = map Some ss" "list_all (list_all (chr_in 33 126)) ss"
    and ss': "those (map websocket_source origins') = Some ss'"
      "map websocket_source origins' = map Some ss'" "list_all (list_all (chr_in 33 126)) ss'"
    using sources_of_plain assms(1) by metis
  have "mset origins = mset origins'" using assms(2-4) by (metis set_eq_iff_mset_eq_distinct)
  then have "image_mset Some (mset ss) = image_mset Some (mset ss')"
    using ss(2) ss'(2) by (metis mset_map)
  then have "mset ss = mset ss'" by (metis (no_types, lifting) inj_Some multiset.inj_map injD)
  then have "sort ss = sort ss'" by (metis sorted_list_of_multiset_mset)
  then have "csp_text ss wasm = csp_text ss' wasm" by (simp add: csp_text_def)
  with that policy_text [OF ss(1,3)] policy_text [OF ss'(1,3)] show thesis by simp
qed

lemma default_names: "''cache-control'' \<notin> fst ` set DEFAULT_HEADERS" "''content-security-policy'' \<notin> fst ` set DEFAULT_HEADERS"
  by (simp_all add: DEFAULT_HEADERS_def)

lemma default_values: "list_all (\<lambda>(n, v). map_of DEFAULT_HEADERS n = Some v) DEFAULT_HEADERS"
  by (simp add: DEFAULT_HEADERS_def)

lemma default_other:
  "(n, v) \<in> set DEFAULT_HEADERS \<Longrightarrow> n \<noteq> ''cache-control'' \<and> n \<noteq> ''content-security-policy''"
  using default_names by force

lemma map_of_defaults: "(n, v) \<in> set DEFAULT_HEADERS \<Longrightarrow> map_of DEFAULT_HEADERS n = Some v"
  using default_values by (auto simp: list_all_iff)


lemma sample_parse_ascii: "ascii_origins (sample_parse ''https'' ''a'')"
  by (auto simp: ascii_origins_def sample_parse_def sample_url_def chr_in_def split: if_splits)


section \<open>Fixed documents\<close>

lemma set_headers_simps [simp]:
  "rs_status (set_headers kvs r) = rs_status r" "rs_body (set_headers kvs r) = rs_body r"
  by (induction kvs arbitrary: r) (auto simp: set_headers_def)

definition strict_document :: "string response \<Rightarrow> bool" where
  "strict_document r \<longleftrightarrow> rs_status r = 200
     \<and> header_all ''content-security-policy'' (rs_headers r) = [READINESS_CSP]
     \<and> header_all ''cache-control'' (rs_headers r) = [''no-store'']
     \<and> header_all ''x-content-type-options'' (rs_headers r) = [''nosniff'']
     \<and> header_all ''referrer-policy'' (rs_headers r) = [''no-referrer'']
     \<and> length (header_all ''content-type'' (rs_headers r)) = 1"

lemma document_strict: "strict_document (document content_type contents)"
  by (simp add: strict_document_def document_def set_headers_def)

text \<open>
  C31
  The readiness worksheets are for signed-in browsers only and an exact list: without a session every
  request is answered by the redirect to the login page, or by the error of the session check, and
  no content; with one, exactly the worksheets of the fifteen frameworks and the four embedded
  files are served, each with the strict policy and without caching, and all else is 404 with no body.
\<close>

theorem worksheets_need_a_session:
  "case auth of
     Inl e \<Rightarrow> list_all (\<lambda>r. r = (if e = Unauthorized then redirect_to ''/login'' else error_answer e))
       [readiness_index fs auth, worksheet fs auth framework, asset fs auth name]
   | Inr _ \<Rightarrow> strict_document (readiness_index fs auth)
       \<and> (if framework \<in> set READINESS_FRAMEWORKS
          then strict_document (worksheet fs auth framework) \<and> rs_body (worksheet fs auth framework) = View (wf_html fs)
          else worksheet fs auth framework = answer 404 EmptyBody)
       \<and> (if name \<in> {''catalog.json'', ''readiness.mjs'', ''browser.mjs'', ''readiness.css''}
          then strict_document (asset fs auth name)
            \<and> rs_body (asset fs auth name) \<in> View ` {wf_catalog fs, wf_contract fs, wf_browser fs, wf_css fs}
          else asset fs auth name = answer 404 EmptyBody)"
proof (cases auth)
  case (Inl e)
  then show ?thesis
    by (cases e) (simp_all add: readiness_index_def worksheet_def asset_def with_session_def)
next
  case (Inr a)
  have body: "rs_body (document t c) = View c" for t c by (simp add: document_def)
  show ?thesis
    by (auto simp: Inr readiness_index_def worksheet_def asset_def with_session_def asset_document_def
          document_strict body)
qed

end
