(* ===== verification/Api.thy ===== *)
theory Api
  imports Replication Access Hub Response
begin

text \<open>
  The JSON API of \<open>src/routes/api/mod.rs\<close> and the websocket handshake of
  \<open>src/routes/websocket.rs\<close>: the credential, the origin and the CSRF token are asked for here, the
  work is done by the sync service and the hub. The extractors \<open>Json\<close>, \<open>Query\<close> and
  \<open>WebSocketUpgrade\<close> are the framework's; they give a value or the response that refuses the request.
\<close>

section \<open>Handlers\<close>

definition json_answer :: "json \<Rightarrow> json response" where
  "json_answer j = with_header ''content-type'' ''application/json'' (answer 200 (View j))"

definition respond :: "app_error + json response \<Rightarrow> json response" where
  "respond r = (case r of Inl e \<Rightarrow> error_answer e | Inr ok \<Rightarrow> ok)"

text \<open>Serialization of the identity: all other fields are skipped.\<close>

definition context_to_json :: "ext \<Rightarrow> auth_context \<Rightarrow> json" where
  "context_to_json x ctx = JObj [(''userId'', JStr (uuid_text x (ctx_user_id ctx))), (''email'', JStr (ctx_email ctx))]"

definition pull_to_json :: "ext \<Rightarrow> pull_response \<Rightarrow> json" where
  "pull_to_json x r = JObj [(''changes'', JArr (map (snapshot_to_json x) (pr_changes r))),
     (''nextCursor'', JStr (pr_next_cursor r)), (''caughtUp'', JBool (pr_caught_up r))]"

definition results_to_json :: "ext \<Rightarrow> mutation_result list \<Rightarrow> json" where
  "results_to_json x rs = JObj [(''results'', JArr (map (result_to_json x) rs))]"

definition me :: "ext \<Rightarrow> app_error + auth_context \<Rightarrow> json response" where
  "me x auth = respond (try_then auth (\<lambda>actor. Inr (json_answer (context_to_json x actor))))"

definition pull ::
    "ext \<Rightarrow> config \<Rightarrow> string \<Rightarrow> app_error + auth_context \<Rightarrow> json response + pull_query \<Rightarrow> sync_db
       \<Rightarrow> json response" where
  "pull x cfg nonce auth query db =
     respond (try_then auth (\<lambda>actor.
       case query of
         Inl refused \<Rightarrow> Inr refused
       | Inr q \<Rightarrow>
           try_then (pull_changes x (cf_session_encryption_key cfg) nonce (ctx_user_id actor) q db) (\<lambda>page.
           Inr (json_answer (pull_to_json x page)))))"

definition push ::
    "ext \<Rightarrow> config \<Rightarrow> uuid \<Rightarrow> timestamp \<Rightarrow> app_error + auth_context \<Rightarrow> headers
       \<Rightarrow> json response + mutation_batch \<Rightarrow> sync_db \<Rightarrow> json response \<times> invalidation list \<times> sync_db" where
  "push x cfg instance_id now auth hs body db =
     (case auth of
        Inl e \<Rightarrow> (error_answer e, [], db)
      | Inr actor \<Rightarrow>
          (case body of
             Inl refused \<Rightarrow> (refused, [], db)
           | Inr batch \<Rightarrow>
               (case (if ctx_source actor = SessionCookie
                      then try_then (require_origin cfg hs) (\<lambda>_. require_csrf actor hs None)
                      else Inr ()) of
                  Inl e \<Rightarrow> (error_answer e, [], db)
                | Inr _ \<Rightarrow>
                    (case push_mutations x instance_id now actor batch db of
                       (r, hints, db') \<Rightarrow>
                         (respond (try_then r (\<lambda>results. Inr (json_answer (results_to_json x results)))),
                          hints, db')))))"

definition api_not_found :: "json response" where
  "api_not_found = error_answer NotFound"

text \<open>A socket that is served: the permit it holds and the limits of its frames.\<close>

record socket_grant =
  sg_actor :: auth_context
  sg_permit :: uuid
  sg_max_message_size :: nat
  sg_max_frame_size :: nat

definition upgrade ::
    "config \<Rightarrow> app_error + auth_context \<Rightarrow> headers \<Rightarrow> json response + unit \<Rightarrow> connection_counts
       \<Rightarrow> (json response + socket_grant) \<times> connection_counts" where
  "upgrade cfg auth hs websocket counts =
     (case auth of
        Inl e \<Rightarrow> (Inl (error_answer e), counts)
      | Inr actor \<Rightarrow>
          (case websocket of
             Inl refused \<Rightarrow> (Inl refused, counts)
           | Inr _ \<Rightarrow>
               (case (if ctx_source actor = SessionCookie then require_origin cfg hs else Inr ()) of
                  Inl e \<Rightarrow> (Inl (error_answer e), counts)
                | Inr _ \<Rightarrow>
                    (case try_acquire_socket (ctx_user_id actor) counts of
                       None \<Rightarrow> (Inl (error_answer (RateLimited 60)), counts)
                     | Some (permit, counts') \<Rightarrow>
                         (Inr \<lparr>sg_actor = actor, sg_permit = permit,
                               sg_max_message_size = 64 * 1024, sg_max_frame_size = 64 * 1024\<rparr>, counts')))))"

text \<open>The task of an upgraded socket: it serves, then drops its permit.\<close>

definition socket_task ::
    "socket_grant \<Rightarrow> bool \<Rightarrow> nat \<Rightarrow> nat \<Rightarrow> (socket_event \<times> bool) list \<Rightarrow> connection_counts
       \<Rightarrow> socket_state \<times> connection_counts" where
  "socket_task g hello_sent heartbeat pong_timeout events counts =
     (serve_loop (sg_actor g) pong_timeout (serve_start hello_sent heartbeat) events,
      drop_permit (sg_permit g) counts)"

section \<open>Who may write\<close>

text \<open>What a request must show besides the credential itself.\<close>

definition proves_intent :: "config \<Rightarrow> headers \<Rightarrow> auth_context \<Rightarrow> bool" where
  "proves_intent cfg hs actor \<longleftrightarrow>
     ctx_source actor = Bearer
     \<or> (\<exists>origin token. header_str ''origin'' hs = Some origin \<and> origin \<in> set (cf_allowed_origins cfg)
          \<and> header_str ''x-csrf-token'' hs = Some token \<and> ctx_csrf_token actor = Some token)"

lemma require_csrf_header:
  "require_csrf ctx hs None = Inr u \<longleftrightarrow>
     ctx_source ctx = Bearer
     \<or> (\<exists>token. header_str ''x-csrf-token'' hs = Some token \<and> ctx_csrf_token ctx = Some token)"
  by (auto simp: require_csrf_def try_then_Inr ok_or_Inr split: option.splits)

lemma push_guard:
  "(if ctx_source actor = SessionCookie
    then try_then (require_origin cfg hs) (\<lambda>_. require_csrf actor hs None) else Inr ())
   = (if proves_intent cfg hs actor then Inr () else Inl Forbidden)"
proof (cases "ctx_source actor")
  case SessionCookie
  then have "proves_intent cfg hs actor \<longleftrightarrow>
      try_then (require_origin cfg hs) (\<lambda>_. require_csrf actor hs None) = Inr ()"
    by (auto simp: proves_intent_def try_then_Inr require_origin_iff require_csrf_header)
  moreover have "try_then (require_origin cfg hs) (\<lambda>_. require_csrf actor hs None) = Inl e \<Longrightarrow> e = Forbidden" for e
    using require_origin_error require_csrf_error by (auto simp: try_then_Inl)
  ultimately show ?thesis
    by (cases "try_then (require_origin cfg hs) (\<lambda>_. require_csrf actor hs None)") (auto simp: SessionCookie)
qed (simp add: proves_intent_def)

lemma push_cases:
  "push x cfg i now auth hs body db =
     (case (auth, body) of
        (Inl e, _) \<Rightarrow> (error_answer e, [], db)
      | (Inr _, Inl refused) \<Rightarrow> (refused, [], db)
      | (Inr actor, Inr batch) \<Rightarrow>
          if \<not> proves_intent cfg hs actor then (error_answer Forbidden, [], db)
          else
            (let out = push_mutations x i now actor batch db
             in (respond (try_then (fst out) (\<lambda>results. Inr (json_answer (results_to_json x results)))),
                 fst (snd out), snd (snd out))))"
  unfolding push_def push_guard by (simp add: Let_def split: sum.split prod.split)

lemma batch_for_others:
  assumes "push_mutations x i now actor batch db = (r, hints, db')" "u \<noteq> ctx_user_id actor"
  shows "same_for u db db'"
proof (cases "mb_protocol_version batch \<noteq> PROTOCOL_VERSION
    \<or> mb_operations batch = [] \<or> MAX_BATCH_SIZE < length (mb_operations batch)")
  case True
  with assms(1) show ?thesis by (auto simp: push_mutations_def same_for_def split: if_splits)
next
  case False
  with assms(1) have "push_operations x i now (ctx_user_id actor) (mb_client_id batch) (mb_operations batch) db
      = (r, hints, db')" by (auto simp: push_mutations_def)
  from push_operations_history [OF this] obtain k
    where k: "db' = history x (batch_ops i now (ctx_user_id actor) (mb_client_id batch)
                (take k (mb_operations batch))) db" by blast
  have "same_for u db (history x (batch_ops i now (ctx_user_id actor) (mb_client_id batch)
                (take k (mb_operations batch))) db)"
  proof (rule history_invariant [where P = "same_for u db"])
    fix d p
    assume "same_for u db d" "p \<in> set (batch_ops i now (ctx_user_id actor) (mb_client_id batch) (take k (mb_operations batch)))"
    moreover from this(2) have "op_owner p \<noteq> u" using assms(2) by (auto simp: batch_ops_def)
    ultimately show "same_for u db (run_op x p d)"
      using same_for_step [of p u d x] by (simp add: same_for_def)
  qed (simp add: same_for_def)
  with k show ?thesis by simp
qed

lemma batch_hints_own:
  assumes "push_mutations x i now actor batch db = (r, hints, db')"
  shows "list_all (\<lambda>h. inv_owner_id h = ctx_user_id actor) hints"
proof (cases "mb_protocol_version batch \<noteq> PROTOCOL_VERSION
    \<or> mb_operations batch = [] \<or> MAX_BATCH_SIZE < length (mb_operations batch)")
  case True
  with assms show ?thesis by (auto simp: push_mutations_def split: if_splits)
next
  case False
  with assms have "push_operations x i now (ctx_user_id actor) (mb_client_id batch) (mb_operations batch) db
      = (r, hints, db')" by (auto simp: push_mutations_def)
  from push_operations_history [OF this] show ?thesis by (auto simp: list_all_iff)
qed

definition others_unchanged :: "uuid \<Rightarrow> sync_db \<Rightarrow> sync_db \<Rightarrow> bool" where
  "others_unchanged owner db db' \<longleftrightarrow> (\<forall>u. u \<noteq> owner \<longrightarrow> same_for u db db')"

text \<open>
  C7
  The API writes for nobody but its caller: a push answers without changing a table or sending a
  hint unless its credential is accepted and it is either a bearer token or comes from an allowed
  origin with the CSRF token of the session in its header; what it then does is the batch of the
  sync service for this user, no row of any other user changes in any of the four tables, and
  every hint names this user. A forged request is answered 403, an unauthenticated one with the
  error of its credential.
\<close>

theorem pushes_are_gated:
  "case push x cfg i now auth hs body db of (r, hints, db') \<Rightarrow>
     (case (auth, body) of
        (Inl e, _) \<Rightarrow> r = error_answer e \<and> hints = [] \<and> db' = db
      | (Inr actor, Inl refused) \<Rightarrow> r = refused \<and> hints = [] \<and> db' = db
      | (Inr actor, Inr batch) \<Rightarrow>
          (if proves_intent cfg hs actor
           then (hints, db') = snd (push_mutations x i now actor batch db)
             \<and> list_all (\<lambda>h. inv_owner_id h = ctx_user_id actor) hints
             \<and> others_unchanged (ctx_user_id actor) db db'
           else rs_status r = 403 \<and> hints = [] \<and> db' = db))"
proof (cases "\<exists>actor batch. auth = Inr actor \<and> body = Inr batch \<and> proves_intent cfg hs actor")
  case True
  then obtain actor batch where a: "auth = Inr actor" "body = Inr batch" "proves_intent cfg hs actor" by blast
  obtain r hints db' where p: "push_mutations x i now actor batch db = (r, hints, db')" by (metis prod_cases3)
  from batch_for_others [OF p] batch_hints_own [OF p] a p show ?thesis
    by (simp add: push_cases Let_def others_unchanged_def)
qed (auto simp: push_cases split: sum.split)

text \<open>
  C32
  A read of the log is for its caller only: the answer of a pull depends on the rows of the
  authenticated user and on nothing else, and the identity that \<open>me\<close> shows is the user and the email
  and never the CSRF token or a session.
\<close>

theorem reads_are_private:
  assumes "same_for (ctx_user_id actor) db db'" "keyed (changes db)" "keyed (changes db')"
  shows "pull x cfg nonce (Inr actor) query db' = pull x cfg nonce (Inr actor) query db
    \<and> me x (Inr (actor\<lparr>ctx_csrf_token := csrf, ctx_session_hash := hash, ctx_supabase_session_id := sid\<rparr>))
      = me x (Inr actor)"
proof -
  have "clock_of (ctx_user_id actor) db' = clock_of (ctx_user_id actor) db"
    using assms(1) by (simp add: same_for_def clock_of_def)
  moreover have "page_rows (ctx_user_id actor) p q n db' = page_rows (ctx_user_id actor) p q n db" for p q n
    by (rule page_rows_cong [OF assms(2,3)]) (use assms(1) in \<open>simp add: same_for_def\<close>)
  ultimately show ?thesis by (simp add: pull_def pull_changes_def me_def context_to_json_def split: sum.split)
qed

definition owned_rows :: "uuid \<Rightarrow> sync_db" where
  "owned_rows owner = empty_db\<lparr>clocks := [(owner, 0)]\<rparr>"

theorem reads_are_private_witness:
  "\<forall>x cfg nonce query.
     pull x cfg nonce (Inr sample_actor) query (owned_rows 7) = pull x cfg nonce (Inr sample_actor) query empty_db"
proof -
  have "same_for (ctx_user_id sample_actor) empty_db (owned_rows 7)"
    "keyed (changes empty_db)" "keyed (changes (owned_rows 7))"
    by (simp_all add: same_for_def owned_rows_def sample_actor_def empty_db_def find_by_def)
  from reads_are_private [OF this] show ?thesis by blast
qed

section \<open>Sockets\<close>

lemma upgrade_guard:
  "(if ctx_source actor = SessionCookie then require_origin cfg hs else Inr ())
   = (if ctx_source actor = Bearer
        \<or> (\<exists>origin. header_str ''origin'' hs = Some origin \<and> origin \<in> set (cf_allowed_origins cfg))
      then Inr () else Inl Forbidden)"
proof (cases "ctx_source actor")
  case SessionCookie
  then show ?thesis
    using require_origin_iff [of cfg hs "()"] require_origin_error [of cfg hs]
    by (cases "require_origin cfg hs") auto
qed simp

text \<open>A permit that is dropped leaves the counts as they were before it was acquired.\<close>

lemma acquire_drop:
  assumes "try_acquire_socket owner c = Some (permit, c')"
  shows "total (drop_permit permit c') = total c"
    and "owner_count u (drop_permit permit c') = owner_count u c"
proof -
  have c': "permit = owner" "c' = c\<lparr>total := total c + 1, by_owner := put owner (owner_count owner c + 1) (by_owner c)\<rparr>"
    using assms by (auto simp: try_acquire_socket_def split: if_splits)
  then show "total (drop_permit permit c') = total c"
    by (simp add: drop_permit_def Let_def split: option.split)
  show "owner_count u (drop_permit permit c') = owner_count u c"
    by (simp add: c' drop_permit_def Let_def owner_count_def store.look_ins store.look_del split: option.split)
qed

text \<open>
  C33
  A socket is opened for an authenticated user only, from an allowed origin when the credential is
  the session cookie, and within the limits of 4 per user and 1024 in all; it holds one permit of
  that user, which is back when its task ends, however it ends. A refused handshake takes nothing.
\<close>

theorem sockets_are_gated:
  "case upgrade cfg auth hs websocket counts of
     (Inl refused, counts') \<Rightarrow> counts' = counts
   | (Inr g, counts') \<Rightarrow>
       auth = Inr (sg_actor g) \<and> sg_permit g = ctx_user_id (sg_actor g)
       \<and> (ctx_source (sg_actor g) = Bearer
          \<or> (\<exists>origin. header_str ''origin'' hs = Some origin \<and> origin \<in> set (cf_allowed_origins cfg)))
       \<and> total counts < 1024 \<and> owner_count (ctx_user_id (sg_actor g)) counts < 4
       \<and> total counts' = total counts + 1
       \<and> (\<forall>u. owner_count u counts' = owner_count u counts + (if u = ctx_user_id (sg_actor g) then 1 else 0))
       \<and> (case socket_task g ok heartbeat timeout events counts' of (s, back) \<Rightarrow>
            total back = total counts \<and> (\<forall>u. owner_count u back = owner_count u counts))"
proof (cases "\<exists>actor permit counts'. auth = Inr actor \<and> websocket = Inr ()
    \<and> (ctx_source actor = Bearer
       \<or> (\<exists>origin. header_str ''origin'' hs = Some origin \<and> origin \<in> set (cf_allowed_origins cfg)))
    \<and> try_acquire_socket (ctx_user_id actor) counts = Some (permit, counts')")
  case True
  then obtain actor permit counts' where a: "auth = Inr actor" "websocket = Inr ()"
    "ctx_source actor = Bearer
       \<or> (\<exists>origin. header_str ''origin'' hs = Some origin \<and> origin \<in> set (cf_allowed_origins cfg))"
    "try_acquire_socket (ctx_user_id actor) counts = Some (permit, counts')" by blast
  have u: "upgrade cfg auth hs websocket counts
      = (Inr \<lparr>sg_actor = actor, sg_permit = permit, sg_max_message_size = 64 * 1024,
               sg_max_frame_size = 64 * 1024\<rparr>, counts')"
    unfolding upgrade_def upgrade_guard using a by simp
  have c': "permit = ctx_user_id actor" "total counts < 1024" "owner_count (ctx_user_id actor) counts < 4"
    "counts' = counts\<lparr>total := total counts + 1,
       by_owner := put (ctx_user_id actor) (owner_count (ctx_user_id actor) counts + 1) (by_owner counts)\<rparr>"
    using a(4) by (auto simp: try_acquire_socket_def MAX_SOCKETS_PER_USER_def MAX_SOCKETS_PER_INSTANCE_def
        split: if_splits)
  then have "total counts' = total counts + 1"
    "owner_count u counts' = owner_count u counts + (if u = ctx_user_id actor then 1 else 0)" for u
    by (simp_all add: owner_count_def store.look_ins)
  with c'(1-3) a(1,3) acquire_drop [OF a(4)] show ?thesis
    unfolding u prod.case sum.case by (simp add: socket_task_def)
next
  case False
  have "\<exists>refused. upgrade cfg auth hs websocket counts = (Inl refused, counts)"
  proof (cases "\<exists>actor. auth = Inr actor \<and> websocket = Inr ()")
    case True
    then obtain actor where a: "auth = Inr actor" "websocket = Inr ()" by blast
    show ?thesis
    proof (cases "try_acquire_socket (ctx_user_id actor) counts")
      case None
      then show ?thesis unfolding upgrade_def upgrade_guard a by simp
    next
      case (Some t)
      then have "try_acquire_socket (ctx_user_id actor) counts = Some (fst t, snd t)" by simp
      with False a show ?thesis unfolding upgrade_def upgrade_guard a by auto
    qed
  next
    case False
    then show ?thesis by (cases auth; cases websocket) (simp_all add: upgrade_def)
  qed
  then obtain refused where "upgrade cfg auth hs websocket counts = (Inl refused, counts)" by blast
  then show ?thesis by simp
qed

end
