(* ===== verification/Startup.thy ===== *)
theory Startup
  imports Quote_Api Boundary Login Hub "HOL-Library.Sublist"
begin

text \<open>
  How the processes start: \<open>src/command.rs\<close>, \<open>src/env_compat.rs\<close>, \<open>src/server.rs\<close>,
  \<open>src/api_server.rs\<close>, \<open>src/app.rs\<close>, \<open>src/database.rs\<close>, the entry points, and
  \<open>services/canonical-session-revoker/src/main.rs\<close>. A run is the list of what the process did to the
  outside, in order, and how it ended. Databases, migrations, sockets and the shared ORM crate are
  outside; each is a parameter that says whether it works. Closing the pool and waiting for a signal at
  the end of a run are not part of it.
\<close>

section \<open>Runs\<close>

datatype auth_provider_kind = Supabase string string | Browser_Test

record app_state =
  as_config :: config
  as_connection :: connection
  as_provider :: auth_provider_kind
  as_edge_auth :: "string option"
  as_limiter :: rate_limit_policy
  as_login_permits :: nat
  as_sessions_key :: string
  as_shared_auth :: shared_auth
  as_quote_api :: "quote_client option"
  as_hub :: connection_counts
  as_bearer_permits :: nat

record revoker_state =
  re_connection :: connection
  re_sessions_key :: string
  re_provider :: auth_provider_kind

datatype surface = Web | Api_Only

datatype effect =
    Catalogs_Checked string
  | Connected string nat
  | Migrated string
  | Listening_For_Hints string
  | Serving surface app_state
  | Reconciling revoker_state

datatype start_error = Config_Failed config_error | App_Failed app_error | Unknown_Command string

type_synonym 'a run = "effect list \<times> (start_error + 'a)"

definition stops :: "start_error \<Rightarrow> 'a run" where "stops e = ([], Inl e)"
definition yields :: "'a \<Rightarrow> 'a run" where "yields v = ([], Inr v)"
definition does :: "effect \<Rightarrow> unit run" where "does e = ([e], Inr ())"

definition and_then :: "'a run \<Rightarrow> ('a \<Rightarrow> 'b run) \<Rightarrow> 'b run" where
  "and_then r f =
     (case r of
        (es, Inl e) \<Rightarrow> (es, Inl e)
      | (es, Inr v) \<Rightarrow> (es @ fst (f v), snd (f v)))"

definition lifted :: "('e \<Rightarrow> start_error) \<Rightarrow> 'e + 'a \<Rightarrow> 'a run" where
  "lifted wrap r = (case r of Inl e \<Rightarrow> stops (wrap e) | Inr v \<Rightarrow> yields v)"

record outside =
  ou_ext :: ext
  ou_std_decode :: "string \<Rightarrow> string option"
  ou_parse :: url_parser
  ou_dual_orm :: "string \<Rightarrow> bool"
  ou_connect :: "string \<Rightarrow> nat \<Rightarrow> connection option"
  ou_migrate :: "connection \<Rightarrow> bool"
  ou_bind :: "nat \<Rightarrow> bool"
  ou_served :: bool
  ou_test_auth :: bool

text \<open>\<open>ou_test_auth\<close> is the feature \<open>test-auth\<close> of the build, which release builds refuse.\<close>

section \<open>Environment\<close>

definition install_internal_auth_token_alias :: "environment \<Rightarrow> environment" where
  "install_internal_auth_token_alias env =
     (if env ''CANONICAL_INTERNAL_AUTH_TOKEN'' = None
      then case env ''CANONICAL_WEB_SERVICE_TOKEN'' of
             Some token \<Rightarrow> env(''CANONICAL_INTERNAL_AUTH_TOKEN'' \<mapsto> token)
           | None \<Rightarrow> env
      else env)"

definition test_auth_enabled :: "environment \<Rightarrow> bool" where
  "test_auth_enabled env \<longleftrightarrow> env_var env ''CANONICAL_TEST_AUTH_ENABLED'' = Some ''1''"

section \<open>Application state\<close>

definition supabase_auth_new :: "ext \<Rightarrow> string \<Rightarrow> string \<Rightarrow> app_error + auth_provider_kind" where
  "supabase_auth_new x base_url publishable_key =
     (if validate_publishable_key x publishable_key then Inr (Supabase base_url publishable_key)
      else Inl AuthClient)"

definition session_service_new :: "ext \<Rightarrow> string \<Rightarrow> app_error + string" where
  "session_service_new x encryption_key =
     (if aead_key_ok x encryption_key then Inr encryption_key else Inl Crypto)"

definition app_state_new ::
    "outside \<Rightarrow> environment \<Rightarrow> config \<Rightarrow> connection \<Rightarrow> auth_provider_kind \<Rightarrow> app_error + app_state" where
  "app_state_new o' env cfg db auth =
     try_then (shared_auth_from_env (ou_parse o') env cfg) (\<lambda>shared_auth.
     try_then (session_service_new (ou_ext o') (cf_session_encryption_key cfg)) (\<lambda>sessions.
     try_then (edge_from_env (ou_ext o') env) (\<lambda>edge_auth.
     Inr \<lparr>as_config = cfg, as_connection = db, as_provider = auth, as_edge_auth = edge_auth,
          as_limiter = limiter_policy cfg, as_login_permits = cf_login_auth_max_concurrency cfg,
          as_sessions_key = sessions, as_shared_auth = shared_auth, as_quote_api = None,
          as_hub = no_connections, as_bearer_permits = cf_bearer_auth_max_concurrency cfg\<rparr>)))"

definition connect :: "outside \<Rightarrow> string \<Rightarrow> nat \<Rightarrow> connection run" where
  "connect o' url max_connections =
     and_then (lifted App_Failed (ok_or (ou_connect o' url max_connections) Database)) (\<lambda>db.
     and_then (does (Connected url max_connections)) (\<lambda>_. yields db))"

definition build_state :: "outside \<Rightarrow> environment \<Rightarrow> config \<Rightarrow> app_state run" where
  "build_state o' env cfg =
     and_then (connect o' (cf_database_url cfg) (cf_database_max_connections cfg)) (\<lambda>db.
     and_then (lifted (\<lambda>_. App_Failed Database) (verify_runtime_database_role db)) (\<lambda>_.
     if ou_test_auth o' \<and> test_auth_enabled env then
       and_then (lifted App_Failed (app_state_new o' env cfg db Browser_Test)) (\<lambda>state.
       yields (state\<lparr>as_quote_api := (case quote_client_from_env (ou_parse o') env of
                                       Inl _ \<Rightarrow> None | Inr client \<Rightarrow> Some client)\<rparr>))
     else
       and_then (lifted App_Failed
           (supabase_auth_new (ou_ext o') (cf_supabase_url cfg) (cf_supabase_publishable_key cfg))) (\<lambda>auth.
       and_then (lifted App_Failed (app_state_new o' env cfg db auth)) (\<lambda>state.
       and_then (lifted App_Failed (quote_client_from_env (ou_parse o') env)) (\<lambda>client.
       yields (state\<lparr>as_quote_api := Some client\<rparr>))))))"

section \<open>Servers\<close>

text \<open>The listener of hints, the socket and the server, which both binaries share.\<close>

definition listen_and_serve :: "outside \<Rightarrow> surface \<Rightarrow> app_state \<Rightarrow> unit run" where
  "listen_and_serve o' surface state =
     and_then (if cn_backend (as_connection state) = Postgres
               then does (Listening_For_Hints (cf_database_url (as_config state))) else yields ()) (\<lambda>_.
     and_then (lifted App_Failed (if ou_bind o' (cf_port (as_config state)) then Inr () else Inl Io)) (\<lambda>_.
     and_then (does (Serving surface state)) (\<lambda>_.
     lifted App_Failed (if ou_served o' then Inr () else Inl Io))))"

definition server_run :: "outside \<Rightarrow> environment \<Rightarrow> config \<Rightarrow> unit run" where
  "server_run o' env cfg =
     and_then (lifted App_Failed (if ou_dual_orm o' (cf_database_url cfg) then Inr () else Inl Persistence)) (\<lambda>_.
     and_then (does (Catalogs_Checked (cf_database_url cfg))) (\<lambda>_.
     and_then (build_state o' env cfg) (listen_and_serve o' Web)))"

definition api_server_run :: "outside \<Rightarrow> environment \<Rightarrow> config \<Rightarrow> unit run" where
  "api_server_run o' env cfg = and_then (build_state o' env cfg) (listen_and_serve o' Api_Only)"

definition run_migrations :: "outside \<Rightarrow> string \<Rightarrow> nat \<Rightarrow> unit run" where
  "run_migrations o' url max_connections =
     and_then (connect o' url max_connections) (\<lambda>db.
     and_then (lifted App_Failed (if ou_migrate o' db then Inr () else Inl Database)) (\<lambda>_.
     does (Migrated url)))"

definition command_run :: "outside \<Rightarrow> environment \<Rightarrow> string option \<Rightarrow> unit run" where
  "command_run o' raw_env command =
     (let env = install_internal_auth_token_alias raw_env
      in if command = Some ''migrate'' then
           and_then (lifted Config_Failed (migration_from_env env)) (\<lambda>mc.
           run_migrations o' (mc_database_url mc) (mc_database_max_connections mc))
         else if command = None \<or> command = Some ''serve'' then
           and_then (lifted Config_Failed (from_env (ou_ext o') (ou_std_decode o') (ou_parse o') env))
             (server_run o' env)
         else stops (Unknown_Command (the command)))"

definition api_main :: "outside \<Rightarrow> environment \<Rightarrow> unit run" where
  "api_main o' env =
     and_then (lifted Config_Failed (from_env (ou_ext o') (ou_std_decode o') (ou_parse o') env))
       (api_server_run o' env)"

definition revoker_main :: "outside \<Rightarrow> environment \<Rightarrow> string option \<Rightarrow> unit run" where
  "revoker_main o' env command =
     and_then (lifted Config_Failed (revoker_from_env (ou_ext o') (ou_std_decode o') (ou_parse o') env)) (\<lambda>rc.
     and_then (connect o' (rc_database_url rc) (rc_database_max_connections rc)) (\<lambda>db.
     and_then (lifted App_Failed
         (supabase_auth_new (ou_ext o') (rc_supabase_url rc) (rc_supabase_publishable_key rc))) (\<lambda>auth.
     and_then (lifted App_Failed (session_service_new (ou_ext o') (rc_session_encryption_key rc))) (\<lambda>key.
     and_then (lifted (\<lambda>_. App_Failed Database) (verify_session_revoker_database_role db)) (\<lambda>_.
     if command = None \<or> command = Some ''run'' then
       does (Reconciling \<lparr>re_connection = db, re_sessions_key = key, re_provider = auth\<rparr>)
     else if command = Some ''check'' then yields ()
     else stops (Unknown_Command (the command)))))))"

section \<open>Runs and their effects\<close>

lemma run_simps [simp]:
  "fst (stops err) = []" "snd (stops err) = Inl err" "fst (yields v) = []" "snd (yields v) = Inr v"
  "fst (does e) = [e]" "snd (does e) = Inr ()"
  "fst (lifted wrap r) = []" "snd (lifted wrap r) = map_err wrap r"
  by (simp_all add: stops_def yields_def does_def lifted_def split: sum.split)

lemma effects_and_then [simp]:
  "fst (and_then r f) = fst r @ (case snd r of Inl e \<Rightarrow> [] | Inr v \<Rightarrow> fst (f v))"
  by (auto simp: and_then_def split: prod.split sum.split)

lemma run_Inr [simp]:
  "snd (lifted wrap r) = Inr v \<longleftrightarrow> r = Inr v"
  "snd (and_then r' f) = Inr u \<longleftrightarrow> (\<exists>v. snd r' = Inr v \<and> snd (f v) = Inr u)"
  by (auto simp: map_err_Inr and_then_def split: sum.splits prod.splits)

lemma found_Inr [simp]: "(case r of None \<Rightarrow> Inl e | Some v \<Rightarrow> Inr v) = Inr w \<longleftrightarrow> r = Some w"
  by (auto split: option.split)

lemma connect_effects [simp]:
  "fst (connect o' url n) = (case ou_connect o' url n of None \<Rightarrow> [] | Some _ \<Rightarrow> [Connected url n])"
  "snd (connect o' url n) = (case ou_connect o' url n of None \<Rightarrow> Inl (App_Failed Database) | Some db \<Rightarrow> Inr db)"
  by (auto simp: connect_def ok_or_def and_then_def lifted_def stops_def yields_def does_def split: option.split)

lemma listen_effects:
  "fst (listen_and_serve o' surface st) =
     (if cn_backend (as_connection st) = Postgres then [Listening_For_Hints (cf_database_url (as_config st))] else [])
     @ (if ou_bind o' (cf_port (as_config st)) then [Serving surface st] else [])"
  by (simp add: listen_and_serve_def)

lemma build_state_effects:
  "fst (build_state o' env cfg) =
     (case ou_connect o' (cf_database_url cfg) (cf_database_max_connections cfg) of
        None \<Rightarrow> [] | Some _ \<Rightarrow> [Connected (cf_database_url cfg) (cf_database_max_connections cfg)])"
  by (auto simp: build_state_def split: option.split sum.split)

lemma migration_effects: "prefix (fst (run_migrations o' url n)) [Connected url n, Migrated url]"
  by (simp add: run_migrations_def split: option.split)

lemma migrate_command:
  "\<exists>mc :: migration_config. prefix (fst (command_run o' env (Some ''migrate'')))
     [Connected (mc_database_url mc) (mc_database_max_connections mc), Migrated (mc_database_url mc)]"
proof (cases "migration_from_env (install_internal_auth_token_alias env)")
  case (Inl e)
  then show ?thesis by (simp add: command_run_def)
next
  case (Inr mc)
  then have e: "fst (command_run o' env (Some ''migrate''))
      = fst (run_migrations o' (mc_database_url mc) (mc_database_max_connections mc))"
    by (simp add: command_run_def)
  show ?thesis by (rule exI [of _ mc], subst e, rule migration_effects)
qed

lemma other_command:
  "c \<noteq> ''serve'' \<Longrightarrow> c \<noteq> ''migrate'' \<Longrightarrow> command_run o' env (Some c) = ([], Inl (Unknown_Command c))"
  by (simp add: command_run_def stops_def)

lemma serve_command:
  "command_run o' env (Some ''serve'') = command_run o' env None"
  by (simp add: command_run_def Let_def)

text \<open>What holds of the state of a process that got this far.\<close>

definition started :: "outside \<Rightarrow> environment \<Rightarrow> config \<Rightarrow> app_state \<Rightarrow> bool" where
  "started o' env cfg st \<longleftrightarrow>
     as_config st = cfg
     \<and> ou_connect o' (cf_database_url cfg) (cf_database_max_connections cfg) = Some (as_connection st)
     \<and> verify_runtime_database_role (as_connection st) = Inr ()
     \<and> shared_auth_from_env (ou_parse o') env cfg = Inr (as_shared_auth st)
     \<and> edge_from_env (ou_ext o') env = Inr (as_edge_auth st)
     \<and> as_sessions_key st = cf_session_encryption_key cfg
     \<and> as_limiter st = limiter_policy cfg \<and> as_hub st = no_connections
     \<and> as_login_permits st = cf_login_auth_max_concurrency cfg
     \<and> as_bearer_permits st = cf_bearer_auth_max_concurrency cfg
     \<and> (if ou_test_auth o' \<and> test_auth_enabled env then as_provider st = Browser_Test
        else as_provider st = Supabase (cf_supabase_url cfg) (cf_supabase_publishable_key cfg)
          \<and> validate_publishable_key (ou_ext o') (cf_supabase_publishable_key cfg)
          \<and> (\<exists>client. as_quote_api st = Some client \<and> quote_client_from_env (ou_parse o') env = Inr client))"

lemma app_state_Inr:
  assumes "app_state_new o' env cfg db auth = Inr st"
  shows "as_config st = cfg" "as_connection st = db" "as_provider st = auth"
    "shared_auth_from_env (ou_parse o') env cfg = Inr (as_shared_auth st)"
    "edge_from_env (ou_ext o') env = Inr (as_edge_auth st)"
    "as_sessions_key st = cf_session_encryption_key cfg" "as_limiter st = limiter_policy cfg"
    "as_hub st = no_connections" "as_login_permits st = cf_login_auth_max_concurrency cfg"
    "as_bearer_permits st = cf_bearer_auth_max_concurrency cfg"
  using assms by (auto simp: app_state_new_def session_service_new_def try_then_Inr split: if_splits)

lemma build_state_Inr:
  assumes "snd (build_state o' env cfg) = Inr st"
  shows "started o' env cfg st"
proof -
  obtain db where db: "ou_connect o' (cf_database_url cfg) (cf_database_max_connections cfg) = Some db"
    "verify_runtime_database_role db = Inr ()"
    using assms by (auto simp: build_state_def map_err_Inr split: option.splits)
  show ?thesis
  proof (cases "ou_test_auth o' \<and> test_auth_enabled env")
    case True
    with assms db obtain st0 where "app_state_new o' env cfg db Browser_Test = Inr st0"
      "st = st0\<lparr>as_quote_api := (case quote_client_from_env (ou_parse o') env of
                                       Inl _ \<Rightarrow> None | Inr client \<Rightarrow> Some client)\<rparr>"
      by (auto simp: build_state_def map_err_Inr)
    with True db app_state_Inr [OF this(1)] show ?thesis by (simp add: started_def)
  next
    case False
    with assms db obtain auth st0 client where
      a: "supabase_auth_new (ou_ext o') (cf_supabase_url cfg) (cf_supabase_publishable_key cfg) = Inr auth"
      and s: "app_state_new o' env cfg db auth = Inr st0"
      and q: "quote_client_from_env (ou_parse o') env = Inr client"
      and st: "st = st0\<lparr>as_quote_api := Some client\<rparr>"
      by (auto simp: build_state_def map_err_Inr)
    from a have "auth = Supabase (cf_supabase_url cfg) (cf_supabase_publishable_key cfg)"
      "validate_publishable_key (ou_ext o') (cf_supabase_publishable_key cfg)"
      by (auto simp: supabase_auth_new_def split: if_splits)
    with False db q st app_state_Inr [OF s] show ?thesis by (auto simp: started_def)
  qed
qed

text \<open>Only a built state is served, and serving is the last thing that happens.\<close>

lemma serving_effects:
  assumes "Serving surface st \<in> set (fst (and_then (build_state o' env cfg) (listen_and_serve o' sf)))"
  shows "surface = sf \<and> snd (build_state o' env cfg) = Inr st \<and> started o' env cfg st
    \<and> fst (and_then (build_state o' env cfg) (listen_and_serve o' sf))
      = Connected (cf_database_url cfg) (cf_database_max_connections cfg)
        # (if cn_backend (as_connection st) = Postgres then [Listening_For_Hints (cf_database_url cfg)] else [])
        @ [Serving surface st]"
proof -
  have none: "Serving surface st \<notin> set (fst (build_state o' env cfg))"
    by (auto simp: build_state_effects split: option.split)
  with assms obtain st' where s: "snd (build_state o' env cfg) = Inr st'"
    "Serving surface st \<in> set (fst (listen_and_serve o' sf st'))"
    by (cases "snd (build_state o' env cfg)") auto
  then have "st' = st" "surface = sf" "ou_bind o' (cf_port (as_config st))"
    by (auto simp: listen_effects split: if_splits)
  with s build_state_Inr [OF s(1)] show ?thesis
    by (simp add: build_state_effects listen_effects started_def)
qed

section \<open>Properties\<close>

lemma shared_auth_csrf_key:
  "shared_auth_from_env parse env cfg = Inr sa \<Longrightarrow> sa_csrf_key sa = cf_session_encryption_key cfg"
  by (auto simp: shared_auth_from_env_def Let_def try_then_Inr split: if_splits)

text \<open>What one run of the two serving binaries needs to serve.\<close>

lemma command_serving:
  assumes "Serving surface st \<in> set (fst (command_run o' raw command))"
  defines "env \<equiv> install_internal_auth_token_alias raw"
  shows "surface = Web \<and> (command = None \<or> command = Some ''serve'')
    \<and> from_env (ou_ext o') (ou_std_decode o') (ou_parse o') env = Inr (as_config st)
    \<and> started o' env (as_config st) st \<and> ou_dual_orm o' (cf_database_url (as_config st))
    \<and> fst (command_run o' raw command) =
        Catalogs_Checked (cf_database_url (as_config st))
        # Connected (cf_database_url (as_config st)) (cf_database_max_connections (as_config st))
        # (if cn_backend (as_connection st) = Postgres
           then [Listening_For_Hints (cf_database_url (as_config st))] else [])
        @ [Serving Web st]"
proof -
  have serve: "command = None \<or> command = Some ''serve''"
  proof (rule ccontr)
    assume "\<not> ?thesis"
    then obtain c where c: "command = Some c" "c \<noteq> ''serve''" by auto
    show False
    proof (cases "c = ''migrate''")
      case True
      from migrate_command [of o' raw] obtain mc :: migration_config where
        "set (fst (command_run o' raw command))
           \<subseteq> {Connected (mc_database_url mc) (mc_database_max_connections mc), Migrated (mc_database_url mc)}"
        using c True set_mono_prefix by fastforce
      with assms(1) show False by auto
    next
      case False
      with assms(1) c other_command [OF c(2), of o' raw] show False by simp
    qed
  qed
  then have run: "command_run o' raw command =
      and_then (lifted Config_Failed (from_env (ou_ext o') (ou_std_decode o') (ou_parse o') env)) (server_run o' env)"
    by (auto simp: command_run_def Let_def env_def)
  obtain cfg where cfg: "from_env (ou_ext o') (ou_std_decode o') (ou_parse o') env = Inr cfg"
    using assms(1) run
    by (cases "from_env (ou_ext o') (ou_std_decode o') (ou_parse o') env") simp_all
  then have run: "fst (command_run o' raw command) = fst (server_run o' env cfg)" by (simp add: run)
  have orm: "ou_dual_orm o' (cf_database_url cfg)"
  proof (rule ccontr)
    assume "\<not> ?thesis"
    then have "fst (server_run o' env cfg) = []" by (simp add: server_run_def)
    with assms(1) run show False by simp
  qed
  let ?rest = "and_then (build_state o' env cfg) (listen_and_serve o' Web)"
  have rest: "fst (server_run o' env cfg) = Catalogs_Checked (cf_database_url cfg) # fst ?rest"
    using orm by (simp add: server_run_def)
  then have "Serving surface st \<in> set (fst ?rest)"
    using assms(1) unfolding run by (simp only: list.set insert_iff effect.distinct simp_thms)
  note s = serving_effects [OF this]
  then have [simp]: "as_config st = cfg" by (simp add: started_def)
  from s have "fst (command_run o' raw command) = Catalogs_Checked (cf_database_url cfg)
      # Connected (cf_database_url cfg) (cf_database_max_connections cfg)
      # (if cn_backend (as_connection st) = Postgres then [Listening_For_Hints (cf_database_url cfg)] else [])
      @ [Serving Web st]"
    unfolding run rest by (simp only:)
  with s serve cfg orm show ?thesis by (simp only: \<open>as_config st = cfg\<close> simp_thms)
qed

lemma api_serving:
  assumes "Serving surface st \<in> set (fst (api_main o' env))"
  shows "surface = Api_Only
    \<and> from_env (ou_ext o') (ou_std_decode o') (ou_parse o') env = Inr (as_config st)
    \<and> started o' env (as_config st) st"
proof -
  obtain cfg where cfg: "from_env (ou_ext o') (ou_std_decode o') (ou_parse o') env = Inr cfg"
    using assms by (cases "from_env (ou_ext o') (ou_std_decode o') (ou_parse o') env") (simp_all add: api_main_def)
  then have "fst (api_main o' env) = fst (and_then (build_state o' env cfg) (listen_and_serve o' Api_Only))"
    by (simp add: api_main_def api_server_run_def)
  with assms have "Serving surface st \<in> set (fst (and_then (build_state o' env cfg) (listen_and_serve o' Api_Only)))"
    by (simp del: effects_and_then)
  from serving_effects [OF this] cfg show ?thesis by (auto simp: started_def)
qed

text \<open>
  C34
  A process that serves has passed every check before it accepts a connection: its configuration
  loaded; on PostgreSQL its login is the isolated role of the web runtime; its session key, which
  also derives the CSRF tokens of Shared Auth, has 32 bytes that are not all zero; its limiter has
  the ranges of the configuration and neither semaphore is empty or above 256; it asks Supabase with
  a publishable key and has a client of the quote service with a token of at least 32 bytes, unless
  the build has the test provider and the environment asks for it.
\<close>

theorem serving_processes_are_verified:
  assumes "(surface = Web \<and> env = install_internal_auth_token_alias raw
        \<and> Serving surface st \<in> set (fst (command_run o' raw command)))
    \<or> (surface = Api_Only \<and> Serving surface st \<in> set (fst (api_main o' env)))"
  shows "from_env (ou_ext o') (ou_std_decode o') (ou_parse o') env = Inr (as_config st)
    \<and> (case cn_backend (as_connection st) of Sqlite \<Rightarrow> True | Postgres \<Rightarrow>
         (\<exists>r. current_role (as_connection st) = Some r \<and> isolated_login (as_connection st) r
            \<and> cn_current_user (as_connection st) = RUNTIME_SERVER_ROLE))
    \<and> length (as_sessions_key st) = 32 \<and> (\<exists>c \<in> set (as_sessions_key st). byte c \<noteq> 0)
    \<and> sa_csrf_key (as_shared_auth st) = as_sessions_key st
    \<and> max_attempts (as_limiter st) \<in> {1..20} \<and> as_login_permits st \<in> {1..256}
    \<and> as_bearer_permits st \<in> {1..256}
    \<and> (if ou_test_auth o' \<and> test_auth_enabled env then as_provider st = Browser_Test
       else (\<exists>url key. as_provider st = Supabase url key \<and> validate_publishable_key (ou_ext o') key)
         \<and> (\<exists>client. as_quote_api st = Some client \<and> 32 \<le> length (qc_internal_auth_token client)))"
proof -
  have s: "from_env (ou_ext o') (ou_std_decode o') (ou_parse o') env = Inr (as_config st)"
    "started o' env (as_config st) st"
    using assms command_serving api_serving by blast+
  note parts = from_env_parts [OF s(1)]
  have key: "length (as_sessions_key st) = 32" "\<exists>c \<in> set (as_sessions_key st). byte c \<noteq> 0"
    using parts encryption_key_Inr s(2) by (auto simp: started_def)
  have ranges: "max_attempts (as_limiter st) \<in> {1..20}" "as_login_permits st \<in> {1..256}"
    "as_bearer_permits st \<in> {1..256}"
    using parts bounded_range login_concurrency_range s(2) by (fastforce simp: started_def limiter_policy_def)+
  have csrf: "sa_csrf_key (as_shared_auth st) = as_sessions_key st"
    using s(2) shared_auth_csrf_key [of "ou_parse o'" env "as_config st"] by (simp add: started_def)
  have role: "case cn_backend (as_connection st) of Sqlite \<Rightarrow> True | Postgres \<Rightarrow>
         (\<exists>r. current_role (as_connection st) = Some r \<and> isolated_login (as_connection st) r
            \<and> cn_current_user (as_connection st) = RUNTIME_SERVER_ROLE)"
    using s(2) verified_current_role [of "as_connection st" RUNTIME_SERVER_ROLE]
    by (cases "cn_backend (as_connection st)") (auto simp: started_def verify_runtime_database_role_def)
  have quote: "32 \<le> length (qc_internal_auth_token client)"
    if "quote_client_from_env (ou_parse o') env = Inr client" for client
    using that by (auto simp: quote_client_from_env_def try_then_Inr split: if_splits)
  have "if ou_test_auth o' \<and> test_auth_enabled env then as_provider st = Browser_Test
       else (\<exists>url key. as_provider st = Supabase url key \<and> validate_publishable_key (ou_ext o') key)
         \<and> (\<exists>client. as_quote_api st = Some client \<and> 32 \<le> length (qc_internal_auth_token client))"
    using s(2) quote by (auto simp: started_def)
  with s(1) key ranges csrf role show ?thesis by blast
qed

lemma serving_prefix:
  "\<exists>hints st. prefix (fst (and_then (build_state o' env cfg) (listen_and_serve o' sf)))
       (Connected (cf_database_url cfg) (cf_database_max_connections cfg) # hints @ [Serving sf st])
     \<and> hints \<in> {[], [Listening_For_Hints (cf_database_url cfg)]}"
proof (cases "snd (build_state o' env cfg)")
  case (Inl e)
  then show ?thesis
    by (intro exI [of _ "[]"]) (simp add: build_state_effects split: option.split)
next
  case (Inr st)
  from build_state_Inr [OF this] have st: "started o' env cfg st" .
  let ?hints = "if cn_backend (as_connection st) = Postgres then [Listening_For_Hints (cf_database_url cfg)] else []"
  have run: "fst (and_then (build_state o' env cfg) (listen_and_serve o' sf))
      = Connected (cf_database_url cfg) (cf_database_max_connections cfg)
        # ?hints @ (if ou_bind o' (cf_port cfg) then [Serving sf st] else [])"
    using Inr st by (simp add: build_state_effects listen_effects started_def)
  have "prefix (fst (and_then (build_state o' env cfg) (listen_and_serve o' sf)))
      (Connected (cf_database_url cfg) (cf_database_max_connections cfg) # ?hints @ [Serving sf st])"
    unfolding run by simp
  moreover have "?hints \<in> {[], [Listening_For_Hints (cf_database_url cfg)]}" by simp
  ultimately show ?thesis by blast
qed

lemma serve_prefix:
  "\<exists>u n hints st. prefix (fst (command_run o' env None)) ([Catalogs_Checked u, Connected u n] @ hints @ [Serving Web st])
     \<and> hints \<in> {[], [Listening_For_Hints u]}"
proof -
  let ?env = "install_internal_auth_token_alias env"
  show ?thesis
  proof (cases "from_env (ou_ext o') (ou_std_decode o') (ou_parse o') ?env")
    case (Inl e)
    then have "fst (command_run o' env None) = []" by (simp add: command_run_def)
    then show ?thesis by (intro exI [of _ "[]"] exI) simp
  next
    case (Inr cfg)
    let ?rest = "fst (and_then (build_state o' ?env cfg) (listen_and_serve o' Web))"
    have run: "fst (command_run o' env None)
        = (if ou_dual_orm o' (cf_database_url cfg) then Catalogs_Checked (cf_database_url cfg) # ?rest else [])"
      using Inr by (simp add: command_run_def server_run_def)
    obtain hints st where "prefix ?rest
        (Connected (cf_database_url cfg) (cf_database_max_connections cfg) # hints @ [Serving Web st])"
      and hints: "hints \<in> {[], [Listening_For_Hints (cf_database_url cfg)]}"
      using serving_prefix by blast
    then have "prefix (fst (command_run o' env None)) ([Catalogs_Checked (cf_database_url cfg),
        Connected (cf_database_url cfg) (cf_database_max_connections cfg)] @ hints @ [Serving Web st])"
      unfolding run by (simp del: effects_and_then)
    with hints show ?thesis by blast
  qed
qed

lemma revoker_effects:
  fixes o' env command
  defines "run \<equiv> fst (revoker_main o' env command)"
  shows "run = [] \<or> (\<exists>u n. run = [Connected u n])
    \<or> (\<exists>u n re. run = [Connected u n, Reconciling re] \<and> command \<in> {None, Some ''run''}
         \<and> length (re_sessions_key re) = 32 \<and> verify_session_revoker_database_role (re_connection re) = Inr ())"
proof (cases "revoker_from_env (ou_ext o') (ou_std_decode o') (ou_parse o') env")
  case (Inl e)
  then show ?thesis by (simp add: run_def revoker_main_def)
next
  case (Inr rc)
  then have key: "length (rc_session_encryption_key rc) = 32"
    using encryption_key_Inr by (fastforce simp: revoker_from_env_def try_then_Inr)
  from Inr key show ?thesis
    by (auto simp: run_def revoker_main_def session_service_new_def map_err_def split: option.split sum.split)
qed

text \<open>
  No process does the work of another: \<open>migrate\<close> connects with the migration credential, migrates
  and never serves; \<open>serve\<close> checks the catalogues, connects, listens for hints and serves, in this
  order and as far as it gets, and never migrates; any other command does nothing at all. The revoker
  reconciles only as the isolated revoker login and only when it is told to run, \<open>check\<close> stops
  before that, and the legacy token is used only where the reviewed variable is not set.
\<close>

theorem processes_keep_to_their_task:
  "(case command of
      None \<Rightarrow> \<exists>u n hints st. prefix (fst (command_run o' env command))
               ([Catalogs_Checked u, Connected u n] @ hints @ [Serving Web st]) \<and> hints \<in> {[], [Listening_For_Hints u]}
    | Some c \<Rightarrow>
        if c = ''serve'' then command_run o' env command = command_run o' env None
        else if c = ''migrate'' then
          \<exists>mc :: migration_config. prefix (fst (command_run o' env command))
                 [Connected (mc_database_url mc) (mc_database_max_connections mc), Migrated (mc_database_url mc)]
        else command_run o' env command = ([], Inl (Unknown_Command c)))
   \<and> (case fst (revoker_main o' env command) of
        [] \<Rightarrow> True
      | e # rest \<Rightarrow> (\<exists>u n. e = Connected u n)
          \<and> (rest = [] \<or> (\<exists>re. rest = [Reconciling re] \<and> command \<in> {None, Some ''run''}
               \<and> length (re_sessions_key re) = 32
               \<and> verify_session_revoker_database_role (re_connection re) = Inr ())))
   \<and> install_internal_auth_token_alias env ''CANONICAL_INTERNAL_AUTH_TOKEN''
       = (case env ''CANONICAL_INTERNAL_AUTH_TOKEN'' of
            Some token \<Rightarrow> Some token | None \<Rightarrow> env ''CANONICAL_WEB_SERVICE_TOKEN'')"
proof (intro conjI)
  show "case command of
      None \<Rightarrow> \<exists>u n hints st. prefix (fst (command_run o' env command))
               ([Catalogs_Checked u, Connected u n] @ hints @ [Serving Web st]) \<and> hints \<in> {[], [Listening_For_Hints u]}
    | Some c \<Rightarrow>
        if c = ''serve'' then command_run o' env command = command_run o' env None
        else if c = ''migrate'' then
          \<exists>mc :: migration_config. prefix (fst (command_run o' env command))
                 [Connected (mc_database_url mc) (mc_database_max_connections mc), Migrated (mc_database_url mc)]
        else command_run o' env command = ([], Inl (Unknown_Command c))"
  proof (cases command)
    case None
    then show ?thesis using serve_prefix [of o' env] by (simp only: option.case)
  next
    case (Some c)
    then show ?thesis
      using migrate_command [of o' env] other_command [of c o' env] serve_command [of o' env]
      by (cases "c = ''serve''"; cases "c = ''migrate''") (simp_all only: option.case if_True if_False simp_thms)
  qed
  show "case fst (revoker_main o' env command) of
        [] \<Rightarrow> True
      | e # rest \<Rightarrow> (\<exists>u n. e = Connected u n)
          \<and> (rest = [] \<or> (\<exists>re. rest = [Reconciling re] \<and> command \<in> {None, Some ''run''}
               \<and> length (re_sessions_key re) = 32
               \<and> verify_session_revoker_database_role (re_connection re) = Inr ()))"
    using revoker_effects [of o' env command] by (elim disjE exE conjE) simp_all
  show "install_internal_auth_token_alias env ''CANONICAL_INTERNAL_AUTH_TOKEN''
       = (case env ''CANONICAL_INTERNAL_AUTH_TOKEN'' of
            Some token \<Rightarrow> Some token | None \<Rightarrow> env ''CANONICAL_WEB_SERVICE_TOKEN'')"
    by (simp add: install_internal_auth_token_alias_def split: option.split)
qed

section \<open>Samples\<close>

definition start_env :: environment where
  "start_env = sample_env(''SHARED_AUTH_VERIFY_URL'' \<mapsto> ''https://a/'', ''CANONICAL_API_URL'' \<mapsto> ''https://a/'',
     ''CANONICAL_INTERNAL_AUTH_TOKEN'' \<mapsto> replicate 32 (CHR ''t''))"

definition start_outside :: outside where
  "start_outside = \<lparr>ou_ext = sample_ext JNull, ou_std_decode = Some, ou_parse = sample_parse ''https'' ''a'',
     ou_dual_orm = (\<lambda>_. True), ou_connect = (\<lambda>_ _. Some (sample_connection RUNTIME_SERVER_ROLE)),
     ou_migrate = (\<lambda>_. True), ou_bind = (\<lambda>_. True), ou_served = True, ou_test_auth = False\<rparr>"

definition start_state :: app_state where
  "start_state = \<lparr>as_config = sample_config, as_connection = sample_connection RUNTIME_SERVER_ROLE,
     as_provider = Supabase ''https://a'' ''sb_publishable_x'', as_edge_auth = None,
     as_limiter = limiter_policy sample_config, as_login_permits = 16,
     as_sessions_key = replicate 32 (CHR ''k''),
     as_shared_auth = \<lparr>sa_verify_url = sample_url ''https'' ''a'', sa_cookie_name = DEFAULT_SECURE_COOKIE,
       sa_csrf_key = replicate 32 (CHR ''k'')\<rparr>,
     as_quote_api = Some \<lparr>qc_base_url = ''https://a'', qc_internal_auth_token = replicate 32 (CHR ''t'')\<rparr>,
     as_hub = no_connections, as_bearer_permits = 32\<rparr>"

lemma start_config:
  "from_env (sample_ext JNull) Some (sample_parse ''https'' ''a'') start_env = Inr sample_config"
proof -
  have "from_env (sample_ext JNull) Some (sample_parse ''https'' ''a'') start_env
      = from_env (sample_ext JNull) Some (sample_parse ''https'' ''a'') sample_env"
    by (simp add: from_env_def required_def optional_parse_def optional_bool_def bounded_def
        session_encryption_key_from_env_def session_ttl_from_def session_cookie_from_def env_var_def start_env_def)
  with sample_from_env show ?thesis by simp
qed

lemma start_cookie: "validate_cookie_name DEFAULT_SECURE_COOKIE True = Inr ()"
  by code_simp

lemma start_shared_auth:
  "shared_auth_from_env (sample_parse ''https'' ''a'') start_env sample_config = Inr (as_shared_auth start_state)"
  by (simp add: shared_auth_from_env_def Let_def env_var_def start_env_def sample_env_def sample_config_def
      or_else_def from_utf8_def valid_utf8_ascii list_all_iff sample_parse_def sample_url_def start_state_def
      start_cookie validate_verify_url_def no_credentials_def)

lemma start_quote_client:
  "quote_client_from_env (sample_parse ''https'' ''a'') start_env
     = Inr \<lparr>qc_base_url = ''https://a'', qc_internal_auth_token = replicate 32 (CHR ''t'')\<rparr>"
proof -
  have "trim (replicate 32 (CHR ''t'')) = replicate 32 (CHR ''t'')"
    by (rule trim_visible) (simp_all add: chr_in_def)
  then show ?thesis
    by (simp add: quote_client_from_env_def env_var_def start_env_def from_utf8_def valid_utf8_ascii list_all_iff
        sample_parse_def sample_url_def no_credentials_def)
qed

lemma start_build: "snd (build_state start_outside start_env sample_config) = Inr start_state"
proof -
  have "aead_key_ok (sample_ext JNull) (replicate 32 (CHR ''k''))" by (simp add: sample_ext_def)
  moreover have "validate_publishable_key (sample_ext JNull) ''sb_publishable_x''"
    by (simp add: validate_publishable_key_def sample_trimmed)
  moreover have "edge_from_env (sample_ext JNull) start_env = Inr None"
    by (simp add: edge_from_env_def start_env_def sample_env_def)
  moreover have "cf_session_encryption_key sample_config = replicate 32 (CHR ''k'')"
    "cf_supabase_url sample_config = ''https://a''" "cf_supabase_publishable_key sample_config = ''sb_publishable_x''"
    "cf_login_auth_max_concurrency sample_config = 16" "cf_bearer_auth_max_concurrency sample_config = 32"
    by (simp_all add: sample_config_def)
  moreover have "verify_runtime_database_role (sample_connection RUNTIME_SERVER_ROLE) = Inr ()"
    unfolding verify_runtime_database_role_def
    by (rule sample_connection_verified) (simp add: RUNTIME_SERVER_ROLE_def)
  ultimately show ?thesis
    using start_shared_auth
    by (simp add: build_state_def start_outside_def app_state_new_def session_service_new_def
        supabase_auth_new_def start_quote_client start_state_def)
qed

lemma start_serves: "Serving Api_Only start_state \<in> set (fst (api_main start_outside start_env))"
proof -
  have "ou_bind start_outside port" for port by (simp add: start_outside_def)
  then have "Serving Api_Only start_state \<in> set (fst (listen_and_serve start_outside Api_Only start_state))"
    by (simp add: listen_effects)
  with start_build start_config show ?thesis
    by (simp add: api_main_def api_server_run_def start_outside_def)
qed

theorem serving_processes_are_verified_witness:
  "from_env (sample_ext JNull) Some (sample_parse ''https'' ''a'') start_env = Inr (as_config start_state)
    \<and> sa_csrf_key (as_shared_auth start_state) = as_sessions_key start_state
    \<and> as_login_permits start_state \<in> {1..256}"
proof -
  from start_serves have "(Api_Only = Web \<and> start_env = install_internal_auth_token_alias start_env
        \<and> Serving Api_Only start_state \<in> set (fst (command_run start_outside start_env None)))
    \<or> (Api_Only = Api_Only \<and> Serving Api_Only start_state \<in> set (fst (api_main start_outside start_env)))" by simp
  from serving_processes_are_verified [OF this] show ?thesis
    by (simp add: start_outside_def)
qed

end
