(* ===== verification/Handoff.thy ===== *)
theory Handoff
  imports Quote Login
begin

text \<open>
  The authorization code handoff from Shared Auth: the client of \<open>src/integrations.rs\<close> and the two
  handlers of \<open>src/routes/shared_auth.rs\<close>. The handlers are in the repository but no router of
  \<open>src/routes/mod.rs\<close> includes them; they are modelled as they are written. The answer of Shared Auth
  to a redemption, the verified user of a token and the random bytes are parameters.
\<close>

section \<open>The client\<close>

datatype integration_error = Integration_Missing string | Integration_Invalid string string

record handoff_client =
  hc_base_url :: string
  hc_client_id :: string
  hc_client_secret :: string
  hc_expected_supabase_project :: string
  hc_callback_url :: string

definition integration_required :: "environment \<Rightarrow> string \<Rightarrow> integration_error + string" where
  "integration_required env name = ok_or (env_var env name) (Integration_Missing name)"

definition url_safe :: "char \<Rightarrow> bool" where
  "url_safe c \<longleftrightarrow> is_alphanumeric c \<or> c = CHR ''-'' \<or> c = CHR ''_''"

definition validated_identifier :: "string \<Rightarrow> string \<Rightarrow> integration_error + string" where
  "validated_identifier name value =
     (if value = [] \<or> 128 < length value \<or> \<not> list_all url_safe value
      then Inl (Integration_Invalid name ''must be a 1-128 character URL-safe identifier'')
      else Inr value)"

definition integration_origin :: "url_parser \<Rightarrow> string \<Rightarrow> string \<Rightarrow> integration_error + string" where
  "integration_origin parse name value =
     try_then (map_err (\<lambda>e. Integration_Invalid name (''expected an absolute HTTP(S) origin: '' @ e)) (parse value))
       (\<lambda>parsed.
     try_then (ok_or (ur_host parsed) (Integration_Invalid name ''a host is required'')) (\<lambda>host.
       let loopback = host \<in> {''localhost'', ''127.0.0.1'', ''::1''}
       in if ur_username parsed \<noteq> [] \<or> ur_password parsed \<noteq> None \<or> ur_query parsed \<noteq> None
             \<or> ur_fragment parsed \<noteq> None \<or> ur_path parsed \<noteq> ''/''
             \<or> ur_scheme parsed \<notin> {''https'', ''http''} \<or> (ur_scheme parsed = ''http'' \<and> \<not> loopback)
          then Inl (Integration_Invalid name
            ''must be an HTTPS origin; HTTP is allowed only for loopback or Kubernetes service DNS'')
          else Inr (ur_origin parsed)))"

definition handoff_from_env ::
    "url_parser \<Rightarrow> environment \<Rightarrow> string \<Rightarrow> integration_error + handoff_client" where
  "handoff_from_env parse env app_base_url =
     try_then (try_then (integration_required env ''SHARED_AUTH_BASE_URL'')
                 (integration_origin parse ''SHARED_AUTH_BASE_URL'')) (\<lambda>base_url.
     try_then (try_then (integration_required env ''SHARED_AUTH_CLIENT_ID'')
                 (validated_identifier ''SHARED_AUTH_CLIENT_ID'')) (\<lambda>client_id.
     try_then (integration_required env ''SHARED_AUTH_CLIENT_SECRET'') (\<lambda>client_secret.
     if length client_secret < 32 \<or> trim client_secret \<noteq> client_secret
     then Inl (Integration_Invalid ''SHARED_AUTH_CLIENT_SECRET''
       ''must contain at least 32 non-whitespace-trimmed bytes'')
     else
       try_then (try_then (integration_required env ''SHARED_AUTH_SUPABASE_PROJECT'')
                   (validated_identifier ''SHARED_AUTH_SUPABASE_PROJECT'')) (\<lambda>project.
       Inr \<lparr>hc_base_url = base_url, hc_client_id = client_id, hc_client_secret = client_secret,
            hc_expected_supabase_project = project,
            hc_callback_url = trim_slashes app_base_url @ ''/auth/shared/callback''\<rparr>))))"

datatype handoff_error = Handoff_Unauthorized | Handoff_Unavailable | Handoff_Invalid_Response

definition authorization_pairs :: "handoff_client \<Rightarrow> string \<Rightarrow> string \<Rightarrow> string \<Rightarrow> (string \<times> string) list" where
  "authorization_pairs c return_to state code_challenge =
     [(''client_id'', hc_client_id c), (''redirect_uri'', hc_callback_url c), (''return_to'', return_to),
      (''state'', state), (''code_challenge'', code_challenge), (''code_challenge_method'', ''S256'')]"

definition authorization_url ::
    "url_parser \<Rightarrow> url_builder \<Rightarrow> handoff_client \<Rightarrow> string \<Rightarrow> string \<Rightarrow> string \<Rightarrow> handoff_error + string" where
  "authorization_url parse build c return_to state code_challenge =
     try_then (map_err (\<lambda>_. Handoff_Invalid_Response) (parse (hc_base_url c @ ''/authorize''))) (\<lambda>_.
     Inr (build (hc_base_url c) ''/authorize'' (authorization_pairs c return_to state code_challenge)))"

text \<open>What is sent, what came back, and the tokens of a body that decodes.\<close>

record redeem_request =
  rr_url :: string
  rr_bearer :: string
  rr_client_id :: string
  rr_code :: string
  rr_redirect_uri :: string
  rr_code_verifier :: string

record handoff_tokens =
  ht_access_token :: string
  ht_refresh_token :: string
  ht_expires_at :: timestamp
  ht_user_id :: uuid
  ht_email :: "string option"
  ht_return_to :: string
  ht_supabase_project :: string

record redeem_answer =
  ra_status :: nat
  ra_tokens :: "handoff_tokens option"

definition redeem_request_of :: "handoff_client \<Rightarrow> string \<Rightarrow> string \<Rightarrow> redeem_request" where
  "redeem_request_of c code verifier =
     \<lparr>rr_url = hc_base_url c @ ''/auth/handoff/redeem'', rr_bearer = hc_client_secret c,
      rr_client_id = hc_client_id c, rr_code = code, rr_redirect_uri = hc_callback_url c,
      rr_code_verifier = verifier\<rparr>"

definition acceptable_tokens :: "handoff_client \<Rightarrow> timestamp \<Rightarrow> handoff_tokens \<Rightarrow> bool" where
  "acceptable_tokens c now t \<longleftrightarrow>
     \<not> (ht_access_token t = [] \<or> 16384 < length (ht_access_token t)
        \<or> ht_refresh_token t = [] \<or> 16384 < length (ht_refresh_token t)
        \<or> ht_user_id t = 0 \<or> ht_expires_at t \<le> now
        \<or> ht_supabase_project t \<noteq> hc_expected_supabase_project c)"

definition redeem :: "handoff_client \<Rightarrow> timestamp \<Rightarrow> redeem_answer option \<Rightarrow> handoff_error + handoff_tokens" where
  "redeem c now ans =
     (case ans of
        None \<Rightarrow> Inl Handoff_Unavailable
      | Some a \<Rightarrow>
          if ra_status a \<in> {400, 401, 403} then Inl Handoff_Unauthorized
          else if \<not> is_success (ra_status a) then Inl Handoff_Unavailable
          else
            try_then (ok_or (ra_tokens a) Handoff_Invalid_Response) (\<lambda>t.
            if acceptable_tokens c now t then Inr t else Inl Handoff_Invalid_Response))"

section \<open>Handlers\<close>

definition HANDOFF_MAX_AGE_MINUTES :: int where "HANDOFF_MAX_AGE_MINUTES = 10"

definition validate_return_path :: "string \<Rightarrow> app_error + unit" where
  "validate_return_path value =
     (if value = QUOTE_RETURN_PATH then Inr ()
      else Inl (BadRequest ''return_to is not registered for this application''))"

fun map_shared_auth_error :: "handoff_error \<Rightarrow> app_error" where
  "map_shared_auth_error Handoff_Unauthorized = Unauthorized"
| "map_shared_auth_error Handoff_Unavailable = AuthUpstream"
| "map_shared_auth_error Handoff_Invalid_Response = AuthUpstream"

definition cookie_names :: "bool \<Rightarrow> string \<times> string \<times> string" where
  "cookie_names secure =
     (if secure
      then (''__Host-canonical_auth_state'', ''__Host-canonical_auth_pkce'', ''__Host-canonical_auth_return'')
      else (''canonical_auth_state'', ''canonical_auth_pkce'', ''canonical_auth_return''))"

definition handoff_cookie :: "string \<Rightarrow> string \<Rightarrow> bool \<Rightarrow> set_cookie" where
  "handoff_cookie name value secure =
     \<lparr>sc_name = name, sc_value = value, sc_path = ''/'', sc_secure = secure, sc_http_only = True,
      sc_same_site_lax = True, sc_max_age = Some (HANDOFF_MAX_AGE_MINUTES * 60)\<rparr>"

definition is_base64url :: "string \<Rightarrow> bool" where
  "is_base64url value \<longleftrightarrow> list_all url_safe value"

definition opaque_eq :: "ext \<Rightarrow> string \<Rightarrow> string \<Rightarrow> bool" where
  "opaque_eq x expected provided \<longleftrightarrow> sha256 x expected = sha256 x provided"

text \<open>\<open>randoms\<close> are the two draws of 32 bytes.\<close>

definition start ::
    "ext \<Rightarrow> config \<Rightarrow> url_parser \<Rightarrow> url_builder \<Rightarrow> handoff_client \<Rightarrow> string \<times> string
       \<Rightarrow> app_error + auth_context option \<Rightarrow> string option
       \<Rightarrow> (app_error + unit response) \<times> set_cookie list" where
  "start x cfg parse build c randoms existing requested =
     (let return_to = or_else requested QUOTE_RETURN_PATH
      in case try_then existing (\<lambda>user. try_then (validate_return_path return_to) (\<lambda>_. Inr user)) of
           Inl e \<Rightarrow> (Inl e, [])
         | Inr (Some _) \<Rightarrow> (Inr (redirect_to return_to), [])
         | Inr None \<Rightarrow>
             (let state_token = random_token x (fst randoms);
                  verifier = random_token x (snd randoms);
                  challenge = b64_encode x (sha256 x verifier);
                  (state_cookie, pkce_cookie, return_cookie) = cookie_names (cf_cookie_secure cfg)
              in case map_err map_shared_auth_error (authorization_url parse build c return_to state_token challenge) of
                   Inl e \<Rightarrow> (Inl e, [])
                 | Inr location \<Rightarrow>
                     (Inr (redirect_to location),
                      [handoff_cookie state_cookie state_token (cf_cookie_secure cfg),
                       handoff_cookie pkce_cookie verifier (cf_cookie_secure cfg),
                       handoff_cookie return_cookie return_to (cf_cookie_secure cfg)])))"

record callback_query =
  cq_code :: "string option"
  cq_state :: "string option"
  cq_error :: "string option"

text \<open>The checks before anything is asked: the code, the verifier and the path to return to.\<close>

definition callback_request ::
    "ext \<Rightarrow> config \<Rightarrow> (string \<Rightarrow> string option) \<Rightarrow> callback_query \<Rightarrow> app_error + string \<times> string \<times> string" where
  "callback_request x cfg jar query =
     (if cq_error query \<noteq> None then Inl Unauthorized
      else
        try_then (ok_or (cq_code query) Unauthorized) (\<lambda>code.
        try_then (ok_or (cq_state query) Unauthorized) (\<lambda>returned_state.
        if \<not> starts_with code ''sac_'' \<or> 128 < length code \<or> length returned_state < 16
           \<or> 512 < length returned_state \<or> \<not> is_base64url returned_state
        then Inl Unauthorized
        else
          let (state_cookie, pkce_cookie, return_cookie) = cookie_names (cf_cookie_secure cfg)
          in try_then (ok_or (jar state_cookie) Unauthorized) (\<lambda>expected_state.
             try_then (ok_or (Option.bind (jar pkce_cookie)
                 (\<lambda>v. if length v = 43 \<and> is_base64url v then Some v else None)) Unauthorized) (\<lambda>verifier.
             try_then (ok_or (jar return_cookie) Unauthorized) (\<lambda>return_to.
             try_then (validate_return_path return_to) (\<lambda>_.
             if \<not> opaque_eq x expected_state returned_state then Inl Unauthorized
             else Inr (code, verifier, return_to))))))))"

definition same_account :: "supabase_user \<Rightarrow> handoff_tokens \<Rightarrow> bool" where
  "same_account verified t \<longleftrightarrow>
     \<not> (su_id verified \<noteq> ht_user_id t
        \<or> (case su_email verified of None \<Rightarrow> True | Some email \<Rightarrow> 320 < length email)
        \<or> (case (ht_email t, su_email verified) of
             (Some left, Some right) \<Rightarrow> \<not> eq_ignore_ascii_case left right
           | _ \<Rightarrow> False))"

record callback_outcome =
  co_answer :: "app_error + unit response"
  co_cookies :: "set_cookie list"
  co_redeemed :: "redeem_request list"
  co_db :: session_db

definition callback ::
    "ext \<Rightarrow> config \<Rightarrow> handoff_client \<Rightarrow> timestamp \<Rightarrow> create_random
       \<Rightarrow> (redeem_request \<Rightarrow> redeem_answer option) \<Rightarrow> (string \<Rightarrow> auth_provider_error + supabase_user)
       \<Rightarrow> (string \<Rightarrow> string option) \<Rightarrow> callback_query \<Rightarrow> session_db \<Rightarrow> callback_outcome" where
  "callback x cfg c now rnd shared_auth verify_token jar query db =
     (case callback_request x cfg jar query of
        Inl e \<Rightarrow> \<lparr>co_answer = Inl e, co_cookies = [], co_redeemed = [], co_db = db\<rparr>
      | Inr (code, verifier, return_to) \<Rightarrow>
          (let request = redeem_request_of c code verifier;
               stop = (\<lambda>e. \<lparr>co_answer = Inl e, co_cookies = [], co_redeemed = [request], co_db = db\<rparr>)
           in case map_err map_shared_auth_error (redeem c now (shared_auth request)) of
                Inl e \<Rightarrow> stop e
              | Inr t \<Rightarrow>
                  if ht_return_to t \<noteq> return_to then stop Unauthorized
                  else
                    (case verify_token (ht_access_token t) of
                       Inl InvalidCredentials \<Rightarrow> stop Unauthorized
                     | Inl _ \<Rightarrow> stop AuthUpstream
                     | Inr verified \<Rightarrow>
                         if \<not> same_account verified t then stop Unauthorized
                         else
                           (case create x (cf_session_encryption_key cfg) (cf_session_ttl cfg) rnd now
                                  \<lparr>at_access_token = ht_access_token t, at_refresh_token = ht_refresh_token t,
                                   at_expires_at = ht_expires_at t, at_user = verified\<rparr> db of
                              (Inl e, db') \<Rightarrow> (stop (from_session_error e))\<lparr>co_db := db'\<rparr>
                            | (Inr created, db') \<Rightarrow>
                                (let (state_cookie, pkce_cookie, return_cookie) = cookie_names (cf_cookie_secure cfg)
                                 in \<lparr>co_answer = Inr (redirect_to return_to),
                                     co_cookies =
                                       [removal_cookie state_cookie (cf_cookie_secure cfg),
                                        removal_cookie pkce_cookie (cf_cookie_secure cfg),
                                        removal_cookie return_cookie (cf_cookie_secure cfg),
                                        session_cookie cfg (cs_raw_id created)],
                                     co_redeemed = [request], co_db = db'\<rparr>)))))"

section \<open>What the checks establish\<close>

lemma guard_Inr: "(if b then Inl e else r) = Inr v \<longleftrightarrow> \<not> b \<and> r = Inr v"
  by simp

lemma kept_Some: "Option.bind o' (\<lambda>v. if P v then Some v else None) = Some w \<longleftrightarrow> o' = Some w \<and> P w"
  by (cases o') auto

lemma callback_request_Inr:
  "callback_request x cfg jar query = Inr (code, verifier, return_to) \<longleftrightarrow>
     cq_error query = None \<and> cq_code query = Some code
     \<and> starts_with code ''sac_'' \<and> length code \<le> 128
     \<and> (\<exists>returned expected. cq_state query = Some returned \<and> 16 \<le> length returned \<and> length returned \<le> 512
          \<and> is_base64url returned \<and> jar (fst (cookie_names (cf_cookie_secure cfg))) = Some expected
          \<and> opaque_eq x expected returned)
     \<and> jar (fst (snd (cookie_names (cf_cookie_secure cfg)))) = Some verifier
     \<and> length verifier = 43 \<and> is_base64url verifier
     \<and> jar (snd (snd (cookie_names (cf_cookie_secure cfg)))) = Some return_to \<and> return_to = QUOTE_RETURN_PATH"
  by (auto simp: callback_request_def case_prod_beta try_then_Inr ok_or_Inr validate_return_path_def guard_Inr
      kept_Some)

lemma redeem_Inr:
  "redeem c now ans = Inr t \<longleftrightarrow>
     (\<exists>a. ans = Some a \<and> is_success (ra_status a) \<and> ra_status a \<notin> {400, 401, 403}
        \<and> ra_tokens a = Some t \<and> acceptable_tokens c now t)"
  by (auto simp: redeem_def try_then_Inr ok_or_Inr split: option.splits if_splits)

text \<open>A handoff that is granted, in full.\<close>

definition granted ::
    "ext \<Rightarrow> config \<Rightarrow> handoff_client \<Rightarrow> timestamp \<Rightarrow> create_random
       \<Rightarrow> (redeem_request \<Rightarrow> redeem_answer option) \<Rightarrow> (string \<Rightarrow> auth_provider_error + supabase_user)
       \<Rightarrow> string \<Rightarrow> string \<Rightarrow> session_db \<Rightarrow> handoff_tokens \<Rightarrow> supabase_user \<Rightarrow> created_session \<Rightarrow> session_db \<Rightarrow> bool" where
  "granted x cfg c now rnd shared_auth verify_token code verifier db t verified created db' \<longleftrightarrow>
     redeem c now (shared_auth (redeem_request_of c code verifier)) = Inr t
     \<and> ht_return_to t = QUOTE_RETURN_PATH \<and> verify_token (ht_access_token t) = Inr verified
     \<and> same_account verified t
     \<and> create x (cf_session_encryption_key cfg) (cf_session_ttl cfg) rnd now
         \<lparr>at_access_token = ht_access_token t, at_refresh_token = ht_refresh_token t,
          at_expires_at = ht_expires_at t, at_user = verified\<rparr> db = (Inr created, db')"

lemma create_Inl: "create x key ttl rnd now tokens db = (Inl e, db') \<Longrightarrow> db' = db"
  by (auto simp: create_def Let_def split: sum.splits)

lemma callback_asked:
  fixes x cfg c now rnd shared_auth verify_token jar query db
  defines "out \<equiv> callback x cfg c now rnd shared_auth verify_token jar query db"
  assumes r: "callback_request x cfg jar query = Inr (code, verifier, return_to)"
  shows "co_redeemed out = [redeem_request_of c code verifier]"
    and "(co_db out = db \<and> co_cookies out = [] \<and> (\<exists>e. co_answer out = Inl e))
      \<or> (\<exists>t verified created. granted x cfg c now rnd shared_auth verify_token code verifier db t verified created (co_db out)
           \<and> co_answer out = Inr (redirect_to QUOTE_RETURN_PATH)
           \<and> session_cookie cfg (cs_raw_id created) \<in> set (co_cookies out))"
proof -
  let ?q = "redeem_request_of c code verifier"
  have rt: "return_to = QUOTE_RETURN_PATH" using r by (simp add: callback_request_Inr)
  have "co_redeemed out = [?q] \<and>
      ((co_db out = db \<and> co_cookies out = [] \<and> (\<exists>e. co_answer out = Inl e))
      \<or> (\<exists>t verified created. granted x cfg c now rnd shared_auth verify_token code verifier db t verified created (co_db out)
           \<and> co_answer out = Inr (redirect_to QUOTE_RETURN_PATH)
           \<and> session_cookie cfg (cs_raw_id created) \<in> set (co_cookies out)))"
  proof (cases "redeem c now (shared_auth ?q)")
    case (Inl e)
    with r show ?thesis by (simp add: out_def callback_def Let_def)
  next
    case t: (Inr t)
    show ?thesis
    proof (cases "ht_return_to t = return_to \<and> (\<exists>verified. verify_token (ht_access_token t) = Inr verified \<and> same_account verified t)")
      case False
      with r t show ?thesis
        by (cases "verify_token (ht_access_token t)")
           (auto simp: out_def callback_def Let_def split: auth_provider_error.split)
    next
      case True
      then obtain verified where v: "ht_return_to t = return_to"
        "verify_token (ht_access_token t) = Inr verified" "same_account verified t" by blast
      let ?create = "create x (cf_session_encryption_key cfg) (cf_session_ttl cfg) rnd now
         \<lparr>at_access_token = ht_access_token t, at_refresh_token = ht_refresh_token t,
          at_expires_at = ht_expires_at t, at_user = verified\<rparr> db"
      obtain answered db' where c: "?create = (answered, db')" by (cases ?create)
      show ?thesis
      proof (cases answered)
        case (Inl e)
        with r t v c create_Inl show ?thesis by (fastforce simp: out_def callback_def Let_def)
      next
        case (Inr created)
        then have g: "granted x cfg c now rnd shared_auth verify_token code verifier db t verified created db'"
          using t v c rt by (simp add: granted_def)
        from r t v c Inr have "out = \<lparr>co_answer = Inr (redirect_to return_to),
            co_cookies = [removal_cookie (fst (cookie_names (cf_cookie_secure cfg))) (cf_cookie_secure cfg),
              removal_cookie (fst (snd (cookie_names (cf_cookie_secure cfg)))) (cf_cookie_secure cfg),
              removal_cookie (snd (snd (cookie_names (cf_cookie_secure cfg)))) (cf_cookie_secure cfg),
              session_cookie cfg (cs_raw_id created)],
            co_redeemed = [?q], co_db = db'\<rparr>"
          by (simp add: out_def callback_def Let_def case_prod_beta)
        with g rt show ?thesis by auto
      qed
    qed
  qed
  then show "co_redeemed out = [?q]"
    and "(co_db out = db \<and> co_cookies out = [] \<and> (\<exists>e. co_answer out = Inl e))
      \<or> (\<exists>t verified created. granted x cfg c now rnd shared_auth verify_token code verifier db t verified created (co_db out)
           \<and> co_answer out = Inr (redirect_to QUOTE_RETURN_PATH)
           \<and> session_cookie cfg (cs_raw_id created) \<in> set (co_cookies out))"
    by blast+
qed

section \<open>Properties\<close>

definition account_session ::
    "ext \<Rightarrow> config \<Rightarrow> handoff_client \<Rightarrow> timestamp \<Rightarrow> (redeem_request \<Rightarrow> redeem_answer option)
       \<Rightarrow> (string \<Rightarrow> auth_provider_error + supabase_user) \<Rightarrow> string \<Rightarrow> string \<Rightarrow> callback_outcome \<Rightarrow> bool" where
  "account_session x cfg c now shared_auth verify_token code verifier out \<longleftrightarrow>
     (\<exists>t verified. \<exists>created :: created_session.
        redeem c now (shared_auth (redeem_request_of c code verifier)) = Inr t
        \<and> acceptable_tokens c now t \<and> ht_return_to t = ''/u/quote''
        \<and> verify_token (ht_access_token t) = Inr verified \<and> su_id verified = ht_user_id t
        \<and> ctx_user_id (cs_context created) = su_id verified
        \<and> (\<exists>m. find_by (hash_token x (cs_raw_id created)) (sessions (co_db out)) = Some m
             \<and> ws_user_id m = su_id verified)
        \<and> session_cookie cfg (cs_raw_id created) \<in> set (co_cookies out))"

lemma granted_session:
  assumes "granted x cfg c now rnd shared_auth verify_token code verifier db t verified created (co_db out)"
    and "session_cookie cfg (cs_raw_id created) \<in> set (co_cookies out)"
  shows "account_session x cfg c now shared_auth verify_token code verifier out"
proof -
  from assms(1) have t: "redeem c now (shared_auth (redeem_request_of c code verifier)) = Inr t"
    "ht_return_to t = ''/u/quote''" "verify_token (ht_access_token t) = Inr verified"
    "su_id verified = ht_user_id t"
    by (auto simp: granted_def same_account_def QUOTE_RETURN_PATH_def)
  from t(1) have "acceptable_tokens c now t" by (auto simp: redeem_Inr)
  moreover have "ctx_user_id (cs_context created) = su_id verified"
    "\<exists>m. find_by (hash_token x (cs_raw_id created)) (sessions (co_db out)) = Some m \<and> ws_user_id m = su_id verified"
    using assms(1) by (auto simp: granted_def new_session_def context_from_model_def find_save dest!: create_Inr)
  ultimately show ?thesis
    unfolding account_session_def
    using t assms(2) by (intro exI [of _ t] exI [of _ verified] exI [of _ created] conjI)
qed

text \<open>
  C35
  A handoff logs a browser in only as the account that it started for: without the three cookies of
  the start, a state with the hash of the one in the cookie, and the one path that is allowed,
  nothing is asked and nothing changes; with them the code is redeemed once, with the verifier of
  this browser and the secret of this client, and a session is stored and its cookie set only if the
  tokens are bounded, unexpired, of the expected project and for the same path, and the user that
  Canonical's own provider finds for them is the user of the handoff, whose session it then is.
  Every other answer is an error that leaves the session tables as they were.
\<close>

theorem handoffs_are_bound:
  "case callback_request x cfg jar query of
     Inl e \<Rightarrow> callback x cfg c now rnd shared_auth verify_token jar query db
        = \<lparr>co_answer = Inl e, co_cookies = [], co_redeemed = [], co_db = db\<rparr>
   | Inr (code, verifier, return_to) \<Rightarrow>
       cq_error query = None \<and> cq_code query = Some code \<and> return_to = ''/u/quote''
       \<and> (\<exists>returned expected. cq_state query = Some returned \<and> 16 \<le> length returned
            \<and> jar (fst (cookie_names (cf_cookie_secure cfg))) = Some expected
            \<and> sha256 x expected = sha256 x returned)
       \<and> jar (fst (snd (cookie_names (cf_cookie_secure cfg)))) = Some verifier
       \<and> (case callback x cfg c now rnd shared_auth verify_token jar query db of out \<Rightarrow>
            co_redeemed out = [redeem_request_of c code verifier]
            \<and> (case co_answer out of
                 Inl e \<Rightarrow> co_db out = db \<and> co_cookies out = []
               | Inr r \<Rightarrow> r = redirect_to ''/u/quote''
                   \<and> account_session x cfg c now shared_auth verify_token code verifier out))"
proof (cases "callback_request x cfg jar query")
  case (Inl e)
  then show ?thesis by (simp add: callback_def)
next
  case (Inr q)
  obtain code verifier return_to where q: "q = (code, verifier, return_to)" by (cases q)
  let ?out = "callback x cfg c now rnd shared_auth verify_token jar query db"
  note r = Inr [unfolded q]
  have checked: "cq_error query = None \<and> cq_code query = Some code \<and> return_to = ''/u/quote''
       \<and> (\<exists>returned expected. cq_state query = Some returned \<and> 16 \<le> length returned
            \<and> jar (fst (cookie_names (cf_cookie_secure cfg))) = Some expected
            \<and> sha256 x expected = sha256 x returned)
       \<and> jar (fst (snd (cookie_names (cf_cookie_secure cfg)))) = Some verifier"
    using r by (auto simp: callback_request_Inr opaque_eq_def QUOTE_RETURN_PATH_def)
  have "case co_answer ?out of
      Inl e \<Rightarrow> co_db ?out = db \<and> co_cookies ?out = []
    | Inr r \<Rightarrow> r = redirect_to ''/u/quote''
        \<and> account_session x cfg c now shared_auth verify_token code verifier ?out"
    using callback_asked(2) [OF r, of c now rnd shared_auth verify_token db] granted_session [where out = ?out]
    by (auto simp: QUOTE_RETURN_PATH_def)
  with checked callback_asked(1) [OF r] show ?thesis by (simp add: r)
qed

text \<open>
  A start and its callback fit together: the browser that was redirected comes back with the state of
  its own URL, passes every check, and redeems the code with the very verifier whose SHA-256 challenge
  the URL carried; the cookies that make it so are \<open>HttpOnly\<close>, \<open>SameSite=Lax\<close>, as secure as the session
  cookie, and live ten minutes.
\<close>

theorem handoff_roundtrip:
  assumes "start x cfg parse build c randoms (Inr None) requested = (Inr r, cookies)"
    and "length (random_token x (fst randoms)) = 43" "is_base64url (random_token x (fst randoms))"
    and "length (random_token x (snd randoms)) = 43" "is_base64url (random_token x (snd randoms))"
    and "starts_with code ''sac_''" "length code \<le> 128"
  shows "\<exists>state verifier.
    header_get ''location'' (rs_headers r) = Some (build (hc_base_url c) ''/authorize''
      (authorization_pairs c ''/u/quote'' state (b64_encode x (sha256 x verifier))))
    \<and> callback_request x cfg (map_of (map (\<lambda>k. (sc_name k, sc_value k)) cookies))
        \<lparr>cq_code = Some code, cq_state = Some state, cq_error = None\<rparr> = Inr (code, verifier, ''/u/quote'')
    \<and> list_all (\<lambda>k. sc_http_only k \<and> sc_same_site_lax k \<and> sc_secure k = cf_cookie_secure cfg
        \<and> sc_max_age k = Some 600) cookies"
proof -
  let ?state = "random_token x (fst randoms)" and ?verifier = "random_token x (snd randoms)"
  let ?challenge = "b64_encode x (sha256 x ?verifier)"
  have path: "or_else requested QUOTE_RETURN_PATH = QUOTE_RETURN_PATH"
    using assms(1) by (auto simp: start_def Let_def validate_return_path_def split: if_splits)
  from assms(1) obtain location where
    url: "authorization_url parse build c QUOTE_RETURN_PATH ?state ?challenge = Inr location"
    and out: "r = redirect_to location" "cookies =
      [handoff_cookie (fst (cookie_names (cf_cookie_secure cfg))) ?state (cf_cookie_secure cfg),
       handoff_cookie (fst (snd (cookie_names (cf_cookie_secure cfg)))) ?verifier (cf_cookie_secure cfg),
       handoff_cookie (snd (snd (cookie_names (cf_cookie_secure cfg)))) QUOTE_RETURN_PATH (cf_cookie_secure cfg)]"
    by (auto simp: start_def Let_def path validate_return_path_def case_prod_beta map_err_def split: sum.splits)
  from url have "location = build (hc_base_url c) ''/authorize'' (authorization_pairs c QUOTE_RETURN_PATH ?state ?challenge)"
    by (auto simp: authorization_url_def try_then_Inr)
  then have "header_get ''location'' (rs_headers r) = Some (build (hc_base_url c) ''/authorize''
      (authorization_pairs c ''/u/quote'' ?state ?challenge))"
    by (simp add: out header_get_def QUOTE_RETURN_PATH_def)
  moreover have "callback_request x cfg (map_of (map (\<lambda>k. (sc_name k, sc_value k)) cookies))
        \<lparr>cq_code = Some code, cq_state = Some ?state, cq_error = None\<rparr> = Inr (code, ?verifier, ''/u/quote'')"
    using assms(2-7)
    by (simp add: callback_request_Inr out handoff_cookie_def cookie_names_def opaque_eq_def QUOTE_RETURN_PATH_def)
  moreover have "list_all (\<lambda>k. sc_http_only k \<and> sc_same_site_lax k \<and> sc_secure k = cf_cookie_secure cfg
        \<and> sc_max_age k = Some 600) cookies"
    by (simp add: out handoff_cookie_def HANDOFF_MAX_AGE_MINUTES_def)
  ultimately show ?thesis by blast
qed

section \<open>Samples\<close>

definition sample_handoff :: handoff_client where
  "sample_handoff = \<lparr>hc_base_url = ''https://auth'', hc_client_id = ''web'', hc_client_secret = replicate 32 (CHR ''s''),
     hc_expected_supabase_project = ''p'', hc_callback_url = ''https://a/auth/shared/callback''\<rparr>"

definition sample_randoms :: "string \<times> string" where
  "sample_randoms = (replicate 43 (CHR ''s''), replicate 43 (CHR ''v''))"

theorem handoff_roundtrip_witness:
  "\<exists>cookies :: set_cookie list. \<exists>state verifier. callback_request (sample_ext JNull) sample_config
      (map_of (map (\<lambda>k. (sc_name k, sc_value k)) cookies))
      \<lparr>cq_code = Some ''sac_1'', cq_state = Some state, cq_error = None\<rparr> = Inr (''sac_1'', verifier, ''/u/quote'')"
proof -
  have letters: "url_safe (CHR ''s'')" "url_safe (CHR ''v'')"
    by (simp_all add: url_safe_def is_alphanumeric_def is_digit_def chr_in_def)
  obtain r cookies where s: "start (sample_ext JNull) sample_config (\<lambda>_. Inr (sample_url ''https'' ''auth''))
      (\<lambda>base path _. base @ path) sample_handoff sample_randoms (Inr None) None = (Inr r, cookies)"
    by (auto simp: start_def Let_def validate_return_path_def or_else_def authorization_url_def case_prod_beta)
  have "length (random_token (sample_ext JNull) (fst sample_randoms)) = 43"
    "is_base64url (random_token (sample_ext JNull) (fst sample_randoms))"
    "length (random_token (sample_ext JNull) (snd sample_randoms)) = 43"
    "is_base64url (random_token (sample_ext JNull) (snd sample_randoms))"
    "starts_with ''sac_1'' ''sac_''" "length ''sac_1'' \<le> 128"
    using letters
    by (simp_all add: sample_randoms_def random_token_def sample_ext_def is_base64url_def list_all_iff starts_with_def)
  from handoff_roundtrip [OF s this] show ?thesis by blast
qed

text \<open>
  The message of \<open>validated_origin\<close> promises HTTP for Kubernetes service DNS; the check refuses it.
\<close>

lemma handoff_refuses_cluster_http:
  "integration_origin (sample_parse ''http'' ''auth.default.svc'') ''SHARED_AUTH_BASE_URL'' ''http://auth.default.svc''
     = Inl (Integration_Invalid ''SHARED_AUTH_BASE_URL''
         ''must be an HTTPS origin; HTTP is allowed only for loopback or Kubernetes service DNS'')"
  by (simp add: integration_origin_def sample_parse_def sample_url_def)

text \<open>A client that loads speaks HTTPS or stays on this machine, and authenticates with a real secret.\<close>

lemma integration_origin_safe:
  "integration_origin parse name raw = Inr origin \<Longrightarrow>
     \<exists>u. parse raw = Inr u \<and> origin = ur_origin u
       \<and> (ur_scheme u = ''https'' \<or> (ur_scheme u = ''http'' \<and> ur_host u \<in> Some ` {''localhost'', ''127.0.0.1'', ''::1''}))"
  by (auto simp: integration_origin_def try_then_Inr ok_or_Inr map_err_Inr Let_def guard_Inr)

lemma handoff_client_is_safe:
  assumes "handoff_from_env parse env app_base_url = Inr c"
  shows "32 \<le> length (hc_client_secret c)"
    and "\<exists>raw. integration_origin parse ''SHARED_AUTH_BASE_URL'' raw = Inr (hc_base_url c)"
    and "list_all url_safe (hc_client_id c)" "list_all url_safe (hc_expected_supabase_project c)"
  using assms
  by (auto simp: handoff_from_env_def validated_identifier_def try_then_Inr guard_Inr)

end
