(* ===== verification/Observability.thy ===== *)
theory Observability
  imports Http "HOL-Library.Word" "HOL-Library.Product_Lexorder" "HOL-Library.List_Lexorder" "HOL-Library.Char_ord"
begin

text \<open>
  The metrics registry of \<open>src/metrics.rs\<close> with the middleware that every request passes, and the
  attributes of \<open>src/telemetry.rs\<close>. Durations are whole nanoseconds, the rounding of \<open>f64\<close> sums and
  their decimal text are not modelled. Exporters, spans and subscribers are third-party code.
\<close>

section \<open>The registry\<close>

record http_aggregate =
  ha_requests :: nat
  ha_duration :: nat

record registry =
  active_requests :: "64 word"
  http :: "(string \<times> nat, http_aggregate) store"

definition new_registry :: registry where
  "new_registry = \<lparr>active_requests = 0, http = []\<rparr>"

definition METHODS :: "string list" where
  "METHODS = [''GET'', ''POST'', ''PUT'', ''PATCH'', ''DELETE'', ''HEAD'', ''OPTIONS'', ''CONNECT'', ''TRACE'']"

definition bounded_method :: "string \<Rightarrow> string" where
  "bounded_method m = (if m \<in> set METHODS then m else ''OTHER'')"

definition record_response :: "string \<Rightarrow> nat \<Rightarrow> nat \<Rightarrow> registry \<Rightarrow> registry" where
  "record_response m status duration r =
     (let aggregate = or_else (find_by (m, status) (http r)) \<lparr>ha_requests = 0, ha_duration = 0\<rparr>
      in r\<lparr>http := put (m, status)
             \<lparr>ha_requests = sat_add u64_max (ha_requests aggregate) 1,
              ha_duration = ha_duration aggregate + duration\<rparr> (http r)\<rparr>)"

text \<open>
  \<open>record_http\<close> before and after the request runs; it is one future, which can be dropped between
  the two when its connection goes away.
\<close>

definition enter_http :: "registry \<Rightarrow> registry" where
  "enter_http r = r\<lparr>active_requests := active_requests r + 1\<rparr>"

definition leave_http :: "string \<Rightarrow> nat \<Rightarrow> nat \<Rightarrow> registry \<Rightarrow> registry" where
  "leave_http m status duration r =
     record_response m status duration (r\<lparr>active_requests := active_requests r - 1\<rparr>)"

text \<open>
  The requests of a process: those that run, by identifier with their bounded method, those that
  were answered, and how many were dropped before they were.
\<close>

record http_world =
  hw_registry :: registry
  hw_running :: "(nat, string) store"
  hw_answered :: "(string \<times> nat) list"
  hw_dropped :: nat

inductive http_step :: "http_world \<Rightarrow> http_world \<Rightarrow> bool" where
  scraped: "http_step w w"
| entered: "find_by i (hw_running w) = None \<Longrightarrow>
    http_step w (w\<lparr>hw_registry := enter_http (hw_registry w),
                   hw_running := put i (bounded_method m) (hw_running w)\<rparr>)"
| answered: "find_by i (hw_running w) = Some m \<Longrightarrow>
    http_step w (w\<lparr>hw_registry := leave_http m status duration (hw_registry w),
                   hw_running := drop_key i (hw_running w),
                   hw_answered := (m, status) # hw_answered w\<rparr>)"
| dropped: "find_by i (hw_running w) \<noteq> None \<Longrightarrow>
    http_step w (w\<lparr>hw_running := drop_key i (hw_running w), hw_dropped := hw_dropped w + 1\<rparr>)"

inductive http_reachable :: "http_world \<Rightarrow> bool" where
  started: "http_reachable \<lparr>hw_registry = new_registry, hw_running = [], hw_answered = [], hw_dropped = 0\<rparr>"
| stepped: "http_reachable w \<Longrightarrow> http_step w w' \<Longrightarrow> http_reachable w'"

inductive_cases http_stepE: "http_step w w'"

section \<open>Exposition\<close>

definition PREFIX :: string where "PREFIX = ''canonical_web_server''"
definition CONTENT_TYPE :: string where "CONTENT_TYPE = ''text/plain; version=0.0.4; charset=utf-8''"

text \<open>Three replacements, one after the other.\<close>

definition replaced :: "char \<Rightarrow> string \<Rightarrow> string \<Rightarrow> string" where
  "replaced c by s = concat (map (\<lambda>d. if d = c then by else [d]) s)"

definition escape_label :: "string \<Rightarrow> string" where
  "escape_label value =
     replaced (CHR 0x22) [CHR 0x5C, CHR 0x22]
       (replaced (CHR 0x0A) [CHR 0x5C, CHR ''n'']
         (replaced (CHR 0x5C) [CHR 0x5C, CHR 0x5C] value))"

definition label :: "string \<Rightarrow> string \<Rightarrow> string" where
  "label name value = name @ ''='' @ [CHR 0x22] @ value @ [CHR 0x22]"

definition series_lines :: "(nat \<Rightarrow> string) \<Rightarrow> (string \<times> nat) \<times> http_aggregate \<Rightarrow> string list" where
  "series_lines show_seconds entry =
     (case entry of ((m, status), aggregate) \<Rightarrow>
        let labels = label ''method'' m @ '','' @ label ''status'' (show_nat status)
        in [PREFIX @ ''_http_requests_total{'' @ labels @ ''} '' @ show_nat (ha_requests aggregate),
            PREFIX @ ''_http_request_duration_seconds_sum{'' @ labels @ ''} '' @ show_seconds (ha_duration aggregate),
            PREFIX @ ''_http_request_duration_seconds_count{'' @ labels @ ''} '' @ show_nat (ha_requests aggregate)])"

definition render_lines :: "string \<Rightarrow> (nat \<Rightarrow> string) \<Rightarrow> nat \<Rightarrow> registry \<Rightarrow> string list" where
  "render_lines version show_seconds uptime r =
     [''# HELP '' @ PREFIX @ ''_build_info Build and version information for canonical-web-server.'',
      ''# TYPE '' @ PREFIX @ ''_build_info gauge'',
      PREFIX @ ''_build_info{'' @ label ''version'' (escape_label version) @ ''} 1'',
      ''# HELP '' @ PREFIX @ ''_process_up Whether canonical-web-server is serving metrics.'',
      ''# TYPE '' @ PREFIX @ ''_process_up gauge'',
      PREFIX @ ''_process_up 1'',
      ''# HELP '' @ PREFIX @ ''_process_uptime_seconds Monotonic process uptime in seconds.'',
      ''# TYPE '' @ PREFIX @ ''_process_uptime_seconds gauge'',
      PREFIX @ ''_process_uptime_seconds '' @ show_seconds uptime,
      ''# HELP '' @ PREFIX @ ''_http_active_requests HTTP requests currently executing.'',
      ''# TYPE '' @ PREFIX @ ''_http_active_requests gauge'',
      PREFIX @ ''_http_active_requests '' @ show_int (sint (active_requests r)),
      ''# HELP '' @ PREFIX @ ''_http_requests_total Completed HTTP requests by bounded method and status.'',
      ''# TYPE '' @ PREFIX @ ''_http_requests_total counter'',
      ''# HELP '' @ PREFIX @ ''_http_request_duration_seconds Request duration summary by bounded method and status.'',
      ''# TYPE '' @ PREFIX @ ''_http_request_duration_seconds summary'']
     @ concat (map (series_lines show_seconds) (sort_key fst (http r)))"

definition render :: "string \<Rightarrow> (nat \<Rightarrow> string) \<Rightarrow> nat \<Rightarrow> registry \<Rightarrow> string" where
  "render version show_seconds uptime r =
     concat (map (\<lambda>line. line @ [CHR 0x0A]) (render_lines version show_seconds uptime r))"

section \<open>Resource attributes\<close>

definition valid_attribute_key :: "string \<Rightarrow> bool" where
  "valid_attribute_key value \<longleftrightarrow> value \<noteq> [] \<and> length value \<le> 128
     \<and> list_all (\<lambda>c. is_alphanumeric c \<or> c \<in> {CHR ''.'', CHR ''_'', CHR ''-''}) value"

definition valid_attribute_value :: "string \<Rightarrow> bool" where
  "valid_attribute_value value \<longleftrightarrow> value \<noteq> [] \<and> length value \<le> 256 \<and> \<not> has_control value"

definition SENSITIVE_WORDS :: "string list" where
  "SENSITIVE_WORDS =
     [''authorization'', ''access_key'', ''bearer'', ''cookie'', ''credential'', ''connection_string'', ''database'',
      ''dsn'', ''email'', ''jwt'', ''passphrase'', ''passwd'', ''password'', ''private_key'', ''pwd'', ''secret'',
      ''session'', ''signing_key'', ''token'', ''api_key'', ''apikey'', ''uri'', ''url'']"

definition sensitive_attribute_key :: "string \<Rightarrow> bool" where
  "sensitive_attribute_key key =
     (let normalized = map (\<lambda>c. if c = CHR ''-'' \<or> c = CHR ''.'' then CHR ''_'' else c) (to_ascii_lowercase key)
      in list_ex (contains normalized) SENSITIVE_WORDS)"

fun split_once :: "char \<Rightarrow> string \<Rightarrow> (string \<times> string) option" where
  "split_once c [] = None"
| "split_once c (d # s) =
     (if d = c then Some ([], s) else map_option (\<lambda>(a, b). (d # a, b)) (split_once c s))"

definition attribute_pair :: "string \<Rightarrow> (string \<times> string) option" where
  "attribute_pair pair =
     Option.bind (split_once (CHR ''='') pair) (\<lambda>(key, value).
       if valid_attribute_key (trim key) \<and> valid_attribute_value (trim value)
          \<and> \<not> sensitive_attribute_key (trim key) \<and> trim key \<notin> {''service.name'', ''service.namespace''}
       then Some (trim key, trim value) else None)"

definition resource_attribute_pairs :: "string \<Rightarrow> (string \<times> string) list" where
  "resource_attribute_pairs raw = List.map_filter attribute_pair (split_on (CHR '','') raw)"

definition push_env_attribute :: "environment \<Rightarrow> string \<Rightarrow> string \<Rightarrow> (string \<times> string) list" where
  "push_env_attribute env env_name key =
     (case env_var env env_name of
        None \<Rightarrow> []
      | Some value \<Rightarrow> if valid_attribute_value (trim value) then [(key, trim value)] else [])"

definition resource :: "environment \<Rightarrow> string \<Rightarrow> string \<Rightarrow> string \<Rightarrow> (string \<times> string) list" where
  "resource env version service_name service_namespace =
     [(''service.name'', service_name), (''service.namespace'', service_namespace), (''service.version'', version)]
     @ push_env_attribute env ''DEPLOYMENT_ENV'' ''deployment.environment''
     @ push_env_attribute env ''POD_NAMESPACE'' ''k8s.namespace.name''
     @ push_env_attribute env ''POD_NAME'' ''k8s.pod.name''
     @ push_env_attribute env ''NODE_NAME'' ''k8s.node.name''
     @ push_env_attribute env ''HOSTNAME'' ''host.name''
     @ (case env_var env ''OTEL_RESOURCE_ATTRIBUTES'' of
          None \<Rightarrow> [] | Some raw \<Rightarrow> resource_attribute_pairs raw)"

text \<open>Whether traces and metrics are exported; an exporter that cannot be built is left out.\<close>

definition exporters :: "environment \<Rightarrow> (string \<Rightarrow> bool) \<Rightarrow> (string \<Rightarrow> bool) \<Rightarrow> bool \<times> bool" where
  "exporters env tracer_builds meter_builds =
     (case env_var env ''OTEL_EXPORTER_OTLP_ENDPOINT'' of
        None \<Rightarrow> (False, False)
      | Some endpoint \<Rightarrow>
          if trim endpoint = [] then (False, False) else (tracer_builds endpoint, meter_builds endpoint))"

definition route_template :: "string option \<Rightarrow> string" where
  "route_template matched_path = or_else matched_path ''<unmatched>''"

definition status_class :: "nat \<Rightarrow> string" where
  "status_class status =
     (if 100 \<le> status \<and> status \<le> 199 then ''1xx''
      else if 200 \<le> status \<and> status \<le> 299 then ''2xx''
      else if 300 \<le> status \<and> status \<le> 399 then ''3xx''
      else if 400 \<le> status \<and> status \<le> 499 then ''4xx''
      else if 500 \<le> status \<and> status \<le> 599 then ''5xx''
      else ''other'')"

text \<open>The attributes of a completed request.\<close>

definition response_attributes :: "nat \<Rightarrow> (string \<times> string) list" where
  "response_attributes status =
     [(''http.response.status_code'', show_nat status), (''http.response.status_class'', status_class status)]"

section \<open>Metrics\<close>

definition counts_answers :: "(string \<times> nat, http_aggregate) store \<Rightarrow> (string \<times> nat) list \<Rightarrow> bool" where
  "counts_answers s answers \<longleftrightarrow> keyed s \<and>
     (\<forall>m status.
        (case find_by (m, status) s of
           None \<Rightarrow> count_list answers (m, status) = 0
         | Some aggregate \<Rightarrow> m \<in> set (''OTHER'' # METHODS)
             \<and> ha_requests aggregate = min u64_max (count_list answers (m, status))))"

definition metrics_exact :: "http_world \<Rightarrow> bool" where
  "metrics_exact w \<longleftrightarrow>
     keyed (hw_running w)
     \<and> active_requests (hw_registry w) = of_nat (count (hw_running w) + hw_dropped w)
     \<and> list_all (\<lambda>(_, m). m \<in> set (''OTHER'' # METHODS)) (hw_running w)
     \<and> counts_answers (http (hw_registry w)) (hw_answered w)"

lemma bounded_method_in: "bounded_method m \<in> set (''OTHER'' # METHODS)"
  by (simp add: bounded_method_def)

lemma sat_add_min: "sat_add u64_max (min u64_max n) 1 = min u64_max (Suc n)"
  by (simp add: sat_add_def min_def)

lemma count_drop_key: "keyed s \<Longrightarrow> find_by k s \<noteq> None \<Longrightarrow> Suc (count (drop_key k s)) = count s"
proof (induction s)
  case (Cons e s)
  have absent: "k \<notin> fst ` set s \<Longrightarrow> filter (\<lambda>(k', _). k \<noteq> k') s = s"
    by (force simp: filter_id_conv)
  from Cons absent show ?case
    by (cases e) (auto simp: keyed_def find_by_def count_def drop_key_def AList.delete_eq map_of_eq_None_iff rev_image_eqI)
qed simp

lemma list_all_drop_key: "list_all P s \<Longrightarrow> list_all P (drop_key k s)"
  by (auto simp: list_all_iff drop_key_def AList.delete_eq)

lemma record_counts:
  assumes "counts_answers (http r) answers" "m \<in> set (''OTHER'' # METHODS)"
  shows "counts_answers (http (record_response m status duration r)) ((m, status) # answers)"
  unfolding counts_answers_def
proof (intro conjI allI)
  show "keyed (http (record_response m status duration r))"
    using assms(1) by (simp add: counts_answers_def record_response_def Let_def store.ok_ins)
  fix m' status'
  have before: "case find_by (m', status') (http r) of
           None \<Rightarrow> count_list answers (m', status') = 0
         | Some aggregate \<Rightarrow> m' \<in> set (''OTHER'' # METHODS)
             \<and> ha_requests aggregate = min u64_max (count_list answers (m', status'))"
    using assms(1) unfolding counts_answers_def by blast
  have "1 \<le> u64_max" by (simp add: u64_max_def)
  with before assms(2) show "case find_by (m', status') (http (record_response m status duration r)) of
           None \<Rightarrow> count_list ((m, status) # answers) (m', status') = 0
         | Some aggregate \<Rightarrow> m' \<in> set (''OTHER'' # METHODS)
             \<and> ha_requests aggregate = min u64_max (count_list ((m, status) # answers) (m', status'))"
    by (cases "find_by (m', status') (http r)")
       (auto simp: record_response_def Let_def store.look_ins or_else_def sat_add_def)
qed

lemma metrics_exact_step: "http_step w w' \<Longrightarrow> metrics_exact w \<Longrightarrow> metrics_exact w'"
proof (induction rule: http_step.induct)
  case (entered i w m)
  then show ?case
    using bounded_method_in [of m]
    by (simp add: metrics_exact_def enter_http_def store.ok_ins store.size_ins list_all_put)
next
  case (answered i w m status duration)
  then have k: "keyed (hw_running w)" and m: "m \<in> set (''OTHER'' # METHODS)"
    and r: "counts_answers (http (hw_registry w)) (hw_answered w)"
    using find_by_in_set [OF answered(1)] by (fastforce simp: metrics_exact_def list_all_iff)+
  have c: "count (hw_running w) = Suc (count (drop_key i (hw_running w)))"
    using count_drop_key [OF k, of i] answered(1) by simp
  have h: "http (leave_http m status duration (hw_registry w)) = http (record_response m status duration (hw_registry w))"
    "active_requests (leave_http m status duration (hw_registry w)) = active_requests (hw_registry w) - 1"
    by (simp_all add: leave_http_def record_response_def Let_def)
  from answered(2) c k record_counts [OF r m] show ?case
    by (simp add: metrics_exact_def h store.ok_del list_all_drop_key)
next
  case (dropped i w)
  then have "keyed (hw_running w)" by (simp add: metrics_exact_def)
  from count_drop_key [OF this dropped(1)] have "count (hw_running w) = Suc (count (drop_key i (hw_running w)))" by simp
  with dropped show ?case by (simp add: metrics_exact_def store.ok_del list_all_drop_key)
qed simp

lemma metrics_exact_reachable: "http_reachable w \<Longrightarrow> metrics_exact w"
proof (induction rule: http_reachable.induct)
  case started
  show ?case by (simp add: metrics_exact_def new_registry_def counts_answers_def)
qed (rule metrics_exact_step)

lemma render_length:
  "length (render_lines version show_seconds uptime r) = 16 + 3 * count (http r)"
proof -
  have three: "length (series_lines show_seconds e) = 3" for e
    by (cases e) (simp add: series_lines_def Let_def split: prod.split)
  have "length (concat (map (series_lines show_seconds) es)) = 3 * length es" for es
    by (induction es) (simp_all add: three)
  then show ?thesis by (simp add: render_lines_def count_def)
qed

text \<open>
  C36
  The exposition says what happened: every counter is the number of requests that were answered with
  its method and status, up to the largest \<open>u64\<close>, its method is one of ten, and no two series have the
  same labels; and the gauge is the number of running requests plus the number of requests that were
  dropped before they were answered, which nothing ever takes away from it again.
\<close>

theorem metrics_are_exact:
  assumes "http_reachable w"
  shows "active_requests (hw_registry w) = of_nat (count (hw_running w) + hw_dropped w)
    \<and> (\<forall>m status. case find_by (m, status) (http (hw_registry w)) of
          None \<Rightarrow> (m, status) \<notin> set (hw_answered w)
        | Some aggregate \<Rightarrow> m \<in> set (''OTHER'' # METHODS)
            \<and> ha_requests aggregate = min u64_max (count_list (hw_answered w) (m, status))
            \<and> set (series_lines show_seconds ((m, status), aggregate))
                \<subseteq> set (render_lines version show_seconds uptime (hw_registry w)))
    \<and> distinct (map fst (http (hw_registry w)))
    \<and> length (render_lines version show_seconds uptime (hw_registry w)) = 16 + 3 * length (http (hw_registry w))"
proof -
  note e = metrics_exact_reachable [OF assms, unfolded metrics_exact_def]
  have shown: "set (series_lines show_seconds ((m, status), aggregate))
      \<subseteq> set (render_lines version show_seconds uptime (hw_registry w))"
    if "find_by (m, status) (http (hw_registry w)) = Some aggregate" for m status aggregate
    using find_by_in_set [OF that] by (auto simp: render_lines_def)
  have counted: "case find_by (m, status) (http (hw_registry w)) of
          None \<Rightarrow> (m, status) \<notin> set (hw_answered w)
        | Some aggregate \<Rightarrow> m \<in> set (''OTHER'' # METHODS)
            \<and> ha_requests aggregate = min u64_max (count_list (hw_answered w) (m, status))
            \<and> set (series_lines show_seconds ((m, status), aggregate))
                \<subseteq> set (render_lines version show_seconds uptime (hw_registry w))" for m status
  proof (cases "find_by (m, status) (http (hw_registry w))")
    case None
    then show ?thesis using e by (auto simp: counts_answers_def count_list_0_iff dest!: spec [of _ m] spec [of _ status])
  next
    case (Some aggregate)
    with e have "m \<in> set (''OTHER'' # METHODS)"
      "ha_requests aggregate = min u64_max (count_list (hw_answered w) (m, status))"
      unfolding counts_answers_def by (auto dest!: spec [of _ m] spec [of _ status])
    with Some shown [OF Some] show ?thesis by (simp only: option.case simp_thms)
  qed
  with e render_length [of version show_seconds uptime "hw_registry w"] show ?thesis
    by (auto simp: counts_answers_def keyed_def count_def)
qed

text \<open>One dropped request is enough to see it.\<close>

definition dropped_world :: http_world where
  "dropped_world = \<lparr>hw_registry = enter_http new_registry, hw_running = drop_key 1 (put 1 ''GET'' []),
     hw_answered = [], hw_dropped = 1\<rparr>"

lemma dropped_world_reachable: "http_reachable dropped_world"
proof -
  let ?w = "\<lparr>hw_registry = new_registry, hw_running = [], hw_answered = [], hw_dropped = 0\<rparr>"
  have "bounded_method ''GET'' = ''GET''" by (simp add: bounded_method_def METHODS_def)
  then have "http_reachable (?w\<lparr>hw_registry := enter_http new_registry, hw_running := put 1 ''GET'' []\<rparr>)"
    using http_reachable.stepped [OF http_reachable.started http_step.entered [of 1 ?w "''GET''"]] by simp
  from http_reachable.stepped [OF this http_step.dropped [of 1]] show ?thesis
    by (simp add: dropped_world_def)
qed

lemma gauge_counts_dropped_requests:
  "\<exists>w. http_reachable w \<and> count (hw_running w) = 0 \<and> active_requests (hw_registry w) = 1"
  using dropped_world_reachable
  by (intro exI [of _ dropped_world])
     (simp add: dropped_world_def enter_http_def new_registry_def count_def drop_key_def put_def AList.delete_eq)

theorem metrics_are_exact_witness:
  "active_requests (hw_registry dropped_world) = of_nat (count (hw_running dropped_world) + 1)"
  using metrics_are_exact [OF dropped_world_reachable] by (simp add: dropped_world_def)

text \<open>A label value is escaped without loss.\<close>

fun unescape_label :: "string \<Rightarrow> string" where
  "unescape_label [] = []"
| "unescape_label (c # s) =
     (if c \<noteq> CHR 0x5C then c # unescape_label s
      else case s of [] \<Rightarrow> [c] | d # t \<Rightarrow> (if d = CHR ''n'' then CHR 0x0A else d) # unescape_label t)"

lemma replaced_append: "replaced c by (s @ t) = replaced c by s @ replaced c by t"
  by (simp add: replaced_def)

lemma escape_Cons: "escape_label (c # s) = escape_label [c] @ escape_label s"
  using replaced_append [of "CHR 0x5C" _ "[c]" s]
  by (simp add: escape_label_def replaced_append)

lemma label_roundtrip: "unescape_label (escape_label s) = s"
proof (induction s)
  case (Cons c s)
  have "unescape_label (escape_label [c] @ t) = c # unescape_label t" for t
    by (simp add: escape_label_def replaced_def)
  with Cons show ?case by (subst escape_Cons) simp
qed (simp add: escape_label_def replaced_def)

section \<open>Attributes\<close>

lemma attribute_pair_Some:
  "attribute_pair pair = Some (k, v) \<Longrightarrow> valid_attribute_key k \<and> valid_attribute_value v
     \<and> \<not> sensitive_attribute_key k \<and> k \<notin> {''service.name'', ''service.namespace''}"
  by (auto simp: attribute_pair_def bind_eq_Some_conv split: prod.splits if_splits)

lemma pushed_attribute:
  "(k, v) \<in> set (push_env_attribute env env_name key) \<Longrightarrow> k = key \<and> valid_attribute_value v"
  by (auto simp: push_env_attribute_def split: option.splits if_splits)

lemma fixed_keys:
  "list_all (\<lambda>k. valid_attribute_key k \<and> \<not> sensitive_attribute_key k \<and> k \<notin> {''service.name'', ''service.namespace''})
     [''deployment.environment'', ''k8s.namespace.name'', ''k8s.pod.name'', ''k8s.node.name'', ''host.name'']"
  by code_simp

definition safe_attribute :: "string \<times> string \<Rightarrow> bool" where
  "safe_attribute kv \<longleftrightarrow> valid_attribute_key (fst kv) \<and> valid_attribute_value (snd kv)
     \<and> \<not> sensitive_attribute_key (fst kv) \<and> fst kv \<notin> {''service.name'', ''service.namespace''}"

text \<open>
  Whatever the environment says, the exported resource names the service it is: its name and
  namespace come first and no other attribute has their keys; and every attribute from the
  environment has a bounded key of plain characters with no word of a secret in it and a bounded
  value without control characters.
\<close>

theorem exported_attributes_are_safe:
  "case resource env version service_name service_namespace of attrs \<Rightarrow>
     take 3 attrs = [(''service.name'', service_name), (''service.namespace'', service_namespace),
       (''service.version'', version)]
     \<and> list_all safe_attribute (drop 3 attrs)"
proof -
  have fixed: "list_all safe_attribute (push_env_attribute env env_name key)"
    if "key \<in> {''deployment.environment'', ''k8s.namespace.name'', ''k8s.pod.name'', ''k8s.node.name'', ''host.name''}"
    for env_name key
    using that fixed_keys pushed_attribute [of _ _ env env_name key] unfolding list_all_iff
    by (fastforce simp: safe_attribute_def)
  have pairs: "list_all safe_attribute (resource_attribute_pairs raw)" for raw
    using attribute_pair_Some
    by (fastforce simp: resource_attribute_pairs_def list_all_iff map_filter_def safe_attribute_def)
  show ?thesis
    by (simp add: resource_def fixed pairs split: option.split)
qed

end
