(* ===== verification/Markup.thy ===== *)
theory Markup
  imports Prelude
begin

text \<open>
  The documents the views build. The \<open>html!\<close> template macro and the HTML text it writes belong to
  the library Maud; a template denotes the tree of elements that it spells out, with the spliced
  values as attribute values and text, which Maud escapes. A view is a function to a list of such
  trees. The queries below read what a browser acts on: forms and their controls, links,
  identifiers, and the \<open>outerHTML\<close> swap of htmx.
\<close>

section \<open>Trees\<close>

text \<open>A boolean attribute has the empty value.\<close>

datatype markup =
    Doctype
  | Text string
  | Elem string "(string \<times> string) list" "markup list"

text \<open>The characters outside ASCII of the templates, in UTF-8.\<close>

definition middle_dot :: string where "middle_dot = map char_of [194, 183 :: nat]"
definition em_dash :: string where "em_dash = map char_of [226, 128, 148 :: nat]"
definition en_dash :: string where "en_dash = map char_of [226, 128, 147 :: nat]"
definition left_arrow :: string where "left_arrow = map char_of [226, 134, 144 :: nat]"
definition ellipsis :: string where "ellipsis = map char_of [226, 128, 166 :: nat]"

section \<open>Queries\<close>

fun elements :: "markup \<Rightarrow> markup list" and all_elements :: "markup list \<Rightarrow> markup list" where
  "elements Doctype = []"
| "elements (Text s) = []"
| "elements (Elem t as ks) = Elem t as ks # all_elements ks"
| "all_elements [] = []"
| "all_elements (m # ms) = elements m @ all_elements ms"

fun tag :: "markup \<Rightarrow> string" where
  "tag (Elem t as ks) = t"
| "tag m = []"

fun attribute :: "string \<Rightarrow> markup \<Rightarrow> string option" where
  "attribute n (Elem t as ks) = map_of as n"
| "attribute n m = None"

definition tagged :: "string \<Rightarrow> markup list \<Rightarrow> markup list" where
  "tagged t ms = filter (\<lambda>m. tag m = t) (all_elements ms)"

definition attributes :: "string \<Rightarrow> markup list \<Rightarrow> string list" where
  "attributes n ms = List.map_filter (attribute n) (all_elements ms)"

definition forms :: "markup list \<Rightarrow> markup list" where
  "forms = tagged ''form''"

definition is_control :: "markup \<Rightarrow> bool" where
  "is_control m \<longleftrightarrow> tag m \<in> {''input'', ''select'', ''textarea''}"

definition controls_named :: "string \<Rightarrow> markup list \<Rightarrow> markup list" where
  "controls_named n ms = filter (\<lambda>m. is_control m \<and> attribute ''name'' m = Some n) (all_elements ms)"

definition control_names :: "markup list \<Rightarrow> string list" where
  "control_names ms = List.map_filter (attribute ''name'') (filter is_control (all_elements ms))"

definition option_values :: "markup list \<Rightarrow> string list" where
  "option_values ms = List.map_filter (attribute ''value'') (tagged ''option'' ms)"

definition chosen_values :: "markup list \<Rightarrow> string list" where
  "chosen_values ms =
     List.map_filter (attribute ''value'')
       (filter (\<lambda>m. attribute ''selected'' m \<noteq> None) (tagged ''option'' ms))"

text \<open>The link targets: \<open>a href\<close> and the \<open>hx-get\<close> of any element.\<close>

definition links :: "markup list \<Rightarrow> string list" where
  "links ms = List.map_filter (attribute ''href'') (tagged ''a'' ms) @ attributes ''hx-get'' ms"

lemma all_elements_append [simp]: "all_elements (xs @ ys) = all_elements xs @ all_elements ys"
  by (induction xs) simp_all

lemma tagged_append [simp]: "tagged t (xs @ ys) = tagged t xs @ tagged t ys"
  by (simp add: tagged_def)

lemma tagged_Nil [simp]: "tagged t [] = []"
  by (simp add: tagged_def)

lemma tagged_Cons [simp]:
  "tagged t (Doctype # ms) = tagged t ms"
  "tagged t (Text s # ms) = tagged t ms"
  "tagged t (Elem t' as ks # ms) = (if t' = t then [Elem t' as ks] else []) @ tagged t ks @ tagged t ms"
  by (simp_all add: tagged_def)

lemma attributes_append [simp]: "attributes n (xs @ ys) = attributes n xs @ attributes n ys"
  by (simp add: attributes_def map_filter_def)

lemma attributes_Nil [simp]: "attributes n [] = []"
  by (simp add: attributes_def map_filter_def)

lemma attributes_Cons [simp]:
  "attributes n (Doctype # ms) = attributes n ms"
  "attributes n (Text s # ms) = attributes n ms"
  "attributes n (Elem t as ks # ms) =
     (case map_of as n of None \<Rightarrow> [] | Some v \<Rightarrow> [v]) @ attributes n ks @ attributes n ms"
  by (simp_all add: attributes_def map_filter_def split: option.split)

lemma forms_append [simp]: "forms (xs @ ys) = forms xs @ forms ys"
  by (simp add: forms_def)

lemma forms_simps [simp]:
  "forms [] = []"
  "forms (Doctype # ms) = forms ms"
  "forms (Text s # ms) = forms ms"
  "forms (Elem t as ks # ms) = (if t = ''form'' then [Elem t as ks] else []) @ forms ks @ forms ms"
  by (simp_all add: forms_def)

lemma controls_named_simps [simp]:
  "controls_named n [] = []"
  "controls_named n (Doctype # ms) = controls_named n ms"
  "controls_named n (Text s # ms) = controls_named n ms"
  "controls_named n (Elem t as ks # ms) =
     (if t \<in> {''input'', ''select'', ''textarea''} \<and> map_of as ''name'' = Some n then [Elem t as ks] else [])
     @ controls_named n ks @ controls_named n ms"
  by (simp_all add: controls_named_def is_control_def)

lemma controls_named_append [simp]:
  "controls_named n (xs @ ys) = controls_named n xs @ controls_named n ys"
  by (simp add: controls_named_def)

lemma control_names_simps [simp]:
  "control_names [] = []"
  "control_names (Doctype # ms) = control_names ms"
  "control_names (Text s # ms) = control_names ms"
  "control_names (Elem t as ks # ms) =
     (if t \<in> {''input'', ''select'', ''textarea''}
      then (case map_of as ''name'' of None \<Rightarrow> [] | Some n \<Rightarrow> [n]) else [])
     @ control_names ks @ control_names ms"
  by (simp_all add: control_names_def is_control_def map_filter_def split: option.split)

lemma control_names_append [simp]: "control_names (xs @ ys) = control_names xs @ control_names ys"
  by (simp add: control_names_def map_filter_def)

text \<open>Rows of a list: an element per row.\<close>

lemma all_elements_rows: "all_elements (map f rows) = concat (map (\<lambda>r. elements (f r)) rows)"
  by (induction rows) simp_all

lemma tagged_rows: "tagged t (map f rows) = concat (map (\<lambda>r. tagged t [f r]) rows)"
  by (induction rows) (simp_all add: tagged_def)

lemma attributes_rows: "attributes n (map f rows) = concat (map (\<lambda>r. attributes n [f r]) rows)"
  by (induction rows) (simp_all add: attributes_def map_filter_def)

lemma forms_rows: "(\<And>r. forms [f r] = []) \<Longrightarrow> forms (map f rows) = []"
  by (simp add: forms_def tagged_rows)

section \<open>Swapping\<close>

text \<open>
  The \<open>outerHTML\<close> swap of htmx: the element with the target's identifier is replaced by the
  fragment of the response.
\<close>

fun swap_outer :: "string \<Rightarrow> markup list \<Rightarrow> markup list \<Rightarrow> markup list" where
  "swap_outer i new [] = []"
| "swap_outer i new (Elem t as ks # ms) =
     (if map_of as ''id'' = Some i then new else [Elem t as (swap_outer i new ks)])
     @ swap_outer i new ms"
| "swap_outer i new (m # ms) = m # swap_outer i new ms"

lemma swap_outer_append [simp]: "swap_outer i new (xs @ ys) = swap_outer i new xs @ swap_outer i new ys"
proof (induction xs)
  case (Cons m xs)
  then show ?case by (cases m) simp_all
qed simp

lemma swap_outer_absent: "i \<notin> set (attributes ''id'' ms) \<Longrightarrow> swap_outer i new ms = ms"
  by (induction i new ms rule: swap_outer.induct) (auto split: option.splits)

text \<open>After the swap the identifier is there only if the fragment brings it along.\<close>

lemma swap_outer_ids:
  "i \<in> set (attributes ''id'' (swap_outer i new ms)) \<longleftrightarrow>
     i \<in> set (attributes ''id'' ms) \<and> i \<in> set (attributes ''id'' new)"
  by (induction i new ms rule: swap_outer.induct) (auto split: option.splits)

end
