(* ===== verification/Views.thy ===== *)
theory Views
  imports Markup Engagements Login
begin

text \<open>
  The views of \<open>src/views/mod.rs\<close>: the documents and fragments of the login page, the dashboard and
  the engagement pages, and the markup of every page value that the handlers of
  \<open>routes/pages.rs\<close> answer with. The three quote views at the end of that file are not called by
  any handler; they are modelled because they are there. Dates are formatted by chrono, which is
  a parameter (\<open>fm\<close>), like the text of an identifier.
\<close>

record date_formats =
  day_text :: "timestamp \<Rightarrow> string"
  minute_text :: "timestamp \<Rightarrow> string"
  date_text :: "int \<Rightarrow> string"

text \<open>\<open>%Y-%m-%d\<close> and \<open>%Y-%m-%d %H:%M UTC\<close> of an instant, and the text of a date.\<close>

section \<open>The frame of a page\<close>

definition APP_STYLE :: string where
  \<open>APP_STYLE =
     concat [
       ''body{font-family:ui-sans-serif,system-ui,sans-serif;max-width:72rem;margin:0 auto;padding:2rem;'',
       ''line-height:1.5}'',
       ''nav{display:flex;justify-content:space-between;align-items:center}main{margin-top:3rem}'',
       ''.card{border:1px solid #8886;border-radius:.75rem;padding:1.25rem;margin:1rem 0}'',
       ''label{display:block;margin:.75rem 0}'',
       ''input,textarea,select,button{font:inherit;padding:.65rem}'',
       ''input,textarea,select{box-sizing:border-box;width:100%}button{cursor:pointer}'',
       ''.framework-grid{display:grid;grid-template-columns:repeat(auto-fit,minmax(12rem,1fr));gap:.5rem}'',
       ''.framework-grid label{display:flex;gap:.5rem;align-items:center;margin:0}'',
       ''.framework-grid input{width:auto}.quote-total{font-size:1.5rem;font-weight:700}'',
       ''.muted{opacity:.7}.error{color:#b42318}#sync-status[data-state=offline]{color:#b54708}'',
       ''#sync-status[data-state=synced]{color:#067647}'']\<close>

definition layout :: "string \<Rightarrow> markup list \<Rightarrow> string option \<Rightarrow> string option \<Rightarrow> markup list" where
  "layout title body csrf account =
     [Doctype,
      Elem ''html'' [(''lang'', ''en'')]
        [Elem ''head'' []
           ([Elem ''meta'' [(''charset'', ''utf-8'')] [],
             Elem ''meta'' [(''name'', ''viewport''),
                            (''content'', ''width=device-width, initial-scale=1'')] [],
             Elem ''meta'' [(''name'', ''color-scheme''), (''content'', ''light dark'')] []]
            @ (case csrf of None \<Rightarrow> []
               | Some csrf \<Rightarrow>
                  [Elem ''meta'' [(''name'', ''csrf-token''), (''content'', csrf)] []])
            @ (case account of None \<Rightarrow> []
               | Some key \<Rightarrow>
                  [Elem ''meta'' [(''name'', ''canonical-account-key''), (''content'', key)] []])
            @ [Elem ''title'' [] [Text title, Text ('' '' @ middle_dot @ '' canonical.cloud'')],
               Elem ''style'' []
                 [Text APP_STYLE],
               Elem ''script'' [(''type'', ''module''), (''src'', ''/app-assets/app.js'')] []]),
         Elem ''body'' []
           ([Elem ''nav'' []
               [Elem ''a'' [(''href'', ''/'')] [Elem ''strong'' [] [Text ''canonical.cloud'']],
                Elem ''span'' []
                  [Elem ''a'' [(''href'', ''/app'')] [Text ''Application''],
                   Text ('' '' @ middle_dot @ '' ''),
                   Elem ''a'' [(''href'', ''/app/engagements'')] [Text ''Engagements''],
                   Text ('' '' @ middle_dot @ '' ''),
                   Elem ''a'' [(''href'', ''/app/readiness'')] [Text ''Readiness''],
                   Text ('' '' @ middle_dot @ '' ''),
                   Elem ''a'' [(''href'', ''/u/quote'')] [Text ''Get a quote'']]]]
            @ body)]]"

section \<open>Login\<close>

definition login_markup :: "string \<Rightarrow> string option \<Rightarrow> markup list" where
  "login_markup csrf error =
     layout ''Sign in''
      ([Elem ''main'' []
          ([Elem ''h1'' [] [Text ''Sign in''],
            Elem ''p'' [(''class'', ''muted'')]
              [Text ''Authentication is handled by Supabase; credentials are never stored by this server.'']]
           @ (case error of None \<Rightarrow> []
              | Some error \<Rightarrow>
                 [Elem ''p'' [(''class'', ''error''), (''role'', ''alert'')] [Text error]])
           @ [Elem ''form'' [(''method'', ''post''), (''action'', ''/auth/login''),
                             (''hx-post'', ''/auth/login''), (''hx-target'', ''#login-result''),
                             (''hx-swap'', ''innerHTML'')]
                [Elem ''input'' [(''type'', ''hidden''), (''name'', ''csrf''), (''value'', csrf)] [],
                 Elem ''label'' []
                   [Text ''Email'',
                    Elem ''input'' [(''type'', ''email''), (''name'', ''email''),
                                    (''autocomplete'', ''email''), (''required'', [])] []],
                 Elem ''label'' []
                   [Text ''Password'',
                    Elem ''input'' [(''type'', ''password''), (''name'', ''password''),
                                    (''autocomplete'', ''current-password''), (''required'', [])] []],
                 Elem ''button'' [(''type'', ''submit'')] [Text ''Sign in'']],
              Elem ''div'' [(''id'', ''login-result''), (''aria-live'', ''polite'')] []])])
      None None"

definition login_error :: "string \<Rightarrow> markup list" where
  "login_error message =
     [Elem ''p'' [(''class'', ''error''), (''role'', ''alert'')] [Text message]]"

section \<open>The application\<close>

text \<open>\<open>actor.csrf_token.as_deref().unwrap_or_default()\<close>\<close>

definition token_of :: "auth_context \<Rightarrow> string" where
  "token_of actor = or_else (ctx_csrf_token actor) []"

definition dashboard_markup :: "ext \<Rightarrow> auth_context \<Rightarrow> markup list" where
  "dashboard_markup x actor =
     layout ''Application''
      ([Elem ''main'' [(''data-sync-root'', ''draft_note''), (''hx-ext'', ''ws''),
                       (''ws-connect'', ''/ws'')]
          [Elem ''header'' []
             [Elem ''h1'' [] [Text ''Application''],
              Elem ''p'' [] [Text ''Signed in as '', Text (ctx_email actor)],
              Elem ''p'' [(''id'', ''sync-status''), (''class'', ''muted''),
                          (''data-state'', ''starting''), (''aria-live'', ''polite'')]
                [Text (''Starting offline sync'' @ ellipsis)],
              Elem ''form'' [(''method'', ''post''), (''action'', ''/auth/logout'')]
                [Elem ''input'' [(''type'', ''hidden''), (''name'', ''csrf''),
                                 (''value'', token_of actor)] [],
                 Elem ''button'' [(''type'', ''submit'')] [Text ''Sign out'']]],
           Elem ''section'' [(''class'', ''card'')]
             [Elem ''h2'' [] [Text ''Independent readiness checklists''],
              Elem ''p'' []
                [Text ''Prepare a separate evidence packet for each selected framework. These worksheets provide pre-audit intake, not certification.''],
              Elem ''p'' [(''class'', ''muted'')]
                [Text ''Readiness answers stay in the worksheet tab until you export them; they are not saved with the draft notes below.''],
              Elem ''a'' [(''href'', ''/app/readiness'')] [Text ''Open readiness worksheets'']],
           Elem ''section'' [(''class'', ''card'')]
             [Elem ''h2'' [] [Text ''Optimistic draft note''],
              Elem ''p'' [(''class'', ''muted'')]
                [Text ''Edits are committed to IndexedDB first, then reconciled through the REST API. WebSockets only wake the pull loop.''],
              Elem ''form'' [(''data-sync-form'', ''draft_note'')]
                [Elem ''input'' [(''type'', ''hidden''), (''name'', ''id'')] [],
                 Elem ''label'' []
                   [Text ''Title'', Elem ''input'' [(''name'', ''title''), (''required'', [])] []],
                 Elem ''label'' []
                   [Text ''Body'', Elem ''textarea'' [(''name'', ''body''), (''rows'', ''8'')] []],
                 Elem ''button'' [(''type'', ''submit'')] [Text ''Save locally'']],
              Elem ''div'' [(''data-sync-list'', ''draft_note'')] [],
              Elem ''div'' [(''data-sync-conflicts'', ''draft_note'')] []],
           Elem ''section'' [(''class'', ''card''), (''hx-get'', ''/app/fragments/session''),
                             (''hx-trigger'', ''load''), (''hx-swap'', ''innerHTML'')]
             [Elem ''p'' [(''class'', ''muted'')]
                [Text (''Loading server session fragment'' @ ellipsis)]]]])
      (ctx_csrf_token actor) (Some (uuid_text x (ctx_user_id actor)))"

definition session_fragment_markup :: "ext \<Rightarrow> auth_context \<Rightarrow> markup list" where
  "session_fragment_markup x actor =
     [Elem ''div'' [(''id'', ''session-fragment'')]
        [Elem ''strong'' [] [Text ''HTMX connected''],
         Elem ''p'' [(''class'', ''muted'')]
           [Text ''Maud rendered this fragment for user '',
            Text (uuid_text x (ctx_user_id actor)),
            Text ''.'']]]"

section \<open>Engagements\<close>

definition framework_label :: "string \<Rightarrow> string" where
  "framework_label framework =
     (if framework = ''soc2'' then ''SOC 2''
      else if framework = ''fedramp'' then ''FedRAMP''
      else if framework = ''hipaa'' then ''HIPAA''
      else if framework = ''iso_27001'' then ''ISO 27001''
      else if framework = ''pci_dss'' then ''PCI DSS''
      else if framework = ''gdpr'' then ''GDPR''
      else ''Unknown framework'')"

definition status_label :: "string \<Rightarrow> string" where
  "status_label status =
     (if status = ''scoping'' then ''Scoping''
      else if status = ''remediation'' then ''Remediation''
      else if status = ''in_audit'' then ''In audit''
      else if status = ''complete'' then ''Complete''
      else ''Unknown status'')"

definition engagement_list :: "ext \<Rightarrow> date_formats \<Rightarrow> engagement_rows \<Rightarrow> markup list" where
  "engagement_list x fm rows =
     [Elem ''section'' [(''id'', ''engagement-list''), (''class'', ''card'')]
        ([Elem ''h2'' [] [Text ''Your engagements'']]
         @ (if rows = []
            then [Elem ''p'' [(''class'', ''muted'')]
                    [Text ''No engagements yet. Open one above to start tracking an audit.'']]
            else [Elem ''ul'' []
                    (map (\<lambda>(i, e).
                       Elem ''li'' []
                         ([Elem ''a'' [(''href'', ''/app/engagements/'' @ uuid_text x i)]
                             [Text (ae_company e)],
                           Text ('' '' @ em_dash @ '' ''),
                           Text (framework_label (ae_framework e)),
                           Text ('' '' @ middle_dot @ '' ''),
                           Text (status_label (ae_status e)),
                           Text ('' '' @ middle_dot @ '' opened ''),
                           Text (day_text fm (ae_opened_at e))]
                          @ (case ae_target_report_date e of None \<Rightarrow> []
                             | Some target \<Rightarrow>
                                [Text ('' '' @ middle_dot @ '' report due ''),
                                 Text (date_text fm target)]))) rows)]))]"

definition engagements_page_markup :: "ext \<Rightarrow> date_formats \<Rightarrow> auth_context \<Rightarrow> engagement_rows \<Rightarrow> markup list" where
  "engagements_page_markup x fm actor rows =
     layout ''Engagements''
      ([Elem ''main'' []
          ([Elem ''header'' []
              [Elem ''h1'' [] [Text ''Compliance engagements''],
               Elem ''p'' [(''class'', ''muted'')]
                 [Text ''Engagements are private to your account and enforced by row-level security.'']],
            Elem ''section'' [(''class'', ''card'')]
              [Elem ''h2'' [] [Text ''Open an engagement''],
               Elem ''form'' [(''method'', ''post''), (''action'', ''/app/engagements''),
                              (''hx-post'', ''/app/engagements''),
                              (''hx-target'', ''#engagement-list''), (''hx-swap'', ''outerHTML'')]
                 [Elem ''input'' [(''type'', ''hidden''), (''name'', ''csrf''),
                                  (''value'', token_of actor)] [],
                  Elem ''label'' []
                    [Text ''Company'',
                     Elem ''input'' [(''name'', ''company''), (''required'', []),
                                     (''maxlength'', ''200'')] []],
                  Elem ''label'' []
                    [Text ''Framework'',
                     Elem ''select'' [(''name'', ''framework'')]
                       (map (\<lambda>framework.
                          Elem ''option'' [(''value'', framework)] [Text (framework_label framework)]) FRAMEWORKS)],
                  Elem ''label'' []
                    [Text ''Target report date (optional)'',
                     Elem ''input'' [(''type'', ''date''), (''name'', ''target_report_date'')] []],
                  Elem ''button'' [(''type'', ''submit'')] [Text ''Open engagement'']],
               Elem ''div'' [(''id'', ''engagement-form-error''), (''aria-live'', ''polite'')] []]]
           @ engagement_list x fm rows)])
      (ctx_csrf_token actor) None"

definition engagement_form_error :: "string \<Rightarrow> markup list" where
  "engagement_form_error message =
     [Elem ''p'' [(''class'', ''error''), (''role'', ''alert'')] [Text message]]"

definition engagement_status :: "ext \<Rightarrow> date_formats \<Rightarrow> uuid \<Rightarrow> audit_engagement \<Rightarrow> string \<Rightarrow> markup list" where
  "engagement_status x fm i e csrf =
     [Elem ''section'' [(''id'', ''engagement-status''), (''class'', ''card'')]
        [Elem ''h2'' [] [Text ''Status: '', Text (status_label (ae_status e))],
         Elem ''form'' [(''method'', ''post''),
                        (''action'', ''/app/engagements/'' @ uuid_text x i @ ''/status''),
                        (''hx-post'', ''/app/engagements/'' @ uuid_text x i @ ''/status''),
                        (''hx-target'', ''#engagement-status''), (''hx-swap'', ''outerHTML'')]
           [Elem ''input'' [(''type'', ''hidden''), (''name'', ''csrf''), (''value'', csrf)] [],
            Elem ''label'' []
              [Text ''Move to'',
               Elem ''select'' [(''name'', ''status'')]
                 (map (\<lambda>status.
                    Elem ''option'' ([(''value'', status)] @ (if status = ae_status e then [(''selected'', [])] else []))
                      [Text (status_label status)]) STATUSES)],
            Elem ''button'' [(''type'', ''submit'')] [Text ''Update status'']],
         Elem ''p'' [(''class'', ''muted'')]
           [Text ''Last updated '', Text (minute_text fm (ae_updated_at e))]]]"

definition engagement_notes :: "date_formats \<Rightarrow> note_rows \<Rightarrow> markup list" where
  "engagement_notes fm rows =
     [Elem ''div'' [(''id'', ''note-list'')]
        (if rows = []
         then [Elem ''p'' [(''class'', ''muted'')] [Text ''No notes yet.'']]
         else [Elem ''ul'' []
                 (map (\<lambda>(k, n).
                    Elem ''li'' []
                      [Elem ''p'' [] [Text (en_body n)],
                       Elem ''p'' [(''class'', ''muted'')] [Text (minute_text fm (en_created_at n))]]) rows)])]"

definition engagement_detail_page :: "ext \<Rightarrow> date_formats \<Rightarrow> auth_context \<Rightarrow> uuid \<Rightarrow> audit_engagement \<Rightarrow> note_rows \<Rightarrow> markup list" where
  "engagement_detail_page x fm actor i e rows =
     layout (ae_company e)
      ([Elem ''main'' []
          ([Elem ''header'' []
              [Elem ''p'' []
                 [Elem ''a'' [(''href'', ''/app/engagements'')]
                    [Text (left_arrow @ '' All engagements'')]],
               Elem ''h1'' [] [Text (ae_company e)],
               Elem ''p'' [(''class'', ''muted'')]
                 ([Text (framework_label (ae_framework e)),
                   Text ('' '' @ middle_dot @ '' opened ''),
                   Text (day_text fm (ae_opened_at e))]
                  @ (case ae_target_report_date e of None \<Rightarrow> []
                     | Some target \<Rightarrow>
                        [Text ('' '' @ middle_dot @ '' report due ''), Text (date_text fm target)]))]]
           @ engagement_status x fm i e (token_of actor)
           @ [Elem ''section'' [(''class'', ''card'')]
                ([Elem ''h2'' [] [Text ''Notes''],
                  Elem ''form'' [(''method'', ''post''),
                                 (''action'', ''/app/engagements/'' @ uuid_text x i @ ''/notes''),
                                 (''hx-post'', ''/app/engagements/'' @ uuid_text x i @ ''/notes''),
                                 (''hx-target'', ''#note-list''), (''hx-swap'', ''outerHTML'')]
                    [Elem ''input'' [(''type'', ''hidden''), (''name'', ''csrf''),
                                     (''value'', token_of actor)] [],
                     Elem ''label'' []
                       [Text ''Add a note'',
                        Elem ''textarea'' [(''name'', ''body''), (''rows'', ''4''), (''required'', []),
                                           (''maxlength'', ''4000'')] []],
                     Elem ''button'' [(''type'', ''submit'')] [Text ''Add note'']],
                  Elem ''div'' [(''id'', ''note-form-error''), (''aria-live'', ''polite'')] []]
                 @ engagement_notes fm rows)])])
      (ctx_csrf_token actor) None"

definition html_not_found :: "markup list" where
  "html_not_found =
     layout ''Not found''
      ([Elem ''main'' []
          [Elem ''h1'' [] [Text ''Not found''],
           Elem ''p'' [] [Text ''That application page does not exist.'']]])
      None None"

text \<open>The view each handler calls for the page it answers with.\<close>

primrec page_markup :: "ext \<Rightarrow> date_formats \<Rightarrow> page \<Rightarrow> markup list" where
  "page_markup x fm (Dashboard actor) = dashboard_markup x actor"
| "page_markup x fm (SessionFragment actor) = session_fragment_markup x actor"
| "page_markup x fm (EngagementsPage actor rows) = engagements_page_markup x fm actor rows"
| "page_markup x fm (EngagementList rows) = engagement_list x fm rows"
| "page_markup x fm (EngagementDetail actor i e rows) = engagement_detail_page x fm actor i e rows"
| "page_markup x fm (EngagementStatus i e csrf) = engagement_status x fm i e csrf"
| "page_markup x fm (EngagementNotes rows) = engagement_notes fm rows"
| "page_markup x fm (FormError message) = engagement_form_error message"
| "page_markup x fm HtmlNotFound = html_not_found"

section \<open>The unused quote views\<close>

definition views_quote_page :: "string \<Rightarrow> markup list" where
  "views_quote_page email =
     layout ''Get a quote''
      ([Elem ''main'' []
          [Elem ''header'' []
             [Elem ''p'' [] [Elem ''a'' [(''href'', ''/'')] [Text (left_arrow @ '' canonical.plus'')]],
              Elem ''h1'' [] [Text ''Get a compliance quote in less than 5 minutes''],
              Elem ''p'' [(''class'', ''muted'')]
                ([Text ''Signed in'']
                 @ (if email \<noteq> [] then [Text '' as '', Text email] else [])
                 @ [Text ''. We use your answers to estimate scope; this is not an audit opinion or certification.''])],
           Elem ''form'' [(''class'', ''card''), (''method'', ''post''), (''action'', ''/u/quote''),
                          (''hx-post'', ''/u/quote''), (''hx-target'', ''#quote-result''),
                          (''hx-swap'', ''innerHTML''), (''hx-indicator'', ''#quote-progress'')]
             [Elem ''h2'' [] [Text ''Company''],
              Elem ''label'' []
                [Text ''Company name'',
                 Elem ''input'' [(''name'', ''company_name''), (''required'', []),
                                 (''maxlength'', ''200'')] []],
              Elem ''label'' []
                [Text ''Industry'',
                 Elem ''input'' [(''name'', ''industry''), (''required'', []), (''maxlength'', ''120'')] []],
              Elem ''label'' []
                [Text ''Number of employees'',
                 Elem ''input'' [(''type'', ''number''), (''name'', ''employee_count''),
                                 (''min'', ''1''), (''max'', ''1000000''), (''required'', [])] []],
              Elem ''label'' []
                [Text ''Annual revenue in USD (optional)'',
                 Elem ''input'' [(''type'', ''number''), (''name'', ''annual_revenue_usd''),
                                 (''min'', ''0''), (''max'', ''10000000000000'')] []],
              Elem ''h2'' [] [Text ''Frameworks''],
              Elem ''p'' [(''class'', ''muted'')] [Text ''Choose every framework you want included.''],
              Elem ''div'' [(''class'', ''framework-grid'')]
                [Elem ''label'' []
                   [Elem ''input'' [(''type'', ''checkbox''), (''name'', ''soc2'')] [], Text ''SOC 2''],
                 Elem ''label'' []
                   [Elem ''input'' [(''type'', ''checkbox''), (''name'', ''nist_csf'')] [],
                    Text ''NIST CSF''],
                 Elem ''label'' []
                   [Elem ''input'' [(''type'', ''checkbox''), (''name'', ''nist_800_53'')] [],
                    Text ''NIST SP 800-53''],
                 Elem ''label'' []
                   [Elem ''input'' [(''type'', ''checkbox''), (''name'', ''hipaa'')] [], Text ''HIPAA''],
                 Elem ''label'' []
                   [Elem ''input'' [(''type'', ''checkbox''), (''name'', ''iso_27001'')] [],
                    Text ''ISO 27001''],
                 Elem ''label'' []
                   [Elem ''input'' [(''type'', ''checkbox''), (''name'', ''pci_dss'')] [],
                    Text ''PCI DSS''],
                 Elem ''label'' []
                   [Elem ''input'' [(''type'', ''checkbox''), (''name'', ''fedramp'')] [],
                    Text ''FedRAMP'']],
              Elem ''h2'' [] [Text ''Scope''],
              Elem ''label'' []
                [Text ''Security program maturity'',
                 Elem ''select'' [(''name'', ''security_program_maturity''), (''required'', [])]
                   [Elem ''option'' [(''value'', [])] [Text ''Choose a stage''],
                    Elem ''option'' [(''value'', ''none'')] [Text ''Starting from scratch''],
                    Elem ''option'' [(''value'', ''informal'')] [Text ''Informal practices''],
                    Elem ''option'' [(''value'', ''documented'')] [Text ''Controls documented''],
                    Elem ''option'' [(''value'', ''managed'')] [Text ''Managed program''],
                    Elem ''option'' [(''value'', ''audited'')] [Text ''Previously audited'']]],
              Elem ''label'' []
                [Text ''Target timeline'',
                 Elem ''select'' [(''name'', ''target_timeline''), (''required'', [])]
                   [Elem ''option'' [(''value'', [])] [Text ''Choose a timeline''],
                    Elem ''option'' [(''value'', ''under_3_months'')] [Text ''Under 3 months''],
                    Elem ''option'' [(''value'', ''3_to_6_months'')]
                      [Text (''3'' @ en_dash @ ''6 months'')],
                    Elem ''option'' [(''value'', ''6_to_12_months'')]
                      [Text (''6'' @ en_dash @ ''12 months'')],
                    Elem ''option'' [(''value'', ''over_12_months'')] [Text ''More than 12 months''],
                    Elem ''option'' [(''value'', ''unsure'')] [Text ''Still exploring'']]],
              Elem ''div'' [(''class'', ''framework-grid'')]
                [Elem ''label'' []
                   [Elem ''input'' [(''type'', ''checkbox''), (''name'', ''handles_phi'')] [],
                    Text ''Handles protected health information''],
                 Elem ''label'' []
                   [Elem ''input'' [(''type'', ''checkbox''), (''name'', ''handles_payment_cards'')] [],
                    Text ''Handles payment-card data'']],
              Elem ''label'' []
                [Text ''Cloud and hosting providers (comma-separated)'',
                 Elem ''input'' [(''name'', ''cloud_providers''), (''maxlength'', ''640''),
                                 (''placeholder'', ''AWS, GCP, Azure, Cloudflare'')] []],
              Elem ''label'' []
                [Text ''Existing certifications (comma-separated)'',
                 Elem ''input'' [(''name'', ''existing_certifications''), (''maxlength'', ''1920''),
                                 (''placeholder'', ''ISO 27001, SOC 2 Type II'')] []],
              Elem ''label'' []
                [Text ''Anything else we should know'',
                 Elem ''textarea'' [(''name'', ''notes''), (''rows'', ''5''), (''maxlength'', ''4000'')] []],
              Elem ''button'' [(''type'', ''submit'')] [Text ''Analyze my quote''],
              Elem ''span'' [(''id'', ''quote-progress''), (''class'', ''muted htmx-indicator'')]
                [Text ('' Analyzing securely'' @ ellipsis)]],
           Elem ''section'' [(''id'', ''quote-result''), (''aria-live'', ''polite'')] []]])
      None None"

fun as_u64 :: "json \<Rightarrow> nat option" where
  "as_u64 (JInt n) = (if 0 \<le> n \<and> n \<le> int u64_max then Some (nat n) else None)"
| "as_u64 _ = None"

definition views_quote_result :: "json \<Rightarrow> markup list" where
  "views_quote_result quote =
     (let quote_id = or_else (Option.bind (json_get ''id'' quote) as_str) [];
          status = or_else (Option.bind (json_get ''status'' quote) as_str) ''queued''
      in if status \<in> {''queued'', ''analyzing''} then
       [Elem ''article'' [(''id'', ''quote-result''), (''class'', ''card''),
                          (''hx-get'', ''/u/quote/'' @ quote_id), (''hx-trigger'', ''every 2s''),
                          (''hx-swap'', ''outerHTML'')]
          [Elem ''h2'' [] [Text ''Building your preliminary quote''],
           Elem ''p'' []
             [Text ''Your answers were saved securely. Canonical's analysis is running now.''],
           Elem ''p'' [(''class'', ''muted'')] [Text ''This page will update automatically.'']]]
      else if status = ''ready'' then
        (let estimate = or_else (json_get ''estimate'' quote) JNull;
             low = or_else (Option.bind (json_get ''low'' estimate) as_u64) 0;
             high = or_else (Option.bind (json_get ''high'' estimate) as_u64) 0;
             currency = or_else (Option.bind (json_get ''currency'' estimate) as_str) ''USD'';
             analysis = or_else (Option.bind (json_get ''analysisMarkdown'' quote) as_str)
                          ''Your preliminary quote is ready.''
         in
       [Elem ''article'' [(''id'', ''quote-result''), (''class'', ''card'')]
          [Elem ''h2'' [] [Text ''Your preliminary quote''],
           Elem ''p'' [(''class'', ''quote-total'')]
             [Text ''$'',
              Text (show_nat low),
              Text (en_dash @ ''$''),
              Text (show_nat high),
              Text '' '',
              Text currency],
           Elem ''pre'' [(''style'', ''white-space:pre-wrap;font:inherit'')] [Text analysis],
           Elem ''p'' [(''class'', ''muted'')]
             [Text ''This estimate is informational and will be confirmed during scoping.'']]])
      else
       [Elem ''article'' [(''id'', ''quote-result''), (''class'', ''card'')]
          [Elem ''h2'' [] [Text ''We could not finish this quote''],
           Elem ''p'' [(''class'', ''error''), (''role'', ''alert'')]
             [Text ''No charge was made. Please review your answers and try again, or contact Canonical.'']]])"

definition views_quote_error :: "string \<Rightarrow> markup list" where
  "views_quote_error message =
     [Elem ''p'' [(''class'', ''error''), (''role'', ''alert'')] [Text message]]"

end
