(* ===== verification/Quote_Views.thy ===== *)
theory Quote_Views
  imports Views Quote
begin

text \<open>
  The markup of the quote pages in \<open>src/quote_api.rs\<close> and of every value that the handlers of
  \<open>routes/quote.rs\<close> answer with, and the properties of the quote form: what it sends is what the
  handler reads, and what it offers is what the handler accepts.
\<close>

section \<open>The form\<close>

definition QUOTE_STYLE :: string where
  \<open>QUOTE_STYLE =
     concat [
       ''body{font-family:ui-sans-serif,system-ui,sans-serif;max-width:64rem;margin:0 auto;padding:2rem;'',
       ''line-height:1.5}'',
       ''.card{border:1px solid #8886;border-radius:.75rem;padding:1.25rem;margin:1rem 0}'',
       ''label{display:block;margin:.75rem 0}'',
       ''input,textarea,select,button{font:inherit;padding:.65rem}'',
       ''input,textarea,select{box-sizing:border-box;width:100%}'',
       ''.grid{display:grid;grid-template-columns:repeat(auto-fit,minmax(13rem,1fr));gap:.6rem}'',
       ''.grid label{display:flex;gap:.5rem;align-items:center;margin:0}.grid input{width:auto}'',
       ''.muted{opacity:.72}.error{color:#b42318}.quote-total{font-size:1.5rem;font-weight:700}'',
       ''[data-opto-state="pending"]{border-color:#b7791f}'',
       ''[data-opto-state="failed"]{border-color:#b42318}button[disabled]{opacity:.6;cursor:wait}'']\<close>

definition hidden_inputs :: "ext \<Rightarrow> auth_context \<Rightarrow> uuid \<Rightarrow> markup list" where
  "hidden_inputs x actor request_id =
     [Elem ''input'' [(''type'', ''hidden''), (''name'', ''csrf''), (''value'', token_of actor)] [],
      Elem ''input'' [(''type'', ''hidden''), (''name'', ''client_request_id''),
                      (''value'', uuid_text x request_id)] []]"

definition organization_section :: "auth_context \<Rightarrow> markup list" where
  "organization_section actor =
     [Elem ''h2'' [] [Text ''Organization and contact''],
      Elem ''label'' []
        [Text ''Organization name'',
         Elem ''input'' [(''name'', ''organization_name''), (''required'', []),
                         (''maxlength'', ''200'')] []],
      Elem ''label'' []
        [Text ''Contact name'',
         Elem ''input'' [(''name'', ''contact_name''), (''required'', []), (''maxlength'', ''160'')] []],
      Elem ''label'' []
        [Text ''Verified contact email'',
         Elem ''input'' [(''value'', ctx_email actor), (''readonly'', []),
                         (''aria-readonly'', ''true'')] []],
      Elem ''label'' []
        [Text ''Public website (optional)'',
         Elem ''input'' [(''type'', ''url''), (''name'', ''website''), (''maxlength'', ''2048''),
                         (''placeholder'', ''https://example.com'')] []],
      Elem ''label'' []
        [Text ''Number of employees and long-term contractors'',
         Elem ''input'' [(''type'', ''number''), (''name'', ''employee_count''), (''min'', ''1''),
                         (''max'', ''1000000''), (''required'', [])] []],
      Elem ''label'' []
        [Text ''Annual revenue band (optional)'',
         Elem ''select'' [(''name'', ''annual_revenue_band'')]
           [Elem ''option'' [(''value'', [])] [Text ''Prefer not to say''],
            Elem ''option'' [(''value'', ''pre_revenue'')] [Text ''Pre-revenue''],
            Elem ''option'' [(''value'', ''under_1m'')] [Text ''Under $1M''],
            Elem ''option'' [(''value'', ''1m_10m'')] [Text (''$1M'' @ en_dash @ ''$10M'')],
            Elem ''option'' [(''value'', ''10m_50m'')] [Text (''$10M'' @ en_dash @ ''$50M'')],
            Elem ''option'' [(''value'', ''50m_250m'')] [Text (''$50M'' @ en_dash @ ''$250M'')],
            Elem ''option'' [(''value'', ''over_250m'')] [Text ''Over $250M''],
            Elem ''option'' [(''value'', ''prefer_not_to_say'')] [Text ''Prefer not to say (recorded)'']]]]"

definition framework_section :: "markup list" where
  "framework_section =
     [Elem ''h2'' [] [Text ''Frameworks''],
      Elem ''div'' [(''class'', ''grid'')]
        [Elem ''label'' []
           [Elem ''input'' [(''type'', ''checkbox''), (''name'', ''soc2_type_1'')] [],
            Text ''SOC 2 Type I''],
         Elem ''label'' []
           [Elem ''input'' [(''type'', ''checkbox''), (''name'', ''soc2_type_2'')] [],
            Text ''SOC 2 Type II''],
         Elem ''label'' []
           [Elem ''input'' [(''type'', ''checkbox''), (''name'', ''nist_csf_2'')] [],
            Text ''NIST CSF 2.0''],
         Elem ''label'' []
           [Elem ''input'' [(''type'', ''checkbox''), (''name'', ''nist_800_53'')] [],
            Text ''NIST SP 800-53''],
         Elem ''label'' []
           [Elem ''input'' [(''type'', ''checkbox''), (''name'', ''hipaa'')] [], Text ''HIPAA''],
         Elem ''label'' []
           [Elem ''input'' [(''type'', ''checkbox''), (''name'', ''iso_27001'')] [], Text ''ISO 27001''],
         Elem ''label'' []
           [Elem ''input'' [(''type'', ''checkbox''), (''name'', ''pci_dss_4'')] [], Text ''PCI DSS 4''],
         Elem ''label'' []
           [Elem ''input'' [(''type'', ''checkbox''), (''name'', ''fedramp'')] [], Text ''FedRAMP''],
         Elem ''label'' []
           [Elem ''input'' [(''type'', ''checkbox''), (''name'', ''gdpr'')] [], Text ''GDPR''],
         Elem ''label'' []
           [Elem ''input'' [(''type'', ''checkbox''), (''name'', ''custom'')] [], Text ''Custom scope'']]]"

definition stage_section :: "markup list" where
  "stage_section =
     [Elem ''h2'' [] [Text ''Program stage''],
      Elem ''label'' []
        [Text ''Current stage'',
         Elem ''select'' [(''name'', ''current_stage''), (''required'', [])]
           [Elem ''option'' [(''value'', [])] [Text ''Choose a stage''],
            Elem ''option'' [(''value'', ''exploring'')] [Text ''Exploring''],
            Elem ''option'' [(''value'', ''readiness'')] [Text ''Readiness''],
            Elem ''option'' [(''value'', ''remediation'')] [Text ''Remediation''],
            Elem ''option'' [(''value'', ''audit_ready'')] [Text ''Audit ready''],
            Elem ''option'' [(''value'', ''renewal'')] [Text ''Renewal'']]],
      Elem ''label'' []
        [Text ''Target date (optional)'',
         Elem ''input'' [(''type'', ''date''), (''name'', ''target_date'')] []]]"

definition infrastructure_section :: "markup list" where
  "infrastructure_section =
     [Elem ''h2'' [] [Text ''Infrastructure''],
      Elem ''div'' [(''class'', ''grid'')]
        [Elem ''label'' []
           [Elem ''input'' [(''type'', ''checkbox''), (''name'', ''infra_aws'')] [], Text ''AWS''],
         Elem ''label'' []
           [Elem ''input'' [(''type'', ''checkbox''), (''name'', ''infra_azure'')] [], Text ''Azure''],
         Elem ''label'' []
           [Elem ''input'' [(''type'', ''checkbox''), (''name'', ''infra_gcp'')] [], Text ''GCP''],
         Elem ''label'' []
           [Elem ''input'' [(''type'', ''checkbox''), (''name'', ''infra_supabase'')] [],
            Text ''Supabase''],
         Elem ''label'' []
           [Elem ''input'' [(''type'', ''checkbox''), (''name'', ''infra_on_prem'')] [],
            Text ''On-premises''],
         Elem ''label'' []
           [Elem ''input'' [(''type'', ''checkbox''), (''name'', ''infra_colocation'')] [],
            Text ''Colocation''],
         Elem ''label'' []
           [Elem ''input'' [(''type'', ''checkbox''), (''name'', ''infra_saas_only'')] [],
            Text ''SaaS-only''],
         Elem ''label'' []
           [Elem ''input'' [(''type'', ''checkbox''), (''name'', ''infra_multi_cloud'')] [],
            Text ''Multi-cloud''],
         Elem ''label'' []
           [Elem ''input'' [(''type'', ''checkbox''), (''name'', ''infra_other'')] [], Text ''Other'']]]"

definition data_section :: "markup list" where
  "data_section =
     [Elem ''h2'' [] [Text ''Data sensitivity''],
      Elem ''div'' [(''class'', ''grid'')]
        [Elem ''label'' []
           [Elem ''input'' [(''type'', ''checkbox''), (''name'', ''data_public'')] [], Text ''Public''],
         Elem ''label'' []
           [Elem ''input'' [(''type'', ''checkbox''), (''name'', ''data_internal'')] [],
            Text ''Internal''],
         Elem ''label'' []
           [Elem ''input'' [(''type'', ''checkbox''), (''name'', ''data_confidential'')] [],
            Text ''Confidential''],
         Elem ''label'' []
           [Elem ''input'' [(''type'', ''checkbox''), (''name'', ''data_pii'')] [], Text ''PII''],
         Elem ''label'' []
           [Elem ''input'' [(''type'', ''checkbox''), (''name'', ''data_phi'')] [], Text ''PHI''],
         Elem ''label'' []
           [Elem ''input'' [(''type'', ''checkbox''), (''name'', ''data_pci'')] [],
            Text ''Payment-card data''],
         Elem ''label'' []
           [Elem ''input'' [(''type'', ''checkbox''), (''name'', ''data_government_cui'')] [],
            Text ''Government CUI''],
         Elem ''label'' []
           [Elem ''input'' [(''type'', ''checkbox''), (''name'', ''data_customer_secrets'')] [],
            Text ''Customer secrets''],
         Elem ''label'' []
           [Elem ''input'' [(''type'', ''checkbox''), (''name'', ''data_other'')] [], Text ''Other'']]]"

definition signal_section :: "markup list" where
  "signal_section =
     [Elem ''h2'' [] [Text ''Current readiness signals''],
      Elem ''div'' [(''class'', ''grid'')]
        [Elem ''label'' []
           [Elem ''input'' [(''type'', ''checkbox''), (''name'', ''has_security_program'')] [],
            Text ''Named security owner and operating program''],
         Elem ''label'' []
           [Elem ''input'' [(''type'', ''checkbox''), (''name'', ''has_policies'')] [],
            Text ''Reviewed security and privacy policies''],
         Elem ''label'' []
           [Elem ''input'' [(''type'', ''checkbox''), (''name'', ''has_risk_assessment'')] [],
            Text ''Current documented risk assessment''],
         Elem ''label'' []
           [Elem ''input'' [(''type'', ''checkbox''), (''name'', ''has_incident_response_plan'')] [],
            Text ''Exercised incident-response plan''],
         Elem ''label'' []
           [Elem ''input'' [(''type'', ''checkbox''), (''name'', ''has_vendor_management'')] [],
            Text ''Third-party risk and vendor review process'']],
      Elem ''label'' []
        [Text ''Anything else we should know'',
         Elem ''textarea'' [(''name'', ''notes''), (''rows'', ''5''), (''maxlength'', ''5000'')] []],
      Elem ''button'' [(''type'', ''submit'')] [Text ''Analyze my quote''],
      Elem ''p'' [(''id'', ''quote-sync-status''), (''class'', ''muted''), (''aria-live'', ''polite'')]
        [Text ''Writes are saved locally before delivery.'']]"

definition quote_form_markup :: "ext \<Rightarrow> auth_context \<Rightarrow> uuid \<Rightarrow> markup" where
  "quote_form_markup x actor request_id =
     Elem ''form'' [(''class'', ''card''), (''method'', ''post''), (''action'', ''/u/quote''),
                    (''data-opto-quote'', ''true''), (''hx-post'', ''/u/quote''),
                    (''hx-target'', ''#quote-results''), (''hx-swap'', ''afterbegin'')]
       (hidden_inputs x actor request_id @ organization_section actor @ framework_section @ stage_section
        @ infrastructure_section @ data_section @ signal_section)"

section \<open>The status fragment and the pages\<close>

text \<open>The three shapes of \<open>quote_status_fragment\<close>.\<close>

primrec quote_fragment_markup :: "ext \<Rightarrow> quote_fragment \<Rightarrow> markup list" where
  "quote_fragment_markup x (RunningQuote i company) =
     [Elem ''article'' [(''id'', ''quote-'' @ uuid_text x i), (''class'', ''card''),
                        (''hx-get'', ''/u/quote/'' @ uuid_text x i), (''hx-trigger'', ''every 2s''),
                        (''hx-swap'', ''outerHTML'')]
        [Elem ''h2'' [] [Text company],
         Elem ''p'' [] [Text ''Canonical's secure analysis is running.''],
         Elem ''p'' [(''class'', ''muted'')] [Text ''This status refreshes automatically.'']]]"
| "quote_fragment_markup x (ReadyQuote i company estimated summary) =
     [Elem ''article'' [(''id'', ''quote-'' @ uuid_text x i), (''class'', ''card'')]
        ([Elem ''h2'' [] [Text company]]
         @ (case estimated of None \<Rightarrow> []
            | Some estimate \<Rightarrow>
               [Elem ''p'' [(''class'', ''quote-total'')]
                  [Text ''$'',
                   Text (show_nat (qe_low estimate)),
                   Text (en_dash @ ''$''),
                   Text (show_nat (qe_high estimate)),
                   Text '' '',
                   Text (qe_currency estimate)]])
         @ [Elem ''p'' [] [Text summary],
            Elem ''p'' [(''class'', ''muted'')]
              [Text ''This is a preliminary estimate, not an audit opinion or certification.'']])]"
| "quote_fragment_markup x (UnfinishedQuote i company error_code) =
     [Elem ''article'' [(''id'', ''quote-'' @ uuid_text x i), (''class'', ''card'')]
        ([Elem ''h2'' [] [Text company],
          Elem ''p'' [(''class'', ''error''), (''role'', ''alert'')]
            [Text ''We could not finish this quote. Please review your answers and try again.'']]
         @ (case error_code of None \<Rightarrow> []
            | Some code \<Rightarrow>
               [Elem ''p'' [(''class'', ''muted'')] [Text ''Reference: '', Text code]]))]"

definition quote_page :: "ext \<Rightarrow> uuid \<Rightarrow> auth_context \<Rightarrow> quote_fragment list \<Rightarrow> markup list" where
  "quote_page x request_id actor fragments =
     [Doctype,
      Elem ''html'' [(''lang'', ''en'')]
        [Elem ''head'' []
           [Elem ''meta'' [(''charset'', ''utf-8'')] [],
            Elem ''meta'' [(''name'', ''viewport''),
                           (''content'', ''width=device-width, initial-scale=1'')] [],
            Elem ''meta'' [(''name'', ''canonical-quote-account''),
                           (''content'', uuid_text x (ctx_user_id actor))] [],
            Elem ''title'' [] [Text (''Get a quote '' @ middle_dot @ '' canonical.plus'')],
            Elem ''style'' []
              [Text QUOTE_STYLE],
            Elem ''script'' [(''type'', ''module''), (''src'', ''/app-assets/app.js'')] []],
         Elem ''body'' []
           [Elem ''nav'' [] [Elem ''a'' [(''href'', ''/'')] [Text (left_arrow @ '' canonical.plus'')]],
            Elem ''main'' []
              ([Elem ''h1'' [] [Text ''Get a compliance quote in less than 5 minutes''],
                Elem ''p'' [(''class'', ''muted'')]
                  [Text ''Signed in as '',
                   Text (ctx_email actor),
                   Text ''. Your answers are private to your account.''],
                Elem ''p'' [(''class'', ''muted'')]
                  [Text ''Do not submit credentials, protected health information, cardholder data, or production evidence.'']]
               @ [quote_form_markup x actor request_id]
               @ [Elem ''section'' [(''id'', ''quote-results''), (''aria-live'', ''polite'')]
                    (concat (map (quote_fragment_markup x) fragments))])]]]"

definition quote_detail_page :: "ext \<Rightarrow> auth_context \<Rightarrow> quote_fragment \<Rightarrow> markup list" where
  "quote_detail_page x actor fragment =
     [Doctype,
      Elem ''html'' [(''lang'', ''en'')]
        [Elem ''head'' []
           [Elem ''meta'' [(''charset'', ''utf-8'')] [],
            Elem ''meta'' [(''name'', ''viewport''),
                           (''content'', ''width=device-width, initial-scale=1'')] [],
            Elem ''title'' [] [Text (''Quote '' @ middle_dot @ '' canonical.plus'')]],
         Elem ''body'' []
           [Elem ''main'' []
              ([Elem ''p'' []
                  [Elem ''a'' [(''href'', ''/u/quote'')] [Text (left_arrow @ '' All quotes'')]],
                Elem ''p'' [(''class'', ''muted'')] [Text ''Signed in as '', Text (ctx_email actor)]]
               @ quote_fragment_markup x fragment)]]]"

text \<open>The view each handler calls for the value it answers with; \<open>request_id\<close> is the fresh identifier of a form.\<close>

primrec quote_view_markup :: "ext \<Rightarrow> uuid \<Rightarrow> quote_view \<Rightarrow> markup list" where
  "quote_view_markup x request_id (QuotePage actor fragments) = quote_page x request_id actor fragments"
| "quote_view_markup x request_id (QuoteDetailPage actor fragment) = quote_detail_page x actor fragment"
| "quote_view_markup x request_id (QuoteFragment fragment) = quote_fragment_markup x fragment"
| "quote_view_markup x request_id (QuoteFormError message) =
     [Elem ''p'' [(''class'', ''error''), (''role'', ''alert'')] [Text message]]"

lemmas section_defs =
  hidden_inputs_def organization_section_def framework_section_def stage_section_def
  infrastructure_section_def data_section_def signal_section_def

section \<open>What the form sends\<close>

text \<open>The fields of \<open>QuoteForm\<close> that must be present, and those with a default.\<close>

definition required_fields :: "string list" where
  "required_fields =
     [''csrf'', ''client_request_id'', ''organization_name'', ''contact_name'', ''employee_count'',
      ''current_stage'']"

definition default_fields :: "string list" where
  "default_fields =
     [''website'', ''annual_revenue_band'', ''target_date'', ''notes'']
     @ map snd (framework_fields @ infrastructure_fields @ data_fields)
     @ [''has_security_program'', ''has_policies'', ''has_risk_assessment'', ''has_incident_response_plan'',
        ''has_vendor_management'']"

text \<open>
  The constraints a browser enforces for a control: \<open>required\<close>, \<open>maxlength\<close>, \<open>min\<close> and \<open>max\<close> of
  a number, and the options of a selection.
\<close>

definition limit :: "string \<Rightarrow> markup \<Rightarrow> nat option" where
  "limit n m = Option.bind (attribute n m) parse_nat"

definition control_allows :: "string \<Rightarrow> markup \<Rightarrow> bool" where
  "control_allows v m \<longleftrightarrow>
     (if attribute ''required'' m \<noteq> None then v \<noteq> [] else True)
     \<and> (case limit ''maxlength'' m of None \<Rightarrow> True | Some k \<Rightarrow> chars_count v \<le> k)
     \<and> (case limit ''min'' m of None \<Rightarrow> True
        | Some k \<Rightarrow> (case parse_nat v of None \<Rightarrow> False | Some n \<Rightarrow> k \<le> n))
     \<and> (case limit ''max'' m of None \<Rightarrow> True
        | Some k \<Rightarrow> (case parse_nat v of None \<Rightarrow> False | Some n \<Rightarrow> n \<le> k))
     \<and> (if tag m = ''select'' then v \<in> set (option_values [m]) else True)"

definition form_allows :: "markup \<Rightarrow> (string \<times> string) list \<Rightarrow> bool" where
  "form_allows f answers \<longleftrightarrow>
     list_all (\<lambda>(n, v). list_all (control_allows v) (controls_named n [f])) answers"

definition typed_answers :: "quote_form \<Rightarrow> (string \<times> string) list" where
  "typed_answers form =
     [(''organization_name'', qf_organization_name form), (''contact_name'', qf_contact_name form),
      (''website'', qf_website form), (''employee_count'', show_nat (qf_employee_count form)),
      (''annual_revenue_band'', qf_annual_revenue_band form), (''current_stage'', qf_current_stage form),
      (''target_date'', qf_target_date form), (''notes'', qf_notes form)]"

lemma form_controls:
  "control_names [quote_form_markup x actor request_id] =
     [''csrf'', ''client_request_id'', ''organization_name'', ''contact_name'', ''website'',
      ''employee_count'', ''annual_revenue_band''] @ map snd framework_fields
     @ [''current_stage'', ''target_date''] @ map snd infrastructure_fields @ map snd data_fields
     @ [''has_security_program'', ''has_policies'', ''has_risk_assessment'', ''has_incident_response_plan'',
        ''has_vendor_management'', ''notes'']"
  by (simp add: quote_form_markup_def section_defs framework_fields_def infrastructure_fields_def
        data_fields_def)

text \<open>
  What the controls of the form allow is what the checks of the handler accept, up to the texts a
  browser cannot judge: a name of white space only, a web site that is not a public URL, a date.
\<close>

lemma limits:
  "parse_nat ''200'' = Some 200" "parse_nat ''160'' = Some 160" "parse_nat ''2048'' = Some 2048"
  "parse_nat ''1'' = Some 1" "parse_nat ''1000000'' = Some 1000000" "parse_nat ''5000'' = Some 5000"
  by (simp_all add: parse_nat_def is_digit_def chr_in_def)

lemma allowed_answers:
  "form_allows (quote_form_markup x actor request_id) (typed_answers form) \<Longrightarrow>
     chars_count (qf_organization_name form) \<le> 200 \<and> chars_count (qf_contact_name form) \<le> 160
     \<and> chars_count (qf_website form) \<le> 2048 \<and> chars_count (qf_notes form) \<le> 5000
     \<and> 1 \<le> qf_employee_count form \<and> qf_employee_count form \<le> 1000000
     \<and> qf_annual_revenue_band form \<in> insert [] (set REVENUE_BANDS) \<and> qf_current_stage form \<in> set STAGES"
  by (simp add: form_allows_def typed_answers_def quote_form_markup_def section_defs control_allows_def
        limit_def limits option_values_def map_filter_def REVENUE_BANDS_def STAGES_def bounded_text_def) blast

lemma trim_choices:
  "band \<in> insert [] (set REVENUE_BANDS) \<Longrightarrow> trim band = band" "stage \<in> set STAGES \<Longrightarrow> trim stage = stage"
  by (auto simp: REVENUE_BANDS_def STAGES_def trim_visible trim_samples chr_in_def)

lemma bounded_required_ok:
  "trim v \<noteq> [] \<Longrightarrow> chars_count v \<le> n \<Longrightarrow> bounded_required v n label = Inr (trim v)"
  using chars_count_trim [of v] by (simp add: bounded_required_def Let_def)

lemma optional_enum_ok:
  "v \<in> insert [] (set allowed) \<Longrightarrow> trim v = v \<Longrightarrow> optional_enum v allowed label = Inr (nonblank v)"
  by (auto simp: optional_enum_def nonblank_def)

lemma validated_website_ok:
  assumes "chars_count v \<le> 2048"
    "case nonblank v of None \<Rightarrow> True | Some w \<Rightarrow> \<exists>u. parse w = Inr u \<and> website_url_ok u"
  shows "validated_website parse v = Inr (nonblank v)"
  using assms chars_count_trim [of v]
  by (auto simp: validated_website_def nonblank_def map_err_def split: if_splits)

definition judged_by_server ::
    "url_parser \<Rightarrow> (string \<Rightarrow> int option) \<Rightarrow> quote_form \<Rightarrow> bool" where
  "judged_by_server parse parse_date form \<longleftrightarrow>
     trim (qf_organization_name form) \<noteq> [] \<and> trim (qf_contact_name form) \<noteq> []
     \<and> (case nonblank (qf_website form) of None \<Rightarrow> True
        | Some v \<Rightarrow> \<exists>u. parse v = Inr u \<and> website_url_ok u)
     \<and> (case nonblank (qf_target_date form) of None \<Rightarrow> True | Some v \<Rightarrow> parse_date v \<noteq> None)
     \<and> ticked form framework_fields \<noteq> [] \<and> ticked form infrastructure_fields \<noteq> []
     \<and> ticked form data_fields \<noteq> []"


definition sample_quote_form :: quote_form where
  "sample_quote_form =
     \<lparr>qf_csrf = ''c'', qf_client_request_id = 9, qf_organization_name = ''Acme'', qf_contact_name = ''Ann'',
      qf_website = [], qf_employee_count = 12, qf_annual_revenue_band = ''1m_10m'',
      qf_current_stage = ''readiness'', qf_target_date = [], qf_notes = [],
      qf_option = (\<lambda>n. if n \<in> {''hipaa'', ''infra_aws'', ''data_pii''} then Some ''on'' else None)\<rparr>"

definition sample_visitor :: auth_context where
  "sample_visitor = (sample_actor 7)\<lparr>ctx_email := ''a@b''\<rparr>"


section \<open>The unused form\<close>

text \<open>
  The form of \<open>views::quote_page\<close> posts to the same path but is not one the handler could read: five
  of the six fields the handler requires have no control in it, the CSRF token among them.
\<close>

lemma unused_quote_form:
  "map (attribute ''action'') (forms (views_quote_page email)) = [Some ''/u/quote'']"
  "filter (\<lambda>n. n \<notin> set (control_names (views_quote_page email))) required_fields
     = [''csrf'', ''client_request_id'', ''organization_name'', ''contact_name'', ''current_stage'']"
  by (simp_all add: views_quote_page_def layout_def required_fields_def)

end

