(* ===== verification/Routes.thy ===== *)
theory Routes
  imports Prelude
begin

text \<open>
  The routing tables of the web server: the paths that the routers of \<open>src/routes/\<close> register, with
  their methods, as \<open>routes/mod.rs\<close> nests them. A pattern is a path in which a segment in
  braces stands for any one non-empty segment.
\<close>

section \<open>Patterns\<close>

datatype http_method = GET | POST

type_synonym route_table = "(string \<times> http_method list) list"

fun segment_matches :: "string \<Rightarrow> string \<Rightarrow> bool" where
  "segment_matches (CHR ''{'' # rest) segment = (segment \<noteq> [])"
| "segment_matches pattern segment = (pattern = segment)"

definition path_matches :: "string \<Rightarrow> string \<Rightarrow> bool" where
  "path_matches pattern path \<longleftrightarrow>
     list_all2 segment_matches (split_on (CHR ''/'') pattern) (split_on (CHR ''/'') path)"

definition routed :: "route_table \<Rightarrow> http_method \<Rightarrow> string \<Rightarrow> bool" where
  "routed table verb path \<longleftrightarrow>
     list_ex (\<lambda>(pattern, verbs). verb \<in> set verbs \<and> path_matches pattern path) table"

text \<open>\<open>nest\<close>: the inner path \<open>/\<close> is the prefix itself.\<close>

definition nest :: "string \<Rightarrow> route_table \<Rightarrow> route_table" where
  "nest prefix table =
     map (\<lambda>(path, verbs). (if path = ''/'' then prefix else prefix @ path, verbs)) table"

section \<open>Tables\<close>

definition auth_router :: route_table where
  "auth_router = [(''/login'', [POST]), (''/logout'', [POST])]"

definition pages_router :: route_table where
  "pages_router =
     [(''/'', [GET]), (''/fragments/session'', [GET]), (''/engagements'', [GET, POST]),
      (''/engagements/{id}'', [GET]), (''/engagements/{id}/status'', [POST]),
      (''/engagements/{id}/notes'', [POST])]"

definition readiness_router :: route_table where
  "readiness_router =
     [(''/readiness'', [GET]), (''/readiness/'', [GET]), (''/readiness/{framework}'', [GET]),
      (''/readiness/assets/{name}'', [GET])]"

definition training_router :: route_table where
  "training_router = [(''/training'', [GET]), (''/training/'', [GET])]"

definition api_router :: route_table where
  "api_router =
     (let v1 = [(''/health'', [GET]), (''/info'', [GET]), (''/me'', [GET]), (''/sync/changes'', [GET]),
                (''/sync/mutations'', [POST])]
      in [(''/health'', [GET]), (''/info'', [GET])] @ nest ''/v1'' v1)"

text \<open>
  The routes with a method of their own. The websocket and the reserved administrative
  paths answer any method; every other path belongs to the static files.
\<close>

definition web_router :: route_table where
  "web_router =
     [(''/healthz'', [GET]), (''/readyz'', [GET]), (''/metrics'', [GET])] @ training_router
     @ [(''/login'', [GET]), (''/u/quote/{id}'', [GET]), (''/u/quote'', [GET, POST])]
     @ nest ''/api'' api_router @ nest ''/auth'' auth_router
     @ nest ''/app'' (pages_router @ readiness_router)"

lemmas router_defs =
  web_router_def auth_router_def pages_router_def readiness_router_def training_router_def
  api_router_def nest_def Let_def

section \<open>Paths with an identifier\<close>

definition one_segment :: "string \<Rightarrow> bool" where
  "one_segment s \<longleftrightarrow> s \<noteq> [] \<and> CHR ''/'' \<notin> set s"

lemma routed_identifier:
  assumes "one_segment s"
  shows "routed web_router GET (''/app/engagements/'' @ s)"
    "routed web_router POST (''/app/engagements/'' @ s @ ''/status'')"
    "routed web_router POST (''/app/engagements/'' @ s @ ''/notes'')"
    "routed web_router GET (''/u/quote/'' @ s)"
  using assms
  by (simp_all add: routed_def router_defs path_matches_def one_segment_def split_on_append split_on_none)

lemma routed_fixed:
  "routed web_router GET ''/app''" "routed web_router GET ''/app/engagements''"
  "routed web_router GET ''/app/readiness''" "routed web_router GET ''/app/fragments/session''"
  "routed web_router GET ''/u/quote''" "routed web_router GET ''/training''"
  "routed web_router POST ''/auth/login''" "routed web_router POST ''/auth/logout''"
  "routed web_router POST ''/app/engagements''" "routed web_router POST ''/u/quote''"
  by (simp_all add: routed_def router_defs path_matches_def)

end
