(* ===== verification/Navigation.thy ===== *)
theory Navigation
  imports Quote_Views Routes
begin

text \<open>
  How the pages and the routers fit together: every form of every page carries the CSRF token of
  the session that the page was made for and posts to a path that the router answers, and every
  link of a page leads to one. The error slots of the engagement forms are followed through
  the swap that htmx makes of an error.
\<close>

section \<open>Guarded pages\<close>

definition csrf_input :: "string \<Rightarrow> markup" where
  "csrf_input token = Elem ''input'' [(''type'', ''hidden''), (''name'', ''csrf''), (''value'', token)] []"

text \<open>A form without a method is the script's own and is never sent.\<close>

definition guarded_form :: "string \<Rightarrow> markup \<Rightarrow> bool" where
  "guarded_form token f \<longleftrightarrow>
     (case attribute ''method'' f of
        None \<Rightarrow> attribute ''action'' f = None \<and> attribute ''hx-post'' f = None
      | Some verb \<Rightarrow>
          verb = ''post'' \<and> controls_named ''csrf'' [f] = [csrf_input token]
          \<and> (case attribute ''action'' f of
               None \<Rightarrow> False
             | Some path \<Rightarrow> routed web_router POST path \<and> attribute ''hx-post'' f \<in> {None, Some path}))"

definition link_ok :: "string \<Rightarrow> bool" where
  "link_ok path \<longleftrightarrow> path = ''/'' \<or> routed web_router GET path"

definition page_ok :: "string \<Rightarrow> markup list \<Rightarrow> bool" where
  "page_ok token ms \<longleftrightarrow> list_all (guarded_form token) (forms ms) \<and> list_all link_ok (links ms)"

definition segment_ids :: "ext \<Rightarrow> bool" where
  "segment_ids x \<longleftrightarrow> (\<forall>u. one_segment (uuid_text x u))"

lemma all_links_simps:
  "list_all P (links [])"
  "list_all P (links (Doctype # ms)) = list_all P (links ms)"
  "list_all P (links (Text s # ms)) = list_all P (links ms)"
  "list_all P (links (Elem t as ks # ms)) \<longleftrightarrow>
     (if t = ''a'' then pred_option P (map_of as ''href'') else True)
     \<and> pred_option P (map_of as ''hx-get'') \<and> list_all P (links ks) \<and> list_all P (links ms)"
  by (auto simp: links_def map_filter_def split: option.splits)

lemma all_links_append: "list_all P (links (xs @ ys)) \<longleftrightarrow> list_all P (links xs) \<and> list_all P (links ys)"
  by (auto simp: links_def map_filter_def)

lemma page_ok_simps:
  "page_ok token []"
  "page_ok token (Doctype # ms) = page_ok token ms"
  "page_ok token (Text s # ms) = page_ok token ms"
  "page_ok token (Elem t as ks # ms) \<longleftrightarrow>
     (if t = ''form'' then guarded_form token (Elem t as ks) else True)
     \<and> (if t = ''a'' then pred_option link_ok (map_of as ''href'') else True)
     \<and> pred_option link_ok (map_of as ''hx-get'') \<and> page_ok token ks \<and> page_ok token ms"
  by (auto simp: page_ok_def all_links_simps)

lemma page_ok_append: "page_ok token (xs @ ys) \<longleftrightarrow> page_ok token xs \<and> page_ok token ys"
  by (auto simp: page_ok_def all_links_append)

lemma page_ok_rows: "(\<And>r. page_ok token [f r]) \<Longrightarrow> page_ok token (map f rows)"
proof (induction rows)
  case (Cons r rows)
  then show ?case using page_ok_append [of token "[f r]" "map f rows"] by simp
qed (simp add: page_ok_simps)

lemma page_ok_concat: "(\<And>r. page_ok token (f r)) \<Longrightarrow> page_ok token (concat (map f rows))"
  by (induction rows) (simp_all add: page_ok_simps page_ok_append)

lemma links_fixed:
  "link_ok ''/''" "link_ok ''/app''" "link_ok ''/app/engagements''" "link_ok ''/app/readiness''"
  "link_ok ''/app/fragments/session''" "link_ok ''/u/quote''"
  using routed_fixed by (simp_all add: link_ok_def)

lemma links_identified:
  "segment_ids x \<Longrightarrow> link_ok (''/app/engagements/'' @ uuid_text x i)"
  "segment_ids x \<Longrightarrow> link_ok (''/u/quote/'' @ uuid_text x i)"
  using routed_identifier by (simp_all add: link_ok_def segment_ids_def)

lemmas identified_links = links_identified [simplified]

lemmas page_simps =
  page_ok_simps page_ok_append links_fixed identified_links guarded_form_def csrf_input_def routed_fixed

section \<open>The pages\<close>

lemma layout_ok: "page_ok token (layout title body csrf account) = page_ok token body"
  by (cases csrf; cases account) (simp_all add: layout_def page_simps)

lemma login_ok: "page_ok csrf (login_markup csrf error)"
  by (cases error) (simp_all add: login_markup_def layout_ok page_simps)

lemma dashboard_ok: "page_ok (token_of actor) (dashboard_markup x actor)"
  by (simp add: dashboard_markup_def layout_ok page_simps)

lemma engagement_list_ok: "segment_ids x \<Longrightarrow> page_ok token (engagement_list x fm rows)"
  by (auto simp: engagement_list_def page_simps split: option.split intro!: page_ok_rows)

lemma engagement_notes_ok: "page_ok token (engagement_notes fm rows)"
  by (auto simp: engagement_notes_def page_simps intro!: page_ok_rows)

lemma engagement_status_ok: "segment_ids x \<Longrightarrow> page_ok token (engagement_status x fm i e token)"
  using routed_identifier(2) [of "uuid_text x i"]
  by (simp add: engagement_status_def page_simps segment_ids_def STATUSES_def)

lemma engagement_form_error_ok: "page_ok token (engagement_form_error message)"
  by (simp add: engagement_form_error_def page_simps)

lemma engagements_page_ok: "segment_ids x \<Longrightarrow> page_ok (token_of actor) (engagements_page_markup x fm actor rows)"
  by (simp add: engagements_page_markup_def layout_ok page_simps engagement_list_ok FRAMEWORKS_def)

lemma engagement_detail_ok:
  assumes "segment_ids x"
  shows "page_ok (token_of actor) (engagement_detail_page x fm actor i e rows)"
  using assms routed_identifier(3) [of "uuid_text x i"]
  by (auto simp: engagement_detail_page_def layout_ok page_simps engagement_status_ok engagement_notes_ok
        segment_ids_def split: option.split)

lemma html_not_found_ok: "page_ok token html_not_found"
  by (simp add: html_not_found_def layout_ok page_simps)

lemma session_fragment_ok: "page_ok token (session_fragment_markup x actor)"
  by (simp add: session_fragment_markup_def page_simps)

lemma quote_fragment_ok: "segment_ids x \<Longrightarrow> page_ok token (quote_fragment_markup x fragment)"
  by (cases fragment) (auto simp: page_simps split: option.split)

lemma quote_form_ok: "page_ok (token_of actor) [quote_form_markup x actor request_id]"
  by (simp add: quote_form_markup_def section_defs page_simps)

lemma quote_page_ok: "segment_ids x \<Longrightarrow> page_ok (token_of actor) (quote_page x request_id actor fragments)"
  using quote_form_ok [of actor x request_id]
  by (simp add: quote_page_def page_simps quote_form_markup_def quote_fragment_ok page_ok_concat)

lemma quote_detail_ok: "segment_ids x \<Longrightarrow> page_ok token (quote_detail_page x actor fragment)"
  by (simp add: quote_detail_page_def page_simps quote_fragment_ok)

lemmas view_ok =
  dashboard_ok session_fragment_ok engagements_page_ok engagement_detail_ok engagement_list_ok
  engagement_status_ok engagement_notes_ok engagement_form_error_ok html_not_found_ok

section \<open>The handlers\<close>

fun body_ok :: "('v \<Rightarrow> markup list) \<Rightarrow> string \<Rightarrow> 'v body \<Rightarrow> bool" where
  "body_ok render token (View v) = page_ok token (render v)"
| "body_ok render token b = True"

lemma form_error_ok: "body_ok (page_markup x fm) token (rs_body (form_error hs slot message))"
  by (simp add: form_error_def engagement_form_error_ok)

lemma form_then_actor:
  "try_then (form_actor cfg auth hs csrf) (\<lambda>actor.
     try_then (owned_engagement x (ctx_user_id actor) raw_id db) (\<lambda>(i, e). Inr (actor, i, e)))
   = Inr (actor', i, e) \<Longrightarrow> auth = Inr actor'"
  using form_then_owned by blast

lemma handle_ok_pages:
  assumes ids: "segment_ids x" and actor: "request_auth req = Inr actor"
  shows "body_ok (page_markup x fm) (token_of actor) (rs_body (fst (handle x cfg parse_date req db)))"
proof (cases req)
  case (Create now new_id auth hs form)
  with ids show ?thesis
    by (simp add: create_engagement_def Let_def form_error_ok engagement_list_ok split: sum.split)
next
  case (SetStatus now auth hs raw_id csrf status)
  show ?thesis
  proof (cases "try_then (form_actor cfg auth hs csrf) (\<lambda>actor.
      try_then (owned_engagement x (ctx_user_id actor) raw_id db) (\<lambda>(i, e). Inr (actor, i, e)))")
    case (Inr found)
    obtain actor' i e where f: "found = (actor', i, e)" by (cases found)
    with form_then_actor [OF Inr [unfolded f]] actor SetStatus have "actor' = actor" by simp
    with ids SetStatus Inr f show ?thesis
      by (simp add: update_engagement_status_def Let_def form_error_ok engagement_status_ok
            flip: token_of_def)
  qed (simp add: SetStatus update_engagement_status_def)
next
  case (AddNote now new_id auth hs raw_id csrf raw_body)
  then show ?thesis
    by (simp add: add_engagement_note_def Let_def form_error_ok engagement_notes_ok split: sum.split)
qed

lemma detail_ok_pages:
  "segment_ids x \<Longrightarrow> body_ok (page_markup x fm) (token_of actor)
     (rs_body (engagement_detail x (Inr actor) raw_id db))"
  by (auto simp: engagement_detail_def signed_in_def not_found_def html_not_found_ok engagement_detail_ok
        split: sum.split app_error.split)

lemma quote_ok_pages:
  assumes "segment_ids (qv_ext v)"
  shows "body_ok (quote_view_markup (qv_ext v) request_id) (token_of actor) (rs_body (fst (quote_page_handler v hs (Inr actor))))"
    "body_ok (quote_view_markup (qv_ext v) request_id) (token_of actor) (rs_body (fst (quote_detail_handler v hs (Inr actor) raw_id)))"
    "body_ok (quote_view_markup (qv_ext v) request_id) (token_of actor) (rs_body (fst (quote_submit_handler v hs (Inr actor) form)))"
proof -
  have error: "body_ok (quote_view_markup (qv_ext v) request_id) (token_of actor)
      (rs_body (quote_form_error hs message))" for message
    by (simp add: quote_form_error_def Let_def page_simps)
  show "body_ok (quote_view_markup (qv_ext v) request_id) (token_of actor) (rs_body (fst (quote_page_handler v hs (Inr actor))))"
    using assms by (auto simp: quote_page_handler_def quote_signed_in_def with_client_def quote_page_ok
        split: option.split sum.split prod.split)
  show "body_ok (quote_view_markup (qv_ext v) request_id) (token_of actor) (rs_body (fst (quote_detail_handler v hs (Inr actor) raw_id)))"
    using assms by (auto simp: quote_detail_handler_def quote_signed_in_def with_client_def quote_detail_ok
        quote_fragment_ok split: option.split sum.split prod.split)
  show "body_ok (quote_view_markup (qv_ext v) request_id) (token_of actor) (rs_body (fst (quote_submit_handler v hs (Inr actor) form)))"
    using assms error by (auto simp: quote_submit_handler_def quote_signed_in_def with_client_def
        quote_fragment_ok split: option.split sum.split prod.split app_error.split)
qed

section \<open>Properties\<close>


definition sample_quote_env :: quote_env where
  "sample_quote_env =
     \<lparr>qv_ext = sample_ext JNull,
      qv_wire = \<lparr>qw_submission = (\<lambda>_. None), qw_detail = (\<lambda>_. None), qw_list = (\<lambda>_. None)\<rparr>,
      qv_service = (\<lambda>_. None), qv_client = None, qv_config = sample_config,
      qv_parse = (\<lambda>_. Inl []), qv_build = (\<lambda>_ _ _. []), qv_parse_date = (\<lambda>_. None)\<rparr>"

lemma sample_segments: "segment_ids (sample_ext JNull)"
proof -
  have "CHR ''/'' \<notin> set (show_nat n)" for n
    by (rule digits_no_slash [OF show_nat_digits])
  then show ?thesis
    by (simp add: segment_ids_def one_segment_def sample_ext_def decimal_uuid_def)
qed


section \<open>What the engagement forms offer\<close>

lemma links_rows:
  assumes "\<And>r. List.map_filter (attribute ''href'') (tagged ''a'' [f r]) = [g r]" "\<And>r. attributes ''hx-get'' [f r] = []"
  shows "links (map f rows) = map g rows"
proof -
  have "List.map_filter (attribute ''href'') (tagged ''a'' (map f rows)) = map g rows"
    using assms(1) by (induction rows) (simp_all add: tagged_def map_filter_def)
  with assms(2) show ?thesis by (simp add: links_def attributes_rows)
qed

lemma engagement_links:
  "links (engagement_list x fm rows) = map (\<lambda>(i, e). ''/app/engagements/'' @ uuid_text x i) rows"
proof (cases "rows = []")
  case False
  then have "links (engagement_list x fm rows) = links (map (\<lambda>(i, e).
      Elem ''li'' []
        ([Elem ''a'' [(''href'', ''/app/engagements/'' @ uuid_text x i)] [Text (ae_company e)],
          Text ('' '' @ em_dash @ '' ''),
          Text (framework_label (ae_framework e)),
          Text ('' '' @ middle_dot @ '' ''),
          Text (status_label (ae_status e)),
          Text ('' '' @ middle_dot @ '' opened ''),
          Text (day_text fm (ae_opened_at e))]
         @ (case ae_target_report_date e of None \<Rightarrow> []
            | Some target \<Rightarrow>
               [Text ('' '' @ middle_dot @ '' report due ''), Text (date_text fm target)]))) rows)"
    by (simp add: engagement_list_def links_def)
  also have "\<dots> = map (\<lambda>(i, e). ''/app/engagements/'' @ uuid_text x i) rows"
    by (rule links_rows) (auto simp: map_filter_def split: option.split)
  finally show ?thesis .
qed (simp add: engagement_list_def links_def map_filter_def)

text \<open>
  The engagement pages offer what the handlers accept: the choices of the new-engagement form are
  the supported frameworks, each with a label of its own, the choices of the status form are
  the supported statuses, and for a row of a well-formed table exactly its current status is the
  one selected and neither label is the one for an unknown value. The list links to each
  engagement it is given, in order.
\<close>

theorem engagement_choices_are_exact:
  assumes "engagement_row_ok e"
  shows "option_values (engagements_page_markup x fm actor rows) = FRAMEWORKS
    \<and> option_values (engagement_status x fm i e csrf) = STATUSES
    \<and> chosen_values (engagement_status x fm i e csrf) = [ae_status e]
    \<and> distinct (map framework_label FRAMEWORKS) \<and> distinct (map status_label STATUSES)
    \<and> framework_label (ae_framework e) \<in> set (map framework_label FRAMEWORKS)
    \<and> ''Unknown framework'' \<notin> set (map framework_label FRAMEWORKS)
    \<and> status_label (ae_status e) \<in> set (map status_label STATUSES)
    \<and> ''Unknown status'' \<notin> set (map status_label STATUSES)
    \<and> links (engagement_list x fm rows) = map (\<lambda>(i, e). ''/app/engagements/'' @ uuid_text x i) rows"
proof -
  have row: "ae_status e \<in> set STATUSES" "ae_framework e \<in> set FRAMEWORKS"
    using assms by (simp_all add: engagement_row_ok_def)
  have "option_values (engagements_page_markup x fm actor rows) = FRAMEWORKS"
    by (simp add: option_values_def engagements_page_markup_def engagement_list_def layout_def FRAMEWORKS_def
          map_filter_def tagged_rows split: prod.split option.split)
  moreover have "option_values (engagement_status x fm i e csrf) = STATUSES"
    by (simp_all add: option_values_def engagement_status_def STATUSES_def map_filter_def)
  moreover have "chosen_values (engagement_status x fm i e csrf) = [ae_status e]"
    using row(1) [unfolded STATUSES_def, simplified]
    by (elim disjE) (simp_all add: chosen_values_def engagement_status_def STATUSES_def map_filter_def)
  moreover have "distinct (map framework_label FRAMEWORKS)" "distinct (map status_label STATUSES)"
    "''Unknown framework'' \<notin> set (map framework_label FRAMEWORKS)" "''Unknown status'' \<notin> set (map status_label STATUSES)"
    by (simp_all add: FRAMEWORKS_def STATUSES_def framework_label_def status_label_def)
  moreover have "links (engagement_list x fm rows) = map (\<lambda>(i, e). ''/app/engagements/'' @ uuid_text x i) rows"
    by (rule engagement_links)
  ultimately show ?thesis using row by (simp only: set_map) blast
qed

theorem engagement_choices_are_exact_witness:
  "\<forall>fm. chosen_values (engagement_status (sample_ext JNull) fm 1 (snd (hd (engagements sample_engagements))) [])
     = [''scoping'']"
  using engagement_choices_are_exact [of "snd (hd (engagements sample_engagements))" "sample_ext JNull" _ "sample_actor 7" "[]"]
    sample_engagements_ok
  by (simp add: sample_engagements_def engagements_ok_def)

section \<open>Errors of the engagement forms\<close>

text \<open>
  htmx replaces the target by the swap of the form (\<open>hx-swap\<close>) unless the answer names
  another (\<open>hx-reswap\<close>).
\<close>

lemma form_error_htmx:
  "header_has ''hx-request'' hs \<Longrightarrow>
     rs_headers (form_error hs slot message) = [(''hx-retarget'', slot)]
     \<and> rs_body (form_error hs slot message) = View (FormError message)"
  by (simp add: form_error_def header_insert_def)

lemma page_slots:
  "''engagement-form-error'' \<in> set (attributes ''id'' (engagements_page_markup x fm actor rows))"
  "''note-form-error'' \<in> set (attributes ''id'' (engagement_detail_page x fm actor i e rows'))"
  "''engagement-status'' \<in> set (attributes ''id'' (engagement_detail_page x fm actor i e rows'))"
  by (simp_all add: engagements_page_markup_def engagement_detail_page_def engagement_status_def layout_def)

lemma error_has_no_id: "attributes ''id'' (engagement_form_error message) = []"
  by (simp add: engagement_form_error_def)

definition status_path :: "ext \<Rightarrow> uuid \<Rightarrow> string" where
  "status_path x i = ''/app/engagements/'' @ uuid_text x i @ ''/status''"

definition notes_path :: "ext \<Rightarrow> uuid \<Rightarrow> string" where
  "notes_path x i = ''/app/engagements/'' @ uuid_text x i @ ''/notes''"

lemma note_rows_plain:
  "forms (engagement_notes fm rows) = []"
  "''engagement-status'' \<notin> set (attributes ''id'' (engagement_notes fm rows))"
  by (auto simp: engagement_notes_def attributes_rows intro!: forms_rows)

lemma status_form_lost:
  "map (attribute ''action'') (forms (engagement_detail_page x fm actor i e rows))
     = [Some (status_path x i), Some (notes_path x i)]"
  "map (attribute ''action'') (forms (swap_outer ''engagement-status'' (engagement_form_error message)
     (engagement_detail_page x fm actor i e rows))) = [Some (notes_path x i)]"
  by (simp_all add: engagement_detail_page_def layout_def engagement_status_def status_path_def notes_path_def
        note_rows_plain swap_outer_absent engagement_form_error_def STATUSES_def split: option.split)



end
