(* ===== verification/Pages.thy ===== *)
theory Pages
  imports Navigation
begin

text \<open>
  The documents without a session: the public training page of \<open>src/routes/training.rs\<close>, and the
  prerendered pages under \<open>src/pages/\<close>, whose attributes and types belong to the page generator
  and whose bodies are texts; one of them splices a path segment that it escapes itself.
\<close>

section \<open>The training page\<close>

record training_track =
  tt_title :: string
  tt_format :: string
  tt_level :: string
  tt_summary :: string
  tt_outcomes :: "string list"

definition TRAINING_TRACKS :: "training_track list" where
  "TRAINING_TRACKS =
     [\<lparr>tt_title = ''SOC 2 Foundations'', tt_format = ''4 modules '' @ middle_dot @ '' about 2 hours'',
        tt_level = ''Beginner'',
        tt_summary = ''Interactive fundamentals for teams that need a shared understanding of the Trust Services Criteria, system scope, control ownership, evidence, and the readiness journey.'',
        tt_outcomes =
          [''Understand the SOC 2 readiness lifecycle and independent-assurance boundary.'',
           ''Identify the systems, people, vendors, and evidence that belong in scope.'',
           ''Recognize strong operating evidence versus policy-only evidence.'']\<rparr>,
      \<lparr>tt_title = ''Control Owner Workshop'', tt_format = ''6 modules '' @ middle_dot @ '' about 4 hours'',
        tt_level = ''Intermediate'',
        tt_summary = ''Role-based training for engineering, IT, security, and operations owners who need to operate controls continuously instead of preparing evidence at the last minute.'',
        tt_outcomes =
          [''Translate control language into concrete engineering and operating responsibilities.'',
           ''Practice evidence capture, exception handling, review cadence, and ownership handoffs.'',
           ''Prepare control owners to answer readiness questions without over-claiming assurance.'']\<rparr>,
      \<lparr>tt_title = ''Audit Readiness Bootcamp'', tt_format = ''Hands-on cohort '' @ middle_dot @ '' scope-dependent'',
        tt_level = ''Advanced'',
        tt_summary = ''A guided sprint from gap assessment through evidence review and readiness rehearsal for teams approaching an independent SOC 2 examination.'',
        tt_outcomes =
          [''Prioritize gaps by evidence quality, control design, and operating consistency.'',
           ''Rehearse evidence requests and management responses before independent review.'',
           ''Leave with a bounded remediation plan and named owners for unresolved readiness work.'']\<rparr>]"

definition TRAINING_STYLE :: string where
  \<open>TRAINING_STYLE =
     concat [
       ''*{box-sizing:border-box}'',
       ''body{font-family:ui-sans-serif,system-ui,sans-serif;margin:0;line-height:1.55;background:'',
       ''#0b1020;color:#f7f8fc}'',
       ''a{color:inherit}.shell{max-width:76rem;margin:0 auto;padding:0 1.4rem}'',
       ''.site-nav{display:flex;justify-content:space-between;gap:1rem;align-items:center;padding:'',
       ''1.2rem 0}'',
       ''.site-nav .links{display:flex;gap:1rem;flex-wrap:wrap}.muted{color:#b8c0d8}'',
       ''.hero{padding:6rem 0 4rem}'',
       ''.eyebrow{font-weight:700;letter-spacing:.08em;text-transform:uppercase;color:#9fc1ff}'',
       ''.hero h1{font-size:clamp(2.7rem,7vw,5.7rem);line-height:1.01;max-width:14ch;margin:'',
       ''.6rem 0 1.2rem}'',
       ''.hero-copy{font-size:1.2rem;max-width:52rem;color:#d5daea}'',
       ''.actions{display:flex;gap:.8rem;flex-wrap:wrap;margin-top:1.8rem}'',
       ''.button{display:inline-block;text-decoration:none;border-radius:.7rem;padding:.8rem 1rem;'',
       ''font-weight:700;background:#f7f8fc;color:#0b1020}'',
       ''.button.secondary{background:transparent;color:#f7f8fc;border:1px solid #ffffff4d}'',
       ''.boundary{margin-top:1.25rem;padding:1rem;border-left:3px solid #8db4ff;background:#121a31}'',
       ''.section{padding:3.4rem 0}.section h2{font-size:clamp(2rem,4vw,3rem);margin:0 0 .8rem}'',
       ''.proof-grid,.track-grid,.steps-grid{display:grid;grid-template-columns:repeat(3,minmax(0,1fr));'',
       ''gap:1rem;margin-top:1.5rem}'',
       ''.proof,.track,.step,.faq{border:1px solid #ffffff24;background:#11192e;border-radius:1rem;'',
       ''padding:1.35rem}'',
       ''.proof strong{display:block;font-size:1.35rem}.track h3{font-size:1.45rem;margin:.2rem 0}'',
       ''.pill{display:inline-block;border:1px solid #8db4ff66;border-radius:999px;padding:.2rem .55rem;'',
       ''margin:.15rem .3rem .5rem 0;font-size:.9rem;color:#c8dcff}'',
       ''.track ul{padding-left:1.2rem}'',
       ''.step span{font-size:.82rem;text-transform:uppercase;letter-spacing:.08em;color:#9fc1ff;'',
       ''font-weight:700}'',
       ''.faq-stack{display:grid;gap:.8rem;margin-top:1.5rem}.faq h3{margin:.1rem 0 .4rem}'',
       ''.final-cta{margin:2rem 0 5rem;padding:2rem;border-radius:1.2rem;background:'',
       ''linear-gradient(135deg,#1d3970,#17213c)}'',
       ''footer{padding:2rem 0 3rem;border-top:1px solid #ffffff1f;color:#aeb7cf}'',
       ''@media(max-width:800px){.proof-grid,.track-grid,.steps-grid{grid-template-columns:1fr}'',
       ''.hero{padding-top:4rem}.site-nav{align-items:flex-start;flex-direction:column}}'']\<close>

definition training_hero :: "markup list" where
  "training_hero =
     [Elem ''section'' [(''class'', ''hero'')]
        [Elem ''p'' [(''class'', ''eyebrow'')] [Text ''Canonical Cloud Training''],
         Elem ''h1'' [] [Text ''Turn compliance into a competitive advantage''],
         Elem ''p'' [(''class'', ''hero-copy'')]
           [Text ''Canonical Cloud helps SaaS and AI teams build toward SOC 2 readiness with practical training, evidence-focused exercises, expert guidance, and a clear path to independent review.''],
         Elem ''div'' [(''class'', ''actions'')]
           [Elem ''a'' [(''class'', ''button''), (''href'', ''/app/readiness'')]
              [Text ''Start your readiness assessment''],
            Elem ''a'' [(''class'', ''button secondary''), (''href'', ''/u/quote'')]
              [Text ''Talk to an expert'']],
         Elem ''div'' [(''class'', ''boundary''), (''role'', ''note'')]
           [Elem ''strong'' [] [Text ''Readiness, not assurance.''],
            Text '' Training and readiness outputs help teams prepare. Canonical Cloud does not issue audit opinions, certifications, approvals, or guaranteed outcomes.'']]]"

definition training_reasons :: "markup list" where
  "training_reasons =
     [Elem ''section'' [(''class'', ''section''), (''aria-labelledby'', ''why-training'')]
        [Elem ''p'' [(''class'', ''eyebrow'')] [Text ''Built for operating teams''],
         Elem ''h2'' [(''id'', ''why-training'')]
           [Text ''Teach the people who actually operate the controls''],
         Elem ''p'' [(''class'', ''muted'')]
           [Text ''The program is organized around concrete engineering and operating behavior rather than memorizing auditor terminology.''],
         Elem ''div'' [(''class'', ''proof-grid'')]
           [Elem ''article'' [(''class'', ''proof'')]
              [Elem ''strong'' [] [Text ''Readiness-first''],
               Elem ''span'' [(''class'', ''muted'')]
                 [Text ''Preparation for independent review without pretending training is the audit.'']],
            Elem ''article'' [(''class'', ''proof'')]
              [Elem ''strong'' [] [Text ''Role-based''],
               Elem ''span'' [(''class'', ''muted'')]
                 [Text ''Founders, engineering, IT, security, and operations learn the responsibilities they own.'']],
            Elem ''article'' [(''class'', ''proof'')]
              [Elem ''strong'' [] [Text ''SOC 2 Type I & II preparation''],
               Elem ''span'' [(''class'', ''muted'')]
                 [Text ''Training covers readiness concepts that matter before design-date and operating-period review.'']]]]]"

definition training_paths :: "markup list" where
  "training_paths =
     [Elem ''section'' [(''class'', ''section''), (''aria-labelledby'', ''tracks'')]
        [Elem ''p'' [(''class'', ''eyebrow'')] [Text ''Training paths''],
         Elem ''h2'' [(''id'', ''tracks'')] [Text ''Start with the level your team needs''],
         Elem ''p'' [(''class'', ''muted'')]
           [Text ''Take one track or use all three as a progression from shared vocabulary to hands-on readiness rehearsal.''],
         Elem ''div'' [(''class'', ''track-grid'')]
           (map (\<lambda>track.
              Elem ''article'' [(''class'', ''track'')]
                [Elem ''div'' []
                   [Elem ''span'' [(''class'', ''pill'')] [Text (tt_level track)],
                    Elem ''span'' [(''class'', ''pill'')] [Text (tt_format track)]],
                 Elem ''h3'' [] [Text (tt_title track)],
                 Elem ''p'' [] [Text (tt_summary track)],
                 Elem ''h4'' [] [Text ''You will practice''],
                 Elem ''ul'' [] (map (\<lambda>outcome. Elem ''li'' [] [Text outcome]) (tt_outcomes track))]) TRAINING_TRACKS)]]"

definition training_steps :: "markup list" where
  "training_steps =
     [Elem ''section'' [(''class'', ''section''), (''aria-labelledby'', ''pathway'')]
        [Elem ''p'' [(''class'', ''eyebrow'')] [Text ''From learning to evidence''],
         Elem ''h2'' [(''id'', ''pathway'')]
           [Text ''Training connects directly to the readiness workflow''],
         Elem ''div'' [(''class'', ''steps-grid'')]
           [Elem ''article'' [(''class'', ''step'')]
              [Elem ''span'' [] [Text (''01 '' @ middle_dot @ '' Learn'')],
               Elem ''h3'' [] [Text ''Build a shared model''],
               Elem ''p'' [(''class'', ''muted'')]
                 [Text ''Align on scope, control intent, evidence quality, and the boundary between readiness and assurance.'']],
            Elem ''article'' [(''class'', ''step'')]
              [Elem ''span'' [] [Text (''02 '' @ middle_dot @ '' Operate'')],
               Elem ''h3'' [] [Text ''Assign owners and practice''],
               Elem ''p'' [(''class'', ''muted'')]
                 [Text ''Turn requirements into recurring engineering and operational actions with named owners and review cadence.'']],
            Elem ''article'' [(''class'', ''step'')]
              [Elem ''span'' [] [Text (''03 '' @ middle_dot @ '' Rehearse'')],
               Elem ''h3'' [] [Text ''Run a readiness assessment''],
               Elem ''p'' [(''class'', ''muted'')]
                 [Text ''Use the authenticated readiness worksheets to identify gaps before an independent evaluator asks for evidence.'']]]]]"

definition training_questions :: "markup list" where
  "training_questions =
     [Elem ''section'' [(''class'', ''section''), (''aria-labelledby'', ''faq'')]
        [Elem ''p'' [(''class'', ''eyebrow'')] [Text ''Questions''],
         Elem ''h2'' [(''id'', ''faq'')] [Text ''Keep the assurance boundary explicit''],
         Elem ''div'' [(''class'', ''faq-stack'')]
           [Elem ''article'' [(''class'', ''faq'')]
              [Elem ''h3'' [] [Text ''Does the training certify us as SOC 2 compliant?''],
               Elem ''p'' [(''class'', ''muted'')]
                 [Text ''No. SOC 2 is independent assurance work. Training helps your team prepare systems, controls, evidence, and operating practices for that process.'']],
            Elem ''article'' [(''class'', ''faq'')]
              [Elem ''h3'' [] [Text ''Who should attend?''],
               Elem ''p'' [(''class'', ''muted'')]
                 [Text ''Founders and program leads can start with Foundations; engineering, IT, security, and operations control owners benefit most from the workshop and bootcamp.'']],
            Elem ''article'' [(''class'', ''faq'')]
              [Elem ''h3'' [] [Text ''Can we use the training before choosing an auditor?''],
               Elem ''p'' [(''class'', ''muted'')]
                 [Text ''Yes. The material is designed for readiness and remediation. Any eventual examination scope and evidence requests remain the responsibility of your independent evaluator.'']]]]]"

definition training_next :: "markup list" where
  "training_next =
     [Elem ''section'' [(''class'', ''final-cta''), (''aria-labelledby'', ''training-next'')]
        [Elem ''p'' [(''class'', ''eyebrow'')] [Text ''Next step''],
         Elem ''h2'' [(''id'', ''training-next'')]
           [Text ''Turn the lessons into a concrete readiness plan''],
         Elem ''p'' []
           [Text ''Start with the readiness worksheet, or open a scoped conversation about training and remediation for your team.''],
         Elem ''div'' [(''class'', ''actions'')]
           [Elem ''a'' [(''class'', ''button''), (''href'', ''/app/readiness'')]
              [Text ''Start your readiness assessment''],
            Elem ''a'' [(''class'', ''button secondary''), (''href'', ''/u/quote'')]
              [Text ''Talk to an expert'']]]]"

definition training_page :: "markup list" where
  "training_page =
     [Doctype,
      Elem ''html'' [(''lang'', ''en'')]
        [Elem ''head'' []
           [Elem ''meta'' [(''charset'', ''utf-8'')] [],
            Elem ''meta'' [(''name'', ''viewport''),
                           (''content'', ''width=device-width, initial-scale=1'')] [],
            Elem ''meta'' [(''name'', ''color-scheme''), (''content'', ''light dark'')] [],
            Elem ''meta'' [(''name'', ''description''),
                           (''content'', ''Canonical Cloud readiness training for SaaS and AI teams preparing for SOC 2.'')] [],
            Elem ''title'' []
              [Text (''Compliance readiness training '' @ middle_dot @ '' Canonical Cloud'')],
            Elem ''style'' []
              [Text TRAINING_STYLE]],
         Elem ''body'' []
           [Elem ''div'' [(''class'', ''shell'')]
              [Elem ''nav'' [(''class'', ''site-nav''), (''aria-label'', ''Primary'')]
                 [Elem ''a'' [(''href'', ''/'')] [Elem ''strong'' [] [Text ''canonical.cloud'']],
                  Elem ''div'' [(''class'', ''links'')]
                    [Elem ''a'' [(''href'', ''/training''), (''aria-current'', ''page'')]
                       [Text ''Training''],
                     Elem ''a'' [(''href'', ''/app/readiness'')] [Text ''Readiness assessment''],
                     Elem ''a'' [(''href'', ''/u/quote'')] [Text ''Talk to an expert'']]],
               Elem ''main'' []
                 (training_hero
                  @ training_reasons
                  @ training_paths
                  @ training_steps
                  @ training_questions
                  @ training_next),
               Elem ''footer'' []
                 [Text (''Canonical Cloud '' @ middle_dot @ '' readiness education and compliance operations for technology teams.'')]]]]]"

section \<open>The prerendered pages\<close>

definition readiness_overview :: string where
  "readiness_overview =
     ''<!doctype html><html><head><title>Readiness</title></head><body><main><h1>Readiness</h1><p>Compliance readiness overview.</p></main></body></html>''"

definition evidence_overview :: string where
  "evidence_overview =
     ''<!doctype html><html><head><title>Evidence</title></head><body><main><h1>Evidence</h1><p>Evidence collection and audit artifacts.</p></main></body></html>''"

text \<open>\<open>str::replace\<close> of one ASCII character.\<close>

definition replace_char :: "char \<Rightarrow> string \<Rightarrow> string \<Rightarrow> string" where
  "replace_char c new s = concat (map (\<lambda>d. if d = c then new else [d]) s)"

definition escape_html :: "string \<Rightarrow> string" where
  \<open>escape_html s =
     replace_char (CHR 39) ''&#39;''
       (replace_char (CHR ''"'') ''&quot;''
         (replace_char (CHR ''>'') ''&gt;''
           (replace_char (CHR ''<'') ''&lt;''
             (replace_char (CHR ''&'') ''&amp;'' s))))\<close>

definition standards_page :: "(string \<times> string) list \<Rightarrow> string" where
  "standards_page route_params =
     ''<!doctype html><html><head><title>Standard readiness</title></head><body><main><h1>''
     @ escape_html (or_else (map_of route_params ''framework'') ''unknown'')
     @ ''</h1><p>Framework readiness detail.</p></main></body></html>''"

text \<open>The paths that are rendered in advance; \<open>PrerenderPath::default()\<close> has no parameter.\<close>

type_synonym prerender_path = "(string \<times> string) list"

definition readiness_paths :: "prerender_path list" where "readiness_paths = [[]]"
definition evidence_paths :: "prerender_path list" where "evidence_paths = [[]]"
definition standards_paths :: "prerender_path list" where "standards_paths = []"

section \<open>Escaping\<close>

text \<open>One pass over the characters, and its inverse on entities.\<close>

definition entity :: "char \<Rightarrow> string" where
  \<open>entity c =
     (if c = CHR ''&'' then ''&amp;'' else if c = CHR ''<'' then ''&lt;''
      else if c = CHR ''>'' then ''&gt;'' else if c = CHR ''"'' then ''&quot;''
      else if c = CHR 39 then ''&#39;'' else [c])\<close>

fun take_entity :: "string \<Rightarrow> (char \<times> string) option" where
  "take_entity [] = None"
| "take_entity (c # s) =
     (if c \<noteq> CHR ''&'' then Some (c, s)
      else case strip_prefix ''amp;'' s of Some r \<Rightarrow> Some (CHR ''&'', r) | None \<Rightarrow>
           case strip_prefix ''lt;'' s of Some r \<Rightarrow> Some (CHR ''<'', r) | None \<Rightarrow>
           case strip_prefix ''gt;'' s of Some r \<Rightarrow> Some (CHR ''>'', r) | None \<Rightarrow>
           case strip_prefix ''quot;'' s of Some r \<Rightarrow> Some (CHR 34, r) | None \<Rightarrow>
           case strip_prefix ''#39;'' s of Some r \<Rightarrow> Some (CHR 39, r) | None \<Rightarrow> Some (c, s))"

lemma take_entity_shorter: "take_entity s = Some (c, r) \<Longrightarrow> length r < length s"
  by (cases s) (auto simp: strip_prefix_Some split: if_splits option.splits)

function unescape :: "string \<Rightarrow> string" where
  "unescape s = (case take_entity s of None \<Rightarrow> [] | Some (c, r) \<Rightarrow> c # unescape r)"
  by pat_completeness auto
termination
  by (relation "measure length") (auto dest: take_entity_shorter)

declare unescape.simps [simp del]

lemma replace_char_simps:
  "replace_char c new [] = []"
  "replace_char c new (d # s) = (if d = c then new else [d]) @ replace_char c new s"
  "replace_char c new (s @ t) = replace_char c new s @ replace_char c new t"
  by (simp_all add: replace_char_def)

lemma escape_html_Cons: "escape_html (c # s) = entity c @ escape_html s"
  by (simp add: escape_html_def entity_def replace_char_simps)

lemma escape_html_map: "escape_html s = concat (map entity s)"
  by (induction s) (simp_all add: escape_html_Cons, simp add: escape_html_def replace_char_simps)

lemma take_entity_entity: "take_entity (entity c @ s) = Some (c, s)"
  by (auto simp: entity_def)

lemma unescape_escape: "unescape (escape_html s) = s"
proof (induction s)
  case Nil
  show ?case by (simp add: escape_html_map unescape.simps [of "[]"])
next
  case (Cons c s)
  then show ?case
    by (simp add: escape_html_Cons unescape.simps [of "entity c @ escape_html s"] take_entity_entity)
qed

lemma escaped_chars:
  "set (escape_html s) \<inter> {CHR ''<'', CHR ''>'', CHR 34, CHR 39} = {}"
  by (induction s) (auto simp: escape_html_map entity_def split: if_splits)

text \<open>
  C40
  What the page of a framework shows of the requested path cannot change the page: the five
  replacements in sequence are one pass that writes each character or its entity, no angle bracket
  and no quote is left, the browser's decoding gives the text back exactly, and whatever the path,
  the tags of the page are those of the page for the unknown framework.
\<close>

theorem escaping_is_exact:
  "escape_html s = concat (map entity s)
   \<and> set (escape_html s) \<inter> {CHR ''<'', CHR ''>'', CHR 34, CHR 39} = {}
   \<and> unescape (escape_html s) = s
   \<and> filter (\<lambda>c. c \<in> {CHR ''<'', CHR ''>'', CHR 34, CHR 39}) (standards_page route_params)
     = filter (\<lambda>c. c \<in> {CHR ''<'', CHR ''>'', CHR 34, CHR 39}) (standards_page [])"
proof -
  have plain: "filter (\<lambda>c. c \<in> {CHR ''<'', CHR ''>'', CHR 34, CHR 39}) (escape_html t) = []" for t
    using escaped_chars [of t] by (auto simp: filter_empty_conv)
  show ?thesis
    unfolding standards_page_def filter_append plain
    by (simp add: escape_html_map [symmetric] escaped_chars unescape_escape)
qed

section \<open>The training page is static\<close>

lemma training_links: "list_all (\<lambda>path. path = ''/'' \<or> routed web_router GET path) (links training_page)"
  by (simp add: training_page_def training_hero_def training_reasons_def training_paths_def
        training_steps_def training_questions_def training_next_def all_links_simps all_links_append
        routed_fixed TRAINING_TRACKS_def)

text \<open>
  The policy of the training page forbids scripts, and the page has none: no script element, no
  form and no attribute of htmx.
\<close>

lemma training_is_static:
  "tagged ''script'' training_page = []" "forms training_page = []" "attributes ''hx-get'' training_page = []"
  by (simp_all add: training_page_def training_hero_def training_reasons_def training_paths_def
        training_steps_def training_questions_def training_next_def TRAINING_TRACKS_def)

end

