(* ===== verification/Redaction.thy ===== *)
theory Redaction
  imports Config Handoff
begin

text \<open>
  What a configuration, a client or a pair of tokens shows of itself when it is logged: the
  handwritten \<open>Debug\<close> implementations of \<open>crates/canonical-config/src/lib.rs\<close>,
  \<open>crates/canonical-auth/src/lib.rs\<close> and \<open>src/integrations.rs\<close>. A value is its type's name and the fields
  it gives the formatter, in order; how the formatter of the standard library writes them is not
  needed. The lemma of each says that it shows exactly the fields that are no secret.
\<close>

datatype shown =
    Redacted
  | Shown string
  | Shown_Number int
  | Shown_Flag bool
  | Shown_Strings "string list"
  | Shown_User supabase_user

type_synonym debug_output = "string \<times> (string \<times> shown) list"

definition shown_nat :: "nat \<Rightarrow> shown" where
  "shown_nat n = Shown_Number (int n)"

section \<open>The implementations\<close>

definition migration_config_debug :: "migration_config \<Rightarrow> debug_output" where
  "migration_config_debug c =
     (''MigrationConfig'',
      [(''database_url'', Redacted),
       (''database_max_connections'', shown_nat (mc_database_max_connections c))])"

definition revoker_config_debug :: "revoker_config \<Rightarrow> debug_output" where
  "revoker_config_debug c =
     (''SessionRevokerConfig'',
      [(''database_url'', Redacted),
       (''database_max_connections'', shown_nat (rc_database_max_connections c)),
       (''session_encryption_key'', Redacted),
       (''supabase_url'', Shown (rc_supabase_url c)),
       (''supabase_publishable_key'', Redacted)])"

definition config_debug :: "config \<Rightarrow> debug_output" where
  "config_debug c =
     (''Config'',
      [(''port'', shown_nat (cf_port c)),
       (''static_dir'', Shown (cf_static_dir c)),
       (''app_asset_dir'', Shown (cf_app_asset_dir c)),
       (''database_url'', Redacted),
       (''database_max_connections'', shown_nat (cf_database_max_connections c)),
       (''app_base_url'', Shown (cf_app_base_url c)),
       (''allowed_origins'', Shown_Strings (cf_allowed_origins c)),
       (''session_cookie'', Shown (cf_session_cookie c)),
       (''cookie_secure'', Shown_Flag (cf_cookie_secure c)),
       (''session_encryption_key'', Redacted),
       (''session_ttl'', shown_nat (cf_session_ttl c)),
       (''login_rate_limit_attempts'', shown_nat (cf_login_rate_limit_attempts c)),
       (''login_rate_limit_global_attempts'', shown_nat (cf_login_rate_limit_global_attempts c)),
       (''login_rate_limit_window'', shown_nat (cf_login_rate_limit_window c)),
       (''login_rate_limit_max_keys'', shown_nat (cf_login_rate_limit_max_keys c)),
       (''login_auth_max_concurrency'', shown_nat (cf_login_auth_max_concurrency c)),
       (''bearer_auth_max_concurrency'', shown_nat (cf_bearer_auth_max_concurrency c)),
       (''supabase_url'', Shown (cf_supabase_url c)),
       (''supabase_publishable_key'', Redacted)])"

definition auth_tokens_debug :: "auth_tokens \<Rightarrow> debug_output" where
  "auth_tokens_debug t =
     (''AuthTokens'',
      [(''access_token'', Redacted),
       (''refresh_token'', Redacted),
       (''expires_at'', Shown_Number (at_expires_at t)),
       (''user'', Shown_User (at_user t))])"

definition handoff_client_debug :: "handoff_client \<Rightarrow> debug_output" where
  "handoff_client_debug c =
     (''SharedAuthClient'',
      [(''base_url'', Shown (hc_base_url c)),
       (''client_id'', Shown (hc_client_id c)),
       (''client_secret'', Redacted),
       (''expected_supabase_project'', Shown (hc_expected_supabase_project c)),
       (''callback_url'', Shown (hc_callback_url c))])"

section \<open>Exactly the secrets are hidden\<close>

text \<open>
  Nothing written by these implementations depends on a database URL, an encryption key, an API
  key, a token or the client's secret, and nothing else is hidden: two values are shown alike
  exactly when they differ at most in those fields.
\<close>

lemma config_debug_hides_secrets:
  "config_debug c = config_debug d \<longleftrightarrow>
     d = c\<lparr>cf_database_url := cf_database_url d, cf_session_encryption_key := cf_session_encryption_key d,
           cf_supabase_publishable_key := cf_supabase_publishable_key d\<rparr>"
  by (cases c, cases d) (auto simp: config_debug_def shown_nat_def)

lemma migration_config_debug_hides_secrets:
  "migration_config_debug c = migration_config_debug d \<longleftrightarrow> d = c\<lparr>mc_database_url := mc_database_url d\<rparr>"
  by (cases c, cases d) (auto simp: migration_config_debug_def shown_nat_def)

lemma revoker_config_debug_hides_secrets:
  "revoker_config_debug c = revoker_config_debug d \<longleftrightarrow>
     d = c\<lparr>rc_database_url := rc_database_url d, rc_session_encryption_key := rc_session_encryption_key d,
           rc_supabase_publishable_key := rc_supabase_publishable_key d\<rparr>"
  by (cases c, cases d) (auto simp: revoker_config_debug_def shown_nat_def)

lemma auth_tokens_debug_hides_secrets:
  "auth_tokens_debug t = auth_tokens_debug u \<longleftrightarrow>
     u = t\<lparr>at_access_token := at_access_token u, at_refresh_token := at_refresh_token u\<rparr>"
  by (cases t, cases u) (auto simp: auth_tokens_debug_def)

lemma handoff_client_debug_hides_secret:
  "handoff_client_debug c = handoff_client_debug d \<longleftrightarrow> d = c\<lparr>hc_client_secret := hc_client_secret d\<rparr>"
  by (cases c, cases d) (auto simp: handoff_client_debug_def)

end
