(* ===== verification/Spec2Isabelle.thy ===== *)
theory Spec2Isabelle
  imports Rate_Limit Replication Revocation Engagements Login Quote Admin Site Api Startup Handoff Observability Pages Redaction
begin

text \<open>
  A model of \<open>canonical-web-server\<close>, the backend-for-frontend of a compliance product: a web process
  that serves pages, a JSON API with an offline-first sync protocol and a websocket, an API-only
  process with the second half of it, and a revoker that finishes logouts. The definitions
  are translated from the Rust sources under \<open>src/\<close>, \<open>crates/\<close> and \<open>services/\<close>, and are executable:
  a record per struct, a datatype per enum, a function per operation with every early return as a
  branch of \<open>app_error + 'a\<close>.

  \<^bold>\<open>Reading a request.\<close> \<open>Startup\<close> (\<open>app.rs\<close>, \<open>command.rs\<close>, \<open>server.rs\<close>, \<open>api_server.rs\<close>, \<open>database.rs\<close>, the
  revoker's \<open>main.rs\<close>) takes a process from its environment to the point where it serves, with the
  loaders of \<open>Config\<close> (\<open>canonical-config\<close>) and the catalogue check of \<open>Store\<close> (\<open>canonical-store\<close>).
  \<open>Routes\<close> and \<open>Site\<close> are the routers of \<open>routes/\<close> and their header layers. \<open>Access\<close> is \<open>auth/extractor.rs\<close>,
  \<open>auth/shared_auth.rs\<close> and \<open>auth/edge.rs\<close>: who asks, and the origin and CSRF checks. The
  handlers then are \<open>Login\<close> (\<open>routes/auth.rs\<close>), \<open>Engagements\<close> (\<open>routes/pages.rs\<close>), \<open>Quote\<close>
  (\<open>routes/quote.rs\<close>), \<open>Api\<close> (\<open>routes/api\<close>, \<open>routes/websocket.rs\<close>); a handler takes the outcome of the
  extractors, the headers, the form and the tables, and returns its response and the tables after it.
  \<open>Response\<close> and \<open>App_Error\<close> are what it answers with.

  \<^bold>\<open>State behind the handlers.\<close> \<open>Session\<close> is \<open>canonical-session\<close>: each transaction of creation,
  authentication, fenced refresh and logout over the session table; \<open>Revocation\<close> runs these
  transactions as a step relation in which any number of replicas and the revoker interleave, with
  unsynchronised clocks, failing providers and dying handlers. \<open>Auth_Core\<close> is the GoTrue client behind
  the locale \<open>auth_provider\<close>. \<open>Rate_Limit\<close> is the login throttle behind \<open>Login\<close>. \<open>Sync\<close> is the
  mutation half of \<open>sync/service.rs\<close>, \<open>Replication\<close> the pull half with its sealed cursors and a client
  that follows them. \<open>Hub\<close> is \<open>ws/mod.rs\<close>: permits, the fan-out of hints and the loop of a connection.
  \<open>Quote_Api\<close> is the client of the quote service, \<open>Observability\<close> the metrics registry as a step
  relation and the exported attributes of \<open>telemetry.rs\<close>, \<open>Handoff\<close> the authorization code handoff of
  \<open>integrations.rs\<close> and \<open>routes/shared_auth.rs\<close>, \<open>Redaction\<close> what configurations and clients show in logs.

  \<^bold>\<open>The database.\<close> \<open>Schema\<close> runs the migrations of \<open>migration.rs\<close> over a model of the catalogue, up and
  down, on each backend; \<open>Boundary\<close> evaluates the row security it leaves, in the transactions of
  \<open>Store\<close>; \<open>Repair\<close> and \<open>Admin\<close> are the SQL of the row repair and of the administrative functions.

  \<^bold>\<open>The documents.\<close> \<open>Markup\<close> has trees of elements, \<open>Views\<close> the templates of \<open>views/mod.rs\<close>, \<open>Quote_Views\<close>
  those of \<open>quote_api.rs\<close>, \<open>Pages\<close> the training page and the prerendered pages. \<open>Navigation\<close> ties them to
  the handlers and the routers.

  \<^bold>\<open>Foundations.\<close> \<open>Prelude\<close> (results, byte strings and the operations of \<open>str\<close> used, decimal text,
  saturating and wrapping arithmetic, keyed stores with the locale \<open>keyed_store\<close> and its
  interpretation), \<open>Json\<close> and \<open>Http\<close>. Third-party functions (digests, encryption, base64, JSON and
  UUID text, URL parsing, date formats, the answers of other services) are the fields of the
  parameter records \<open>ext\<close>, \<open>url_parser\<close>, \<open>quote_wire\<close>, \<open>date_formats\<close> and the like; a law that a property needs of them,
  such as that decryption inverts encryption under a key, is a named predicate and a hypothesis of
  it, and its witness instantiates the parameter.

  \<^bold>\<open>What the properties show.\<close>
  \<^item> Sync: every mutation takes effect exactly once and none is lost; the change log of a user is
    gap-free and replays to the records; following cursors terminates and converges; cursors are
    sealed to their owner; hints and sockets are counted exactly and reach their owner only.
  \<^item> Sessions: an accepted session was created, is alive and not revoked; a logout is permanent under
    every interleaving, and the handlers refine the steps; waiting for a refresh is bounded.
  \<^item> Access: which credential decides, what a login needs and how often it may be tried, that writes
    need origin and token, and that forged requests change nothing (this theory).
  \<^item> Isolation: engagements, API reads and database rows are their owner's; the privileged processes
    see what they need; the migrations are reversible and the verified role cannot bypass them.
  \<^item> Processes and outputs: loaded configurations are safe, a serving process has verified its login,
    responses are hardened, metrics are exact for requests that are not dropped.
  \<^item> Pages: every form carries its session's token and posts to a route, the quote form and its handler
    agree, escaping is exact, and an error of an engagement form uses up its slot.

  \<^bold>\<open>Bounds and loops.\<close> Integers that can overflow keep their width (\<open>i64_wrap\<close>, \<open>sat_add\<close>, words, checked
  arithmetic as an option). Loops are structural or have a termination proof; the client that follows
  cursors and the waiting refresh have explicit measures, and no definition uses fuel that could run
  out silently: where a function has a number of rounds, its property says that they suffice.

  \<^bold>\<open>Not modelled.\<close> The HTML text Maud writes for a tree; the database, the HTTP server and the async
  runtime themselves (a transaction is atomic, a request runs to its answer or is dropped where the
  text of the theory says so); how a process waits for signals and shuts down, closing its pool
  included; spans, log subscribers and exporters of \<open>telemetry.rs\<close>; log lines; the TypeScript client
  and the SQL under \<open>deploy/\<close>. Errors of the database other than a repeated key or a violated
  constraint are answers of \<open>AppError\<close> that change nothing, because the transaction is dropped.
\<close>

section \<open>Forged requests\<close>

text \<open>
  What a page of another site can make a browser send: cookies, but no credential of its own in the
  \<open>Authorization\<close> header, and an origin that is not one of the application's, or none.
\<close>

definition forged :: "config \<Rightarrow> request \<Rightarrow> bool" where
  "forged cfg rq \<longleftrightarrow>
     header_get ''authorization'' (rq_headers rq) = None
     \<and> (\<forall>origin. header_str ''origin'' (rq_headers rq) = Some origin \<longrightarrow> origin \<notin> set (cf_allowed_origins cfg))"

text \<open>A session that was refreshed is answered as a session; this is what the leader's loop does.\<close>

definition refreshes_sessions :: "access_world \<Rightarrow> bool" where
  "refreshes_sessions w \<longleftrightarrow> (\<forall>i ctx. aw_refreshed w i = Inr ctx \<longrightarrow> ctx_source ctx = SessionCookie)"

lemma lost_refresh_source:
  "outcome_after_lost_refresh wall now i db = Inr ctx \<Longrightarrow> ctx_source ctx = SessionCookie"
  by (auto simp: outcome_after_lost_refresh_def try_then_Inr ok_or_Inr context_from_model_def split: if_splits)

lemma refresh_claim_source:
  assumes "fst (execute_refresh_claim x key nonces wall now c ans db) = Inr ctx"
  shows "ctx_source ctx = SessionCookie"
  using assms lost_refresh_source
  by (auto simp: execute_refresh_claim_def persist_refresh_def context_from_model_def Let_def
      split: sum.splits prod.splits bool.splits option.splits if_splits)

lemma leader_source:
  "fst (refresh_as_local_leader x key nonces world ans i elapsed n db) = Inr ctx
     \<Longrightarrow> ctx_source ctx = SessionCookie"
proof (induction x key nonces world ans i elapsed n db rule: refresh_as_local_leader.induct)
  case (1 x key nonces world ans i elapsed n db)
  let ?w = "world elapsed"
  let ?claim = "claim_refresh x key (pw_wall ?w) (pw_now ?w) (pw_lease ?w) i (pw_tables ?w db)"
  obtain r db' where c: "?claim = (r, db')" by (cases ?claim)
  let ?wait = "min (poll_interval n) (REFRESH_WAIT - elapsed)"
  have waited: "ctx_source ctx = SessionCookie"
    if "r = Inr Busy" "elapsed < REFRESH_WAIT"
      "fst (refresh_as_local_leader x key nonces world ans i (elapsed + ?wait) (Suc n) db') = Inr ctx"
    using "1.IH" [OF refl _ _ _ that(2) refl that(3)] c that(1) by auto
  show ?case
  proof (cases r)
    case (Inr d)
    with c "1.prems" waited show ?thesis
      by (cases d; subst (asm) refresh_as_local_leader.simps)
         (auto simp: Let_def context_from_model_def case_prod_beta dest: refresh_claim_source split: if_splits)
  qed (use c "1.prems" in \<open>simp add: refresh_as_local_leader.simps\<close>)
qed

lemma forged_not_allowed: "forged cfg rq \<Longrightarrow> require_origin cfg (rq_headers rq) = Inl Forbidden"
  using require_origin_iff [of cfg "rq_headers rq" "()"] require_origin_error [of cfg "rq_headers rq"]
  by (cases "require_origin cfg (rq_headers rq)") (auto simp: forged_def)

lemma cookie_source:
  assumes "forged cfg rq" "refreshes_sessions w" "authenticate_request x cfg w rq b = Inr actor"
  shows "ctx_source actor = SessionCookie"
proof -
  have "bearer_token (rq_headers rq) = Inr None" using assms(1) by (simp add: forged_def bearer_token_None)
  with assms(3) obtain raw a where a: "authenticate x (aw_wall w) raw (aw_db w) = Inr a"
    "(case a of Authenticated ctx \<Rightarrow> Inr ctx | NeedsRefresh i \<Rightarrow> aw_refreshed w i) = Inr actor"
    by (auto simp: authenticate_request_def try_then_Inr ok_or_Inr map_err_Inr session_context_def)
  show ?thesis
  proof (cases a)
    case (Authenticated ctx)
    with a(1) have "\<exists>h m. ctx = context_from_model h m"
      by (auto simp: authenticate_def authenticate_hash_def try_then_Inr split: if_splits)
    with a(2) Authenticated show ?thesis by (auto simp: context_from_model_def)
  next
    case (NeedsRefresh i)
    with a assms(2) show ?thesis by (simp add: refreshes_sessions_def)
  qed
qed

lemma forged_form: "forged cfg rq \<Longrightarrow> \<exists>e. form_actor cfg auth (rq_headers rq) csrf = Inl e"
  by (cases auth) (simp_all add: form_actor_def forged_not_allowed)

text \<open>
  C6
  A forged request changes nothing: whatever cookies it carries and whatever its body says, none of
  the handlers that write takes it further than its credential. The tables of the sync service, of
  the engagements and of the sessions, the login budget and the socket counts stay as they are, no
  hint is sent, no provider and no quote service is called.
\<close>

theorem forged_requests_change_nothing:
  assumes "forged cfg rq" "refreshes_sessions w" "qv_config v = cfg"
  shows "snd (push x cfg i now (authenticate_request x cfg w rq True) (rq_headers rq) batch sync) = ([], sync)
    \<and> snd (upgrade cfg (authenticate_request x cfg w rq True) (rq_headers rq) handshake counts) = counts
    \<and> snd (create_engagement cfg parse_date now new_id auth (rq_headers rq) cform engs) = engs
    \<and> snd (update_engagement_status x cfg now auth (rq_headers rq) raw_id csrf status engs) = engs
    \<and> snd (add_engagement_note x cfg now new_id auth (rq_headers rq) raw_id csrf note engs) = engs
    \<and> lo_asked (login x cfg sign_in rnd instant now rq form lw) = []
    \<and> lo_world (login x cfg sign_in rnd instant now rq form lw) = lw
    \<and> snd (snd (logout x cfg nonces p now t auth rq csrf db)) = db
    \<and> snd (quote_submit_handler v (rq_headers rq) auth quote) = []"
proof (intro conjI)
  note origin = forged_not_allowed [OF assms(1)]
  note cookie = cookie_source [OF assms(1,2), of x True]
  show "snd (push x cfg i now (authenticate_request x cfg w rq True) (rq_headers rq) batch sync) = ([], sync)"
    using cookie origin by (auto simp: push_def split: sum.split)
  show "snd (upgrade cfg (authenticate_request x cfg w rq True) (rq_headers rq) handshake counts) = counts"
    using cookie origin by (auto simp: upgrade_def split: sum.split)
  obtain e where e: "form_actor cfg auth (rq_headers rq) (cf_csrf cform) = Inl e"
    using forged_form [OF assms(1)] by blast
  then show "snd (create_engagement cfg parse_date now new_id auth (rq_headers rq) cform engs) = engs"
    by (simp add: create_engagement_def)
  obtain e' where e': "form_actor cfg auth (rq_headers rq) csrf = Inl e'"
    using forged_form [OF assms(1)] by blast
  then show "snd (update_engagement_status x cfg now auth (rq_headers rq) raw_id csrf status engs) = engs"
    "snd (add_engagement_note x cfg now new_id auth (rq_headers rq) raw_id csrf note engs) = engs"
    by (simp_all add: update_engagement_status_def add_engagement_note_def)
  show "lo_asked (login x cfg sign_in rnd instant now rq form lw) = []"
    "lo_world (login x cfg sign_in rnd instant now rq form lw) = lw"
    by (simp_all add: login_def origin Let_def)
  show "snd (snd (logout x cfg nonces p now t auth rq csrf db)) = db"
    by (cases auth) (simp_all add: logout_def origin)
  show "snd (quote_submit_handler v (rq_headers rq) auth quote) = []"
    by (auto simp: quote_submit_handler_def quote_signed_in_def origin assms(3) split: app_error.split sum.split)
qed

text \<open>A browser with a session that is led to another site.\<close>

definition victim_request :: request where
  "victim_request = \<lparr>rq_headers = [(''origin'', ''https://evil'')], rq_cookie = (\<lambda>_. Some ''raw'')\<rparr>"

definition victim_world :: access_world where
  "victim_world = \<lparr>aw_db = opaque_db, aw_wall = 5, aw_permits = 1, aw_user_for_token = (\<lambda>_. Inl Unavailable),
     aw_refreshed = (\<lambda>_. Inl SUnauthorized), aw_verify = (\<lambda>_. None), aw_timestamp_opt = (\<lambda>_. None)\<rparr>"

theorem forged_requests_change_nothing_witness:
  "authenticate_request (sample_ext JNull) sample_config victim_world victim_request True
      = Inr (context_from_model ''raw'' opaque_row)
    \<and> (\<forall>i now batch sync. snd (push (sample_ext JNull) sample_config i now
         (authenticate_request (sample_ext JNull) sample_config victim_world victim_request True)
         (rq_headers victim_request) batch sync) = ([], sync))"
proof (intro conjI allI)
  show "authenticate_request (sample_ext JNull) sample_config victim_world victim_request True
      = Inr (context_from_model ''raw'' opaque_row)"
    by (simp add: authenticate_request_def bearer_token_def victim_request_def victim_world_def header_get_def
        session_context_def authenticate_def authenticate_hash_def hash_token_def sample_ext_def opaque_db_def
        opaque_row_def new_session_def opaque_tokens_def seconds_def ok_or_def validate_model_def)
  fix i now batch sync
  have "forged sample_config victim_request"
    by (simp add: forged_def victim_request_def sample_config_def header_get_def header_str_def to_str_def chr_in_def)
  moreover have "refreshes_sessions victim_world"
    by (simp add: refreshes_sessions_def victim_world_def)
  moreover have "qv_config \<lparr>qv_ext = sample_ext JNull, qv_wire = undefined, qv_service = undefined, qv_client = None,
      qv_config = sample_config, qv_parse = undefined, qv_build = undefined, qv_parse_date = undefined\<rparr> = sample_config"
    by simp
  ultimately show "snd (push (sample_ext JNull) sample_config i now
       (authenticate_request (sample_ext JNull) sample_config victim_world victim_request True)
       (rq_headers victim_request) batch sync) = ([], sync)"
    by (rule forged_requests_change_nothing [THEN conjunct1])
qed

end
